(* ===== verification/Prelude.thy ===== *)
theory Prelude
  imports Main "HOL-Library.Word"
begin

text \<open>
  Shared vocabulary of the development: the machine types of the x86-64 ABI that the sources
  are compiled for, C characters and NUL-terminated buffers, the string routines of the C
  library that the sources call, and the generic lemmas the components share.

  A C buffer is the \<open>char list\<close> of its bytes; a pointer into it is an index (\<open>nat\<close>), and
  the byte after the last one is the terminating NUL, so \<open>peek s p\<close> is what \<open>*p\<close> reads.
\<close>

unbundle bit_operations_syntax

named_theorems c_defs \<open>definitions of small C helpers that are unfolded in proofs\<close>
named_theorems inv_intros \<open>invariant preservation rules\<close>

subsection \<open>Machine types\<close>

type_synonym i32 = "32 word"
type_synonym u32 = "32 word"
type_synonym u64 = "64 word"
type_synonym byte = "8 word"

text \<open>Exit statuses (\<open>stdlib.h\<close>).\<close>

definition EXIT_SUCCESS :: int where "EXIT_SUCCESS = 0"
definition EXIT_FAILURE :: int where "EXIT_FAILURE = 1"

subsection \<open>Characters and buffers\<close>

definition nul :: char where
  "nul = CHR 0x00"

definition newline :: char where
  "newline = CHR 0x0A"

definition quote :: char where
  "quote = CHR 0x22"

definition dollar :: char where
  "dollar = CHR 0x24"

text \<open>\<open>isspace\<close> of the C locale: space and the five control characters from tab to CR.\<close>

definition isspace :: "char \<Rightarrow> bool" where
  "isspace c \<longleftrightarrow> c \<in> {CHR 0x20, CHR 0x09, CHR 0x0A, CHR 0x0B, CHR 0x0C, CHR 0x0D}"

definition peek :: "string \<Rightarrow> nat \<Rightarrow> char" where
  "peek s p = (if p < length s then s ! p else nul)"

lemma peek_non_nul: "peek s p \<noteq> nul \<Longrightarrow> p < length s"
  by (auto simp: peek_def split: if_splits)

lemma peek_less: "p < length s \<Longrightarrow> peek s p = s ! p"
  by (simp add: peek_def)

lemma peek_drop: "peek (drop q s) p = peek s (q + p)"
  by (auto simp: peek_def)

lemma peek_append_left: "p < length s \<Longrightarrow> peek (s @ t) p = peek s p"
  by (simp add: peek_def nth_append)

lemma peek_append_right: "peek (s @ t) (length s + p) = peek t p"
  by (simp add: peek_def nth_append)

lemma isspace_chars [simp]:
  "isspace newline" "\<not> isspace nul" "\<not> isspace quote" "\<not> isspace dollar" "isspace (CHR 0x20)"
  by (simp_all add: isspace_def newline_def nul_def quote_def dollar_def)

lemma special_chars_distinct [simp]:
  "nul \<noteq> newline" "newline \<noteq> nul" "nul \<noteq> quote" "quote \<noteq> nul"
  "newline \<noteq> quote" "quote \<noteq> newline" "nul \<noteq> CHR 0x20" "CHR 0x20 \<noteq> nul"
  "newline \<noteq> CHR 0x20" "CHR 0x20 \<noteq> newline" "quote \<noteq> CHR 0x20" "CHR 0x20 \<noteq> quote"
  by (simp_all add: newline_def nul_def quote_def)

subsection \<open>String routines of the C library\<close>

text \<open>The character an iterator over a NUL-terminated string reads.\<close>

definition chd :: "string \<Rightarrow> char" where
  "chd s = (case s of [] \<Rightarrow> nul | c # _ \<Rightarrow> c)"

lemma chd_simps [simp]: "chd [] = nul" "chd (c # s) = c"
  by (simp_all add: chd_def)

text \<open>\<open>strncmp(a, b, n)\<close>: the sign of the first difference within \<open>n\<close> characters, comparing
  as \<open>unsigned char\<close> and stopping at a NUL.\<close>

fun strncmp :: "string \<Rightarrow> string \<Rightarrow> nat \<Rightarrow> int" where
  "strncmp a b 0 = 0"
| "strncmp a b (Suc n) =
     (if chd a \<noteq> chd b then int (of_char (chd a)) - int (of_char (chd b))
      else if chd a = nul then 0
      else strncmp (tl a) (tl b) n)"

text \<open>If the first \<open>n\<close> characters of the first operand are there and NUL-free, \<open>strncmp\<close>
  returns 0 exactly when the second operand begins with them.\<close>

lemma strncmp_eq_0_iff:
  "n \<le> length a \<Longrightarrow> nul \<notin> set (take n a) \<Longrightarrow> strncmp a b n = 0 \<longleftrightarrow> take n b = take n a"
proof (induction a b n rule: strncmp.induct)
  case (2 a b n)
  then obtain x xs where a: "a = x # xs" by (cases a) auto
  with 2 show ?case by (cases b) auto
qed simp

subsection \<open>Generic lemmas\<close>

lemma find_Some_split:
  "find P xs = Some x \<Longrightarrow> \<exists>ys zs. xs = ys @ x # zs \<and> P x \<and> (\<forall>y\<in>set ys. \<not> P y)"
proof (induction xs)
  case (Cons y xs)
  show ?case
  proof (cases "P y")
    case True
    with Cons.prems show ?thesis by (intro exI[of _ "[]"] exI[of _ xs]) auto
  next
    case False
    with Cons obtain ys zs where "xs = ys @ x # zs" "P x" "\<forall>y\<in>set ys. \<not> P y" by auto
    with False show ?thesis by (intro exI[of _ "y # ys"] exI[of _ zs]) auto
  qed
qed simp

end
