(* ===== verification/Init_Table.thy ===== *)
theory Init_Table
  imports Prelude
begin

text \<open>
  The symbol tables of the init program (\<open>init/include/init/table.h\<close> and
  \<open>init/src/table.c\<close>): typed entries in an array, searched front to back by
  \<open>table_lookup\<close>. The interface \<open>first_match\<close> is what the interpreter relies on; it is
  interpreted on \<open>table_lookup\<close> at the end of the theory.
\<close>

subsection \<open>Entries\<close>

datatype etype = TYPE_INT | TYPE_STRING | TYPE_FUNCTION | TYPE_ANY | TYPE_UNDEF | TYPE_ENTRY

text \<open>The union \<open>value\<close>: the member \<open>local\<close>, and the member \<open>ptr\<close> at the two pointer
  types the program stores there, a C string and a directive callback.\<close>

datatype 'f entry_value = Local u64 | Ptr_string string | Ptr_function 'f

record 'f table_entry =
  ename :: string
  etype :: etype
  evalue :: "'f entry_value"

subsection \<open>Lookup\<close>

text \<open>One round of the loop: the entry is taken when \<open>strncmp\<close> finds no difference in the
  first \<open>namelen\<close> characters and its type is the requested one (or any type will do).\<close>

definition entry_hit :: "string \<times> nat \<Rightarrow> etype \<Rightarrow> 'f table_entry \<Rightarrow> bool" where
  "entry_hit k ty e \<longleftrightarrow>
     strncmp (fst k) (ename e) (snd k) = 0 \<and> (ty = etype e \<or> ty = TYPE_ANY)"

text \<open>The result \<open>Some e\<close> stands for \<open>LOOKUP_FOUND\<close> with \<open>*out = e\<close>, \<open>None\<close> for
  \<open>LOOKUP_NOT_FOUND\<close>. The key is the pointer \<open>name\<close> (the text from there on) and
  \<open>namelen\<close>.\<close>

fun table_lookup :: "'f table_entry list \<Rightarrow> string \<times> nat \<Rightarrow> etype \<Rightarrow> 'f table_entry option" where
  "table_lookup [] k ty = None"
| "table_lookup (entry # rest) k ty =
     (if strncmp (fst k) (ename entry) (snd k) = 0 then
        (if ty = etype entry \<or> ty = TYPE_ANY then Some entry
         else table_lookup rest k ty)
      else table_lookup rest k ty)"

subsection \<open>The interface: a first-match search\<close>

locale first_match =
  fixes look :: "'e list \<Rightarrow> 'k \<Rightarrow> 't \<Rightarrow> 'e option"
    and hit :: "'k \<Rightarrow> 't \<Rightarrow> 'e \<Rightarrow> bool"
  assumes look_empty: "look [] k t = None"
    and look_step: "look (e # es) k t = (if hit k t e then Some e else look es k t)"
begin

lemma look_find: "look es k t = find (hit k t) es"
  by (induction es) (simp_all add: look_empty look_step)

lemma look_Some: "look es k t = Some e \<Longrightarrow> e \<in> set es \<and> hit k t e"
  by (auto simp: look_find find_Some_iff)

lemma look_None: "look es k t = None \<longleftrightarrow> (\<forall>e\<in>set es. \<not> hit k t e)"
  by (auto simp: look_find find_None_iff)

lemma look_first:
  "look es k t = Some e \<longleftrightarrow>
     (\<exists>before after. es = before @ e # after \<and> hit k t e \<and> (\<forall>x\<in>set before. \<not> hit k t x))"
proof
  assume "look es k t = Some e"
  then show "\<exists>before after. es = before @ e # after \<and> hit k t e \<and> (\<forall>x\<in>set before. \<not> hit k t x)"
    unfolding look_find by (blast dest: find_Some_split)
next
  assume "\<exists>before after. es = before @ e # after \<and> hit k t e \<and> (\<forall>x\<in>set before. \<not> hit k t x)"
  then obtain before after where
    "es = before @ e # after" "hit k t e" "\<forall>x\<in>set before. \<not> hit k t x" by blast
  then show "look es k t = Some e"
    by (induction before arbitrary: es) (auto simp: look_step)
qed

lemma look_unique:
  assumes "e \<in> set es" "hit k t e" "\<And>x. x \<in> set es \<Longrightarrow> hit k t x \<Longrightarrow> x = e"
  shows "look es k t = Some e"
proof (cases "look es k t")
  case None
  then have "\<not> hit k t e" using assms(1) by (simp add: look_None)
  with assms(2) show ?thesis by contradiction
next
  case (Some x)
  then have "x \<in> set es" "hit k t x" by (simp_all add: look_Some)
  then have "x = e" by (rule assms(3))
  with Some show ?thesis by simp
qed

end

interpretation tbl: first_match table_lookup entry_hit
  by unfold_locales (auto simp: entry_hit_def)

declare table_lookup.simps(2) [simp del]

subsection \<open>What a hit means\<close>

lemma entry_hit_prefix:
  assumes "n \<le> length name" "nul \<notin> set (take n name)"
  shows "entry_hit (name, n) ty e \<longleftrightarrow>
           (\<exists>rest. ename e = take n name @ rest) \<and> (ty = etype e \<or> ty = TYPE_ANY)"
proof -
  have "take n (ename e) = take n name \<longleftrightarrow> (\<exists>rest. ename e = take n name @ rest)"
  proof
    assume "take n (ename e) = take n name"
    then show "\<exists>rest. ename e = take n name @ rest" by (intro exI[of _ "drop n (ename e)"]) (simp flip: \<open>take n (ename e) = take n name\<close>)
  next
    assume "\<exists>rest. ename e = take n name @ rest"
    with assms(1) show "take n (ename e) = take n name" by auto
  qed
  with assms show ?thesis by (simp add: entry_hit_def strncmp_eq_0_iff)
qed

end
