(* ===== verification/C_Heap.thy ===== *)
theory C_Heap
  imports Prelude "HOL-Library.Multiset"
begin

text \<open>
  The allocator of the C library as its callers see it: a ledger of the live blocks, a counter
  that names the next block, and a count of invalid releases (a free of a block that is not
  live, which C leaves undefined). Whether the \<open>k\<close>-th request succeeds is decided by the
  environment, the function \<open>ok\<close>. A null pointer is \<open>None\<close>.
\<close>

record heap =
  live :: "nat set"
  fresh :: nat
  faults :: nat

type_synonym ptr = "nat option"

definition heap_free :: "ptr \<Rightarrow> heap \<Rightarrow> heap" where
  "heap_free p h = (case p of
     None \<Rightarrow> h
   | Some b \<Rightarrow> (if b \<in> live h then h\<lparr>live := live h - {b}\<rparr> else h\<lparr>faults := Suc (faults h)\<rparr>))"

definition heap_realloc :: "(nat \<Rightarrow> bool) \<Rightarrow> ptr \<Rightarrow> heap \<Rightarrow> ptr \<times> heap" where
  "heap_realloc ok p h =
     (if ok (fresh h)
      then (Some (fresh h),
            heap_free p (h\<lparr>live := insert (fresh h) (live h), fresh := Suc (fresh h)\<rparr>))
      else (None, h\<lparr>fresh := Suc (fresh h)\<rparr>))"

text \<open>Blocks are named in order, so every live one is below the counter.\<close>

definition heap_wf :: "heap \<Rightarrow> bool" where
  "heap_wf h \<longleftrightarrow> (\<forall>b\<in>live h. b < fresh h) \<and> faults h = 0"

text \<open>\<open>owns h L ps\<close>: the blocks behind the pointers \<open>ps\<close> are live, distinct, and apart from
  the blocks \<open>L\<close> of the rest of the program; together they are all the live blocks.\<close>

definition owns :: "heap \<Rightarrow> nat set \<Rightarrow> ptr list \<Rightarrow> bool" where
  "owns h L ps \<longleftrightarrow>
     heap_wf h \<and> distinct (List.map_filter id ps) \<and>
     L \<inter> set (List.map_filter id ps) = {} \<and> live h = L \<union> set (List.map_filter id ps)"

lemma map_filter_id_simps [simp]:
  "List.map_filter id [] = []"
  "List.map_filter id (None # ps) = List.map_filter id ps"
  "List.map_filter id (Some b # ps) = b # List.map_filter id ps"
  by (simp_all add: List.map_filter_simps)

lemma map_filter_id_append [simp]:
  "List.map_filter id (ps @ qs) = List.map_filter id ps @ List.map_filter id qs"
  by (induction ps) (auto simp: List.map_filter_simps split: option.splits)

lemma owns_perm: "mset ps = mset qs \<Longrightarrow> owns h L ps = owns h L qs"
proof -
  assume "mset ps = mset qs"
  then have "mset (List.map_filter id ps) = mset (List.map_filter id qs)"
    unfolding List.map_filter_def by (simp add: \<open>mset ps = mset qs\<close>)
  then show ?thesis
    unfolding owns_def by (metis mset_eq_setD mset_eq_imp_distinct_iff)
qed

lemma owns_free: "owns h L (p # ps) \<Longrightarrow> owns (heap_free p h) L ps"
  by (cases p) (auto simp: owns_def heap_free_def heap_wf_def)

lemma owns_realloc_ok:
  "owns h L (p # ps) \<Longrightarrow> ok (fresh h) \<Longrightarrow> owns (snd (heap_realloc ok p h)) L (fst (heap_realloc ok p h) # ps)"
  by (cases p) (auto simp: owns_def heap_realloc_def heap_free_def heap_wf_def less_Suc_eq)

lemma owns_realloc_fail:
  "owns h L ps \<Longrightarrow> \<not> ok (fresh h) \<Longrightarrow> owns (snd (heap_realloc ok p h)) L ps"
  by (auto simp: owns_def heap_realloc_def heap_wf_def less_Suc_eq)

lemma heap_realloc_fst: "fst (heap_realloc ok p h) = (if ok (fresh h) then Some (fresh h) else None)"
  by (simp add: heap_realloc_def)

lemma owns_realloc_cases:
  assumes "owns h L (p # ps)" "heap_realloc ok p h = (q, h')"
  shows "owns h' L ((if q = None then p else q) # ps)"
  using assms owns_realloc_ok[of h L p ps ok] owns_realloc_fail[of h L "p # ps" ok p]
  by (cases "ok (fresh h)") (auto simp: heap_realloc_def)

end
