(* ===== verification/Init_Parse.thy ===== *)
theory Init_Parse
  imports C_Heap
begin

text \<open>
  The configuration parser of the init program (\<open>init/include/init/parse.h\<close>,
  \<open>init/src/parse.c\<close>). \<open>s\<close> is the text of the configuration file and pointers into it are
  indices; an argument is a slice of that text. The error of every function is \<open>PARSE_ERR\<close>
  and \<open>PARSE_OK\<close> is the right summand.
\<close>

datatype parse_error = PARSE_ERR

record directive_arg =
  str :: nat
  len :: nat

record directive =
  args_ptr :: ptr
  args :: "directive_arg list"

subsection \<open>Scanning loops\<close>

text \<open>The shape of every scanning loop: \<open>while (*p && cond(*p)) p++\<close>.\<close>

function scan_while :: "(char \<Rightarrow> bool) \<Rightarrow> string \<Rightarrow> nat \<Rightarrow> nat" where
  "scan_while P s p = (if peek s p \<noteq> nul \<and> P (peek s p) then scan_while P s (Suc p) else p)"
  by pat_completeness auto
termination
  by (relation "measure (\<lambda>(P, s, p). length s - p)")
    (use peek_non_nul in \<open>auto intro!: diff_less_mono2\<close>)

declare scan_while.simps [simp del]

definition skip_whitespace :: "string \<Rightarrow> nat \<Rightarrow> nat" where
  "skip_whitespace s p = scan_while (\<lambda>c. isspace c \<and> c \<noteq> newline) s p"

definition quote_end :: "string \<Rightarrow> nat \<Rightarrow> nat" where
  "quote_end s p = scan_while (\<lambda>c. c \<noteq> quote) s p"

definition word_end :: "string \<Rightarrow> nat \<Rightarrow> nat" where
  "word_end s p = scan_while (\<lambda>c. \<not> isspace c \<and> c \<noteq> newline) s p"

definition line_end :: "string \<Rightarrow> nat \<Rightarrow> nat" where
  "line_end s p = scan_while (\<lambda>c. c \<noteq> newline) s p"

text \<open>The loop that moves \<open>line_start\<close> to the first non-blank of its line.\<close>

function trim_start :: "string \<Rightarrow> nat \<Rightarrow> nat \<Rightarrow> nat" where
  "trim_start s a e = (if a < e \<and> isspace (peek s a) then trim_start s (Suc a) e else a)"
  by pat_completeness auto
termination
  by (relation "measure (\<lambda>(s, a, e). e - a)") auto

declare trim_start.simps [simp del]

lemma scan_while_ge: "p \<le> scan_while P s p"
proof (induction P s p rule: scan_while.induct)
  case (1 P s p)
  then show ?case by (subst scan_while.simps) auto
qed

lemma scan_while_le: "p \<le> length s \<Longrightarrow> scan_while P s p \<le> length s"
proof (induction P s p rule: scan_while.induct)
  case (1 P s p)
  then show ?case using peek_non_nul[of s p] by (subst scan_while.simps) auto
qed

lemma scan_while_stop:
  "peek s (scan_while P s p) = nul \<or> \<not> P (peek s (scan_while P s p))"
proof (induction P s p rule: scan_while.induct)
  case (1 P s p)
  then show ?case by (subst (1 2) scan_while.simps) auto
qed

text \<open>A scan advances by the longest prefix of what is left that satisfies the condition.\<close>

lemma scan_while_takeWhile:
  "scan_while P s p = p + length (takeWhile (\<lambda>c. c \<noteq> nul \<and> P c) (drop p s))"
proof (induction P s p rule: scan_while.induct)
  case (1 P s p)
  show ?case
  proof (cases "p < length s")
    case True
    then show ?thesis
      using "1" by (subst scan_while.simps) (auto simp: peek_less simp flip: Cons_nth_drop_Suc)
  next
    case False
    then show ?thesis by (subst scan_while.simps) (simp add: peek_def)
  qed
qed

lemma scan_while_gt: "peek s p \<noteq> nul \<Longrightarrow> P (peek s p) \<Longrightarrow> p < scan_while P s p"
  by (subst scan_while.simps) (simp add: scan_while_ge less_eq_Suc_le)

lemma scan_while_sat:
  "p \<le> i \<Longrightarrow> i < scan_while P s p \<Longrightarrow> peek s i \<noteq> nul \<and> P (peek s i)"
proof (induction P s p rule: scan_while.induct)
  case (1 P s p)
  then show ?case
    using scan_while.simps[of P s p] by (cases "i = p") (auto split: if_splits)
qed

lemma trim_start_bounds: "a \<le> trim_start s a e" "a \<le> e \<Longrightarrow> trim_start s a e \<le> e"
  by (induction s a e rule: trim_start.induct)
    (subst trim_start.simps, auto)+

subsection \<open>One argument\<close>

text \<open>The body of \<open>parse_line\<close>'s loop after the blanks: a quoted argument runs to the next
  quote, wherever that is (\<open>None\<close> when there is none), any other to the next blank or newline.
  The result is the slice and the position after it.\<close>

definition scan_arg :: "string \<Rightarrow> nat \<Rightarrow> (directive_arg \<times> nat) option" where
  "scan_arg s p =
     (if peek s p = quote then
        (let start = Suc p; e = quote_end s start
         in if peek s e \<noteq> quote then None
            else Some (\<lparr>str = start, len = e - start\<rparr>, Suc e))
      else (let e = word_end s p in Some (\<lparr>str = p, len = e - p\<rparr>, e)))"

lemma scan_arg_progress:
  assumes "scan_arg s p = Some (a, q)" "peek s p \<noteq> nul" "peek s p = newline \<or> \<not> isspace (peek s p)"
    "peek s p \<noteq> newline"
  shows "p < q"
proof (cases "peek s p = quote")
  case True
  with assms show ?thesis
    using scan_while_ge[of "Suc p" "\<lambda>c. c \<noteq> quote" s]
    by (auto simp: scan_arg_def Let_def quote_end_def split: if_splits)
next
  case False
  with assms show ?thesis
    by (auto simp: scan_arg_def Let_def word_end_def intro: scan_while_gt)
qed

lemma skip_whitespace_stop:
  "peek s (skip_whitespace s p) = nul \<or> peek s (skip_whitespace s p) = newline \<or>
   \<not> isspace (peek s (skip_whitespace s p))"
  using scan_while_stop[of s "\<lambda>c. isspace c \<and> c \<noteq> newline" p] by (auto simp: skip_whitespace_def)

subsection \<open>One line\<close>

text \<open>\<open>parse_line\<close>: the loop over the arguments, with the growing array \<open>args\<close> and its block.
  Both error returns release the array first.\<close>

function parse_line_loop ::
    "(nat \<Rightarrow> bool) \<Rightarrow> string \<Rightarrow> nat \<Rightarrow> ptr \<Rightarrow> directive_arg list \<Rightarrow> heap \<Rightarrow> (parse_error + directive) \<times> heap" where
  "parse_line_loop ok s p ptr as h =
     (if peek s p \<noteq> nul \<and> peek s p \<noteq> newline then
        (let p1 = skip_whitespace s p in
         if peek s p1 = nul \<or> peek s p1 = newline then (Inr \<lparr>args_ptr = ptr, args = as\<rparr>, h)
         else (case scan_arg s p1 of
             None \<Rightarrow> (Inl PARSE_ERR, heap_free ptr h)
           | Some (a, p2) \<Rightarrow>
               (case heap_realloc ok ptr h of
                  (None, h') \<Rightarrow> (Inl PARSE_ERR, heap_free ptr h')
                | (Some b, h') \<Rightarrow> parse_line_loop ok s p2 (Some b) (as @ [a]) h')))
      else (Inr \<lparr>args_ptr = ptr, args = as\<rparr>, h))"
  by pat_completeness auto
termination
proof (relation "measure (\<lambda>(ok, s, p, ptr, as, h). length s - p)", goal_cases)
  case (2 ok s p ptr as h p1 r a p2 r' h' b)
  have "p1 < p2" using 2 skip_whitespace_stop[of s p] by (auto intro: scan_arg_progress)
  moreover have "p \<le> p1" using 2 by (simp add: skip_whitespace_def scan_while_ge)
  ultimately show ?case using peek_non_nul[of s p] 2 by auto
qed simp

declare parse_line_loop.simps [simp del]

lemma parse_line_loop_step:
  assumes "peek s p \<noteq> nul" "peek s p \<noteq> newline"
    "peek s (skip_whitespace s p) \<noteq> nul" "peek s (skip_whitespace s p) \<noteq> newline"
    "scan_arg s (skip_whitespace s p) = Some (a, p2)" "heap_realloc ok ptr h = (Some b, h')"
  shows "parse_line_loop ok s p ptr as h = parse_line_loop ok s p2 (Some b) (as @ [a]) h'"
  using assms by (subst parse_line_loop.simps) simp

text \<open>A call that succeeds either stops at the end of the line or takes one argument and goes on.\<close>

lemma parse_line_loop_success:
  assumes "fst (parse_line_loop ok s p ptr as h) = Inr d"
  obtains (stop) "d = \<lparr>args_ptr = ptr, args = as\<rparr>"
      "peek s p = nul \<or> peek s p = newline \<or>
       peek s (skip_whitespace s p) = nul \<or> peek s (skip_whitespace s p) = newline"
  | (more) a p2 b h' where "peek s p \<noteq> nul" "peek s p \<noteq> newline"
      "peek s (skip_whitespace s p) \<noteq> nul" "peek s (skip_whitespace s p) \<noteq> newline"
      "scan_arg s (skip_whitespace s p) = Some (a, p2)" "heap_realloc ok ptr h = (Some b, h')"
      "fst (parse_line_loop ok s p2 (Some b) (as @ [a]) h') = Inr d"
  using assms
  by (subst (asm) parse_line_loop.simps)
    (auto simp: Let_def split: if_splits option.splits prod.splits)

definition parse_line :: "(nat \<Rightarrow> bool) \<Rightarrow> string \<Rightarrow> nat \<Rightarrow> heap \<Rightarrow> (parse_error + directive) \<times> heap" where
  "parse_line ok s line_start h = parse_line_loop ok s line_start None [] h"

subsection \<open>The whole file\<close>

definition free_args :: "directive list \<Rightarrow> heap \<Rightarrow> heap" where
  "free_args ds h = fold (\<lambda>d. heap_free (args_ptr d)) ds h"

text \<open>The position after the line at \<open>p\<close>, and that it is further on.\<close>

definition next_line :: "string \<Rightarrow> nat \<Rightarrow> nat" where
  "next_line s p = (if peek s (line_end s p) = newline then Suc (line_end s p) else line_end s p)"

lemma next_line_progress:
  assumes "peek s p \<noteq> nul"
  shows "length s - next_line s p < length s - p"
proof -
  have "p < length s" using assms by (rule peek_non_nul)
  moreover have "p < next_line s p"
    using assms scan_while_ge[of p "\<lambda>c. c \<noteq> newline" s] scan_while_stop[of s "\<lambda>c. c \<noteq> newline" p]
      scan_while_gt[of s p "\<lambda>c. c \<noteq> newline"]
    by (auto simp: next_line_def line_end_def le_less)
  ultimately show ?thesis by linarith
qed

text \<open>\<open>parse_config\<close>: the loop over the lines, with the growing array \<open>directives\<close> and its
  block. The end of the line is found without regard to quotes; \<open>parse_line\<close> is not told where
  it is.\<close>

function parse_config_loop ::
    "(nat \<Rightarrow> bool) \<Rightarrow> string \<Rightarrow> nat \<Rightarrow> ptr \<Rightarrow> directive list \<Rightarrow> heap \<Rightarrow> (parse_error + ptr \<times> directive list) \<times> heap" where
  "parse_config_loop ok s p ptr ds h =
     (if peek s p = nul then (Inr (ptr, ds), h)
      else
        (let e = line_end s p; ls = trim_start s p e;
             p' = (if peek s e = newline then Suc e else e)
         in if ls < e then
              (case heap_realloc ok ptr h of
                 (None, h1) \<Rightarrow> (Inl PARSE_ERR, heap_free ptr (free_args ds h1))
               | (Some b, h1) \<Rightarrow>
                   (case parse_line ok s ls h1 of
                      (Inl _, h2) \<Rightarrow> (Inl PARSE_ERR, heap_free (Some b) (free_args ds h2))
                    | (Inr d, h2) \<Rightarrow> parse_config_loop ok s p' (Some b) (ds @ [d]) h2))
            else parse_config_loop ok s p' ptr ds h))"
  by pat_completeness auto
termination
  by (relation "measure (\<lambda>(ok, s, p, ptr, ds, h). length s - p)")
    (auto simp: next_line_progress[unfolded next_line_def] split del: if_split)

declare parse_config_loop.simps [simp del]

definition parse_config :: "(nat \<Rightarrow> bool) \<Rightarrow> string \<Rightarrow> heap \<Rightarrow> (parse_error + ptr \<times> directive list) \<times> heap" where
  "parse_config ok s h = parse_config_loop ok s 0 None [] h"

subsection \<open>Memory: no leak and no invalid free on any path\<close>

lemma parse_line_loop_owns:
  "owns h L (ptr # R) \<Longrightarrow>
     (case parse_line_loop ok s p ptr as h of
        (Inl e, h') \<Rightarrow> owns h' L R
      | (Inr d, h') \<Rightarrow> owns h' L (args_ptr d # R))"
proof (induction ok s p ptr as h rule: parse_line_loop.induct)
  case (1 ok s p ptr as h)
  define p1 where "p1 = skip_whitespace s p"
  show ?case
  proof (cases "peek s p \<noteq> nul \<and> peek s p \<noteq> newline \<and> peek s p1 \<noteq> nul \<and> peek s p1 \<noteq> newline")
    case False
    with "1.prems" show ?thesis
      by (subst parse_line_loop.simps) (auto simp: p1_def)
  next
    case inner: True
    show ?thesis
    proof (cases "scan_arg s p1")
      case None
      with inner "1.prems" show ?thesis
        by (subst parse_line_loop.simps) (auto simp: p1_def owns_free)
    next
      case (Some r)
      obtain a p2 where r: "r = (a, p2)" by (cases r)
      obtain q h' where ra: "heap_realloc ok ptr h = (q, h')" by fastforce
      note own = owns_realloc_cases[OF "1.prems" ra]
      show ?thesis
      proof (cases q)
        case None
        with inner Some r ra own show ?thesis
          by (subst parse_line_loop.simps) (auto simp: p1_def owns_free)
      next
        case (Some b)
        from own Some have "owns h' L (Some b # R)" by simp
        from "1.IH"[OF _ p1_def _ \<open>scan_arg s p1 = Some r\<close> r[symmetric] ra[symmetric] Some this] inner
        show ?thesis
          using \<open>scan_arg s p1 = Some r\<close> r ra Some
          by (subst parse_line_loop.simps) (simp flip: p1_def)
      qed
    qed
  qed
qed

lemma free_args_owns: "owns h L (map args_ptr ds @ R) \<Longrightarrow> owns (free_args ds h) L R"
  by (induction ds arbitrary: h) (auto simp: free_args_def dest: owns_free)

lemma owns_front: "owns h L (ps @ p # qs) = owns h L (p # ps @ qs)"
  by (rule owns_perm) simp

lemma parse_config_loop_owns:
  "owns h L (ptr # map args_ptr ds) \<Longrightarrow>
     (case parse_config_loop ok s p ptr ds h of
        (Inl e, h') \<Rightarrow> owns h' L []
      | (Inr (q, ds'), h') \<Rightarrow> owns h' L (q # map args_ptr ds'))"
proof (induction ok s p ptr ds h rule: parse_config_loop.induct)
  case (1 ok s p ptr ds h)
  define e where "e = line_end s p"
  define ls where "ls = trim_start s p e"
  define p' where "p' = (if peek s e = newline then Suc e else e)"
  note defs = e_def[symmetric] ls_def[symmetric] p'_def[symmetric]
  show ?case
  proof (cases "peek s p = nul")
    case True
    with "1.prems" show ?thesis by (subst parse_config_loop.simps) simp
  next
    case more: False
    show ?thesis
    proof (cases "ls < e")
      case False
      with "1.IH"(2)[OF more e_def ls_def p'_def False "1.prems"] more show ?thesis
        by (subst parse_config_loop.simps) (simp add: Let_def defs)
    next
      case line: True
      obtain q h1 where ra: "heap_realloc ok ptr h = (q, h1)" by fastforce
      note own = owns_realloc_cases[OF "1.prems" ra]
      show ?thesis
      proof (cases q)
        case None
        then have "owns h1 L (map args_ptr ds @ [ptr])" using own by (simp add: owns_front)
        from free_args_owns[OF this] show ?thesis
          using more line ra None
          by (subst parse_config_loop.simps) (simp add: Let_def defs owns_free)
      next
        case (Some b)
        then have own1: "owns h1 L (None # map args_ptr ds @ [Some b])"
          using own owns_perm[of "None # map args_ptr ds @ [Some b]" "None # Some b # map args_ptr ds"]
          by (simp add: owns_def)
        obtain r h2 where pl: "parse_line ok s ls h1 = (r, h2)" by fastforce
        note line_owns = parse_line_loop_owns[OF own1, of ok s ls "[]"]
        show ?thesis
        proof (cases r)
          case (Inl x)
          then have "owns h2 L (map args_ptr ds @ [Some b])"
            using line_owns pl by (simp add: parse_line_def)
          from free_args_owns[OF this] show ?thesis
            using more line ra Some pl Inl
            by (subst parse_config_loop.simps) (simp add: Let_def defs owns_free)
        next
          case (Inr d)
          then have "owns h2 L (args_ptr d # map args_ptr ds @ [Some b])"
            using line_owns pl by (simp add: parse_line_def)
          then have "owns h2 L (Some b # map args_ptr (ds @ [d]))"
            by (subst owns_perm) (auto simp: ac_simps)
          from "1.IH"(1)[OF more e_def ls_def p'_def line ra[symmetric] Some pl[symmetric] Inr this]
          show ?thesis
            using more line ra Some pl Inr
            by (subst parse_config_loop.simps) (simp add: Let_def defs)
        qed
      qed
    qed
  qed
qed

text \<open>A successful run of the file loop ends, skips a blank line, or takes one directive.\<close>

lemma parse_config_loop_success:
  assumes "fst (parse_config_loop ok s p ptr ds h) = Inr r"
  obtains (stop) "peek s p = nul" "r = (ptr, ds)"
  | (blank) "peek s p \<noteq> nul" "fst (parse_config_loop ok s (next_line s p) ptr ds h) = Inr r"
  | (line) d b h1 h2 where "peek s p \<noteq> nul"
      "fst (parse_line ok s (trim_start s p (line_end s p)) h1) = Inr d"
      "trim_start s p (line_end s p) < line_end s p"
      "fst (parse_config_loop ok s (next_line s p) (Some b) (ds @ [d]) h2) = Inr r"
proof (cases "peek s p = nul")
  case True
  with assms show ?thesis by (intro stop) (simp_all add: parse_config_loop.simps[of ok s p])
next
  case more: False
  define ls where "ls = trim_start s p (line_end s p)"
  note eq = parse_config_loop.simps[of ok s p ptr ds h, folded next_line_def, unfolded Let_def, folded ls_def]
  show ?thesis
  proof (cases "ls < line_end s p")
    case False
    with more assms eq show ?thesis by (intro blank) (simp_all add: next_line_def)
  next
    case True
    obtain q h1 where ra: "heap_realloc ok ptr h = (q, h1)" by fastforce
    obtain r' h2 where pl: "parse_line ok s ls h1 = (r', h2)" by fastforce
    from assms eq more True ra pl obtain b d where "q = Some b" "r' = Inr d"
      by (auto split: option.splits sum.splits)
    with assms eq more True ra pl show ?thesis
      by (intro line[of h1 d b h2]) (simp_all add: ls_def next_line_def)
  qed
qed

end
