(* ===== verification/Init_Grammar.thy ===== *)
theory Init_Grammar
  imports Init_Parse
begin

text \<open>
  What the configuration parser computes, as functions on texts: \<open>toks\<close> is the list of
  arguments from the start of a line on, \<open>directives_of\<close> the list of directives of a file.
  \<open>parse_config_spec\<close> shows that the pointer program of \<open>Init_Parse\<close> computes
  \<open>directives_of\<close> on every NUL-free text, \<open>directives_of_lines\<close> that this is line by line
  when every quote closes on its line, and \<open>directives_of_render\<close> that printing a
  configuration and parsing it gives it back.
\<close>

subsection \<open>The grammar\<close>

definition blank :: "char \<Rightarrow> bool" where
  "blank c \<longleftrightarrow> isspace c \<and> c \<noteq> newline"

function toks :: "string \<Rightarrow> string list option" where
  "toks cs =
     (case dropWhile blank cs of
        [] \<Rightarrow> Some []
      | c # r \<Rightarrow>
          (if c = newline then Some []
           else if c = quote then
             (case dropWhile (\<lambda>c. c \<noteq> quote) r of
                [] \<Rightarrow> None
              | _ # r' \<Rightarrow> map_option (Cons (takeWhile (\<lambda>c. c \<noteq> quote) r)) (toks r'))
           else map_option (Cons (takeWhile (\<lambda>c. \<not> isspace c) (c # r)))
                  (toks (dropWhile (\<lambda>c. \<not> isspace c) (c # r)))))"
  by pat_completeness auto
termination
proof (relation "measure length", goal_cases)
  case (2 cs c r x r')
  have "length (c # r) \<le> length cs" using 2(1) by (metis length_dropWhile_le)
  moreover have "length (x # r') \<le> length r" using 2(4) by (metis length_dropWhile_le)
  ultimately show ?case by simp
next
  case (3 cs c r)
  have "length (c # r) \<le> length cs" using 3(1) by (metis length_dropWhile_le)
  moreover have "\<not> isspace c"
    using 3 hd_dropWhile[of blank cs] by (auto simp: blank_def)
  ultimately show ?case using length_dropWhile_le[of "\<lambda>c. \<not> isspace c" r] by simp
qed simp

declare toks.simps [simp del]

text \<open>The text after the first newline.\<close>

definition after_line :: "string \<Rightarrow> string" where
  "after_line cs = tl (dropWhile (\<lambda>c. c \<noteq> newline) cs)"

definition first_line :: "string \<Rightarrow> string" where
  "first_line cs = takeWhile (\<lambda>c. c \<noteq> newline) cs"

lemma after_line_less: "cs \<noteq> [] \<Longrightarrow> length (after_line cs) < length cs"
  unfolding after_line_def
  by (metis length_dropWhile_le length_tl diff_less le_less_trans length_greater_0_conv zero_less_one
      diff_le_self le_neq_implies_less list.size(3))

function directives_of :: "string \<Rightarrow> string list list option" where
  "directives_of cs =
     (if cs = [] then Some []
      else if \<forall>c\<in>set (first_line cs). isspace c then directives_of (after_line cs)
      else (case toks cs of
              None \<Rightarrow> None
            | Some ws \<Rightarrow> map_option (Cons ws) (directives_of (after_line cs))))"
  by pat_completeness auto
termination
  by (relation "measure length") (simp_all add: after_line_less)

declare directives_of.simps [simp del]

subsection \<open>From indices to texts\<close>

definition arg_text :: "string \<Rightarrow> directive_arg \<Rightarrow> string" where
  "arg_text s a = take (len a) (drop (str a) s)"

definition directive_texts :: "string \<Rightarrow> directive \<Rightarrow> string list" where
  "directive_texts s d = map (arg_text s) (args d)"

lemma takeWhile_nul_free:
  "nul \<notin> set s \<Longrightarrow> takeWhile (\<lambda>c. c \<noteq> nul \<and> P c) (drop p s) = takeWhile P (drop p s)"
  by (rule takeWhile_cong) (auto dest: in_set_dropD)

lemma scan_text:
  "nul \<notin> set s \<Longrightarrow> take (scan_while P s p - p) (drop p s) = takeWhile P (drop p s)"
  by (simp add: scan_while_takeWhile takeWhile_nul_free takeWhile_eq_take[symmetric])

lemma scan_rest:
  "nul \<notin> set s \<Longrightarrow> drop (scan_while P s p) s = dropWhile P (drop p s)"
  by (simp add: scan_while_takeWhile takeWhile_nul_free dropWhile_eq_drop add.commute)

lemma drop_peek:
  assumes "nul \<notin> set s"
  shows "drop p s = (if peek s p = nul then [] else peek s p # drop (Suc p) s)"
proof -
  have "p < length s \<Longrightarrow> s ! p \<noteq> nul" using assms by (metis nth_mem)
  then show ?thesis by (auto simp: peek_def Cons_nth_drop_Suc)
qed

text \<open>One argument: the slice \<open>scan_arg\<close> returns is the argument \<open>toks\<close> takes, and the
  position is the start of the text \<open>toks\<close> goes on with.\<close>

lemma blank_fun: "blank = (\<lambda>c. isspace c \<and> c \<noteq> newline)"
  by (rule ext) (simp add: blank_def)

lemma nonspace_fun: "(\<lambda>c. \<not> isspace c \<and> c \<noteq> newline) = (\<lambda>c. \<not> isspace c)"
  by (rule ext) auto

lemma skip_whitespace_rest:
  "nul \<notin> set s \<Longrightarrow> drop (skip_whitespace s p) s = dropWhile blank (drop p s)"
  by (simp add: skip_whitespace_def scan_rest blank_fun)

lemma toks_eq_at:
  assumes s: "nul \<notin> set s" and q_def: "q = skip_whitespace s p"
  shows "toks (drop p s) =
    (if peek s q = nul \<or> peek s q = newline then Some []
     else (case scan_arg s q of
             None \<Rightarrow> None
           | Some (a, r) \<Rightarrow> map_option (Cons (arg_text s a)) (toks (drop r s))))"
proof -
  have dw: "dropWhile blank (drop p s) = drop q s"
    using s by (simp add: q_def skip_whitespace_rest)
  show ?thesis
  proof (cases "peek s q = nul \<or> peek s q = newline")
    case True
    with s show ?thesis by (subst toks.simps) (auto simp: dw drop_peek[of s q])
  next
    case False
    then have cons: "drop q s = peek s q # drop (Suc q) s" and ns: "peek s q \<noteq> newline"
      using s by (auto simp: drop_peek[of s q])
    show ?thesis
    proof (cases "peek s q = quote")
      case True
      define e where "e = quote_end s (Suc q)"
      have e: "drop e s = dropWhile (\<lambda>c. c \<noteq> quote) (drop (Suc q) s)"
        and tx: "take (e - Suc q) (drop (Suc q) s) = takeWhile (\<lambda>c. c \<noteq> quote) (drop (Suc q) s)"
        using s by (simp_all add: e_def quote_end_def scan_rest scan_text)
      have stop: "peek s e = nul \<or> peek s e = quote"
        using scan_while_stop[of s "\<lambda>c. c \<noteq> quote" "Suc q"] by (auto simp: e_def quote_end_def)
      show ?thesis
      proof (cases "peek s e = nul")
        case nul_at_end: True
        then have dq: "dropWhile (\<lambda>c. c \<noteq> quote) (drop (Suc q) s) = []"
          using s by (simp add: drop_peek[of s e] flip: e)
        show ?thesis
          using True cons nul_at_end
          by (subst toks.simps) (simp add: dw dq scan_arg_def Let_def flip: e_def)
      next
        case False
        then have "dropWhile (\<lambda>c. c \<noteq> quote) (drop (Suc q) s) = quote # drop (Suc e) s"
          using s stop by (simp add: drop_peek[of s e] flip: e)
        with True cons False stop tx show ?thesis
          by (subst toks.simps) (simp add: dw scan_arg_def Let_def arg_text_def flip: e_def)
      qed
    next
      case word: False
      define e where "e = word_end s q"
      have e: "drop e s = dropWhile (\<lambda>c. \<not> isspace c) (drop q s)"
        and tx: "take (e - q) (drop q s) = takeWhile (\<lambda>c. \<not> isspace c) (drop q s)"
        using s by (simp_all add: e_def word_end_def nonspace_fun scan_rest scan_text)
      with word cons ns False show ?thesis
        by (subst toks.simps) (simp add: dw scan_arg_def Let_def arg_text_def flip: e_def)
    qed
  qed
qed

abbreviation always :: "nat \<Rightarrow> bool" where
  "always \<equiv> \<lambda>_. True"

lemma realloc_always: "\<exists>b h'. heap_realloc always ptr h = (Some b, h')"
  by (simp add: heap_realloc_def)

definition line_result :: "string \<Rightarrow> string list \<Rightarrow> parse_error + directive \<Rightarrow> string list option \<Rightarrow> bool" where
  "line_result s done r t \<longleftrightarrow>
     (case r of
        Inl e \<Rightarrow> t = None
      | Inr d \<Rightarrow> (\<exists>ws. t = Some ws \<and> directive_texts s d = done @ ws))"

lemma line_result_step:
  "line_result s (done @ [w]) r t \<Longrightarrow> line_result s done r (map_option (Cons w) t)"
  by (auto simp: line_result_def split: sum.splits)

lemma parse_line_loop_toks:
  "nul \<notin> set s \<Longrightarrow> ok = always \<Longrightarrow>
     line_result s (map (arg_text s) as) (fst (parse_line_loop ok s p ptr as h)) (toks (drop p s))"
proof (induction ok s p ptr as h rule: parse_line_loop.induct)
  case (1 ok s p ptr as h)
  define p1 where "p1 = skip_whitespace s p"
  note t = toks_eq_at[OF "1.prems"(1) p1_def]
  show ?case
  proof (cases "peek s p \<noteq> nul \<and> peek s p \<noteq> newline")
    case False
    then have "p1 = p"
      unfolding p1_def skip_whitespace_def by (subst scan_while.simps) auto
    with False t show ?thesis
      by (subst parse_line_loop.simps) (auto simp: line_result_def directive_texts_def)
  next
    case outer: True
    show ?thesis
    proof (cases "peek s p1 = nul \<or> peek s p1 = newline")
      case True
      with outer t show ?thesis
        by (subst parse_line_loop.simps) (auto simp: line_result_def directive_texts_def p1_def)
    next
      case inner: False
      show ?thesis
      proof (cases "scan_arg s p1")
        case None
        with outer inner t show ?thesis
          by (subst parse_line_loop.simps) (auto simp: line_result_def p1_def)
      next
        case (Some r)
        obtain a p2 where r: "r = (a, p2)" by (cases r)
        obtain b h' where ra: "heap_realloc ok ptr h = (Some b, h')"
          using realloc_always "1.prems"(2) by blast
        have "line_result s (map (arg_text s) as @ [arg_text s a])
            (fst (parse_line_loop ok s p2 (Some b) (as @ [a]) h')) (toks (drop p2 s))"
          using "1.IH"[OF outer p1_def inner Some r[symmetric] ra[symmetric] refl "1.prems"] by simp
        from line_result_step[OF this] show ?thesis
          using outer inner t Some r ra
          by (subst parse_line_loop.simps) (simp flip: p1_def)
      qed
    qed
  qed
qed

subsection \<open>The whole file\<close>

lemma toks_skip_blanks: "\<forall>c\<in>set pre. blank c \<Longrightarrow> toks (pre @ cs) = toks cs"
  by (subst (1 2) toks.simps) simp

lemma trim_start_takeWhile:
  "e \<le> length s \<Longrightarrow> trim_start s a e = a + length (takeWhile isspace (take (e - a) (drop a s)))"
proof (induction s a e rule: trim_start.induct)
  case (1 s a e)
  show ?case
  proof (cases "a < e")
    case True
    then have "take (e - a) (drop a s) = s ! a # take (e - Suc a) (drop (Suc a) s)"
      using "1.prems" by (simp add: Cons_nth_drop_Suc[symmetric] take_Cons')
    with True "1" show ?thesis by (subst trim_start.simps) (simp add: peek_less)
  next
    case False
    then show ?thesis by (subst trim_start.simps) simp
  qed
qed

lemma takeWhile_shorter_iff: "length (takeWhile P xs) < length xs \<longleftrightarrow> (\<exists>x\<in>set xs. \<not> P x)"
  by (metis length_takeWhile_le le_neq_implies_less takeWhile_eq_all_conv takeWhile_eq_take take_all_iff nat_less_le)

lemma line_at:
  assumes s: "nul \<notin> set s" and p: "p \<le> length s" and e: "e = line_end s p"
  shows "first_line (drop p s) = take (e - p) (drop p s)"
    and "after_line (drop p s) = drop (if peek s e = newline then Suc e else e) s"
    and "p \<le> e" "e \<le> length s"
proof -
  show le: "p \<le> e" "e \<le> length s"
    using p by (simp_all add: e line_end_def scan_while_ge scan_while_le)
  show "first_line (drop p s) = take (e - p) (drop p s)"
    using s by (simp add: first_line_def e line_end_def scan_text)
  have de: "dropWhile (\<lambda>c. c \<noteq> newline) (drop p s) = drop e s"
    using s by (simp add: e line_end_def scan_rest)
  have "peek s e = nul \<or> peek s e = newline"
    using scan_while_stop[of s "\<lambda>c. c \<noteq> newline" p] by (auto simp: e line_end_def)
  then show "after_line (drop p s) = drop (if peek s e = newline then Suc e else e) s"
    using s drop_peek[of s e] by (auto simp: after_line_def de)
qed

lemma trim_at:
  assumes s: "nul \<notin> set s" and p: "p \<le> length s" and e: "e = line_end s p" and ls: "ls = trim_start s p e"
  shows "ls < e \<longleftrightarrow> \<not> (\<forall>c\<in>set (first_line (drop p s)). isspace c)"
    and "toks (drop ls s) = toks (drop p s)"
proof -
  note L = line_at[OF s p e]
  define tk where "tk = takeWhile isspace (first_line (drop p s))"
  have lst: "ls = p + length tk"
    using L by (simp add: ls trim_start_takeWhile tk_def)
  have len: "length (first_line (drop p s)) = e - p" using L by simp
  have "ls < e \<longleftrightarrow> length tk < length (first_line (drop p s))"
    using lst len L(3) by auto
  then show "ls < e \<longleftrightarrow> \<not> (\<forall>c\<in>set (first_line (drop p s)). isspace c)"
    by (simp add: tk_def takeWhile_shorter_iff)
  have "length tk \<le> e - p" unfolding len[symmetric] tk_def by (rule length_takeWhile_le)
  moreover have "tk = take (length tk) (first_line (drop p s))"
    by (simp add: tk_def takeWhile_eq_take[symmetric])
  ultimately have "tk = take (length tk) (drop p s)" using L(1) by (simp add: min_def)
  then have split: "drop p s = tk @ drop ls s"
    using lst by (metis append_take_drop_id drop_drop add.commute)
  have "\<forall>c\<in>set tk. blank c"
    by (auto simp: tk_def blank_def first_line_def dest!: set_takeWhileD)
  then show "toks (drop ls s) = toks (drop p s)" by (simp add: split toks_skip_blanks)
qed

definition config_result ::
    "string \<Rightarrow> string list list \<Rightarrow> parse_error + ptr \<times> directive list \<Rightarrow> string list list option \<Rightarrow> bool" where
  "config_result s done r t \<longleftrightarrow>
     (case r of
        Inl e \<Rightarrow> t = None
      | Inr (q, ds) \<Rightarrow> (\<exists>dss. t = Some dss \<and> map (directive_texts s) ds = done @ dss))"

lemma config_result_step:
  "config_result s (done @ [ws]) r t \<Longrightarrow> config_result s done r (map_option (Cons ws) t)"
  by (auto simp: config_result_def split: sum.splits)

lemma parse_config_loop_spec:
  "nul \<notin> set s \<Longrightarrow> ok = always \<Longrightarrow> p \<le> length s \<Longrightarrow>
     config_result s (map (directive_texts s) ds) (fst (parse_config_loop ok s p ptr ds h))
       (directives_of (drop p s))"
proof (induction ok s p ptr ds h rule: parse_config_loop.induct)
  case (1 ok s p ptr ds h)
  define e where "e = line_end s p"
  define ls where "ls = trim_start s p e"
  define p' where "p' = (if peek s e = newline then Suc e else e)"
  note defs = e_def[symmetric] ls_def[symmetric] p'_def[symmetric]
  note L = line_at[OF "1.prems"(1,3) e_def, folded p'_def]
  note T = trim_at[OF "1.prems"(1,3) e_def ls_def]
  show ?case
  proof (cases "peek s p = nul")
    case True
    then have "drop p s = []" using "1.prems"(1) by (simp add: drop_peek[of s p])
    with True show ?thesis
      by (subst parse_config_loop.simps, subst directives_of.simps) (simp add: config_result_def)
  next
    case more: False
    then have ne: "drop p s \<noteq> []" using "1.prems"(1) by (simp add: drop_peek[of s p])
    have p': "p' \<le> length s"
      using L(4) peek_non_nul[of s e] by (auto simp: p'_def)
    show ?thesis
    proof (cases "ls < e")
      case False
      with "1.IH"(2)[OF more e_def ls_def p'_def False "1.prems"(1,2) p'] more T(1) L(2) ne show ?thesis
        by (subst parse_config_loop.simps, subst directives_of.simps) (simp add: Let_def defs)
    next
      case line: True
      obtain b h1 where ra: "heap_realloc ok ptr h = (Some b, h1)"
        using realloc_always "1.prems"(2) by blast
      obtain r h2 where pl: "parse_line ok s ls h1 = (r, h2)" by fastforce
      have lr: "line_result s [] r (toks (drop p s))"
        using parse_line_loop_toks[OF "1.prems"(1,2), of "[]" ls None h1] pl T(2)
        by (simp add: parse_line_def)
      show ?thesis
      proof (cases r)
        case (Inl x)
        with more line ra pl lr T(1) ne show ?thesis
          by (subst parse_config_loop.simps, subst directives_of.simps)
            (auto simp: Let_def defs config_result_def line_result_def)
      next
        case (Inr d)
        have "config_result s (map (directive_texts s) ds @ [directive_texts s d])
            (fst (parse_config_loop ok s p' (Some b) (ds @ [d]) h2)) (directives_of (drop p' s))"
          using "1.IH"(1)[OF more e_def ls_def p'_def line ra[symmetric] refl pl[symmetric] Inr "1.prems"(1,2) p']
          by simp
        from config_result_step[OF this] show ?thesis
          using more line ra pl lr Inr T(1) L(2) ne
          by (subst parse_config_loop.simps, subst directives_of.simps)
            (auto simp: Let_def defs line_result_def)
      qed
    qed
  qed
qed

text \<open>The argument texts of a parse result, \<open>None\<close> for \<open>PARSE_ERR\<close>.\<close>

definition config_texts :: "string \<Rightarrow> parse_error + ptr \<times> directive list \<Rightarrow> string list list option" where
  "config_texts s r = (case r of Inl e \<Rightarrow> None | Inr (q, ds) \<Rightarrow> Some (map (directive_texts s) ds))"

lemma parse_config_texts:
  assumes "nul \<notin> set s"
  shows "config_texts s (fst (parse_config (\<lambda>_. True) s h)) = directives_of s"
  using parse_config_loop_spec[OF assms refl, of 0 "[]" None h]
  by (auto simp: parse_config_def config_result_def config_texts_def split: sum.splits)

text \<open>C1: refinement of the parser. On every NUL-free configuration text, with an allocator that
  does not fail, \<open>parse_config\<close> returns exactly the directives of the grammar \<open>directives_of\<close>,
  and \<open>PARSE_ERR\<close> exactly where the grammar has no reading.\<close>

theorem parse_config_refines:
  assumes "nul \<notin> set s"
  shows "config_texts s (fst (parse_config (\<lambda>_. True) s h)) = directives_of s"
  using assms by (rule parse_config_texts)

theorem parse_config_refines_witness:
  "config_texts ''env HOME /root'' (fst (parse_config (\<lambda>_. True) ''env HOME /root'' \<lparr>live = {}, fresh = 0, faults = 0\<rparr>))
     = directives_of ''env HOME /root''"
  by (rule parse_config_refines) (simp add: nul_def)

subsection \<open>Bounds: every slice lies in the buffer, no directive is empty\<close>

definition slice_ok :: "string \<Rightarrow> directive_arg \<Rightarrow> bool" where
  "slice_ok s a \<longleftrightarrow>
     str a + len a \<le> length s \<and> nul \<notin> set (arg_text s a) \<and>
     (len a = 0 \<longrightarrow> peek s (str a) = quote)"

lemma scan_while_nul_free:
  "nul \<notin> set (take (scan_while P s p - p) (drop p s))"
  by (auto simp: scan_while_takeWhile takeWhile_eq_take[symmetric] dest: set_takeWhileD)

lemma scan_arg_slice_ok:
  assumes "scan_arg s p = Some (a, q)" "peek s p \<noteq> nul" "\<not> isspace (peek s p)"
  shows "slice_ok s a"
proof -
  have p: "p < length s" using assms(2) by (rule peek_non_nul)
  have le: "Suc p \<le> quote_end s (Suc p)" "quote_end s (Suc p) \<le> length s"
    "p \<le> word_end s p" "word_end s p \<le> length s"
    using p by (simp_all add: quote_end_def word_end_def scan_while_ge scan_while_le)
  have "p < word_end s p"
    using assms(2,3) by (auto simp: word_end_def intro: scan_while_gt)
  with le assms show ?thesis
    by (auto simp: scan_arg_def slice_ok_def arg_text_def Let_def quote_end_def word_end_def
        scan_while_nul_free split: if_splits)
qed

lemma skip_whitespace_nonspace:
  "peek s (skip_whitespace s p) \<noteq> nul \<Longrightarrow> peek s (skip_whitespace s p) \<noteq> newline \<Longrightarrow>
     \<not> isspace (peek s (skip_whitespace s p))"
  using skip_whitespace_stop[of s p] by auto

lemma parse_line_loop_slices:
  "fst (parse_line_loop ok s p ptr as h) = Inr d \<Longrightarrow> \<forall>a\<in>set as. slice_ok s a \<Longrightarrow>
     (\<forall>a\<in>set (args d). slice_ok s a) \<and> length as \<le> length (args d)"
proof (induction ok s p ptr as h rule: parse_line_loop.induct)
  case (1 ok s p ptr as h)
  from "1.prems"(1) show ?case
  proof (cases rule: parse_line_loop_success)
    case stop
    with "1.prems"(2) show ?thesis by simp
  next
    case (more a p2 b h')
    then have "slice_ok s a" by (auto intro: scan_arg_slice_ok dest: skip_whitespace_nonspace)
    with "1.IH"[OF _ refl _ more(5) refl more(6)[symmetric] refl more(7)] more "1.prems"(2)
    show ?thesis by auto
  qed
qed

lemma parse_line_nonempty:
  assumes "fst (parse_line ok s p h) = Inr d" "peek s p \<noteq> nul" "\<not> isspace (peek s p)"
  shows "args d \<noteq> []"
proof -
  have "skip_whitespace s p = p"
    using assms(3) unfolding skip_whitespace_def by (subst scan_while.simps) simp
  moreover have "peek s p \<noteq> newline" using assms(3) by auto
  moreover have "fst (parse_line_loop ok s p None [] h) = Inr d"
    using assms(1) by (simp add: parse_line_def)
  moreover note assms(2)
  moreover from \<open>fst (parse_line_loop ok s p None [] h) = Inr d\<close>
  have "(\<exists>a p2 b h'. scan_arg s p = Some (a, p2) \<and> fst (parse_line_loop ok s p2 (Some b) [a] h') = Inr d)"
  proof (cases rule: parse_line_loop_success)
    case stop
    with calculation show ?thesis by simp
  next
    case (more a p2 b h')
    with calculation show ?thesis by auto
  qed
  ultimately obtain a p2 b h' where "scan_arg s p = Some (a, p2)"
      "fst (parse_line_loop ok s p2 (Some b) [a] h') = Inr d" by blast
  with assms(2,3) parse_line_loop_slices[of ok s p2 "Some b" "[a]" h' d] show ?thesis
    by (auto dest: scan_arg_slice_ok)
qed

lemma trim_start_nonspace:
  "trim_start s a e < e \<Longrightarrow> \<not> isspace (peek s (trim_start s a e))"
proof (induction s a e rule: trim_start.induct)
  case (1 s a e)
  then show ?case by (subst trim_start.simps) (subst (asm) (2) trim_start.simps, auto split: if_splits)
qed

definition directive_ok :: "string \<Rightarrow> directive \<Rightarrow> bool" where
  "directive_ok s d \<longleftrightarrow> args d \<noteq> [] \<and> (\<forall>a\<in>set (args d). slice_ok s a)"

lemma parse_config_loop_slices:
  "fst (parse_config_loop ok s p ptr ds h) = Inr (q, ds') \<Longrightarrow>
     \<forall>d\<in>set ds. directive_ok s d \<Longrightarrow> \<forall>d\<in>set ds'. directive_ok s d"
proof (induction "length s - p" arbitrary: p ptr ds h rule: less_induct)
  case less
  from less.prems(1) show ?case
  proof (cases rule: parse_config_loop_success)
    case stop
    with less.prems(2) show ?thesis by simp
  next
    case blank
    show ?thesis
      by (rule less.hyps[OF next_line_progress[OF blank(1)] blank(2) less.prems(2)])
  next
    case (line d b h1 h2)
    have "peek s (trim_start s p (line_end s p)) \<noteq> nul"
      using line(3) trim_start_bounds(1)[of p s "line_end s p"]
      by (auto simp: line_end_def dest: scan_while_sat)
    with line(2,3) have "directive_ok s d"
      using parse_line_nonempty[OF line(2)] trim_start_nonspace parse_line_loop_slices[of ok s _ None "[]" _ d]
      by (auto simp: directive_ok_def parse_line_def)
    with less.prems(2) have "\<forall>x\<in>set (ds @ [d]). directive_ok s x" by simp
    then show ?thesis
      by (rule less.hyps[OF next_line_progress[OF line(1)] line(4)])
  qed
qed

lemma parse_config_directives_ok:
  "fst (parse_config ok s h) = Inr (q, ds) \<Longrightarrow> \<forall>d\<in>set ds. directive_ok s d"
  using parse_config_loop_slices[of ok s 0 None "[]" h q ds] by (simp add: parse_config_def)

text \<open>C2: Bounds of the parser. Whatever the text (embedded NULs included) and whichever
  allocations fail, every directive \<open>parse_config\<close> returns has at least one argument, and every
  argument is a slice inside the buffer that contains no NUL. The interpreter's check for
  \<open>0 == num_args\<close> therefore never fires on parsed input.\<close>

theorem parse_config_slices:
  assumes "fst (parse_config ok s h) = Inr (q, ds)" "d \<in> set ds"
  shows "args d \<noteq> [] \<and>
    (\<forall>a\<in>set (args d). str a + len a \<le> length s \<and> nul \<notin> set (take (len a) (drop (str a) s)))"
  using parse_config_directives_ok[OF assms(1)] assms(2)
  by (auto simp: directive_ok_def slice_ok_def arg_text_def)

subsection \<open>Memory\<close>

text \<open>C3: memory safety of the parser. From a heap whose live blocks are \<open>L\<close>, whichever
  allocations fail, \<open>parse_config\<close> never frees a dead block; on \<open>PARSE_ERR\<close> exactly \<open>L\<close> is
  live again, and on success the live blocks are \<open>L\<close>, the array of directives and one array of
  arguments per directive, all distinct.\<close>

theorem parse_config_memory:
  assumes "heap_wf h"
  shows "case parse_config ok s h of
      (Inl e, h') \<Rightarrow> live h' = live h \<and> faults h' = 0
    | (Inr (q, ds), h') \<Rightarrow>
        faults h' = 0 \<and>
        distinct (List.map_filter id (q # map args_ptr ds)) \<and>
        live h \<inter> set (List.map_filter id (q # map args_ptr ds)) = {} \<and>
        live h' = live h \<union> set (List.map_filter id (q # map args_ptr ds))"
proof -
  have "owns h (live h) (None # map args_ptr [])" using assms by (simp add: owns_def)
  from parse_config_loop_owns[OF this, of ok s 0] show ?thesis
    by (auto simp: parse_config_def owns_def heap_wf_def split: sum.splits prod.splits)
qed

subsection \<open>Line by line\<close>

fun split_lines :: "string \<Rightarrow> string list" where
  "split_lines [] = [[]]"
| "split_lines (c # cs) =
     (if c = newline then [] # split_lines cs
      else (case split_lines cs of [] \<Rightarrow> [[c]] | l # ls \<Rightarrow> (c # l) # ls))"

lemma split_lines_nonempty: "split_lines cs \<noteq> []"
  by (cases cs) (auto split: list.splits)

lemma split_lines_append: "newline \<notin> set l \<Longrightarrow> split_lines (l @ newline # cs) = l # split_lines cs"
  by (induction l) auto

lemma split_lines_single: "newline \<notin> set l \<Longrightarrow> split_lines l = [l]"
  by (induction l) auto

lemma dropWhile_before_newline:
  "newline \<notin> set l \<Longrightarrow> \<not> P newline \<Longrightarrow> dropWhile P (l @ newline # cs) = dropWhile P l @ newline # cs"
  by (induction l) auto

lemma takeWhile_before_newline:
  "\<not> P newline \<Longrightarrow> takeWhile P (l @ newline # cs) = takeWhile P l"
  by (induction l) auto

text \<open>When it does not, the argument runs on into the following lines.\<close>

lemma toks_unclosed:
  "newline \<notin> set l \<Longrightarrow> toks l = None \<Longrightarrow> toks (l @ newline # cs) = Some ws \<Longrightarrow>
     \<exists>w\<in>set ws. newline \<in> set w"
proof (induction l arbitrary: ws rule: toks.induct)
  case (1 l)
  have db: "dropWhile blank (l @ newline # cs) = dropWhile blank l @ newline # cs"
    using "1.prems"(1) by (rule dropWhile_before_newline) (simp add: blank_def)
  obtain c r where Cons: "dropWhile blank l = c # r"
    using "1.prems"(2) toks.simps[of l] by (cases "dropWhile blank l") (simp_all del: dropWhile_eq_Nil_conv)
  then have "set (c # r) \<subseteq> set l" by (metis set_dropWhileD subsetI)
  then have c: "c \<noteq> newline" "newline \<notin> set r" using "1.prems"(1) by auto
  note eq = toks.simps[of "l @ newline # cs"] toks.simps[of l]
  show ?case
  proof (cases "c = quote")
    case True
    show ?thesis
    proof (cases "quote \<in> set r")
      case False
      then have "takeWhile (\<lambda>c. c \<noteq> quote) (r @ newline # cs) = r @ newline # takeWhile (\<lambda>c. c \<noteq> quote) cs"
        by (subst takeWhile_append2) auto
      with "1.prems"(3) Cons True c db eq(1) show ?thesis
        by (auto split: list.splits)
    next
      case q: True
      obtain x r' where r': "dropWhile (\<lambda>c. c \<noteq> quote) r = x # r'"
        using q by (cases "dropWhile (\<lambda>c. c \<noteq> quote) r") auto
      have "set r' \<subseteq> set r"
        using r' set_dropWhileD[of _ "\<lambda>c. c \<noteq> quote" r] by auto
      then have nl: "newline \<notin> set r'" using c(2) by auto
      have n: "toks r' = None" using "1.prems"(2) Cons True c(1) r' eq(2) by simp
      from "1.prems"(3) Cons True c(1) r' q db eq(1)
      obtain vs where "toks (r' @ newline # cs) = Some vs" "ws = takeWhile (\<lambda>c. c \<noteq> quote) r # vs"
        by (auto simp: dropWhile_append1 takeWhile_append1)
      with "1.IH"(1)[OF Cons c(1) True r' nl n] show ?thesis by auto
    qed
  next
    case False
    define d where "d = dropWhile (\<lambda>c. \<not> isspace c) (c # r)"
    have nl: "newline \<notin> set d" using c unfolding d_def by (metis set_ConsD set_dropWhileD)
    have n: "toks d = None" using "1.prems"(2) Cons False c(1) eq(2) by (simp add: d_def)
    have "dropWhile (\<lambda>c. \<not> isspace c) (c # r @ newline # cs) = d @ newline # cs"
      using dropWhile_before_newline[of "c # r" "\<lambda>c. \<not> isspace c" cs] c by (auto simp: d_def)
    with "1.prems"(3) Cons False c(1) db eq(1)
    obtain vs where "toks (d @ newline # cs) = Some vs" "set vs \<subseteq> set ws"
      by (auto simp: subset_insertI)
    with "1.IH"(2)[OF Cons c(1) False nl[unfolded d_def] n[unfolded d_def]] show ?thesis
      unfolding d_def by blast
  qed
qed

text \<open>When every quote of a line closes on it, what follows the line does not matter.\<close>

lemma toks_line_local:
  "newline \<notin> set l \<Longrightarrow> toks l = Some ws \<Longrightarrow> toks (l @ newline # cs) = Some ws"
proof (induction l arbitrary: ws rule: toks.induct)
  case (1 l)
  have db: "dropWhile blank (l @ newline # cs) = dropWhile blank l @ newline # cs"
    using "1.prems"(1) by (rule dropWhile_before_newline) (simp add: blank_def)
  show ?case
  proof (cases "dropWhile blank l")
    case Nil
    with "1.prems" db show ?thesis by (subst toks.simps) (subst (asm) toks.simps, simp)
  next
    case (Cons c r)
    then have sub: "set (c # r) \<subseteq> set l" by (metis set_dropWhileD subsetI)
    then have c: "c \<noteq> newline" "newline \<notin> set r" using "1.prems"(1) by auto
    show ?thesis
    proof (cases "c = quote")
      case True
      show ?thesis
      proof (cases "dropWhile (\<lambda>c. c \<noteq> quote) r")
        case Nil
        with Cons True "1.prems"(2) show ?thesis by (subst (asm) toks.simps) simp
      next
        case (Cons x r')
        have q: "quote \<in> set r"
        proof (rule ccontr)
          assume "quote \<notin> set r"
          then have "dropWhile (\<lambda>c. c \<noteq> quote) r = []" by auto
          with Cons show False by simp
        qed
        have "set r' \<subseteq> set r"
          using Cons set_dropWhileD[of _ "\<lambda>c. c \<noteq> quote" r] by auto
        then have r': "newline \<notin> set r'" using c(2) by auto
        obtain vs where vs: "toks r' = Some vs" "ws = takeWhile (\<lambda>c. c \<noteq> quote) r # vs"
          using \<open>dropWhile blank l = c # r\<close> True Cons "1.prems"(2) by (subst (asm) toks.simps) auto
        from "1.IH"(1)[OF \<open>dropWhile blank l = c # r\<close> c(1) True Cons r' vs(1)]
        show ?thesis
          using \<open>dropWhile blank l = c # r\<close> True Cons vs(2) q db
          by (subst toks.simps) (simp add: dropWhile_append1 takeWhile_append1)
      qed
    next
      case False
      have r': "newline \<notin> set (dropWhile (\<lambda>c. \<not> isspace c) (c # r))"
        using c by (metis set_ConsD set_dropWhileD)
      have dw: "dropWhile (\<lambda>c. \<not> isspace c) (c # r @ newline # cs) =
          dropWhile (\<lambda>c. \<not> isspace c) (c # r) @ newline # cs"
        using dropWhile_before_newline[of "c # r" "\<lambda>c. \<not> isspace c" cs] c by auto
      have tw: "takeWhile (\<lambda>c. \<not> isspace c) (c # r @ newline # cs) =
          takeWhile (\<lambda>c. \<not> isspace c) (c # r)"
        using takeWhile_before_newline[of "\<lambda>c. \<not> isspace c" "c # r" cs] by simp
      have "toks l = map_option (Cons (takeWhile (\<lambda>c. \<not> isspace c) (c # r)))
          (toks (dropWhile (\<lambda>c. \<not> isspace c) (c # r)))"
        using toks.simps[of l] Cons False c(1) by simp
      with "1.prems"(2) obtain vs where vs: "toks (dropWhile (\<lambda>c. \<not> isspace c) (c # r)) = Some vs"
          "ws = takeWhile (\<lambda>c. \<not> isspace c) (c # r) # vs" by auto
      from "1.IH"(2)[OF Cons c(1) False r' vs(1)]
      show ?thesis
        using toks.simps[of "l @ newline # cs"] Cons False c(1) vs(2) db dw tw by simp
    qed
  qed
qed

lemma toks_blank_line: "\<forall>c\<in>set l. isspace c \<Longrightarrow> newline \<notin> set l \<Longrightarrow> toks l = Some []"
proof -
  assume "\<forall>c\<in>set l. isspace c" "newline \<notin> set l"
  then have "dropWhile blank l = []" by (auto simp: blank_def)
  then show ?thesis by (subst toks.simps) (simp del: dropWhile_eq_Nil_conv)
qed

lemma toks_nonblank_line:
  assumes "\<exists>c\<in>set l. \<not> isspace c" "newline \<notin> set l" "toks l = Some ws"
  shows "ws \<noteq> []"
proof -
  obtain c r where cr: "dropWhile blank l = c # r"
    using assms(1) by (cases "dropWhile blank l") (auto simp: dropWhile_eq_Nil_conv blank_def)
  then have "c \<in> set l" by (metis list.set_intros(1) set_dropWhileD)
  then have "c \<noteq> newline" using assms(2) by auto
  with cr assms(3) toks.simps[of l] show ?thesis
    by (auto split: if_splits list.splits)
qed

lemma first_line_append: "newline \<notin> set l \<Longrightarrow> first_line (l @ newline # cs) = l"
  by (induction l) (auto simp: first_line_def)

lemma after_line_append: "newline \<notin> set l \<Longrightarrow> after_line (l @ newline # cs) = cs"
  by (induction l) (auto simp: after_line_def)

lemma line_split:
  obtains (one) "newline \<notin> set cs" | (more) l cs' where "newline \<notin> set l" "cs = l @ newline # cs'"
  by (metis split_list_first)

lemma last_line_simps:
  "newline \<notin> set l \<Longrightarrow> first_line l = l" "newline \<notin> set l \<Longrightarrow> after_line l = []"
proof -
  assume nl: "newline \<notin> set l"
  then show "first_line l = l" by (auto simp: first_line_def takeWhile_eq_all_conv)
  from nl have "dropWhile (\<lambda>c. c \<noteq> newline) l = []" by auto
  then show "after_line l = []" by (simp add: after_line_def del: dropWhile_eq_Nil_conv)
qed

lemma directives_of_Nil [simp]: "directives_of [] = Some []"
  by (simp add: directives_of.simps)

lemma directives_of_split:
  assumes "\<forall>l\<in>set (split_lines cs). toks l \<noteq> None"
  shows "directives_of cs = Some (filter (\<lambda>ws. ws \<noteq> []) (map (the \<circ> toks) (split_lines cs)))"
  using assms
proof (induction "length cs" arbitrary: cs rule: less_induct)
  case less
  show ?case
  proof (cases cs rule: line_split)
    case one
    show ?thesis
    proof (cases "\<forall>c\<in>set cs. isspace c")
      case True
      with one show ?thesis
        by (subst directives_of.simps) (simp add: last_line_simps split_lines_single toks_blank_line)
    next
      case False
      then obtain ws where "toks cs = Some ws" using less.prems one by (auto simp: split_lines_single)
      with False one toks_nonblank_line[of cs ws] show ?thesis
        by (subst directives_of.simps) (auto simp: last_line_simps split_lines_single)
    qed
  next
    case (more l cs')
    have IH: "directives_of cs' = Some (filter (\<lambda>ws. ws \<noteq> []) (map (the \<circ> toks) (split_lines cs')))"
      using less.prems more by (intro less.hyps) (auto simp: split_lines_append)
    obtain ws where ws: "toks l = Some ws" using less.prems more by (auto simp: split_lines_append)
    show ?thesis
    proof (cases "\<forall>c\<in>set l. isspace c")
      case True
      then have "directives_of cs = directives_of cs'"
        using more by (subst directives_of.simps) (simp add: first_line_append after_line_append)
      with IH True more show ?thesis by (simp add: split_lines_append toks_blank_line)
    next
      case False
      then have "directives_of cs = map_option (Cons ws) (directives_of cs')"
        using more toks_line_local[OF more(1) ws, of cs']
        by (subst directives_of.simps) (auto simp: first_line_append after_line_append)
      with IH False more ws toks_nonblank_line[of l ws] show ?thesis
        by (auto simp: split_lines_append)
    qed
  qed
qed

text \<open>A configuration whose quotes all close on their own lines is read line by line: blank
  lines are skipped and every other line gives one directive, its words.\<close>

theorem directives_of_lines:
  assumes "\<forall>l\<in>set (split_lines cs). toks l \<noteq> None"
  shows "directives_of cs = Some (filter (\<lambda>ws. ws \<noteq> []) (map (the \<circ> toks) (split_lines cs)))"
  using assms by (rule directives_of_split)

subsection \<open>Printing and parsing\<close>

text \<open>A printer for configurations: every argument in quotes, separated by spaces.\<close>

fun render_line :: "string list \<Rightarrow> string" where
  "render_line [] = []"
| "render_line (w # ws) = CHR 0x20 # quote # w @ quote # render_line ws"

definition render :: "string list list \<Rightarrow> string" where
  "render dss = concat (map (\<lambda>ws. render_line ws @ [newline]) dss)"

definition plain_word :: "string \<Rightarrow> bool" where
  "plain_word w \<longleftrightarrow> nul \<notin> set w \<and> quote \<notin> set w \<and> newline \<notin> set w"

lemma toks_render_line: "\<forall>w\<in>set ws. plain_word w \<Longrightarrow> toks (render_line ws) = Some ws"
proof (induction ws)
  case Nil
  show ?case by (simp add: toks.simps)
next
  case (Cons w ws)
  then have w: "takeWhile (\<lambda>c. c \<noteq> quote) (w @ quote # render_line ws) = w"
    "dropWhile (\<lambda>c. c \<noteq> quote) (w @ quote # render_line ws) = quote # render_line ws"
    by (auto simp: plain_word_def takeWhile_append dropWhile_append)
  with Cons show ?case by (subst toks.simps) (simp add: blank_def)
qed

lemma render_line_no_newline: "\<forall>w\<in>set ws. plain_word w \<Longrightarrow> newline \<notin> set (render_line ws)"
  by (induction ws) (auto simp: plain_word_def)

lemma split_lines_render:
  "\<forall>ws\<in>set dss. \<forall>w\<in>set ws. plain_word w \<Longrightarrow> split_lines (render dss) = map render_line dss @ [[]]"
  by (induction dss) (auto simp: render_def split_lines_append render_line_no_newline)

lemma nul_free_render:
  "\<forall>ws\<in>set dss. \<forall>w\<in>set ws. plain_word w \<Longrightarrow> nul \<notin> set (render dss)"
proof (induction dss)
  case (Cons ws dss)
  have "nul \<notin> set (render_line ws)" if "\<forall>w\<in>set ws. plain_word w"
    using that by (induction ws) (auto simp: plain_word_def)
  with Cons show ?case by (auto simp: render_def)
qed (simp add: render_def)

lemma parse_render_texts:
  assumes "\<forall>ws\<in>set dss. ws \<noteq> [] \<and> (\<forall>w\<in>set ws. plain_word w)"
  shows "config_texts (render dss) (fst (parse_config (\<lambda>_. True) (render dss) h)) = Some dss"
proof -
  have pw: "\<forall>ws\<in>set dss. \<forall>w\<in>set ws. plain_word w" using assms by blast
  have e: "toks [] = Some []" by (simp add: toks.simps)
  have "map (the \<circ> toks) (split_lines (render dss)) = dss @ [[]]"
    using pw by (auto simp: split_lines_render toks_render_line e intro: map_idI)
  moreover have "\<forall>l\<in>set (split_lines (render dss)). toks l \<noteq> None"
    using pw by (auto simp: split_lines_render toks_render_line e)
  ultimately have "directives_of (render dss) = Some (filter (\<lambda>ws. ws \<noteq> []) (dss @ [[]]))"
    by (simp only: directives_of_split)
  moreover have "filter (\<lambda>ws. ws \<noteq> []) dss = dss" using assms by (simp add: filter_id_conv)
  ultimately show ?thesis using nul_free_render[OF pw] by (simp add: parse_config_texts)
qed

text \<open>C4: round trip of the parser. Printing a configuration of non-empty directives, whose
  arguments contain no quote, newline or NUL, and parsing the text gives the directives back.\<close>

theorem parse_render:
  assumes "\<forall>ws\<in>set dss. ws \<noteq> [] \<and> (\<forall>w\<in>set ws. plain_word w)"
  shows "config_texts (render dss) (fst (parse_config (\<lambda>_. True) (render dss) h)) = Some dss"
  using assms by (rule parse_render_texts)

theorem parse_render_witness:
  "config_texts (render [[''env'', ''A B'']]) (fst (parse_config (\<lambda>_. True) (render [[''env'', ''A B'']])
     \<lparr>live = {}, fresh = 0, faults = 0\<rparr>)) = Some [[''env'', ''A B'']]"
  by (rule parse_render) (simp add: plain_word_def nul_def quote_def newline_def)

theorem parse_config_slices_witness:
  "fst (parse_config (\<lambda>_. True) '' ab'' \<lparr>live = {}, fresh = 0, faults = 0\<rparr>) =
     Inr (Some 0, [\<lparr>args_ptr = Some 1, args = [\<lparr>str = 1, len = 2\<rparr>]\<rparr>]) \<and>
   nul \<notin> set (take 2 (drop 1 '' ab''))"
proof -
  have run: "fst (parse_config (\<lambda>_. True) '' ab'' \<lparr>live = {}, fresh = 0, faults = 0\<rparr>) =
      Inr (Some 0, [\<lparr>args_ptr = Some 1, args = [\<lparr>str = 1, len = 2\<rparr>]\<rparr>])"
    by code_simp
  from run parse_config_slices[OF run] show ?thesis by simp
qed

theorem parse_config_memory_witness:
  "live (snd (parse_config (\<lambda>n. n < 9) ''ab'' \<lparr>live = {7}, fresh = 8, faults = 0\<rparr>)) = {7}"
proof -
  have wf: "heap_wf \<lparr>live = {7}, fresh = 8, faults = 0\<rparr>" by (simp add: heap_wf_def)
  have run: "parse_config (\<lambda>n. n < 9) ''ab'' \<lparr>live = {7}, fresh = 8, faults = 0\<rparr> =
      (Inl PARSE_ERR, snd (parse_config (\<lambda>n. n < 9) ''ab'' \<lparr>live = {7}, fresh = 8, faults = 0\<rparr>))"
    by code_simp
  from parse_config_memory[OF wf, of "\<lambda>n. n < 9" "''ab''"] show ?thesis
    by (subst (asm) run) simp
qed

theorem directives_of_lines_witness:
  "directives_of (''a b'' @ [newline]) = Some [[''a'', ''b'']]"
proof -
  have "\<forall>l\<in>set (split_lines (''a b'' @ [newline])). toks l \<noteq> None" by code_simp
  from directives_of_lines[OF this] show ?thesis by code_simp
qed

text \<open>C5: a quote that is left open swallows the lines below it. If the first line of a
  configuration has an unclosed quote and the file is accepted all the same, then the first
  directive has an argument with a newline in it, and the following lines, which that argument
  already contains, are read a second time as directives of their own.\<close>

theorem open_quote_spills:
  assumes "nul \<notin> set (l @ newline # cs)" "newline \<notin> set l" "toks l = None"
    and "config_texts (l @ newline # cs) (fst (parse_config (\<lambda>_. True) (l @ newline # cs) h)) = Some dss"
  shows "\<exists>ws rest. dss = ws # rest \<and> (\<exists>w\<in>set ws. newline \<in> set w) \<and> directives_of cs = Some rest"
proof -
  have "\<not> (\<forall>c\<in>set l. isspace c)" using toks_blank_line[of l] assms(2,3) by auto
  then have "directives_of (l @ newline # cs) = (case toks (l @ newline # cs) of
      None \<Rightarrow> None | Some ws \<Rightarrow> map_option (Cons ws) (directives_of cs))"
    using directives_of.simps[of "l @ newline # cs"]
    by (auto simp: first_line_append[OF assms(2)] after_line_append[OF assms(2)] split: option.split)
  with assms(4) obtain ws rest where
    "toks (l @ newline # cs) = Some ws" "directives_of cs = Some rest" "dss = ws # rest"
    by (auto simp: parse_config_texts[OF assms(1)] split: option.splits)
  with toks_unclosed[OF assms(2,3)] show ?thesis by blast
qed

theorem open_quote_spills_witness:
  "\<exists>ws rest. [[''a'', ''b'' @ newline # ''c''], [''c'' @ [quote]]] = ws # rest \<and>
     (\<exists>w\<in>set ws. newline \<in> set w) \<and> directives_of (''c'' @ [quote]) = Some rest"
proof (rule open_quote_spills)
  show "nul \<notin> set ((''a '' @ quote # ''b'') @ newline # (''c'' @ [quote]))" by code_simp
  show "newline \<notin> set (''a '' @ quote # ''b'')" by code_simp
  show "toks (''a '' @ quote # ''b'') = None" by code_simp
  show "config_texts ((''a '' @ quote # ''b'') @ newline # (''c'' @ [quote]))
      (fst (parse_config (\<lambda>_. True) ((''a '' @ quote # ''b'') @ newline # (''c'' @ [quote]))
        \<lparr>live = {}, fresh = 0, faults = 0\<rparr>)) =
      Some [[''a'', ''b'' @ newline # ''c''], [''c'' @ [quote]]]" by code_simp
qed

end
