(* ===== verification/Init_Interp.thy ===== *)
theory Init_Interp
  imports Init_Table Init_Grammar
begin

text \<open>
  The interpreter of the init program (\<open>init/src/interpreter.c\<close>): the evaluation of
  arguments, the callbacks \<open>env\<close>, \<open>tty\<close> and \<open>enable\<close>, the dispatch on the directive's name
  and the loop of \<open>interpret_config\<close>. The file's static variables, the process environment and
  what the kernel keeps of the forked children are the record \<open>interp\<close>. A child is the snapshot
  of what it inherits at its \<open>fork\<close>; its own code is \<open>child_program\<close>. The results of the
  \<open>fork\<close> calls are a parameter, in the order of the calls. Logging is left out, and the
  allocations of this file, whose results the source does not check, succeed.
\<close>

subsection \<open>Constants and state\<close>

definition OPT_CLEAR :: i32 where "OPT_CLEAR = 1"
definition TTY_TEXT :: i32 where "TTY_TEXT = 1"
definition TTY_GFX :: i32 where "TTY_GFX = 2"

definition MAX_CHILDREN :: nat where "MAX_CHILDREN = 20"

datatype callback = cb_env | cb_tty | cb_enable

definition g_values :: "callback table_entry list" where
  "g_values =
     [\<lparr>ename = ''TTY_TEXT_MODE'', etype = TYPE_INT, evalue = Local (ucast TTY_TEXT)\<rparr>,
      \<lparr>ename = ''TTY_GFX_MODE'', etype = TYPE_INT, evalue = Local (ucast TTY_GFX)\<rparr>,
      \<lparr>ename = ''OPT_CLEAR'', etype = TYPE_INT, evalue = Local (ucast OPT_CLEAR)\<rparr>]"

definition g_directives :: "callback table_entry list" where
  "g_directives =
     [\<lparr>ename = ''env'', etype = TYPE_FUNCTION, evalue = Ptr_function cb_env\<rparr>,
      \<lparr>ename = ''tty'', etype = TYPE_FUNCTION, evalue = Ptr_function cb_tty\<rparr>,
      \<lparr>ename = ''enable'', etype = TYPE_FUNCTION, evalue = Ptr_function cb_enable\<rparr>]"

record child =
  cpid :: int
  ctty :: string
  cmode :: i32
  cargv :: "string list"
  cenv :: "string \<Rightarrow> string option"
  copts :: i32

record interp =
  active_options :: i32
  environ :: "string \<Rightarrow> string option"
  children :: "int list"
  spawned :: "child list"
  forks :: nat
  signalled :: "int list"

definition interp_init :: "(string \<Rightarrow> string option) \<Rightarrow> interp" where
  "interp_init e = \<lparr>active_options = 0, environ = e, children = [], spawned = [], forks = 0, signalled = []\<rparr>"

subsection \<open>Evaluation of arguments\<close>

text \<open>\<open>EVAL_CONFUSION\<close> is not a value of the source: it marks the read of a union member that
  was not the one stored, which C leaves undefined.\<close>

datatype eval_error = EVAL_NOTABLE | EVAL_NOT_RECOGNIZED | EVAL_WRONG_TYPE | EVAL_CONFUSION

datatype eval_value = VInt i32 | VStr string

definition dec_len :: "nat \<Rightarrow> nat" where
  "dec_len n = (if n = 0 then 2 ^ 64 - 1 else n - 1)"

text \<open>\<open>value\<close> is the text from the argument's first character to the end of the buffer.\<close>

function (sequential)
      eval :: "'f table_entry list option \<Rightarrow> string \<Rightarrow> nat \<Rightarrow> etype \<Rightarrow> eval_error + eval_value"
  and eval_entry :: "'f table_entry \<Rightarrow> eval_error + eval_value" where
  "eval table txt value_len exp_type =
     (if chd txt = dollar then
        (case table of
           None \<Rightarrow> Inl EVAL_NOTABLE
         | Some t \<Rightarrow>
             (case table_lookup t (tl txt, dec_len value_len) exp_type of
                Some e \<Rightarrow> eval_entry e
              | None \<Rightarrow> Inl EVAL_NOT_RECOGNIZED))
      else if exp_type = TYPE_STRING then Inr (VStr (take value_len txt))
      else Inl EVAL_NOT_RECOGNIZED)"
| "eval_entry e =
     (case etype e of
        TYPE_STRING \<Rightarrow>
          (case evalue e of
             Ptr_string p \<Rightarrow> eval (None :: 'f table_entry list option) p (length p) (etype e)
           | _ \<Rightarrow> Inl EVAL_CONFUSION)
      | TYPE_INT \<Rightarrow>
          (case evalue e of Local n \<Rightarrow> Inr (VInt (ucast n)) | _ \<Rightarrow> Inl EVAL_CONFUSION)
      | _ \<Rightarrow> Inl EVAL_WRONG_TYPE)"
  by pat_completeness auto
termination
  by (relation "measure (\<lambda>x. case x of Inl (t, v, n, ty) \<Rightarrow> (if t = None then 0 else 2) | Inr e \<Rightarrow> 1)")
    auto

declare eval.simps [simp del] eval_entry.simps [simp del]

subsection \<open>Callbacks\<close>

text \<open>\<open>CHILDREN_OVERFLOW\<close> marks the store past the end of \<open>g_children\<close>, which C leaves
  undefined.\<close>

datatype interp_error = INTERPRET_ERR | CHILDREN_OVERFLOW

type_synonym cb_result = "interp_error option \<times> interp"

definition eval_arg :: "string \<Rightarrow> directive \<Rightarrow> nat \<Rightarrow> etype \<Rightarrow> eval_error + eval_value" where
  "eval_arg s d i ty = eval (Some g_values) (drop (str (args d ! i)) s) (len (args d ! i)) ty"

text \<open>\<open>setenv\<close> with \<open>overwrite\<close> set: a name that is empty or contains \<open>=\<close> is refused, and
  the source does not look at the result.\<close>

definition setenv :: "string \<Rightarrow> string \<Rightarrow> (string \<Rightarrow> string option) \<Rightarrow> (string \<Rightarrow> string option)" where
  "setenv n v e = (if n = [] \<or> CHR 0x3D \<in> set n then e else e(n := Some v))"

definition run_env :: "string \<Rightarrow> directive \<Rightarrow> interp \<Rightarrow> cb_result" where
  "run_env s d st =
     (if length (args d) \<noteq> 3 then (Some INTERPRET_ERR, st)
      else (case eval_arg s d 1 TYPE_STRING of
          Inr (VStr env_name) \<Rightarrow>
            (case eval_arg s d 2 TYPE_STRING of
               Inr (VStr env_value) \<Rightarrow>
                 (None, st\<lparr>environ := setenv env_name env_value (environ st)\<rparr>)
             | _ \<Rightarrow> (Some INTERPRET_ERR, st))
        | _ \<Rightarrow> (Some INTERPRET_ERR, st)))"

definition run_enable :: "string \<Rightarrow> directive \<Rightarrow> interp \<Rightarrow> cb_result" where
  "run_enable s d st =
     (if length (args d) \<noteq> 2 then (Some INTERPRET_ERR, st)
      else (case eval_arg s d 1 TYPE_INT of
          Inr (VInt option) \<Rightarrow> (None, st\<lparr>active_options := active_options st OR option\<rparr>)
        | _ \<Rightarrow> (Some INTERPRET_ERR, st)))"

text \<open>The loop of \<open>cb_tty\<close> over the command line, from argument \<open>3 + i\<close> on, \<open>n\<close> to go.\<close>

fun eval_argv :: "string \<Rightarrow> directive \<Rightarrow> nat \<Rightarrow> nat \<Rightarrow> string list option" where
  "eval_argv s d i 0 = Some []"
| "eval_argv s d i (Suc n) =
     (case eval_arg s d (3 + i) TYPE_STRING of
        Inr (VStr a) \<Rightarrow> map_option (Cons a) (eval_argv s d (Suc i) n)
      | _ \<Rightarrow> None)"

text \<open>The parent's side of the fork: on a positive \<open>pid\<close> the child exists, with a copy of the
  environment and the options, and its \<open>pid\<close> is stored in \<open>g_children\<close>.\<close>

definition fork_child :: "(nat \<Rightarrow> int) \<Rightarrow> string \<Rightarrow> i32 \<Rightarrow> string list \<Rightarrow> interp \<Rightarrow> cb_result" where
  "fork_child fork path mode argv st =
     (let pid = fork (forks st); st1 = st\<lparr>forks := Suc (forks st)\<rparr>
      in if pid < 0 then (Some INTERPRET_ERR, st1)
         else
           (let st2 = st1\<lparr>spawned := spawned st1 @
                  [\<lparr>cpid = pid, ctty = path, cmode = mode, cargv = argv,
                    cenv = environ st1, copts = active_options st1\<rparr>]\<rparr>
            in if length (children st2) < MAX_CHILDREN
               then (None, st2\<lparr>children := children st2 @ [pid]\<rparr>)
               else (Some CHILDREN_OVERFLOW, st2)))"

definition run_tty :: "(nat \<Rightarrow> int) \<Rightarrow> string \<Rightarrow> directive \<Rightarrow> interp \<Rightarrow> cb_result" where
  "run_tty fork s d st =
     (if length (args d) < 4 then (Some INTERPRET_ERR, st)
      else (case eval_arg s d 1 TYPE_STRING of
          Inr (VStr tty_path) \<Rightarrow>
            (case eval_arg s d 2 TYPE_INT of
               Inr (VInt tty_mode) \<Rightarrow>
                 (case eval_argv s d 0 (length (args d) - 3) of
                    Some argv \<Rightarrow> fork_child fork tty_path tty_mode argv st
                  | None \<Rightarrow> (Some INTERPRET_ERR, st))
             | _ \<Rightarrow> (Some INTERPRET_ERR, st))
        | _ \<Rightarrow> (Some INTERPRET_ERR, st)))"

fun run_callback :: "callback \<Rightarrow> (nat \<Rightarrow> int) \<Rightarrow> string \<Rightarrow> directive \<Rightarrow> interp \<Rightarrow> cb_result" where
  "run_callback cb_env fork s d st = run_env s d st"
| "run_callback cb_tty fork s d st = run_tty fork s d st"
| "run_callback cb_enable fork s d st = run_enable s d st"

subsection \<open>Dispatch and the main loop\<close>

definition interpret_directive :: "(nat \<Rightarrow> int) \<Rightarrow> string \<Rightarrow> directive \<Rightarrow> interp \<Rightarrow> cb_result" where
  "interpret_directive fork s d st =
     (if args d = [] then (Some INTERPRET_ERR, st)
      else
        (case table_lookup g_directives (drop (str (args d ! 0)) s, len (args d ! 0)) TYPE_FUNCTION of
           None \<Rightarrow> (Some INTERPRET_ERR, st)
         | Some e \<Rightarrow>
             (case evalue e of
                Ptr_function cb \<Rightarrow> run_callback cb fork s d st
              | _ \<Rightarrow> (Some INTERPRET_ERR, st))))"

fun interpret_loop :: "(nat \<Rightarrow> int) \<Rightarrow> string \<Rightarrow> directive list \<Rightarrow> interp \<Rightarrow> cb_result" where
  "interpret_loop fork s [] st = (None, st)"
| "interpret_loop fork s (d # ds) st =
     (case interpret_directive fork s d st of
        (Some e, st') \<Rightarrow> (Some e, st')
      | (None, st') \<Rightarrow> interpret_loop fork s ds st')"

text \<open>How \<open>interpret_config\<close> ends: a status, \<open>exit(-1)\<close> when the handler for \<open>SIGUSR1\<close> cannot be installed (the
  parameter \<open>sigaction_ok\<close>), or the store past the end of \<open>g_children\<close>, after which C promises nothing; the state is
  then the one before that store.\<close>

datatype config_end = Returned "interp_error option" | Exited int | Undefined

definition interpret_config ::
    "bool \<Rightarrow> (nat \<Rightarrow> int) \<Rightarrow> string \<Rightarrow> directive list \<Rightarrow> interp \<Rightarrow> config_end \<times> interp" where
  "interpret_config sigaction_ok fork s ds st =
     (if \<not> sigaction_ok then (Exited (- 1), st)
      else (case interpret_loop fork s ds st of
          (Some INTERPRET_ERR, st') \<Rightarrow> (Returned (Some INTERPRET_ERR), st')
        | (Some CHILDREN_OVERFLOW, st') \<Rightarrow> (Undefined, st')
        | (None, st') \<Rightarrow> (Returned None, st'\<lparr>signalled := signalled st' @ children st'\<rparr>)))"

end
