(* ===== verification/Init_Semantics.thy ===== *)
theory Init_Semantics
  imports Init_Interp "HOL-Library.Sublist"
begin

text \<open>
  What a configuration means, on the words of its directives: \<open>sem_directive\<close> is the effect of
  one directive and \<open>sem_config\<close> of a list of them. \<open>interpret_loop_sem\<close> shows that the
  interpreter of \<open>Init_Interp\<close>, which works on slices of the file and on symbol tables,
  computes it on everything the parser returns.
\<close>

subsection \<open>The meaning of a directive\<close>

text \<open>A name stands for the first directive it is a prefix of.\<close>

definition dispatch :: "string \<Rightarrow> callback option" where
  "dispatch w =
     (if prefix w ''env'' then Some cb_env
      else if prefix w ''tty'' then Some cb_tty
      else if prefix w ''enable'' then Some cb_enable
      else None)"

definition named_const :: "string \<Rightarrow> i32 option" where
  "named_const w =
     (if prefix w ''TTY_TEXT_MODE'' then Some TTY_TEXT
      else if prefix w ''TTY_GFX_MODE'' then Some TTY_GFX
      else if prefix w ''OPT_CLEAR'' then Some OPT_CLEAR
      else None)"

definition str_word :: "string \<Rightarrow> string option" where
  "str_word w = (if chd w = dollar then None else Some w)"

definition int_word :: "string \<Rightarrow> i32 option" where
  "int_word w = (if chd w = dollar then named_const (tl w) else None)"

fun str_words :: "string list \<Rightarrow> string list option" where
  "str_words [] = Some []"
| "str_words (w # ws) =
     (case str_word w of None \<Rightarrow> None | Some a \<Rightarrow> map_option (Cons a) (str_words ws))"

fun sem_env :: "string list \<Rightarrow> interp \<Rightarrow> cb_result" where
  "sem_env [n, v] st =
     (case (str_word n, str_word v) of
        (Some n', Some v') \<Rightarrow> (None, st\<lparr>environ := setenv n' v' (environ st)\<rparr>)
      | _ \<Rightarrow> (Some INTERPRET_ERR, st))"
| "sem_env _ st = (Some INTERPRET_ERR, st)"

fun sem_tty :: "(nat \<Rightarrow> int) \<Rightarrow> string list \<Rightarrow> interp \<Rightarrow> cb_result" where
  "sem_tty fork (path # mode # a # argv) st =
     (case (str_word path, int_word mode, str_words (a # argv)) of
        (Some p, Some m, Some as) \<Rightarrow> fork_child fork p m as st
      | _ \<Rightarrow> (Some INTERPRET_ERR, st))"
| "sem_tty fork _ st = (Some INTERPRET_ERR, st)"

fun sem_enable :: "string list \<Rightarrow> interp \<Rightarrow> cb_result" where
  "sem_enable [o1] st =
     (case int_word o1 of
        Some n \<Rightarrow> (None, st\<lparr>active_options := active_options st OR n\<rparr>)
      | None \<Rightarrow> (Some INTERPRET_ERR, st))"
| "sem_enable _ st = (Some INTERPRET_ERR, st)"

fun sem_directive :: "(nat \<Rightarrow> int) \<Rightarrow> string list \<Rightarrow> interp \<Rightarrow> cb_result" where
  "sem_directive fork [] st = (Some INTERPRET_ERR, st)"
| "sem_directive fork (name # ws) st =
     (case dispatch name of
        None \<Rightarrow> (Some INTERPRET_ERR, st)
      | Some cb_env \<Rightarrow> sem_env ws st
      | Some cb_tty \<Rightarrow> sem_tty fork ws st
      | Some cb_enable \<Rightarrow> sem_enable ws st)"

fun sem_config :: "(nat \<Rightarrow> int) \<Rightarrow> string list list \<Rightarrow> interp \<Rightarrow> cb_result" where
  "sem_config fork [] st = (None, st)"
| "sem_config fork (ws # dss) st =
     (case sem_directive fork ws st of
        (Some e, st') \<Rightarrow> (Some e, st')
      | (None, st') \<Rightarrow> sem_config fork dss st')"

subsection \<open>Lookups on slices\<close>

lemma slice_key:
  assumes "slice_ok s a"
  shows "len a \<le> length (drop (str a) s)" "nul \<notin> set (take (len a) (drop (str a) s))"
  using assms by (auto simp: slice_ok_def arg_text_def)

lemma slice_head:
  assumes "slice_ok s a"
  shows "chd (drop (str a) s) = dollar \<longleftrightarrow> chd (arg_text s a) = dollar"
proof (cases "len a")
  case 0
  then have q: "peek s (str a) = quote" using assms by (simp add: slice_ok_def)
  then have "str a < length s" using peek_non_nul[of s "str a"] by simp
  with q have "chd (drop (str a) s) = quote"
    by (simp add: chd_def peek_less flip: Cons_nth_drop_Suc)
  with 0 show ?thesis by (simp add: arg_text_def quote_def dollar_def nul_def)
next
  case (Suc n)
  then show ?thesis by (cases "drop (str a) s") (simp_all add: arg_text_def)
qed

lemma hit_prefix:
  "n \<le> length buf \<Longrightarrow> nul \<notin> set (take n buf) \<Longrightarrow>
     entry_hit (buf, n) ty e \<longleftrightarrow> prefix (take n buf) (ename e) \<and> (ty = etype e \<or> ty = TYPE_ANY)"
  by (simp add: entry_hit_prefix prefix_def)

lemma lookup_directive:
  assumes "n \<le> length buf" "nul \<notin> set (take n buf)"
  shows "table_lookup g_directives (buf, n) TYPE_FUNCTION =
    map_option (\<lambda>cb. case cb of cb_env \<Rightarrow> g_directives ! 0 | cb_tty \<Rightarrow> g_directives ! 1
                              | cb_enable \<Rightarrow> g_directives ! 2) (dispatch (take n buf))"
  unfolding tbl.look_find by (simp add: g_directives_def hit_prefix[OF assms] dispatch_def)

lemma g_directives_callbacks:
  "evalue (g_directives ! 0) = Ptr_function cb_env"
  "evalue (g_directives ! 1) = Ptr_function cb_tty"
  "evalue (g_directives ! 2) = Ptr_function cb_enable"
  by (simp_all add: g_directives_def)

lemma lookup_value:
  assumes "n \<le> length buf" "nul \<notin> set (take n buf)"
  shows "(case table_lookup g_values (buf, n) TYPE_INT of
            None \<Rightarrow> Inl EVAL_NOT_RECOGNIZED | Some e \<Rightarrow> eval_entry e) =
         (case named_const (take n buf) of None \<Rightarrow> Inl EVAL_NOT_RECOGNIZED | Some c \<Rightarrow> Inr (VInt c))"
  unfolding tbl.look_find
  by (simp add: g_values_def hit_prefix[OF assms] named_const_def eval_entry.simps
      TTY_TEXT_def TTY_GFX_def OPT_CLEAR_def)

lemma lookup_no_strings: "table_lookup g_values k TYPE_STRING = None"
  by (simp add: tbl.look_None entry_hit_def g_values_def)

subsection \<open>Arguments\<close>

lemma eval_arg_string:
  assumes "slice_ok s (args d ! i)"
  shows "eval_arg s d i TYPE_STRING =
    (case str_word (arg_text s (args d ! i)) of
       None \<Rightarrow> Inl EVAL_NOT_RECOGNIZED | Some w \<Rightarrow> Inr (VStr w))"
  using slice_head[OF assms]
  by (simp add: eval_arg_def eval.simps lookup_no_strings str_word_def arg_text_def)

lemma eval_arg_int:
  assumes "slice_ok s (args d ! i)"
  shows "eval_arg s d i TYPE_INT =
    (case int_word (arg_text s (args d ! i)) of
       None \<Rightarrow> Inl EVAL_NOT_RECOGNIZED | Some n \<Rightarrow> Inr (VInt n))"
proof -
  define buf where "buf = drop (str (args d ! i)) s"
  define n where "n = len (args d ! i)"
  have k: "n \<le> length buf" "nul \<notin> set (take n buf)" and w: "arg_text s (args d ! i) = take n buf"
    using slice_key[OF assms] by (simp_all add: buf_def n_def arg_text_def)
  have h: "chd buf = dollar \<longleftrightarrow> chd (take n buf) = dollar"
    using slice_head[OF assms] by (simp add: buf_def n_def arg_text_def)
  show ?thesis
  proof (cases "chd buf = dollar")
    case False
    with h show ?thesis
      by (simp add: eval_arg_def eval.simps int_word_def w flip: buf_def n_def)
  next
    case True
    then have "n \<noteq> 0" using h by (cases n) (auto simp: dollar_def nul_def)
    then have d: "dec_len n = n - 1" "tl (take n buf) = take (n - 1) (tl buf)"
      by (simp_all add: dec_len_def tl_take)
    have "n - 1 \<le> length (tl buf)" using k(1) by auto
    moreover have "nul \<notin> set (take (n - 1) (tl buf))"
      using k(2) by (metis d(2) list.set_sel(2) list.sel(2))
    ultimately show ?thesis
      using True h d lookup_value[of "n - 1" "tl buf"]
      by (simp add: eval_arg_def eval.simps int_word_def w flip: buf_def n_def)
  qed
qed

lemma eval_argv_words:
  assumes "\<forall>a\<in>set (args d). slice_ok s a"
  shows "i + n + 3 = length (args d) \<Longrightarrow>
    eval_argv s d i n = str_words (map (arg_text s) (drop (3 + i) (args d)))"
proof (induction n arbitrary: i)
  case (Suc n)
  then have i: "3 + i < length (args d)" by simp
  then have "slice_ok s (args d ! (3 + i))" using assms by simp
  moreover have "drop (3 + i) (args d) = args d ! (3 + i) # drop (3 + Suc i) (args d)"
    using Cons_nth_drop_Suc[OF i] by simp
  ultimately show ?case
    using Suc by (auto simp: eval_arg_string split: option.split)
qed simp

text \<open>Argument lists by their length.\<close>

lemma length_shapes:
  "length xs = 2 \<longleftrightarrow> (\<exists>a b. xs = [a, b])"
  "length xs = 3 \<longleftrightarrow> (\<exists>a b c. xs = [a, b, c])"
  "4 \<le> length xs \<longleftrightarrow> (\<exists>a b c d ys. xs = a # b # c # d # ys)"
  by (auto simp: length_Suc_conv numeral_eq_Suc Suc_le_length_iff)

lemma sem_env_other: "length ws \<noteq> 2 \<Longrightarrow> sem_env ws st = (Some INTERPRET_ERR, st)"
  by (induction ws st rule: sem_env.induct) auto

lemma sem_enable_other: "length ws \<noteq> 1 \<Longrightarrow> sem_enable ws st = (Some INTERPRET_ERR, st)"
  by (induction ws st rule: sem_enable.induct) auto

lemma sem_tty_other: "length ws < 3 \<Longrightarrow> sem_tty fork ws st = (Some INTERPRET_ERR, st)"
  by (induction fork ws st rule: sem_tty.induct) auto

lemma run_env_sem:
  assumes "directive_ok s d"
  shows "run_env s d st = sem_env (tl (directive_texts s d)) st"
proof (cases "length (args d) = 3")
  case True
  then obtain a b c where "args d = [a, b, c]" by (auto simp: length_shapes)
  moreover have "slice_ok s (args d ! 1)" "slice_ok s (args d ! 2)"
    using assms True by (simp_all add: directive_ok_def)
  ultimately show ?thesis
    by (auto simp: run_env_def eval_arg_string directive_texts_def split: option.splits)
next
  case False
  then have "length (tl (directive_texts s d)) \<noteq> 2" by (simp add: directive_texts_def)
  with False show ?thesis by (simp add: run_env_def sem_env_other)
qed

lemma run_enable_sem:
  assumes "directive_ok s d"
  shows "run_enable s d st = sem_enable (tl (directive_texts s d)) st"
proof (cases "length (args d) = 2")
  case True
  then obtain a b where "args d = [a, b]" by (auto simp: length_shapes)
  moreover have "slice_ok s (args d ! 1)"
    using assms True by (simp add: directive_ok_def)
  ultimately show ?thesis
    by (auto simp: run_enable_def eval_arg_int directive_texts_def split: option.splits)
next
  case False
  then have "length (tl (directive_texts s d)) \<noteq> 1" by (simp add: directive_texts_def)
  with False show ?thesis by (simp add: run_enable_def sem_enable_other)
qed

lemma run_tty_sem:
  assumes "directive_ok s d"
  shows "run_tty fork s d st = sem_tty fork (tl (directive_texts s d)) st"
proof (cases "4 \<le> length (args d)")
  case True
  then obtain a b c x ys where "args d = a # b # c # x # ys" by (auto simp: length_shapes)
  moreover have "slice_ok s (args d ! 1)" "slice_ok s (args d ! 2)"
    using assms True by (simp_all add: directive_ok_def)
  moreover have "eval_argv s d 0 (length (args d) - 3) = str_words (map (arg_text s) (drop 3 (args d)))"
    using eval_argv_words[of d s 0 "length (args d) - 3"] assms True by (simp add: directive_ok_def)
  ultimately show ?thesis
    by (auto simp: run_tty_def eval_arg_string eval_arg_int directive_texts_def split: option.splits)
next
  case False
  then have "length (tl (directive_texts s d)) < 3" by (simp add: directive_texts_def)
  with False show ?thesis by (simp add: run_tty_def sem_tty_other)
qed

lemma interpret_directive_sem:
  assumes "directive_ok s d"
  shows "interpret_directive fork s d st = sem_directive fork (directive_texts s d) st"
proof -
  obtain a as where as: "args d = a # as" using assms by (cases "args d") (auto simp: directive_ok_def)
  then have "slice_ok s a" using assms by (simp add: directive_ok_def)
  note look = lookup_directive[OF slice_key[OF this]]
  show ?thesis
    using run_env_sem[OF assms] run_enable_sem[OF assms] run_tty_sem[OF assms]
    by (simp add: interpret_directive_def as look directive_texts_def arg_text_def
        g_directives_callbacks[unfolded One_nat_def] split: option.split callback.split)
qed

lemma interpret_loop_sem:
  "\<forall>d\<in>set ds. directive_ok s d \<Longrightarrow>
     interpret_loop fork s ds st = sem_config fork (map (directive_texts s) ds) st"
  by (induction ds arbitrary: st) (auto simp: interpret_directive_sem split: prod.split option.split)

end
