(* ===== verification/Init_Correct.thy ===== *)
theory Init_Correct
  imports Init_Semantics
begin

text \<open>
  Properties of the init program as a whole: what the directives of a parsed file do, the
  bookkeeping of the children, what a child inherits, and the options.
\<close>

subsection \<open>One directive that succeeds\<close>

lemma fork_child_cases:
  assumes "fork_child fork p m as st = (r, st')"
  obtains (failed) "fork (forks st) < 0" "r = Some INTERPRET_ERR" "st' = st\<lparr>forks := Suc (forks st)\<rparr>"
  | (forked) c where "0 \<le> fork (forks st)" "cpid c = fork (forks st)"
      "cenv c = environ st" "copts c = active_options st"
      "ctty c = p" "cmode c = m" "cargv c = as"
      "length (children st) < MAX_CHILDREN" "r = None"
      "st' = st\<lparr>forks := Suc (forks st), spawned := spawned st @ [c], children := children st @ [cpid c]\<rparr>"
  | (overflow) c where "0 \<le> fork (forks st)" "cpid c = fork (forks st)"
      "cenv c = environ st" "copts c = active_options st"
      "MAX_CHILDREN \<le> length (children st)" "r = Some CHILDREN_OVERFLOW"
      "st' = st\<lparr>forks := Suc (forks st), spawned := spawned st @ [c]\<rparr>"
proof -
  define c where "c = \<lparr>cpid = fork (forks st), ctty = p, cmode = m, cargv = as,
    cenv = environ st, copts = active_options st\<rparr>"
  show ?thesis
    using assms that(1) that(2)[of c] that(3)[of c]
    by (auto simp: fork_child_def Let_def c_def split: if_splits)
qed

lemma sem_directive_cases:
  assumes "sem_directive fork ws st = (None, st')"
  obtains (env) n v where "dispatch (hd ws) = Some cb_env" "ws = [hd ws, n, v]"
      "str_word n = Some n" "str_word v = Some v"
      "st' = st\<lparr>environ := setenv n v (environ st)\<rparr>"
  | (tty) c where "dispatch (hd ws) = Some cb_tty" "cpid c = fork (forks st)" "0 \<le> fork (forks st)"
      "cenv c = environ st" "copts c = active_options st" "length (children st) < MAX_CHILDREN"
      "ctty c = ws ! 1" "int_word (ws ! 2) = Some (cmode c)" "cargv c = drop 3 ws"
      "st' = st\<lparr>forks := Suc (forks st), spawned := spawned st @ [c], children := children st @ [cpid c]\<rparr>"
  | (enable) o1 n where "dispatch (hd ws) = Some cb_enable" "ws = [hd ws, o1]" "int_word o1 = Some n"
      "st' = st\<lparr>active_options := active_options st OR n\<rparr>"
proof -
  obtain name rest where ws: "ws = name # rest" using assms by (cases ws) auto
  have words: "str_words as = Some bs \<Longrightarrow> bs = as" for as bs
    by (induction as arbitrary: bs) (auto simp: str_word_def split: if_splits)
  consider (1) "dispatch name = Some cb_env" | (2) "dispatch name = Some cb_tty"
    | (3) "dispatch name = Some cb_enable"
    using assms ws by (cases "dispatch name") (auto split: callback.splits)
  then show ?thesis
  proof cases
    case 1
    then have "sem_env rest st = (None, st')" using assms ws by simp
    then show ?thesis
      using env 1 ws by (elim sem_env.elims) (auto simp: str_word_def split: if_splits option.splits)
  next
    case 2
    then have "sem_tty fork rest st = (None, st')" using assms ws by simp
    then obtain p m a as p' m' as' where "rest = p # m # a # as" "str_word p = Some p'"
        "int_word m = Some m'" "str_words (a # as) = Some as'" "fork_child fork p' m' as' st = (None, st')"
      by (elim sem_tty.elims) (auto split: option.splits)
    moreover from this have "p' = p" "as' = a # as"
      using words[of "a # as" as'] by (auto simp: str_word_def split: if_splits)
    ultimately show ?thesis
      using tty 2 ws by (elim fork_child_cases) auto
  next
    case 3
    then have "sem_enable rest st = (None, st')" using assms ws by simp
    then show ?thesis
      using enable 3 ws by (elim sem_enable.elims) (auto split: option.splits)
  qed
qed

lemma sem_config_append:
  "sem_config fork (xs @ ys) st =
     (case sem_config fork xs st of
        (Some e, st') \<Rightarrow> (Some e, st')
      | (None, st') \<Rightarrow> sem_config fork ys st')"
  by (induction xs arbitrary: st) (auto split: prod.split option.split)

lemma sem_config_Cons_ok:
  "sem_config fork (ws # dss) st = (None, st2) \<longleftrightarrow>
     (\<exists>st1. sem_directive fork ws st = (None, st1) \<and> sem_config fork dss st1 = (None, st2))"
  by (auto split: prod.splits option.splits)

subsection \<open>Bookkeeping of the children\<close>

definition children_inv :: "interp \<Rightarrow> bool" where
  "children_inv st \<longleftrightarrow> children st = map cpid (spawned st) \<and> length (children st) \<le> MAX_CHILDREN"

lemma sem_directive_inv [inv_intros]:
  assumes "sem_directive fork ws st = (None, st')" "children_inv st"
  shows "children_inv st'"
  using assms by (elim sem_directive_cases) (auto simp: children_inv_def)

lemma sem_config_inv [inv_intros]:
  "sem_config fork dss st = (None, st') \<Longrightarrow> children_inv st \<Longrightarrow> children_inv st'"
  by (induction dss arbitrary: st) (auto simp: sem_config_Cons_ok simp del: sem_config.simps(2) intro: sem_directive_inv)

definition is_tty :: "string list \<Rightarrow> bool" where
  "is_tty ws \<longleftrightarrow> ws \<noteq> [] \<and> dispatch (hd ws) = Some cb_tty"

lemma sem_config_counts:
  "sem_config fork dss st = (None, st') \<Longrightarrow>
     length (children st') = length (children st) + length (filter is_tty dss)"
proof (induction dss arbitrary: st)
  case (Cons ws dss)
  then obtain st1 where 1: "sem_directive fork ws st = (None, st1)" "sem_config fork dss st1 = (None, st')"
    by (auto simp: sem_config_Cons_ok simp del: sem_config.simps(2))
  from 1(1) have "ws \<noteq> []" by auto
  with 1(1) have "length (children st1) = length (children st) + (if is_tty ws then 1 else 0)"
    by (elim sem_directive_cases) (auto simp: is_tty_def)
  with Cons.IH[OF 1(2)] show ?case by simp
qed simp

lemma sem_directive_signalled: "signalled (snd (sem_directive fork ws st)) = signalled st"
proof (cases ws)
  case (Cons name rest)
  have "signalled (snd (fork_child fork p m as st)) = signalled st" for p m as
    by (simp add: fork_child_def Let_def)
  then have "signalled (snd (sem_tty fork rest st)) = signalled st"
    by (induction fork rest st rule: sem_tty.induct) (auto split: option.split)
  moreover have "signalled (snd (sem_env rest st)) = signalled st"
    by (induction rest st rule: sem_env.induct) (auto split: option.split)
  moreover have "signalled (snd (sem_enable rest st)) = signalled st"
    by (induction rest st rule: sem_enable.induct) (auto split: option.split)
  ultimately show ?thesis using Cons by (auto split: option.split callback.split)
qed simp

lemma sem_config_signalled: "signalled (snd (sem_config fork dss st)) = signalled st"
proof (induction dss arbitrary: st)
  case (Cons ws dss)
  with sem_directive_signalled[of fork ws st] show ?case by (auto split: prod.split option.split)
qed simp

subsection \<open>What the directives leave behind\<close>

text \<open>The effect of a list of directives on the environment and on the options, read off their
  words.\<close>

definition env_effect :: "string list \<Rightarrow> (string \<Rightarrow> string option) \<Rightarrow> (string \<Rightarrow> string option)" where
  "env_effect ws e =
     (if ws \<noteq> [] \<and> dispatch (hd ws) = Some cb_env then setenv (ws ! 1) (ws ! 2) e else e)"

definition opt_effect :: "string list \<Rightarrow> i32 \<Rightarrow> i32" where
  "opt_effect ws n =
     (if ws \<noteq> [] \<and> dispatch (hd ws) = Some cb_enable
      then n OR (case int_word (ws ! 1) of Some k \<Rightarrow> k | None \<Rightarrow> 0) else n)"

lemma sem_directive_effects:
  assumes "sem_directive fork ws st = (None, st')"
  shows "environ st' = env_effect ws (environ st) \<and> active_options st' = opt_effect ws (active_options st)"
proof -
  have ne: "ws \<noteq> []" using assms by auto
  from assms show ?thesis
  proof (cases rule: sem_directive_cases)
    case (env n v)
    have "ws ! 1 = n" "ws ! 2 = v" by (subst env(2), simp)+
    with env(1,5) ne show ?thesis by (simp add: env_effect_def opt_effect_def)
  next
    case (tty c)
    with ne show ?thesis by (simp add: env_effect_def opt_effect_def)
  next
    case (enable o1 n)
    have "ws ! 1 = o1" by (subst enable(2), simp)
    with enable(1,3,4) ne show ?thesis by (simp add: env_effect_def opt_effect_def)
  qed
qed

lemma sem_config_effects:
  "sem_config fork dss st = (None, st') \<Longrightarrow>
     environ st' = fold env_effect dss (environ st) \<and>
     active_options st' = fold opt_effect dss (active_options st)"
proof (induction dss arbitrary: st)
  case (Cons ws dss)
  then obtain st1 where 1: "sem_directive fork ws st = (None, st1)" "sem_config fork dss st1 = (None, st')"
    by (auto simp: sem_config_Cons_ok simp del: sem_config.simps(2))
  from Cons.IH[OF 1(2)] sem_directive_effects[OF 1(1)] show ?case by simp
qed simp

text \<open>Children are only ever added.\<close>

lemma sem_directive_spawned:
  "sem_directive fork ws st = (None, st') \<Longrightarrow> prefix (spawned st) (spawned st')"
  by (elim sem_directive_cases) auto

lemma sem_config_spawned:
  "sem_config fork dss st = (None, st') \<Longrightarrow> prefix (spawned st) (spawned st')"
proof (induction dss arbitrary: st)
  case (Cons ws dss)
  then obtain st1 where 1: "sem_directive fork ws st = (None, st1)" "sem_config fork dss st1 = (None, st')"
    by (auto simp: sem_config_Cons_ok simp del: sem_config.simps(2))
  from Cons.IH[OF 1(2)] sem_directive_spawned[OF 1(1)] show ?case by (rule prefix_order.trans[rotated])
qed simp

text \<open>A tty directive that succeeds in the middle of a configuration.\<close>

lemma sem_config_split:
  assumes "sem_config fork (pre @ ws # post) st = (None, st')"
  obtains st1 st2 where "sem_config fork pre st = (None, st1)" "sem_directive fork ws st1 = (None, st2)"
    "sem_config fork post st2 = (None, st')"
  using assms by (auto simp: sem_config_append split: prod.splits option.splits)

lemma spawned_by:
  assumes "sem_config fork (pre @ ws # post) st = (None, st')" "is_tty ws"
  obtains st1 c where "sem_config fork pre st = (None, st1)"
    "length (spawned st1) < length (spawned st')" "spawned st' ! length (spawned st1) = c"
    "cpid c = fork (forks st1)" "ctty c = ws ! 1" "int_word (ws ! 2) = Some (cmode c)"
    "cargv c = drop 3 ws" "cenv c = environ st1" "copts c = active_options st1"
proof -
  obtain st1 st2 where 1: "sem_config fork pre st = (None, st1)" "sem_directive fork ws st1 = (None, st2)"
    "sem_config fork post st2 = (None, st')" using assms(1) by (rule sem_config_split)
  from 1(2) obtain c where c: "cpid c = fork (forks st1)" "ctty c = ws ! 1" "int_word (ws ! 2) = Some (cmode c)"
    "cargv c = drop 3 ws" "cenv c = environ st1" "copts c = active_options st1"
    "spawned st2 = spawned st1 @ [c]"
    using assms(2) by (cases rule: sem_directive_cases) (auto simp: is_tty_def)
  from sem_config_spawned[OF 1(3)] obtain zs where "spawned st' = spawned st1 @ c # zs"
    by (auto simp: c(7) prefix_def)
  then show ?thesis using that[OF 1(1)] c by (simp add: nth_append)
qed

subsection \<open>Properties of the interpreter\<close>

lemma interpret_config_sem:
  assumes "\<forall>d\<in>set ds. directive_ok s d"
  shows "interpret_config True fork s ds st =
    (case sem_config fork (map (directive_texts s) ds) st of
       (Some INTERPRET_ERR, st') \<Rightarrow> (Returned (Some INTERPRET_ERR), st')
     | (Some CHILDREN_OVERFLOW, st') \<Rightarrow> (Undefined, st')
     | (None, st') \<Rightarrow> (Returned None, st'\<lparr>signalled := signalled st' @ children st'\<rparr>))"
  using assms by (simp add: interpret_config_def interpret_loop_sem cong: interp_error.case_cong)

lemma interpret_config_ok:
  assumes "fst (parse_config ok s h) = Inr (q, ds)"
    and "interpret_config True fork s ds st = (Returned None, st')"
  obtains st1 where "sem_config fork (map (directive_texts s) ds) st = (None, st1)"
    "st' = st1\<lparr>signalled := signalled st1 @ children st1\<rparr>"
  using assms(2) by (auto simp: interpret_config_sem[OF parse_config_directives_ok[OF assms(1)]]
      split: prod.splits option.splits interp_error.splits)

text \<open>C6: the interpreter implements the word-level semantics. On what the parser returned,
  \<open>interpret_config\<close> (slices, symbol tables, tagged values) does what \<open>sem_config\<close> says of the
  words of the directives, and then signals the children if and only if all of them
  succeeded. The store behind the table of the children, which C leaves undefined, is reached exactly where the
  semantics has an overflow.\<close>

theorem interpret_config_refines:
  assumes "fst (parse_config ok s h) = Inr (q, ds)"
  shows "interpret_config True fork s ds st =
    (case sem_config fork (map (directive_texts s) ds) st of
       (Some INTERPRET_ERR, st') \<Rightarrow> (Returned (Some INTERPRET_ERR), st')
     | (Some CHILDREN_OVERFLOW, st') \<Rightarrow> (Undefined, st')
     | (None, st') \<Rightarrow> (Returned None, st'\<lparr>signalled := signalled st' @ children st'\<rparr>))"
  using parse_config_directives_ok[OF assms] by (rule interpret_config_sem)

text \<open>A sample configuration.\<close>

definition heap0 :: heap where "heap0 = \<lparr>live = {}, fresh = 0, faults = 0\<rparr>"

definition demo :: "string list list" where
  "demo = [[''env'', ''A'', ''b''], [''enable'', ''$OPT_CLEAR''], [''tty'', ''/t'', ''$TTY_GFX_MODE'', ''/x'', ''y'']]"

definition dirs_of :: "string list list \<Rightarrow> directive list" where
  "dirs_of dss = (case fst (parse_config (\<lambda>_. True) (render dss) heap0) of Inr (q, ds) \<Rightarrow> ds | Inl _ \<Rightarrow> [])"

definition block_of :: "string list list \<Rightarrow> ptr" where
  "block_of dss = (case fst (parse_config (\<lambda>_. True) (render dss) heap0) of Inr (q, ds) \<Rightarrow> q | Inl _ \<Rightarrow> None)"

lemma sample_parse:
  assumes "\<forall>ws\<in>set dss. ws \<noteq> [] \<and> (\<forall>w\<in>set ws. plain_word w)"
  shows "fst (parse_config (\<lambda>_. True) (render dss) heap0) = Inr (block_of dss, dirs_of dss)"
    and "map (directive_texts (render dss)) (dirs_of dss) = dss"
  using parse_render_texts[OF assms, of heap0]
  by (auto simp: dirs_of_def block_of_def config_texts_def split: sum.splits)

lemma demo_plain: "\<forall>ws\<in>set demo. ws \<noteq> [] \<and> (\<forall>w\<in>set ws. plain_word w)"
  by (simp add: demo_def plain_word_def nul_def quote_def newline_def)

lemmas demo_parse = sample_parse(1)[OF demo_plain]
lemmas demo_words = sample_parse(2)[OF demo_plain]

definition demo_st :: interp where "demo_st = interp_init (\<lambda>_. None)"

definition demo_end :: interp where
  "demo_end = snd (interpret_config True (\<lambda>_. 7) (render demo) (dirs_of demo) demo_st)"

lemma demo_sem: "sem_config (\<lambda>_. 7) demo demo_st =
  (None, \<lparr>active_options = 1, environ = [''A'' \<mapsto> ''b''], children = [7],
     spawned = [\<lparr>cpid = 7, ctty = ''/t'', cmode = 2, cargv = [''/x'', ''y''], cenv = [''A'' \<mapsto> ''b''], copts = 1\<rparr>],
     forks = 1, signalled = []\<rparr>)"
  by (simp add: demo_def demo_st_def interp_init_def dispatch_def str_word_def int_word_def named_const_def
      dollar_def setenv_def OPT_CLEAR_def TTY_GFX_def fork_child_def MAX_CHILDREN_def)

lemma demo_run: "interpret_config True (\<lambda>_. 7) (render demo) (dirs_of demo) demo_st = (Returned None, demo_end)"
proof -
  have "\<forall>d\<in>set (dirs_of demo). directive_ok (render demo) d"
    using demo_parse by (rule parse_config_directives_ok)
  then show ?thesis by (simp add: demo_end_def interpret_config_sem demo_words demo_sem)
qed

theorem interpret_config_refines_witness:
  "fst (interpret_config True (\<lambda>_. 7) (render demo) (dirs_of demo) demo_st) = Returned None \<and>
   signalled (snd (interpret_config True (\<lambda>_. 7) (render demo) (dirs_of demo) demo_st)) = [7]"
  using interpret_config_refines[OF demo_parse, of "\<lambda>_. 7" demo_st] by (simp add: demo_words demo_sem)

text \<open>C7: the start signal. When \<open>interpret_config\<close> returns \<open>INTERPRET_OK\<close>, every child that was
  forked has been signalled exactly once and in the order of the forks, there is one child for
  every \<open>tty\<close> directive, and there are at most 20. When it does not, nobody was signalled: when it fails the children that exist by then wait
  forever, and up to a store behind the table of the children they wait as well.\<close>

theorem interpret_config_signals:
  assumes "fst (parse_config ok s h) = Inr (q, ds)"
    and "interpret_config True fork s ds (interp_init e) = (r, st')"
  shows "(r = Returned None \<longrightarrow>
      signalled st' = map cpid (spawned st') \<and>
      length (spawned st') = length (filter is_tty (map (directive_texts s) ds)) \<and>
      length (spawned st') \<le> 20) \<and>
    (r \<noteq> Returned None \<longrightarrow> signalled st' = [])"
proof (intro conjI impI)
  assume "r = Returned None"
  with assms obtain st1 where 1: "sem_config fork (map (directive_texts s) ds) (interp_init e) = (None, st1)"
    "st' = st1\<lparr>signalled := signalled st1 @ children st1\<rparr>" by (blast elim: interpret_config_ok)
  have inv: "children_inv st1" using 1(1) by (rule sem_config_inv) (simp add: children_inv_def interp_init_def)
  moreover have "signalled st1 = []"
    using sem_config_signalled[of fork "map (directive_texts s) ds" "interp_init e"] 1(1) by (simp add: interp_init_def)
  moreover have "length (children st1) = length (filter is_tty (map (directive_texts s) ds))"
    using sem_config_counts[OF 1(1)] by (simp add: interp_init_def)
  ultimately show "signalled st' = map cpid (spawned st')"
    "length (spawned st') = length (filter is_tty (map (directive_texts s) ds))" "length (spawned st') \<le> 20"
    by (auto simp: 1(2) children_inv_def MAX_CHILDREN_def)
next
  assume "r \<noteq> Returned None"
  with assms(2) have "sem_config fork (map (directive_texts s) ds) (interp_init e) = (fst (sem_config fork (map (directive_texts s) ds) (interp_init e)), st')"
    by (auto simp: interpret_config_sem[OF parse_config_directives_ok[OF assms(1)]]
        split: prod.splits option.splits interp_error.splits)
  with sem_config_signalled[of fork "map (directive_texts s) ds" "interp_init e"]
  show "signalled st' = []" by (metis snd_conv interp_init_def interp.select_convs(6))
qed

theorem interpret_config_signals_witness:
  "signalled demo_end = map cpid (spawned demo_end) \<and> length (spawned demo_end) = 1"
  using interpret_config_signals[OF demo_parse demo_run[unfolded demo_st_def], unfolded demo_words]
  by (simp add: demo_def is_tty_def dispatch_def)

text \<open>C8: what a child inherits. When the configuration succeeds, the child of a \<open>tty\<close> directive
  runs the command line and the terminal of that directive, with the environment and the
  options as the directives before it left them, and not those after it.\<close>

theorem child_inherits:
  assumes "fst (parse_config ok s h) = Inr (q, ds)"
    and "interpret_config True fork s ds st = (Returned None, st')"
    and "map (directive_texts s) ds = pre @ ws # post" "is_tty ws"
  shows "\<exists>c\<in>set (spawned st').
    ctty c = ws ! 1 \<and> int_word (ws ! 2) = Some (cmode c) \<and> cargv c = drop 3 ws \<and>
    cenv c = fold env_effect pre (environ st) \<and> copts c = fold opt_effect pre (active_options st)"
proof -
  from assms(1,2) obtain st1 where 1: "sem_config fork (pre @ ws # post) st = (None, st1)"
    "spawned st' = spawned st1" by (auto elim!: interpret_config_ok simp: assms(3))
  from 1(1) assms(4) obtain st2 c where c: "sem_config fork pre st = (None, st2)"
    "length (spawned st2) < length (spawned st1)" "spawned st1 ! length (spawned st2) = c"
    "ctty c = ws ! 1" "int_word (ws ! 2) = Some (cmode c)" "cargv c = drop 3 ws"
    "cenv c = environ st2" "copts c = active_options st2" by (rule spawned_by) blast
  with sem_config_effects[OF c(1)] 1(2) show ?thesis by (metis nth_mem)
qed

theorem child_inherits_witness:
  "\<exists>c\<in>set (spawned demo_end). ctty c = ''/t'' \<and> cargv c = [''/x'', ''y''] \<and>
     cenv c = [''A'' \<mapsto> ''b''] \<and> copts c = 1"
proof -
  have w: "map (directive_texts (render demo)) (dirs_of demo) =
      [[''env'', ''A'', ''b''], [''enable'', ''$OPT_CLEAR'']] @ [''tty'', ''/t'', ''$TTY_GFX_MODE'', ''/x'', ''y''] # []"
    unfolding demo_words by (simp add: demo_def)
  have "is_tty [''tty'', ''/t'', ''$TTY_GFX_MODE'', ''/x'', ''y'']" by (simp add: is_tty_def dispatch_def)
  from child_inherits[OF demo_parse demo_run w this] show ?thesis
    by (simp add: env_effect_def opt_effect_def dispatch_def setenv_def demo_st_def interp_init_def
        int_word_def named_const_def dollar_def OPT_CLEAR_def) blast
qed

text \<open>The effects that remain. When the configuration succeeds, the environment of init is
  the initial one with the \<open>env\<close> directives applied in order, and its options are the initial
  ones with the bits of the \<open>enable\<close> directives added.\<close>

theorem config_effects:
  assumes "fst (parse_config ok s h) = Inr (q, ds)"
    and "interpret_config True fork s ds st = (Returned None, st')"
  shows "environ st' = fold env_effect (map (directive_texts s) ds) (environ st) \<and>
    active_options st' = fold opt_effect (map (directive_texts s) ds) (active_options st)"
  using assms by (auto elim!: interpret_config_ok dest: sem_config_effects)

theorem config_effects_witness:
  "environ demo_end ''A'' = Some ''b'' \<and> active_options demo_end = 1"
  using config_effects[OF demo_parse demo_run, unfolded demo_words]
  by (simp add: demo_def env_effect_def opt_effect_def dispatch_def setenv_def demo_st_def
      interp_init_def int_word_def named_const_def dollar_def OPT_CLEAR_def)

text \<open>C9: the table of children overflows. After 20 \<open>tty\<close> directives, a further one that is well
  formed and whose \<open>fork\<close> succeeds starts a child and stores its process id behind the end of
  \<open>g_children\<close>: C leaves undefined what happens then.\<close>

theorem children_overflow:
  assumes "fst (parse_config ok s h) = Inr (q, ds @ d # ds')"
    and "interpret_loop fork s ds (interp_init e) = (None, st1)"
    and "length (filter is_tty (map (directive_texts s) ds)) = 20"
    and "directive_texts s d = ''tty'' # path # mode # a # argv"
    and "str_word path = Some path" "int_word mode = Some m" "str_words (a # argv) = Some (a # argv)"
    and "0 < fork (forks st1)"
  shows "\<exists>st2. interpret_config True fork s (ds @ d # ds') (interp_init e) = (Undefined, st2) \<and>
    length (spawned st2) = 21 \<and> length (children st2) = 20"
proof -
  have ok: "\<forall>d\<in>set (ds @ d # ds'). directive_ok s d" using assms(1) by (rule parse_config_directives_ok)
  then have 1: "sem_config fork (map (directive_texts s) ds) (interp_init e) = (None, st1)"
    using assms(2) by (simp add: interpret_loop_sem)
  have "children_inv st1" using 1 by (rule sem_config_inv) (simp add: children_inv_def interp_init_def)
  moreover have n: "length (children st1) = 20"
    using sem_config_counts[OF 1] assms(3) by (simp add: interp_init_def)
  ultimately have sp: "length (spawned st1) = 20" by (metis children_inv_def length_map)
  have "dispatch ''tty'' = Some cb_tty" by (simp add: dispatch_def)
  then have "sem_directive fork (directive_texts s d) st1 = fork_child fork path m (a # argv) st1"
    using assms(4-7) by simp
  then show ?thesis
    using assms(8) 1 n sp
    by (auto simp: interpret_config_sem[OF ok] sem_config_append fork_child_def Let_def MAX_CHILDREN_def)
qed

definition tty1 :: "string list" where "tty1 = [''tty'', ''t'', ''$T'', ''x'']"

lemma sem_config_ttys:
  "length (children st) + n \<le> 20 \<Longrightarrow> \<exists>st1. sem_config (\<lambda>_. 7) (replicate n tty1) st = (None, st1)"
proof (induction n arbitrary: st)
  case (Suc n)
  then have "length (children st) < 20" by simp
  then obtain st1 where "sem_directive (\<lambda>_. 7) tty1 st = (None, st1)"
      and "length (children st1) = Suc (length (children st))"
    by (simp add: tty1_def dispatch_def str_word_def int_word_def named_const_def dollar_def
        fork_child_def MAX_CHILDREN_def)
  moreover from this(2) Suc obtain st2 where "sem_config (\<lambda>_. 7) (replicate n tty1) st1 = (None, st2)"
    by fastforce
  ultimately show ?case by simp
qed simp

theorem children_overflow_witness:
  "\<exists>st2. interpret_config True (\<lambda>_. 7) (render (replicate 21 tty1)) (dirs_of (replicate 21 tty1)) (interp_init (\<lambda>_. None)) =
      (Undefined, st2) \<and> length (spawned st2) = 21 \<and> length (children st2) = 20"
proof -
  let ?s = "render (replicate 21 tty1)"
  have plain: "\<forall>ws\<in>set (replicate 21 tty1). ws \<noteq> [] \<and> (\<forall>w\<in>set ws. plain_word w)"
    by (auto simp: tty1_def plain_word_def nul_def quote_def newline_def)
  note P = sample_parse(1)[OF plain] and W = sample_parse(2)[OF plain]
  have "dirs_of (replicate 21 tty1) \<noteq> []" using W by auto
  then obtain ds d where ds: "dirs_of (replicate 21 tty1) = ds @ d # []" by (metis rev_exhaust)
  have "map (directive_texts ?s) ds @ [directive_texts ?s d] = replicate 20 tty1 @ [tty1]"
    using W ds replicate_app_Cons_same[of 20 tty1 "[]"] replicate_Suc[of 20 tty1] by simp
  then have w: "map (directive_texts ?s) ds = replicate 20 tty1" "directive_texts ?s d = tty1" by auto
  have w2: "directive_texts ?s d = ''tty'' # ''t'' # ''$T'' # ''x'' # []" unfolding w(2) by (simp add: tty1_def)
  obtain st1 where st1: "sem_config (\<lambda>_. 7) (replicate 20 tty1) (interp_init (\<lambda>_. None)) = (None, st1)"
    using sem_config_ttys[of "interp_init (\<lambda>_. None)" 20] by (auto simp: interp_init_def)
  have "\<forall>d\<in>set ds. directive_ok ?s d" using parse_config_directives_ok[OF P] ds by simp
  then have run: "interpret_loop (\<lambda>_. 7) ?s ds (interp_init (\<lambda>_. None)) = (None, st1)"
    by (simp add: interpret_loop_sem w(1) st1)
  have n: "length (filter is_tty (map (directive_texts ?s) ds)) = 20"
    unfolding w(1) by (simp add: filter_replicate is_tty_def tty1_def dispatch_def)
  show ?thesis
    unfolding ds
    by (rule children_overflow[OF P[unfolded ds] run n w2, of TTY_TEXT])
      (simp_all add: str_word_def int_word_def named_const_def dollar_def)
qed

text \<open>A directive is found by any prefix of its name. For every NUL-free word, the lookup in
  \<open>g_directives\<close> gives the callback of the first directive whose name begins with the word:
  abbreviations, and even the empty word, are accepted.\<close>

theorem directive_lookup:
  assumes "nul \<notin> set w"
  shows "map_option evalue (table_lookup g_directives (w @ rest, length w) TYPE_FUNCTION) =
     map_option Ptr_function (dispatch w)"
  using lookup_directive[of "length w" "w @ rest"] assms
  by (auto simp: option.map_comp g_directives_callbacks[unfolded One_nat_def] o_def
      intro!: option.map_cong split: callback.split)

theorem directive_lookup_witness:
  "map_option evalue (table_lookup g_directives (''e x'', 1) TYPE_FUNCTION) = Some (Ptr_function cb_env)"
  using directive_lookup[of "''e''" "'' x''"] by (simp add: dispatch_def nul_def)

end
