(* ===== verification/Init_Start.thy ===== *)
theory Init_Start
  imports Init_Correct
begin

text \<open>
  The start of the children (\<open>init/src/interpreter.c\<close>: the child's branch of \<open>cb_tty\<close>,
  \<open>handle_sigusr1\<close>, \<open>wait_start_signal\<close>, and the two loops of \<open>interpret_config\<close>). Init and the
  children it has forked run interleaved, as a step relation: init takes a directive, or sends
  \<open>SIGUSR1\<close> to the next child; a child makes its next call of the kernel; a pending signal is
  delivered. \<open>g_tty_lock\<close> is a variable of each process, copied at the \<open>fork\<close> while it is 1.
  What \<open>open\<close> and \<open>execv\<close> return to a child are parameters; the source ignores the results of
  its other calls. A child that spins on its lock takes no step.
\<close>

subsection \<open>A child\<close>

definition TIOCSCTTY :: nat where "TIOCSCTTY = 0x540E"
definition KTTY_IOCTL_SETMODE :: nat where "KTTY_IOCTL_SETMODE = 0x4B3A"
definition KTTY_MODE_GRAPHICS :: nat where "KTTY_MODE_GRAPHICS = 1"

datatype kcall =
    K_open string
  | K_dup2 int int
  | K_setsid
  | K_ioctl int nat nat
  | K_print string
  | K_execv string "string list" "string \<Rightarrow> string option"

datatype child_pc =
    At_open | At_dup int "int list" | At_setsid int | At_ctty int | At_mode int
  | At_wait | At_clear | At_exec | Running | Gone int

record cproc =
  prog :: child
  pc :: child_pc
  tty_lock :: bool
  pending :: bool
  calls :: "kcall list"

definition new_proc :: "child \<Rightarrow> cproc" where
  "new_proc c = \<lparr>prog = c, pc = At_open, tty_lock = True, pending = False, calls = []\<rparr>"

definition clear_screen :: string where
  "clear_screen = [CHR 0x1B] @ ''[2J'' @ [CHR 0x1B] @ ''[H''"

definition call :: "kcall \<Rightarrow> child_pc \<Rightarrow> cproc \<Rightarrow> cproc" where
  "call k l p = p\<lparr>calls := calls p @ [k], pc := l\<rparr>"

text \<open>A child spins while the lock is set.\<close>

definition wait_start_signal :: "cproc \<Rightarrow> bool" where
  [simp]: "wait_start_signal p \<longleftrightarrow> tty_lock p"

text \<open>The next step of a child; \<open>None\<close> when it has none: it spins, or its program has ended.\<close>

fun child_step :: "(child \<Rightarrow> int) \<Rightarrow> (child \<Rightarrow> bool) \<Rightarrow> cproc \<Rightarrow> cproc option" where
  "child_step opn exe p =
     (case pc p of
        At_open \<Rightarrow>
          (let tty_fd = opn (prog p)
           in Some (call (K_open (ctty (prog p)))
                      (if tty_fd = - 1 then Gone (- 1) else At_dup tty_fd [1, 0, 2]) p))
      | At_dup tty_fd (n # ns) \<Rightarrow> Some (call (K_dup2 tty_fd n) (At_dup tty_fd ns) p)
      | At_dup tty_fd [] \<Rightarrow> Some (p\<lparr>pc := At_setsid tty_fd\<rparr>)
      | At_setsid tty_fd \<Rightarrow> Some (call K_setsid (At_ctty tty_fd) p)
      | At_ctty tty_fd \<Rightarrow> Some (call (K_ioctl tty_fd TIOCSCTTY 0) (At_mode tty_fd) p)
      | At_mode tty_fd \<Rightarrow>
          Some (if cmode (prog p) = TTY_GFX
                then call (K_ioctl tty_fd KTTY_IOCTL_SETMODE KTTY_MODE_GRAPHICS) At_wait p
                else p\<lparr>pc := At_wait\<rparr>)
      | At_wait \<Rightarrow> (if wait_start_signal p then None else Some (p\<lparr>pc := At_clear\<rparr>))
      | At_clear \<Rightarrow>
          Some (if OPT_CLEAR AND copts (prog p) \<noteq> 0 then call (K_print clear_screen) At_exec p
                else p\<lparr>pc := At_exec\<rparr>)
      | At_exec \<Rightarrow>
          Some (call (K_execv (hd (cargv (prog p))) (cargv (prog p)) (cenv (prog p)))
                  (if exe (prog p) then Running else Gone (- 1)) p)
      | Running \<Rightarrow> None
      | Gone n \<Rightarrow> None)"

declare child_step.simps [simp del]

definition handle_sigusr1 :: "cproc \<Rightarrow> cproc" where
  "handle_sigusr1 p = p\<lparr>tty_lock := False, pending := False\<rparr>"

subsection \<open>Init and its children\<close>

text \<open>Init interprets, sends signals, has finished or failed, or has stored a process id behind the end of \<open>g_children\<close>.
  From there on C promises nothing, and a run that gets there says nothing about the program beyond that point.\<close>

datatype init_pc = Interpreting | Signalling nat | Finished | Failed | Overflowed

record boot =
  todo :: "directive list"
  parent :: interp
  ppc :: init_pc
  procs :: "cproc list"

definition boot_start :: "directive list \<Rightarrow> (string \<Rightarrow> string option) \<Rightarrow> boot" where
  "boot_start ds e = \<lparr>todo = ds, parent = interp_init e, ppc = Interpreting, procs = []\<rparr>"

text \<open>The processes of the children that \<open>st'\<close> has and \<open>st\<close> had not.\<close>

definition forked :: "interp \<Rightarrow> interp \<Rightarrow> cproc list" where
  "forked st st' = map new_proc (drop (length (spawned st)) (spawned st'))"

definition kill_usr1 :: "int \<Rightarrow> cproc list \<Rightarrow> cproc list" where
  "kill_usr1 pid = map (\<lambda>p. if cpid (prog p) = pid then p\<lparr>pending := True\<rparr> else p)"

inductive boot_step :: "(nat \<Rightarrow> int) \<Rightarrow> string \<Rightarrow> (child \<Rightarrow> int) \<Rightarrow> (child \<Rightarrow> bool) \<Rightarrow> boot \<Rightarrow> boot \<Rightarrow> bool"
  for fork s opn exe where
  directive:
    "ppc b = Interpreting \<Longrightarrow> todo b = d # ds \<Longrightarrow>
     interpret_directive fork s d (parent b) = (None, st) \<Longrightarrow>
     boot_step fork s opn exe b (b\<lparr>todo := ds, parent := st, procs := procs b @ forked (parent b) st\<rparr>)"
| directive_fails:
    "ppc b = Interpreting \<Longrightarrow> todo b = d # ds \<Longrightarrow>
     interpret_directive fork s d (parent b) = (Some INTERPRET_ERR, st) \<Longrightarrow>
     boot_step fork s opn exe b (b\<lparr>parent := st, ppc := Failed, procs := procs b @ forked (parent b) st\<rparr>)"
| directive_overflows:
    "ppc b = Interpreting \<Longrightarrow> todo b = d # ds \<Longrightarrow>
     interpret_directive fork s d (parent b) = (Some CHILDREN_OVERFLOW, st) \<Longrightarrow>
     boot_step fork s opn exe b (b\<lparr>parent := st, ppc := Overflowed, procs := procs b @ forked (parent b) st\<rparr>)"
| all_done:
    "ppc b = Interpreting \<Longrightarrow> todo b = [] \<Longrightarrow> boot_step fork s opn exe b (b\<lparr>ppc := Signalling 0\<rparr>)"
| signal:
    "ppc b = Signalling i \<Longrightarrow> i < length (children (parent b)) \<Longrightarrow>
     boot_step fork s opn exe b
       (b\<lparr>ppc := Signalling (Suc i), procs := kill_usr1 (children (parent b) ! i) (procs b),
         parent := (parent b)\<lparr>signalled := signalled (parent b) @ [children (parent b) ! i]\<rparr>\<rparr>)"
| signals_done:
    "ppc b = Signalling i \<Longrightarrow> i = length (children (parent b)) \<Longrightarrow>
     boot_step fork s opn exe b (b\<lparr>ppc := Finished\<rparr>)"
| deliver:
    "j < length (procs b) \<Longrightarrow> pending (procs b ! j) \<Longrightarrow>
     boot_step fork s opn exe b (b\<lparr>procs := (procs b)[j := handle_sigusr1 (procs b ! j)]\<rparr>)"
| child:
    "j < length (procs b) \<Longrightarrow> child_step opn exe (procs b ! j) = Some p \<Longrightarrow>
     boot_step fork s opn exe b (b\<lparr>procs := (procs b)[j := p]\<rparr>)"

inductive_cases boot_stepE: "boot_step fork s opn exe b b'"

abbreviation boot_reach :: "(nat \<Rightarrow> int) \<Rightarrow> string \<Rightarrow> (child \<Rightarrow> int) \<Rightarrow> (child \<Rightarrow> bool) \<Rightarrow> boot \<Rightarrow> boot \<Rightarrow> bool" where
  "boot_reach fork s opn exe \<equiv> rtranclp (boot_step fork s opn exe)"

subsection \<open>The steps of a child\<close>

definition started :: "cproc \<Rightarrow> bool" where
  "started p \<longleftrightarrow> pc p \<in> {At_clear, At_exec, Running} \<or> (\<exists>c a e. K_execv c a e \<in> set (calls p))"

definition sig_ready :: "cproc \<Rightarrow> bool" where
  "sig_ready p \<longleftrightarrow> pending p \<or> \<not> tty_lock p"

lemma child_step_keeps:
  assumes "child_step opn exe p = Some p'"
  shows "prog p' = prog p" "tty_lock p' = tty_lock p" "pending p' = pending p"
    "started p' \<Longrightarrow> started p \<or> \<not> tty_lock p"
  using assms
  by (auto simp: child_step.simps call_def started_def Let_def split: child_pc.splits list.splits if_splits)

text \<open>What a child has called so far, as a function of where it is.\<close>

definition dup_calls :: "int \<Rightarrow> kcall list" where
  "dup_calls fd = [K_dup2 fd 1, K_dup2 fd 0, K_dup2 fd 2]"

definition setup_calls :: "(child \<Rightarrow> int) \<Rightarrow> child \<Rightarrow> kcall list" where
  "setup_calls opn c =
     K_open (ctty c) # dup_calls (opn c) @ [K_setsid, K_ioctl (opn c) TIOCSCTTY 0] @
     (if cmode c = TTY_GFX then [K_ioctl (opn c) KTTY_IOCTL_SETMODE KTTY_MODE_GRAPHICS] else [])"

definition clear_calls :: "child \<Rightarrow> kcall list" where
  "clear_calls c = (if OPT_CLEAR AND copts c \<noteq> 0 then [K_print clear_screen] else [])"

definition exec_call :: "child \<Rightarrow> kcall" where
  "exec_call c = K_execv (hd (cargv c)) (cargv c) (cenv c)"

fun calls_at :: "(child \<Rightarrow> int) \<Rightarrow> (child \<Rightarrow> bool) \<Rightarrow> child \<Rightarrow> child_pc \<Rightarrow> kcall list \<Rightarrow> bool" where
  "calls_at opn exe c At_open ks \<longleftrightarrow> ks = []"
| "calls_at opn exe c (At_dup fd ns) ks \<longleftrightarrow> fd = opn c \<and> fd \<noteq> - 1 \<and>
     (\<exists>ms. [1, 0, 2] = ms @ ns \<and> ks = K_open (ctty c) # map (K_dup2 fd) ms)"
| "calls_at opn exe c (At_setsid fd) ks \<longleftrightarrow> fd = opn c \<and> fd \<noteq> - 1 \<and> ks = K_open (ctty c) # dup_calls fd"
| "calls_at opn exe c (At_ctty fd) ks \<longleftrightarrow> fd = opn c \<and> fd \<noteq> - 1 \<and> ks = K_open (ctty c) # dup_calls fd @ [K_setsid]"
| "calls_at opn exe c (At_mode fd) ks \<longleftrightarrow>
     fd = opn c \<and> fd \<noteq> - 1 \<and> ks = K_open (ctty c) # dup_calls fd @ [K_setsid, K_ioctl fd TIOCSCTTY 0]"
| "calls_at opn exe c At_wait ks \<longleftrightarrow> opn c \<noteq> - 1 \<and> ks = setup_calls opn c"
| "calls_at opn exe c At_clear ks \<longleftrightarrow> opn c \<noteq> - 1 \<and> ks = setup_calls opn c"
| "calls_at opn exe c At_exec ks \<longleftrightarrow> opn c \<noteq> - 1 \<and> ks = setup_calls opn c @ clear_calls c"
| "calls_at opn exe c Running ks \<longleftrightarrow>
     opn c \<noteq> - 1 \<and> exe c \<and> ks = setup_calls opn c @ clear_calls c @ [exec_call c]"
| "calls_at opn exe c (Gone n) ks \<longleftrightarrow> n = - 1 \<and>
     (if opn c = - 1 then ks = [K_open (ctty c)]
      else \<not> exe c \<and> ks = setup_calls opn c @ clear_calls c @ [exec_call c])"

lemma child_step_calls:
  assumes "child_step opn exe p = Some p'" "calls_at opn exe (prog p) (pc p) (calls p)"
  shows "calls_at opn exe (prog p') (pc p') (calls p')"
  using assms
  by (auto simp: child_step.simps call_def Let_def setup_calls_def clear_calls_def exec_call_def dup_calls_def
      split: child_pc.splits list.splits if_splits)

lemma not_started_calls:
  "calls_at opn exe (prog p) (pc p) (calls p) \<Longrightarrow> started p \<Longrightarrow>
     pc p \<in> {At_clear, At_exec, Running} \<or> (pc p = Gone (- 1) \<and> opn (prog p) \<noteq> - 1)"
  by (cases "pc p") (auto simp: started_def dup_calls_def setup_calls_def split: if_splits)

fun pc_rank :: "child_pc \<Rightarrow> nat" where
  "pc_rank At_open = 20"
| "pc_rank (At_dup fd ns) = 10 + length ns"
| "pc_rank (At_setsid fd) = 9"
| "pc_rank (At_ctty fd) = 8"
| "pc_rank (At_mode fd) = 7"
| "pc_rank At_wait = 6"
| "pc_rank At_clear = 5"
| "pc_rank At_exec = 4"
| "pc_rank Running = 0"
| "pc_rank (Gone n) = 0"

definition proc_rank :: "cproc \<Rightarrow> nat" where
  "proc_rank p = pc_rank (pc p) + (if pending p then 1 else 0)"

lemma child_step_rank: "child_step opn exe p = Some p' \<Longrightarrow> proc_rank p' < proc_rank p"
  by (auto simp: child_step.simps call_def proc_rank_def Let_def split: child_pc.splits list.splits if_splits)

lemma child_step_None:
  "child_step opn exe p = None \<longleftrightarrow> pc p = At_wait \<and> tty_lock p \<or> pc p = Running \<or> (\<exists>n. pc p = Gone n)"
  by (auto simp: child_step.simps Let_def split: child_pc.splits list.splits if_splits)

subsection \<open>Invariant\<close>

text \<open>The number of children that have been signalled.\<close>

definition sent :: "boot \<Rightarrow> nat" where
  "sent b = (case ppc b of Signalling i \<Rightarrow> i | Finished \<Rightarrow> length (children (parent b)) | _ \<Rightarrow> 0)"

definition proc_inv :: "(child \<Rightarrow> int) \<Rightarrow> (child \<Rightarrow> bool) \<Rightarrow> cproc \<Rightarrow> bool" where
  "proc_inv opn exe p \<longleftrightarrow>
     calls_at opn exe (prog p) (pc p) (calls p) \<and> (started p \<longrightarrow> \<not> tty_lock p)"

definition boot_inv :: "string \<Rightarrow> (child \<Rightarrow> int) \<Rightarrow> (child \<Rightarrow> bool) \<Rightarrow> boot \<Rightarrow> bool" where
  "boot_inv s opn exe b \<longleftrightarrow>
     (\<forall>d\<in>set (todo b). directive_ok s d) \<and>
     map prog (procs b) = spawned (parent b) \<and>
     (\<forall>p\<in>set (procs b). proc_inv opn exe p) \<and>
     (ppc b \<notin> {Failed, Overflowed} \<longrightarrow> children_inv (parent b)) \<and>
     (ppc b = Finished \<or> (\<exists>i. ppc b = Signalling i) \<longrightarrow> todo b = []) \<and>
     sent b \<le> length (children (parent b)) \<and>
     signalled (parent b) = take (sent b) (children (parent b)) \<and>
     (\<forall>p\<in>set (procs b). sig_ready p \<longleftrightarrow> cpid (prog p) \<in> set (signalled (parent b)))"

lemma boot_inv_start: "\<forall>d\<in>set ds. directive_ok s d \<Longrightarrow> boot_inv s opn exe (boot_start ds e)"
  by (simp add: boot_inv_def boot_start_def children_inv_def sent_def interp_init_def)

text \<open>Also a directive that fails only adds children.\<close>

lemma sem_directive_prefix: "prefix (spawned st) (spawned (snd (sem_directive fork ws st)))"
proof (cases ws)
  case (Cons name rest)
  have "prefix (spawned st) (spawned (snd (fork_child fork p m as st)))" for p m as
    by (simp add: fork_child_def Let_def)
  then have "prefix (spawned st) (spawned (snd (sem_tty fork rest st)))"
    by (induction fork rest st rule: sem_tty.induct) (auto split: option.split)
  moreover have "spawned (snd (sem_env rest st)) = spawned st"
    by (induction rest st rule: sem_env.induct) (auto split: option.split)
  moreover have "spawned (snd (sem_enable rest st)) = spawned st"
    by (induction rest st rule: sem_enable.induct) (auto split: option.split)
  ultimately show ?thesis using Cons by (auto split: option.split callback.split)
qed simp

lemma directive_facts:
  assumes "interpret_directive fork s d st = (r, st')" "directive_ok s d"
  shows "prefix (spawned st) (spawned st')" "signalled st' = signalled st"
    "r = None \<Longrightarrow> children_inv st \<Longrightarrow> children_inv st'"
  using assms sem_directive_prefix[of st fork "directive_texts s d"]
    sem_directive_signalled[of fork "directive_texts s d" st]
  by (auto simp: interpret_directive_sem intro: sem_directive_inv)

lemma forked_procs:
  "map prog ps = spawned st \<Longrightarrow> prefix (spawned st) (spawned st') \<Longrightarrow>
     map prog (ps @ forked st st') = spawned st'"
  by (auto simp: forked_def new_proc_def prefix_def o_def)

lemma new_proc_inv: "p \<in> set (forked st st') \<Longrightarrow> proc_inv opn exe p \<and> \<not> sig_ready p"
  by (auto simp: forked_def new_proc_def proc_inv_def started_def sig_ready_def)

lemma boot_inv_directive:
  assumes inv: "boot_inv s opn exe b" and pc: "ppc b = Interpreting" and td: "todo b = d # ds"
    and run: "interpret_directive fork s d (parent b) = (r, st)"
    and b': "b' = b\<lparr>todo := td', parent := st, ppc := q, procs := procs b @ forked (parent b) st\<rparr>"
    and q: "q = (case r of None \<Rightarrow> Interpreting | Some INTERPRET_ERR \<Rightarrow> Failed | Some CHILDREN_OVERFLOW \<Rightarrow> Overflowed)" "set td' \<subseteq> set (todo b)"
  shows "boot_inv s opn exe b'"
proof -
  have "directive_ok s d" using inv td by (simp add: boot_inv_def)
  note F = directive_facts[OF run this]
  have sg: "signalled (parent b) = []" using inv pc by (simp add: boot_inv_def sent_def)
  have ch: "children_inv (parent b)" using inv pc by (simp add: boot_inv_def)
  have "\<forall>p\<in>set (procs b'). proc_inv opn exe p \<and> \<not> sig_ready p"
    using inv sg new_proc_inv by (auto simp: b' boot_inv_def)
  moreover have "map prog (procs b') = spawned st"
    using forked_procs[OF _ F(1), of "procs b"] inv by (simp add: b' boot_inv_def)
  moreover have "sent b' = 0" using q(1) by (auto simp: b' sent_def split: option.splits interp_error.splits)
  ultimately show ?thesis
    using inv q F(2) F(3)[OF _ ch] sg by (auto simp: boot_inv_def b' split: option.splits interp_error.splits)
qed

lemma sent_procs: "sent (b\<lparr>procs := ps\<rparr>) = sent b"
  by (simp add: sent_def cong: init_pc.case_cong)

lemma boot_inv_procs:
  assumes inv: "boot_inv s opn exe b" and j: "j < length (procs b)"
    and p: "prog p = prog (procs b ! j)" "proc_inv opn exe p" "sig_ready p = sig_ready (procs b ! j)"
  shows "boot_inv s opn exe (b\<lparr>procs := (procs b)[j := p]\<rparr>)"
proof -
  have m: "map prog ((procs b)[j := p]) = map prog (procs b)"
    using p(1) j by (simp add: map_update list_update_same_conv)
  have "\<forall>x\<in>set ((procs b)[j := p]). x = p \<or> x \<in> set (procs b)"
    by (meson insert_iff set_update_subset_insert subsetD)
  moreover have "procs b ! j \<in> set (procs b)" using j by simp
  ultimately have all: "\<forall>x\<in>set ((procs b)[j := p]). Q x" if "Q p" "\<forall>x\<in>set (procs b). Q x" for Q
    using that by auto
  have pj: "procs b ! j \<in> set (procs b)" using j by simp
  have "\<forall>x\<in>set ((procs b)[j := p]). proc_inv opn exe x"
    by (rule all) (use p(2) inv in \<open>auto simp: boot_inv_def\<close>)
  moreover have "\<forall>x\<in>set ((procs b)[j := p]). sig_ready x \<longleftrightarrow> cpid (prog x) \<in> set (signalled (parent b))"
    by (rule all) (use p pj inv in \<open>auto simp: boot_inv_def\<close>)
  ultimately show ?thesis
    using inv m by (simp add: boot_inv_def sent_procs)
qed

lemma children_inv_signalled: "children_inv (st\<lparr>signalled := x\<rparr>) = children_inv st"
  by (simp add: children_inv_def)

lemma boot_inv_signal:
  assumes inv: "boot_inv s opn exe b" and pc: "ppc b = Signalling i" and i: "i < length (children (parent b))"
  shows "boot_inv s opn exe (b\<lparr>ppc := Signalling (Suc i), procs := kill_usr1 (children (parent b) ! i) (procs b),
         parent := (parent b)\<lparr>signalled := signalled (parent b) @ [children (parent b) ! i]\<rparr>\<rparr>)"
proof -
  have pr: "\<forall>p\<in>set (kill_usr1 k ps). proc_inv opn exe p" if "\<forall>p\<in>set ps. proc_inv opn exe p" for k ps
    using that by (auto simp: kill_usr1_def proc_inv_def started_def)
  have m: "map prog (kill_usr1 k ps) = map prog ps" for k ps
    by (simp add: kill_usr1_def comp_def if_distrib cong: if_cong)
  have sr: "\<forall>p\<in>set (kill_usr1 k ps). sig_ready p \<longleftrightarrow> cpid (prog p) \<in> insert k A"
    if "\<forall>p\<in>set ps. sig_ready p \<longleftrightarrow> cpid (prog p) \<in> A" for k ps A
    using that by (auto simp: kill_usr1_def sig_ready_def)
  have sg: "signalled (parent b) = take i (children (parent b))" using inv pc by (simp add: boot_inv_def sent_def)
  show ?thesis
    using inv pc i pr[of "procs b" "children (parent b) ! i"]
      sr[of "procs b" "set (signalled (parent b))" "children (parent b) ! i"]
    by (simp add: boot_inv_def sent_def m sg take_Suc_conv_app_nth children_inv_signalled)
qed

lemma boot_inv_step [inv_intros]:
  assumes "boot_step fork s opn exe b b'" "boot_inv s opn exe b"
  shows "boot_inv s opn exe b'"
  using assms(1)
proof cases
  case (directive d ds st)
  show ?thesis
    by (rule boot_inv_directive[OF assms(2) directive(2,3,4), where td' = ds and q = Interpreting])
      (use directive in auto)
next
  case (directive_fails d ds st)
  show ?thesis
    by (rule boot_inv_directive[OF assms(2) directive_fails(2,3,4), where td' = "d # ds" and q = Failed])
      (use directive_fails in auto)
next
  case (directive_overflows d ds st)
  show ?thesis
    by (rule boot_inv_directive[OF assms(2) directive_overflows(2,3,4), where td' = "d # ds" and q = Overflowed])
      (use directive_overflows in auto)
next
  case all_done
  with assms(2) show ?thesis by (auto simp: boot_inv_def sent_def)
next
  case (signal i)
  with assms(2) show ?thesis by (simp add: boot_inv_signal)
next
  case (signals_done i)
  with assms(2) show ?thesis by (auto simp: boot_inv_def sent_def)
next
  case (deliver j)
  then have "proc_inv opn exe (procs b ! j)" using assms(2) by (simp add: boot_inv_def)
  with deliver show ?thesis
    by (auto intro!: boot_inv_procs[OF assms(2)] simp: handle_sigusr1_def proc_inv_def started_def sig_ready_def)
next
  case (child j p)
  then have i: "proc_inv opn exe (procs b ! j)" using assms(2) by (simp add: boot_inv_def)
  note k = child_step_keeps[OF child(3)]
  from i have "proc_inv opn exe p"
    using child_step_calls[OF child(3)] k by (auto simp: proc_inv_def)
  with child k show ?thesis by (auto intro!: boot_inv_procs[OF assms(2)] simp: sig_ready_def)
qed

lemma boot_inv_reach: "boot_reach fork s opn exe b b' \<Longrightarrow> boot_inv s opn exe b \<Longrightarrow> boot_inv s opn exe b'"
  by (induction rule: rtranclp_induct) (auto intro: boot_inv_step)

text \<open>A child that has passed the barrier has been signalled, so init is done.\<close>

lemma inv_started:
  assumes "boot_inv s opn exe b" "p \<in> set (procs b)" "started p"
  shows "cpid (prog p) \<in> set (signalled (parent b))" "todo b = []" "ppc b = Finished \<or> (\<exists>i. ppc b = Signalling i)"
proof -
  show sg: "cpid (prog p) \<in> set (signalled (parent b))"
    using assms by (auto simp: boot_inv_def proc_inv_def sig_ready_def)
  have "signalled (parent b) = take (sent b) (children (parent b))" using assms(1) by (simp add: boot_inv_def)
  with sg have "sent b \<noteq> 0" by (cases "sent b") auto
  then show "ppc b = Finished \<or> (\<exists>i. ppc b = Signalling i)"
    by (auto simp: sent_def split: init_pc.splits)
  with assms(1) show "todo b = []" by (simp add: boot_inv_def)
qed

subsection \<open>Every boot ends\<close>

definition boot_rel :: "(boot \<times> boot) set" where
  "boot_rel = measures
     [\<lambda>b. length (todo b) + (if ppc b = Interpreting then 1 else 0),
      \<lambda>b. (case ppc b of Signalling i \<Rightarrow> Suc (length (children (parent b)) - i) | _ \<Rightarrow> 0),
      \<lambda>b. sum_list (map proc_rank (procs b))]"

lemma sum_rank_update:
  "j < length ps \<Longrightarrow> proc_rank p < proc_rank (ps ! j) \<Longrightarrow>
     sum_list (map proc_rank (ps[j := p])) < sum_list (map proc_rank ps)"
proof (induction ps arbitrary: j)
  case (Cons x ps)
  then show ?case by (cases j) auto
qed simp

lemma boot_step_decreases:
  assumes "boot_step fork s opn exe b b'"
  shows "(b', b) \<in> boot_rel"
  using assms
proof cases
  case (deliver j)
  have "proc_rank (handle_sigusr1 (procs b ! j)) < proc_rank (procs b ! j)"
    using deliver by (simp add: proc_rank_def handle_sigusr1_def)
  with deliver sum_rank_update show ?thesis by (auto simp: boot_rel_def split: init_pc.split)
next
  case (child j p)
  with sum_rank_update child_step_rank show ?thesis by (auto simp: boot_rel_def split: init_pc.split)
qed (auto simp: boot_rel_def)

lemma boot_ends: "\<exists>b'. boot_reach fork s opn exe b b' \<and> (\<forall>b''. \<not> boot_step fork s opn exe b' b'')"
proof -
  have "wf boot_rel" by (simp add: boot_rel_def)
  then show ?thesis
  proof (induction b rule: wf_induct_rule)
    case (less b)
    then show ?case
      by (metis boot_step_decreases converse_rtranclp_into_rtranclp rtranclp.rtrancl_refl)
  qed
qed

subsection \<open>The interleaved run computes \<open>interpret_config\<close>\<close>

text \<open>What is left of the sequential run.\<close>

definition loop_rest :: "(nat \<Rightarrow> int) \<Rightarrow> string \<Rightarrow> boot \<Rightarrow> cb_result" where
  "loop_rest fork s b =
     (case ppc b of
        Interpreting \<Rightarrow> interpret_loop fork s (todo b) (parent b)
      | Failed \<Rightarrow> (Some INTERPRET_ERR, parent b)
      | Overflowed \<Rightarrow> (Some CHILDREN_OVERFLOW, parent b)
      | _ \<Rightarrow> (None, (parent b)\<lparr>signalled := []\<rparr>))"

lemma loop_rest_step:
  assumes "boot_step fork s opn exe b b'" "boot_inv s opn exe b"
  shows "loop_rest fork s b' = loop_rest fork s b"
  using assms(1)
proof cases
  case all_done
  then have "signalled (parent b) = []" using assms(2) by (simp add: boot_inv_def sent_def)
  with all_done show ?thesis by (cases "parent b") (simp add: loop_rest_def)
qed (auto simp: loop_rest_def split: init_pc.split)

lemma loop_rest_reach:
  assumes "boot_reach fork s opn exe b b'" "boot_inv s opn exe b"
  shows "loop_rest fork s b' = loop_rest fork s b"
  using assms(1)
proof (induction rule: rtranclp_induct)
  case (step y z)
  from boot_inv_reach[OF step(1) assms(2)] loop_rest_step[OF step(2)] step.IH show ?case by simp
qed simp

lemma reach_start:
  assumes "fst (parse_config ok s h) = Inr (q, ds)" "boot_reach fork s opn exe (boot_start ds e) b"
  shows "boot_inv s opn exe b" "loop_rest fork s b = interpret_loop fork s ds (interp_init e)"
proof -
  have inv: "boot_inv s opn exe (boot_start ds e)"
    using parse_config_directives_ok[OF assms(1)] by (rule boot_inv_start)
  show "boot_inv s opn exe b" using assms(2) inv by (rule boot_inv_reach)
  show "loop_rest fork s b = interpret_loop fork s ds (interp_init e)"
    using loop_rest_reach[OF assms(2) inv] by (simp add: loop_rest_def boot_start_def)
qed

text \<open>Where a run stops.\<close>

lemma stuck_shape:
  assumes inv: "boot_inv s opn exe b" and stuck: "\<forall>b'. \<not> boot_step fork s opn exe b b'"
  shows "(ppc b = Finished \<and> (\<forall>p\<in>set (procs b). pc p = (if opn (prog p) \<noteq> - 1 \<and> exe (prog p) then Running else Gone (- 1)))) \<or>
    (ppc b = Failed \<and> (\<forall>p\<in>set (procs b). pc p = (if opn (prog p) \<noteq> - 1 then At_wait else Gone (- 1)))) \<or>
    ppc b = Overflowed"
proof -
  have ch: "\<not> pending p \<and> (pc p = At_wait \<and> tty_lock p \<or> pc p = Running \<or> (\<exists>n. pc p = Gone n))"
    if "p \<in> set (procs b)" for p
  proof -
    obtain j where j: "j < length (procs b)" "procs b ! j = p" using \<open>p \<in> set (procs b)\<close> by (auto simp: in_set_conv_nth)
    with stuck have "\<not> pending p" using deliver[of j b] by blast
    moreover have "child_step opn exe p = None"
      using stuck j child[of j b opn exe] by (cases "child_step opn exe p") auto
    ultimately show ?thesis by (simp add: child_step_None)
  qed
  have not: "ppc b \<noteq> Interpreting"
  proof
    assume i: "ppc b = Interpreting"
    show False
    proof (cases "todo b")
      case Nil
      then show False using stuck all_done[OF i] by blast
    next
      case (Cons d ds)
      obtain r st where run: "interpret_directive fork s d (parent b) = (r, st)" by fastforce
      show False
      proof (cases r)
        case None
        then show False using stuck directive[OF i Cons, of fork s] run by blast
      next
        case (Some e)
        then show False
          using stuck directive_fails[OF i Cons, of fork s] directive_overflows[OF i Cons, of fork s] run
          by (cases e) blast+
      qed
    qed
  qed
  have not2: "ppc b \<noteq> Signalling i" for i
  proof
    assume i: "ppc b = Signalling i"
    with inv have "i \<le> length (children (parent b))" by (simp add: boot_inv_def sent_def)
    then show False using stuck signal[OF i] signals_done[OF i] by (metis le_neq_implies_less)
  qed
  have calls: "calls_at opn exe (prog p) (pc p) (calls p)" "started p \<longrightarrow> \<not> tty_lock p" if "p \<in> set (procs b)" for p
    using inv that by (auto simp: boot_inv_def proc_inv_def)
  show ?thesis
  proof (cases "ppc b")
    case Finished
    then have "signalled (parent b) = children (parent b)" "children_inv (parent b)"
      using inv by (auto simp: boot_inv_def sent_def)
    then have sg: "cpid ` set (spawned (parent b)) = set (signalled (parent b))" by (simp add: children_inv_def)
    have "map prog (procs b) = spawned (parent b)" using inv by (simp add: boot_inv_def)
    then have "prog ` set (procs b) = set (spawned (parent b))" by (metis image_set)
    then have "cpid (prog p) \<in> set (signalled (parent b))" if "p \<in> set (procs b)" for p
      unfolding sg[symmetric] using that by blast
    then have "\<forall>p\<in>set (procs b). sig_ready p" using inv by (simp add: boot_inv_def)
    then have "pc p = (if opn (prog p) \<noteq> - 1 \<and> exe (prog p) then Running else Gone (- 1))" if "p \<in> set (procs b)" for p
      using ch[OF that] calls(1)[OF that] that by (auto simp: sig_ready_def split: if_splits)
    with Finished show ?thesis by simp
  next
    case Failed
    then have "pc p = (if opn (prog p) \<noteq> - 1 then At_wait else Gone (- 1))" if "p \<in> set (procs b)" for p
    proof -
      have ns: "\<not> started p" using inv_started(3)[OF inv that] Failed by auto
      then have "exec_call (prog p) \<notin> set (calls p)" by (auto simp: started_def exec_call_def)
      with ns show ?thesis
        using ch[OF that] calls(1)[OF that] by (auto simp: started_def split: if_splits)
    qed
    with Failed show ?thesis by simp
  qed (use not not2 in auto)
qed

subsection \<open>Properties of the boot\<close>

lemma finished_config:
  assumes "fst (parse_config ok s h) = Inr (q, ds)" "boot_reach fork s opn exe (boot_start ds e) b"
  shows "ppc b = Finished \<Longrightarrow> interpret_config True fork s ds (interp_init e) = (Returned None, parent b)"
    "ppc b = Failed \<Longrightarrow> interpret_config True fork s ds (interp_init e) = (Returned (Some INTERPRET_ERR), parent b)"
    "ppc b = Overflowed \<Longrightarrow> interpret_config True fork s ds (interp_init e) = (Undefined, parent b)"
proof -
  note R = reach_start[OF assms]
  assume f: "ppc b = Finished"
  have "signalled (parent b) = children (parent b)" using R(1) f by (simp add: boot_inv_def sent_def)
  moreover have "interpret_loop fork s ds (interp_init e) = (None, (parent b)\<lparr>signalled := []\<rparr>)"
    using R(2) f by (simp add: loop_rest_def)
  ultimately show "interpret_config True fork s ds (interp_init e) = (Returned None, parent b)"
    by (cases "parent b") (simp add: interpret_config_def)
next
  note R = reach_start[OF assms]
  assume "ppc b = Failed"
  then have "interpret_loop fork s ds (interp_init e) = (Some INTERPRET_ERR, parent b)"
    using R(2) by (simp add: loop_rest_def)
  then show "interpret_config True fork s ds (interp_init e) = (Returned (Some INTERPRET_ERR), parent b)"
    by (simp add: interpret_config_def)
next
  note R = reach_start[OF assms]
  assume "ppc b = Overflowed"
  then have "interpret_loop fork s ds (interp_init e) = (Some CHILDREN_OVERFLOW, parent b)"
    using R(2) by (simp add: loop_rest_def)
  then show "interpret_config True fork s ds (interp_init e) = (Undefined, parent b)"
    by (simp add: interpret_config_def)
qed

text \<open>A run of the sample configuration: its child is running at the end.\<close>

lemma demo_boot:
  "\<exists>b p. boot_reach (\<lambda>_. 7) (render demo) (\<lambda>_. 3) (\<lambda>_. True) (boot_start (dirs_of demo) (\<lambda>_. None)) b \<and>
     (\<forall>b'. \<not> boot_step (\<lambda>_. 7) (render demo) (\<lambda>_. 3) (\<lambda>_. True) b b') \<and>
     p \<in> set (procs b) \<and> started p \<and> pc p = Running \<and> ppc b = Finished"
proof -
  obtain b where b: "boot_reach (\<lambda>_. 7) (render demo) (\<lambda>_. 3) (\<lambda>_. True) (boot_start (dirs_of demo) (\<lambda>_. None)) b"
    "\<forall>b'. \<not> boot_step (\<lambda>_. 7) (render demo) (\<lambda>_. 3) (\<lambda>_. True) b b'" using boot_ends by blast
  note inv = reach_start(1)[OF demo_parse b(1)] and fin = finished_config[OF demo_parse b(1)]
  have f: "ppc b = Finished"
    using stuck_shape[OF inv b(2)] fin(2,3) demo_run by (auto simp: demo_st_def)
  have "spawned (parent b) = spawned demo_end" using fin(1)[OF f] demo_run by (simp add: demo_st_def)
  also have "\<dots> \<noteq> []"
    using demo_sem parse_config_directives_ok[OF demo_parse]
    by (simp add: demo_end_def interpret_config_sem demo_words)
  finally have "procs b \<noteq> []" using inv by (auto simp: boot_inv_def)
  then have p: "hd (procs b) \<in> set (procs b)" by simp
  with stuck_shape[OF inv b(2)] f have "pc (hd (procs b)) = Running" by simp
  then show ?thesis using b p f by (auto simp: started_def)
qed

text \<open>C10: the start barrier. However init and its children interleave, a child that is past
  \<open>wait_start_signal\<close> has been signalled by init, and init has by then carried out every
  directive of the configuration; none has failed, and no process id was stored behind the table.\<close>

theorem start_barrier:
  assumes "fst (parse_config ok s h) = Inr (q, ds)"
    and "boot_reach fork s opn exe (boot_start ds e) b" "p \<in> set (procs b)" "started p"
  shows "cpid (prog p) \<in> set (signalled (parent b)) \<and> todo b = [] \<and> ppc b \<notin> {Failed, Overflowed}"
  using inv_started[OF reach_start(1)[OF assms(1,2)] assms(3,4)] by auto

theorem start_barrier_witness:
  "\<exists>(b::boot) p. p \<in> set (procs b) \<and> started p \<and> cpid (prog p) \<in> set (signalled (parent b)) \<and> todo b = []"
proof -
  obtain b p where b: "boot_reach (\<lambda>_. 7) (render demo) (\<lambda>_. 3) (\<lambda>_. True) (boot_start (dirs_of demo) (\<lambda>_. None)) b"
    "\<forall>b'. \<not> boot_step (\<lambda>_. 7) (render demo) (\<lambda>_. 3) (\<lambda>_. True) b b'"
    "p \<in> set (procs b)" "started p" "pc p = Running" "ppc b = Finished"
    using demo_boot by blast
  from start_barrier[OF demo_parse b(1,3,4)] b(3,4) show ?thesis by blast
qed

text \<open>C11: every boot ends, and how. No interleaving goes on forever (a waiting child takes no
  step), and where one stops, init has finished or failed, if the table of the children did not overflow. If it has finished, every child runs
  its program, unless its terminal could not be opened or the \<open>execv\<close> failed, and then it has
  exited with -1: no wake-up is lost. If init has failed, every child whose terminal could be
  opened spins in \<open>wait_start_signal\<close>. Nothing is said of a boot that stores a process id behind the table.\<close>

theorem boot_outcome:
  assumes "fst (parse_config ok s h) = Inr (q, ds)"
    and "boot_reach fork s opn exe (boot_start ds e) b"
  shows "wf {(y, x). boot_step fork s opn exe x y} \<and>
    ((\<exists>b'. boot_step fork s opn exe b b') \<or>
     (ppc b = Finished \<and> (\<forall>p\<in>set (procs b). pc p = (if opn (prog p) \<noteq> - 1 \<and> exe (prog p) then Running else Gone (- 1)))) \<or>
     (ppc b = Failed \<and> (\<forall>p\<in>set (procs b). pc p = (if opn (prog p) \<noteq> - 1 then At_wait else Gone (- 1)))) \<or>
     ppc b = Overflowed)"
proof
  have "wf boot_rel" by (simp add: boot_rel_def)
  then show "wf {(y, x). boot_step fork s opn exe x y}"
    by (rule wf_subset) (auto intro: boot_step_decreases)
qed (use stuck_shape[OF reach_start(1)[OF assms]] in blast)

theorem boot_outcome_witness:
  "\<exists>(b::boot) p. ppc b = Finished \<and> p \<in> set (procs b) \<and> (\<forall>p\<in>set (procs b). pc p = Running)"
proof -
  obtain b p where b: "boot_reach (\<lambda>_. 7) (render demo) (\<lambda>_. 3) (\<lambda>_. True) (boot_start (dirs_of demo) (\<lambda>_. None)) b"
    "\<forall>b'. \<not> boot_step (\<lambda>_. 7) (render demo) (\<lambda>_. 3) (\<lambda>_. True) b b'"
    "p \<in> set (procs b)" "started p" "pc p = Running" "ppc b = Finished"
    using demo_boot by blast
  from conjunct2[OF boot_outcome[OF demo_parse b(1)]] b(2,6)
  have "\<forall>p\<in>set (procs b). pc p = (if (3::int) \<noteq> - 1 \<and> True then Running else Gone (- 1))" by simp
  then have "\<forall>p\<in>set (procs b). pc p = Running" by simp
  with b(3,6) show ?thesis by blast
qed

text \<open>What a child does. A child that runs its program has opened its terminal, made it its
  standard output, input and error, started a session with it as controlling terminal, switched
  it to graphics mode exactly when the directive says so, cleared the screen exactly when the
  option was set, and executed its command line with its environment: in this order, each
  once.\<close>

theorem running_child_calls:
  assumes "fst (parse_config ok s h) = Inr (q, ds)"
    and "boot_reach fork s opn exe (boot_start ds e) b" "p \<in> set (procs b)" "pc p = Running"
  shows "calls p =
    [K_open (ctty (prog p)), K_dup2 (opn (prog p)) 1, K_dup2 (opn (prog p)) 0, K_dup2 (opn (prog p)) 2,
     K_setsid, K_ioctl (opn (prog p)) TIOCSCTTY 0] @
    (if cmode (prog p) = TTY_GFX then [K_ioctl (opn (prog p)) KTTY_IOCTL_SETMODE KTTY_MODE_GRAPHICS] else []) @
    (if OPT_CLEAR AND copts (prog p) \<noteq> 0 then [K_print clear_screen] else []) @
    [K_execv (hd (cargv (prog p))) (cargv (prog p)) (cenv (prog p))]"
proof -
  have "proc_inv opn exe p" using reach_start(1)[OF assms(1,2)] assms(3) by (simp add: boot_inv_def)
  with assms(4) show ?thesis
    by (simp add: proc_inv_def setup_calls_def dup_calls_def clear_calls_def exec_call_def)
qed

theorem running_child_calls_witness: "\<exists>(b::boot) p. p \<in> set (procs b) \<and> hd (calls p) = K_open (ctty (prog p))"
proof -
  obtain b p where b: "boot_reach (\<lambda>_. 7) (render demo) (\<lambda>_. 3) (\<lambda>_. True) (boot_start (dirs_of demo) (\<lambda>_. None)) b"
    "p \<in> set (procs b)" "pc p = Running" using demo_boot by blast
  have "hd (calls p) = K_open (ctty (prog p))" unfolding running_child_calls[OF demo_parse b] by simp
  with b(2) show ?thesis by blast
qed

end
