(* ===== verification/Init_Main.thy ===== *)
theory Init_Main
  imports Init_Start
begin

text \<open>
  The main program of init (\<open>init/src/main.c\<close>): it reads \<open>/boot/initcfg\<close> into a buffer of
  \<open>cfg_len + 1\<close> bytes, parses it and interprets it. The file is a parameter (\<open>None\<close> when it
  cannot be opened), and so is what the buffer and the memory behind it hold after the text
  (\<open>junk\<close>): the source does not store a NUL there. The status is \<open>None\<close> where C leaves it undefined.
\<close>

definition init_main ::
    "string option \<Rightarrow> bool \<Rightarrow> string \<Rightarrow> (nat \<Rightarrow> bool) \<Rightarrow> heap \<Rightarrow> bool \<Rightarrow> (nat \<Rightarrow> int) \<Rightarrow> interp \<Rightarrow> int option \<times> interp" where
  "init_main cfg_file malloc_ok junk ok h sigaction_ok fork st =
     (case cfg_file of
        None \<Rightarrow> (Some EXIT_FAILURE, st)
      | Some text \<Rightarrow>
          (if \<not> malloc_ok then (Some EXIT_FAILURE, st)
           else
             (case fst (parse_config ok (text @ junk) h) of
                Inl PARSE_ERR \<Rightarrow> (Some EXIT_FAILURE, st)
              | Inr (q, directives) \<Rightarrow>
                  (case interpret_config sigaction_ok fork (text @ junk) directives st of
                     (Exited n, st') \<Rightarrow> (Some n, st')
                   | (Returned r, st') \<Rightarrow> (Some 0, st')
                   | (Undefined, st') \<Rightarrow> (None, st')))))"

subsection \<open>Nothing behind the first NUL is read\<close>

lemma peek_before_nul: "p \<le> length s \<Longrightarrow> peek (s @ nul # r) p = peek s p"
  by (auto simp: peek_def nth_append)

lemma scan_before_nul: "p \<le> length s \<Longrightarrow> scan_while P (s @ nul # r) p = scan_while P s p"
proof (induction P s p rule: scan_while.induct)
  case (1 P s p)
  show ?case
    using "1" peek_non_nul[of s p] by (subst (1 2) scan_while.simps) (auto simp: peek_before_nul)
qed

lemma trim_before_nul: "e \<le> length s \<Longrightarrow> trim_start (s @ nul # r) a e = trim_start s a e"
proof (induction s a e rule: trim_start.induct)
  case (1 s a e)
  then show ?case by (subst (1 2) trim_start.simps) (auto simp: peek_before_nul)
qed

lemmas before_nul = peek_before_nul scan_before_nul trim_before_nul scan_while_le

lemma scan_arg_before_nul:
  assumes "p < length s"
  shows "scan_arg (s @ nul # r) p = scan_arg s p"
    and "scan_arg s p = Some (a, q) \<Longrightarrow> q \<le> length s"
proof -
  show "scan_arg (s @ nul # r) p = scan_arg s p"
    using assms by (auto simp: scan_arg_def Let_def quote_end_def word_end_def before_nul)
  show "scan_arg s p = Some (a, q) \<Longrightarrow> q \<le> length s"
    using assms peek_non_nul[of s "quote_end s (Suc p)"]
    by (auto simp: scan_arg_def Let_def word_end_def before_nul Suc_le_eq split: if_splits)
qed

lemma parse_line_before_nul:
  "p \<le> length s \<Longrightarrow> parse_line_loop ok (s @ nul # r) p ptr as h = parse_line_loop ok s p ptr as h"
proof (induction ok s p ptr as h rule: parse_line_loop.induct)
  case (1 ok s p ptr as h)
  define p1 where "p1 = skip_whitespace s p"
  have p1: "skip_whitespace (s @ nul # r) p = p1" "p1 \<le> length s"
    using "1.prems" by (simp_all add: p1_def skip_whitespace_def before_nul)
  have pk: "peek (s @ nul # r) p = peek s p" "peek (s @ nul # r) p1 = peek s p1"
    using "1.prems" p1(2) by (simp_all add: peek_before_nul)
  show ?case
  proof (cases "peek s p \<noteq> nul \<and> peek s p \<noteq> newline \<and> peek s p1 \<noteq> nul \<and> peek s p1 \<noteq> newline")
    case True
    then have "p1 < length s" by (auto intro: peek_non_nul)
    note sa = scan_arg_before_nul(1)[OF this, where r = r] scan_arg_before_nul(2)[OF this]
    show ?thesis
      using True "1.IH"[OF _ p1_def] sa(2)
      by (subst (1 2) parse_line_loop.simps)
        (auto simp: Let_def pk p1(1) sa(1) p1_def[symmetric] split: option.split prod.split)
  next
    case False
    then show ?thesis
      by (subst (1 2) parse_line_loop.simps) (auto simp: Let_def pk p1(1) p1_def[symmetric])
  qed
qed

lemma parse_config_loop_before_nul:
  "p \<le> length s \<Longrightarrow> parse_config_loop ok (s @ nul # r) p ptr ds h = parse_config_loop ok s p ptr ds h"
proof (induction ok s p ptr ds h rule: parse_config_loop.induct)
  case (1 ok s p ptr ds h)
  define e where "e = line_end s p"
  define ls where "ls = trim_start s p e"
  define p' where "p' = (if peek s e = newline then Suc e else e)"
  have e: "line_end (s @ nul # r) p = e" "e \<le> length s"
    using "1.prems" by (simp_all add: e_def line_end_def before_nul)
  have ls: "trim_start (s @ nul # r) p e = ls"
    using e(2) by (simp add: ls_def before_nul)
  have pk: "peek (s @ nul # r) p = peek s p" "peek (s @ nul # r) e = peek s e"
    using "1.prems" e(2) by (simp_all add: peek_before_nul)
  have p': "p' \<le> length s" using e(2) peek_non_nul[of s e] by (auto simp: p'_def Suc_le_eq)
  have pl: "ls < e \<Longrightarrow> parse_line ok (s @ nul # r) ls h' = parse_line ok s ls h'" for h'
    using e(2) by (simp add: parse_line_def parse_line_before_nul)
  define body where "body t = (if ls < e then
      (case heap_realloc ok ptr h of
         (None, h1) \<Rightarrow> (Inl PARSE_ERR, heap_free ptr (free_args ds h1))
       | (Some b, h1) \<Rightarrow>
           (case parse_line ok t ls h1 of
              (Inl _, h2) \<Rightarrow> (Inl PARSE_ERR, heap_free (Some b) (free_args ds h2))
            | (Inr d, h2) \<Rightarrow> parse_config_loop ok t p' (Some b) (ds @ [d]) h2))
      else parse_config_loop ok t p' ptr ds h)" for t
  show ?case
  proof (cases "peek s p = nul")
    case True
    then show ?thesis by (subst (1 2) parse_config_loop.simps) (simp add: pk)
  next
    case False
    have "parse_config_loop ok (s @ nul # r) p ptr ds h = body (s @ nul # r)"
      by (subst parse_config_loop.simps) (simp only: Let_def pk e(1) ls False if_False body_def p'_def)
    moreover have "parse_config_loop ok s p ptr ds h = body s"
      by (subst parse_config_loop.simps)
        (simp only: Let_def False if_False body_def p'_def ls_def flip: e_def)
    moreover have "body (s @ nul # r) = body s"
      using "1.IH"[OF False e_def ls_def p'_def] pl p'
      by (auto simp: body_def split: option.split prod.split sum.split)
    ultimately show ?thesis by simp
  qed
qed

lemma parse_config_before_nul: "parse_config ok (s @ nul # r) h = parse_config ok s h"
  by (simp add: parse_config_def parse_config_loop_before_nul)

text \<open>The text the parser sees: the buffer up to its first NUL.\<close>

definition c_string :: "string \<Rightarrow> string" where
  "c_string buf = takeWhile (\<lambda>c. c \<noteq> nul) buf"

lemma c_string_cases: "c_string buf = buf \<or> (\<exists>r. buf = c_string buf @ nul # r)"
proof (cases "dropWhile (\<lambda>c. c \<noteq> nul) buf")
  case Nil
  then show ?thesis by (simp add: c_string_def takeWhile_eq_all_conv dropWhile_eq_Nil_conv)
next
  case (Cons c r)
  then have "c = nul" using hd_dropWhile[of "\<lambda>c. c \<noteq> nul" buf] by simp
  then have "c_string buf @ nul # r = buf"
    using Cons takeWhile_dropWhile_id[of "\<lambda>c. c \<noteq> nul" buf] by (simp add: c_string_def)
  then show ?thesis by metis
qed

lemma nul_free_c_string: "nul \<notin> set (c_string buf)"
  by (auto simp: c_string_def dest: set_takeWhileD)

lemma parse_config_c_string: "parse_config ok buf h = parse_config ok (c_string buf) h"
  using c_string_cases[of buf] parse_config_before_nul by metis

lemma arg_text_append: "str a + len a \<le> length s \<Longrightarrow> arg_text (s @ r) a = arg_text s a"
  by (simp add: arg_text_def)

lemma directive_texts_c_string:
  assumes "directive_ok (c_string buf) d"
  shows "directive_texts buf d = directive_texts (c_string buf) d"
proof -
  obtain r where "buf = c_string buf @ r" using c_string_cases[of buf] by (metis append.right_neutral)
  then show ?thesis
    using assms arg_text_append[of _ "c_string buf" r]
    by (metis (no_types, lifting) directive_ok_def directive_texts_def map_cong slice_ok_def)
qed

lemma parsed_texts:
  assumes "fst (parse_config ok buf h) = Inr (q, ds)"
  shows "\<forall>d\<in>set ds. directive_ok buf d" "map (directive_texts buf) ds = map (directive_texts (c_string buf)) ds"
  using parse_config_directives_ok[OF assms]
    parse_config_directives_ok[OF assms[unfolded parse_config_c_string[of _ buf]]]
  by (auto simp: directive_texts_c_string)

subsection \<open>Properties of the main program\<close>

lemma texts_result:
  assumes "directives_of (c_string buf) = Some dss"
  obtains q ds where "fst (parse_config (\<lambda>_. True) buf h) = Inr (q, ds)" "map (directive_texts buf) ds = dss"
  using parse_config_texts[OF nul_free_c_string, of buf h] assms parsed_texts(2)[of "\<lambda>_. True" buf h]
  by (auto simp: config_texts_def parse_config_c_string[of _ buf, symmetric] split: sum.splits)

lemma texts_error:
  assumes "directives_of (c_string buf) = None"
  shows "fst (parse_config (\<lambda>_. True) buf h) = Inl PARSE_ERR"
  using parse_config_texts[OF nul_free_c_string, of buf h] assms
  by (cases "fst (parse_config (\<lambda>_. True) buf h)")
    (auto simp: config_texts_def parse_config_c_string[of _ buf, symmetric] intro: parse_error.exhaust)

lemma init_main_sem:
  "init_main (Some text) True junk (\<lambda>_. True) h True fork st =
    (case directives_of (c_string (text @ junk)) of
       None \<Rightarrow> (Some EXIT_FAILURE, st)
     | Some dss \<Rightarrow>
         (case sem_config fork dss st of
            (Some INTERPRET_ERR, st') \<Rightarrow> (Some 0, st')
          | (Some CHILDREN_OVERFLOW, st') \<Rightarrow> (None, st')
          | (None, st') \<Rightarrow> (Some 0, st'\<lparr>signalled := signalled st' @ children st'\<rparr>)))"
proof (cases "directives_of (c_string (text @ junk))")
  case None
  then show ?thesis by (simp add: init_main_def texts_error)
next
  case (Some dss)
  then obtain q ds where ds: "fst (parse_config (\<lambda>_. True) (text @ junk) h) = Inr (q, ds)"
    "map (directive_texts (text @ junk)) ds = dss" by (rule texts_result)
  show ?thesis
    by (simp add: init_main_def ds Some interpret_config_sem[OF parsed_texts(1)[OF ds(1)]]
        split: prod.split option.split interp_error.split)
qed

text \<open>C13: the main program, from the bytes of the file to the exit status. What init does is the
  meaning of the text in its buffer up to the first NUL, which the file and the memory behind it
  determine together. Its status is 1 when that text does not parse, and 0 otherwise, also when
  a directive failed. It has no status that C promises when the table of the children overflows.\<close>

theorem init_main_meaning:
  "init_main (Some text) True junk (\<lambda>_. True) h True fork st =
    (case directives_of (takeWhile (\<lambda>c. c \<noteq> nul) (text @ junk)) of
       None \<Rightarrow> (Some EXIT_FAILURE, st)
     | Some dss \<Rightarrow>
         (case sem_config fork dss st of
            (Some INTERPRET_ERR, st') \<Rightarrow> (Some 0, st')
          | (Some CHILDREN_OVERFLOW, st') \<Rightarrow> (None, st')
          | (None, st') \<Rightarrow> (Some 0, st'\<lparr>signalled := signalled st' @ children st'\<rparr>)))"
  by (simp only: init_main_sem c_string_def)

lemma toks_word:
  assumes "w \<noteq> []" "hd w \<noteq> quote" "\<forall>c\<in>set w. \<not> isspace c"
  shows "toks w = Some [w]"
proof -
  obtain c r where w: "w = c # r" using assms(1) by (cases w) auto
  have "\<not> isspace c" using assms(3) w by simp
  then have c: "\<not> blank c" "c \<noteq> newline" by (auto simp: blank_def)
  have dw: "dropWhile (\<lambda>c. \<not> isspace c) r = []" "takeWhile (\<lambda>c. \<not> isspace c) r = r"
    using assms(3) w by (simp_all add: dropWhile_eq_Nil_conv takeWhile_eq_all_conv)
  have e: "toks [] = Some []" by (simp add: toks.simps)
  have "c \<noteq> quote" using assms(2) w by simp
  then show ?thesis
    unfolding w by (subst toks.simps) (simp add: c dw e \<open>\<not> isspace c\<close>)
qed

lemma toks_word_space:
  assumes "w \<noteq> []" "hd w \<noteq> quote" "\<forall>c\<in>set w. \<not> isspace c"
  shows "toks (w @ CHR 0x20 # cs) = map_option (Cons w) (toks cs)"
proof -
  obtain c r where w: "w = c # r" using assms(1) by (cases w) auto
  have "\<not> isspace c" using assms(3) w by simp
  then have "\<not> blank c" "c \<noteq> newline" by (auto simp: blank_def)
  moreover have "toks (CHR 0x20 # cs) = toks cs"
    using toks_skip_blanks[of "[CHR 0x20]" cs] by (simp add: blank_def newline_def)
  ultimately show ?thesis
    using assms(2,3) toks.simps[of "w @ CHR 0x20 # cs"]
    by (auto simp: w takeWhile_append)
qed

lemma env_line:
  assumes "w \<noteq> []" "hd w \<noteq> quote" "\<forall>c\<in>set w. \<not> isspace c"
  shows "directives_of (''env A '' @ w) = Some [[''env'', ''A'', w]]"
proof -
  have e: "''env A '' @ w = ''env'' @ CHR 0x20 # ''A'' @ CHR 0x20 # w" by simp
  have "toks (''A'' @ CHR 0x20 # w) = Some [''A'', w]"
    using toks_word_space[of "''A''" w] toks_word[OF assms] by (simp add: isspace_def quote_def)
  then have t: "toks (''env A '' @ w) = Some [''env'', ''A'', w]"
    unfolding e using toks_word_space[of "''env''" "''A'' @ CHR 0x20 # w"] by (simp add: isspace_def quote_def)
  have nl: "newline \<notin> set (''env A '' @ w)"
    using assms(3) by (auto simp: newline_def isspace_def)
  have ln: "split_lines (''env A '' @ w) = [''env A '' @ w]" using nl by (rule split_lines_single)
  have "directives_of (''env A '' @ w) =
      Some (filter (\<lambda>ws. ws \<noteq> []) (map (the \<circ> toks) (split_lines (''env A '' @ w))))"
    by (rule directives_of_split) (auto simp only: ln list.set t)
  then show ?thesis unfolding ln by (simp only: list.map comp_def t) simp
qed

text \<open>C15: the buffer has no terminator. When the file ends in \<open>env A v\<close> without a newline, the
  value that init gives to \<open>A\<close> goes on with whatever bytes stand behind the buffer's text, up to
  the first NUL: it is \<open>v\<close> only when the byte that \<open>malloc\<close> returned there happens to be 0.\<close>

theorem config_not_terminated:
  assumes "v \<noteq> []" "hd v \<notin> {quote, dollar}" "\<forall>c\<in>set (v @ j). \<not> isspace c \<and> c \<noteq> nul"
  shows "environ (snd (init_main (Some (''env A '' @ v)) True (j @ nul # rest) (\<lambda>_. True) h True fork (interp_init e))) ''A''
    = Some (v @ j)"
proof -
  have "takeWhile (\<lambda>c. c \<noteq> nul) (''env A '' @ v @ j @ nul # rest) = ''env A '' @ v @ j"
    using assms(3) by (subst takeWhile_append2, auto simp: nul_def)+
  then have c: "c_string ((''env A '' @ v) @ (j @ nul # rest)) = ''env A '' @ v @ j"
    by (simp add: c_string_def)
  have d: "directives_of (''env A '' @ v @ j) = Some [[''env'', ''A'', v @ j]]"
    using assms by (intro env_line) auto
  have v: "chd (v @ j) \<noteq> dollar" using assms(1,2) by (cases v) auto
  show ?thesis
    unfolding init_main_sem c d using v
    by (simp add: dispatch_def str_word_def dollar_def setenv_def)
qed

theorem config_not_terminated_witness:
  "environ (snd (init_main (Some (''env A '' @ ''b'')) True (''xy'' @ nul # ''z'') (\<lambda>_. True) heap0 True (\<lambda>_. 7)
     (interp_init (\<lambda>_. None)))) ''A'' = Some (''b'' @ ''xy'')"
  by (rule config_not_terminated) (simp_all add: quote_def dollar_def isspace_def nul_def)

end
