(* ===== verification/Fd_Table.thy ===== *)
theory Fd_Table
  imports Main
begin

text \<open>
  Tables of open descriptors. A descriptor is an \<open>int\<close>, \<open>- 1\<close> for none; the contract of a table is
  the locale \<open>fd_table\<close>, whose lemmas are what opening and closing in turn does. The table of one
  process is a list with holes.
\<close>

locale fd_table =
  fixes get :: "'t \<Rightarrow> int \<Rightarrow> 'd option" and put :: "int \<Rightarrow> 'd option \<Rightarrow> 't \<Rightarrow> 't" and free :: "'t \<Rightarrow> nat"
  assumes get_put: "0 \<le> fd \<Longrightarrow> get (put fd d t) = (get t)(fd := d)"
    and get_neg: "fd < 0 \<Longrightarrow> get t fd = None"
    and get_free: "get t (int (free t)) = None"
    and get_below: "i < free t \<Longrightarrow> get t (int i) \<noteq> None"
begin

lemma get_valid: "get t fd = Some d \<Longrightarrow> 0 \<le> fd"
  using get_neg[of fd t] by (cases "fd < 0") auto

text \<open>Opening takes the lowest free descriptor; closing it gives the old table back.\<close>

lemma get_alloc: "get (put (int (free t)) (Some d) t) = (get t)(int (free t) \<mapsto> d)"
  by (simp add: get_put)

lemma close_alloc: "get (put (int (free t)) None (put (int (free t)) (Some d) t)) = get t"
  by (rule ext) (simp add: get_put get_free)

lemma alloc_fresh: "get t fd = Some d \<Longrightarrow> fd \<noteq> int (free t)"
  using get_free[of t] by auto

lemma free_closed:
  assumes "get t fd = Some d" "\<forall>i<nat fd. get t (int i) \<noteq> None"
  shows "free (put fd None t) = nat fd"
proof (rule antisym)
  have 0: "0 \<le> fd" using assms(1) by (rule get_valid)
  show "free (put fd None t) \<le> nat fd"
    using get_below[of "nat fd" "put fd None t"] 0 by (cases "nat fd < free (put fd None t)") (auto simp: get_put)
  show "nat fd \<le> free (put fd None t)"
    using get_free[of "put fd None t"] assms(2) 0
    by (metis fun_upd_other get_put linorder_not_le nat_int order_less_irrefl)
qed

end

subsection \<open>The table of a process\<close>

text \<open>The lowest free descriptor; the length of the table when there is no hole.\<close>

fun first_free :: "'a option list \<Rightarrow> nat" where
  "first_free [] = 0"
| "first_free (None # xs) = 0"
| "first_free (Some _ # xs) = Suc (first_free xs)"

definition tab_get :: "'a option list \<Rightarrow> int \<Rightarrow> 'a option" where
  "tab_get t fd = (if 0 \<le> fd \<and> nat fd < length t then t ! nat fd else None)"

definition tab_put :: "int \<Rightarrow> 'a option \<Rightarrow> 'a option list \<Rightarrow> 'a option list" where
  "tab_put fd d t =
     (if nat fd < length t then t[nat fd := d] else t @ replicate (nat fd - length t) None @ [d])"

lemma first_free_le: "first_free xs \<le> length xs"
  by (induction xs rule: first_free.induct) auto

lemma first_free_nth:
  "first_free xs < length xs \<Longrightarrow> xs ! first_free xs = None"
  "i < first_free xs \<Longrightarrow> xs ! i \<noteq> None"
  by (induction xs arbitrary: i rule: first_free.induct) (auto simp: nth_Cons split: nat.splits)

lemma tab_get_put: "0 \<le> fd \<Longrightarrow> tab_get (tab_put fd d t) = (tab_get t)(fd := d)"
  by (rule ext) (auto simp: tab_get_def tab_put_def nth_append nth_list_update nth_Cons split: nat.splits)

interpretation tab: fd_table tab_get tab_put first_free
proof
  fix t :: "'a option list" and i :: nat
  show "tab_get t (int (first_free t)) = None"
    using first_free_nth(1)[of t] by (simp add: tab_get_def)
  show "i < first_free t \<Longrightarrow> tab_get t (int i) \<noteq> None"
    using first_free_le[of t] first_free_nth(2)[of i t] by (simp add: tab_get_def)
qed (simp_all add: tab_get_put tab_get_def)

end
