(* ===== verification/Abi_Bits.thy ===== *)
theory Abi_Bits
  imports Prelude
begin

text \<open>
  Packed numbers of the kernel interface: \<open>ioctl\<close> request codes (\<open>sysdeps/include/asm/ioctl.h\<close>),
  device numbers (\<open>sysdeps/include/sys/sysmacros.h\<close>) and wait statuses (\<open>abi/wait.h\<close>). The
  macros are functions on words, at the widths C gives their operands. The contract of an
  encoder with its decoder is the locale \<open>codec\<close>.
\<close>

subsection \<open>Encoders and decoders\<close>

locale codec =
  fixes enc :: "'v \<Rightarrow> 'w" and dec :: "'w \<Rightarrow> 'v" and valid :: "'v \<Rightarrow> bool"
  assumes dec_enc: "valid v \<Longrightarrow> dec (enc v) = v"
begin

lemma enc_inj: "inj_on enc (Collect valid)"
  by (rule inj_on_inverseI[of _ dec]) (simp add: dec_enc)

lemma enc_eq_iff: "valid v \<Longrightarrow> valid w \<Longrightarrow> enc v = enc w \<longleftrightarrow> v = w"
  using enc_inj by (simp add: inj_on_eq_iff)

lemma dec_on_image: "w \<in> enc ` Collect valid \<Longrightarrow> enc (dec w) = w"
  by (auto simp: dec_enc)

end

text \<open>An encoder that uses every code.\<close>

locale full_codec = codec +
  assumes enc_dec: "enc (dec w) = w"
    and valid_dec: "valid (dec w)"
begin

lemma enc_bij: "bij_betw enc (Collect valid) UNIV"
  by (rule bij_betw_byWitness[of _ dec]) (auto simp: dec_enc enc_dec valid_dec)

lemma dec_eq_iff: "dec a = dec b \<longleftrightarrow> a = b"
  by (metis enc_dec)

end

subsection \<open>Request codes of ioctl\<close>

definition IOC_NRBITS :: nat where "IOC_NRBITS = 8"
definition IOC_TYPEBITS :: nat where "IOC_TYPEBITS = 8"
definition IOC_SIZEBITS :: nat where "IOC_SIZEBITS = 14"
definition IOC_DIRBITS :: nat where "IOC_DIRBITS = 2"

definition IOC_NRSHIFT :: nat where "IOC_NRSHIFT = 0"
definition IOC_TYPESHIFT :: nat where "IOC_TYPESHIFT = IOC_NRSHIFT + IOC_NRBITS"
definition IOC_SIZESHIFT :: nat where "IOC_SIZESHIFT = IOC_TYPESHIFT + IOC_TYPEBITS"
definition IOC_DIRSHIFT :: nat where "IOC_DIRSHIFT = IOC_SIZESHIFT + IOC_SIZEBITS"

definition IOC_NRMASK :: u64 where "IOC_NRMASK = push_bit IOC_NRBITS 1 - 1"
definition IOC_TYPEMASK :: u64 where "IOC_TYPEMASK = push_bit IOC_TYPEBITS 1 - 1"
definition IOC_SIZEMASK :: u64 where "IOC_SIZEMASK = push_bit IOC_SIZEBITS 1 - 1"
definition IOC_DIRMASK :: u64 where "IOC_DIRMASK = push_bit IOC_DIRBITS 1 - 1"

definition IOC_NONE :: u32 where "IOC_NONE = 0"
definition IOC_WRITE :: u32 where "IOC_WRITE = 1"
definition IOC_READ :: u32 where "IOC_READ = 2"

lemmas ioc_defs =
  IOC_NRBITS_def IOC_TYPEBITS_def IOC_SIZEBITS_def IOC_DIRBITS_def
  IOC_NRSHIFT_def IOC_TYPESHIFT_def IOC_SIZESHIFT_def IOC_DIRSHIFT_def
  IOC_NRMASK_def IOC_TYPEMASK_def IOC_SIZEMASK_def IOC_DIRMASK_def
  IOC_NONE_def IOC_WRITE_def IOC_READ_def

text \<open>\<open>dir\<close>, \<open>type\<close> and \<open>nr\<close> are 32 bits wide; \<open>size\<close> comes from \<open>sizeof\<close>, so the result is 64
  bits wide, with the bits of the others zero-extended.\<close>

definition IOC :: "u32 \<Rightarrow> u32 \<Rightarrow> u32 \<Rightarrow> u64 \<Rightarrow> u64" where
  "IOC dir type nr sz =
     ucast (push_bit IOC_DIRSHIFT dir OR push_bit IOC_TYPESHIFT type OR push_bit IOC_NRSHIFT nr)
     OR push_bit IOC_SIZESHIFT sz"

definition IO :: "u32 \<Rightarrow> u32 \<Rightarrow> u64" where "IO type nr = IOC IOC_NONE type nr 0"
definition IOR :: "u32 \<Rightarrow> u32 \<Rightarrow> u64 \<Rightarrow> u64" where "IOR type nr sz = IOC IOC_READ type nr sz"
definition IOW :: "u32 \<Rightarrow> u32 \<Rightarrow> u64 \<Rightarrow> u64" where "IOW type nr sz = IOC IOC_WRITE type nr sz"
definition IOWR :: "u32 \<Rightarrow> u32 \<Rightarrow> u64 \<Rightarrow> u64" where
  "IOWR type nr sz = IOC (IOC_READ OR IOC_WRITE) type nr sz"

definition IOC_DIR :: "u64 \<Rightarrow> u64" where "IOC_DIR nr = drop_bit IOC_DIRSHIFT nr AND IOC_DIRMASK"
definition IOC_TYPE :: "u64 \<Rightarrow> u64" where "IOC_TYPE nr = drop_bit IOC_TYPESHIFT nr AND IOC_TYPEMASK"
definition IOC_NR :: "u64 \<Rightarrow> u64" where "IOC_NR nr = drop_bit IOC_NRSHIFT nr AND IOC_NRMASK"
definition IOC_SIZE :: "u64 \<Rightarrow> u64" where "IOC_SIZE nr = drop_bit IOC_SIZESHIFT nr AND IOC_SIZEMASK"

definition ioc_enc :: "u32 \<times> u32 \<times> u32 \<times> u64 \<Rightarrow> u64" where
  "ioc_enc r = (case r of (d, t, n, s) \<Rightarrow> IOC d t n s)"

definition ioc_dec :: "u64 \<Rightarrow> u32 \<times> u32 \<times> u32 \<times> u64" where
  "ioc_dec w = (ucast (IOC_DIR w), ucast (IOC_TYPE w), ucast (IOC_NR w), IOC_SIZE w)"

definition ioc_valid :: "u32 \<times> u32 \<times> u32 \<times> u64 \<Rightarrow> bool" where
  "ioc_valid r = (case r of (d, t, n, s) \<Rightarrow> d < 4 \<and> t < 256 \<and> n < 256 \<and> s < 0x4000)"

lemma ucast_up_down: "ucast (ucast (x :: u32) :: u64) = x"
  by (rule bit_eqI) (simp add: bit_simps)

text \<open>A word below a power of two has no bits from there on.\<close>

lemma high_bits_clear:
  fixes w :: "'l::len word"
  assumes "w < 2 ^ k" "k < LENGTH('l)" "bit w n"
  shows "n < k"
proof -
  have "unat ((2 :: 'l word) ^ k) = unat (of_nat (2 ^ k) :: 'l word)" by simp
  also have "\<dots> = 2 ^ k" using assms(2) by (simp only: unat_of_nat) simp
  finally have "unat w < 2 ^ k" using assms(1) by (simp only: word_less_nat_alt)
  then have "take_bit k (unat w) = unat w" by (rule take_bit_nat_eq_self)
  then have "bit (unat w) n \<longleftrightarrow> bit (take_bit k (unat w)) n" by simp
  with assms(3) show ?thesis by (simp add: bit_take_bit_iff bit_unsigned_iff)
qed

lemma ioc_round_trip:
  assumes "ioc_valid (d, t, n, s)"
  shows "IOC_DIR (IOC d t n s) = ucast d" "IOC_TYPE (IOC d t n s) = ucast t"
    "IOC_NR (IOC d t n s) = ucast n" "IOC_SIZE (IOC d t n s) = s"
proof -
  have b: "bit d k \<Longrightarrow> k < 2" "bit t k \<Longrightarrow> k < 8" "bit n k \<Longrightarrow> k < 8" "bit s k \<Longrightarrow> k < 14" for k
    using assms high_bits_clear[of d 2 k] high_bits_clear[of t 8 k] high_bits_clear[of n 8 k]
      high_bits_clear[of s 14 k] by (auto simp: ioc_valid_def)
  have m: "(3::u64) = mask 2" "(255::u64) = mask 8" "(16383::u64) = mask 14" by (simp_all add: mask_eq_exp_minus_1)
  note S = IOC_def IOC_DIR_def IOC_TYPE_def IOC_NR_def IOC_SIZE_def ioc_defs
  show "IOC_DIR (IOC d t n s) = ucast d"
    by (rule bit_eqI) (auto simp: S m bit_simps dest: b)
  show "IOC_TYPE (IOC d t n s) = ucast t"
    by (rule bit_eqI) (auto simp: S m bit_simps dest: b)
  show "IOC_NR (IOC d t n s) = ucast n"
    by (rule bit_eqI) (auto simp: S m bit_simps dest: b)
  show "IOC_SIZE (IOC d t n s) = s"
    by (rule bit_eqI) (auto simp: S m bit_simps dest: b)
qed

interpretation ioc: codec ioc_enc ioc_dec ioc_valid
proof
  fix r assume "ioc_valid r"
  then show "ioc_dec (ioc_enc r) = r"
    by (cases r) (simp add: ioc_enc_def ioc_dec_def ioc_round_trip ucast_up_down)
qed

subsection \<open>Device numbers\<close>

definition dev_major :: "u64 \<Rightarrow> u32" where
  "dev_major dev = ucast (drop_bit 8 dev AND 0xfff) OR (ucast (drop_bit 32 dev) AND NOT 0xfff)"

definition dev_minor :: "u64 \<Rightarrow> u32" where
  "dev_minor dev = ucast (dev AND 0xff) OR (ucast (drop_bit 12 dev) AND NOT 0xff)"

definition dev_makedev :: "u32 \<Rightarrow> u32 \<Rightarrow> u64" where
  "dev_makedev maj mnr =
     ucast ((mnr AND 0xff) OR push_bit 8 (maj AND 0xfff)) OR
     push_bit 12 (ucast (mnr AND NOT 0xff)) OR push_bit 32 (ucast (maj AND NOT 0xfff))"

lemma dev_masks: "(0xff :: 'l::len word) = mask 8" "(0xfff :: 'l::len word) = mask 12"
  by (simp_all add: mask_eq_exp_minus_1)

lemma dev_major_bit: "bit (dev_major d) n \<longleftrightarrow> (if n < 12 then bit d (n + 8) else n < 32 \<and> bit d (n + 32))"
  by (auto simp: dev_major_def dev_masks bit_simps add.commute dest: bit_imp_le_length)

lemma dev_minor_bit: "bit (dev_minor d) n \<longleftrightarrow> (if n < 8 then bit d n else n < 32 \<and> bit d (n + 12))"
  by (auto simp: dev_minor_def dev_masks bit_simps add.commute dest: bit_imp_le_length)

lemma dev_makedev_bit:
  "bit (dev_makedev maj mnr) n \<longleftrightarrow>
     (if n < 8 then bit mnr n else if n < 20 then bit maj (n - 8)
      else if n < 44 then bit mnr (n - 12) else n < 64 \<and> bit maj (n - 32))"
  by (auto simp: dev_makedev_def dev_masks bit_simps dest: bit_imp_le_length)

lemma dev_round_trip: "dev_major (dev_makedev maj mnr) = maj" "dev_minor (dev_makedev maj mnr) = mnr"
  by (rule bit_eqI, simp add: dev_major_bit dev_minor_bit dev_makedev_bit)+

lemma dev_make_parts: "dev_makedev (dev_major dev) (dev_minor dev) = dev"
proof (rule bit_eqI)
  fix n :: nat
  consider "n < 8" | "8 \<le> n" "n < 20" | "20 \<le> n" "n < 44" | "44 \<le> n" by linarith
  then show "bit (dev_makedev (dev_major dev) (dev_minor dev)) n = bit dev n"
    by cases (auto simp: dev_major_bit dev_minor_bit dev_makedev_bit dest: bit_imp_le_length)
qed

interpretation dev: full_codec "\<lambda>(a, b). dev_makedev a b" "\<lambda>d. (dev_major d, dev_minor d)" "\<lambda>_. True"
  by unfold_locales (auto simp: dev_round_trip dev_make_parts)

subsection \<open>Wait statuses\<close>

definition WNOHANG :: i32 where "WNOHANG = 1"
definition WUNTRACED :: i32 where "WUNTRACED = 2"
definition WEXITED :: i32 where "WEXITED = 4"
definition WCONTINUED :: i32 where "WCONTINUED = 8"
definition WCOREFLAG :: i32 where "WCOREFLAG = 0x80"

definition WEXITSTATUS :: "i32 \<Rightarrow> i32" where "WEXITSTATUS x = signed_drop_bit 8 (x AND 0xff00)"
definition WTERMSIG :: "i32 \<Rightarrow> i32" where "WTERMSIG x = x AND 0x7f"
definition WSTOPSIG :: "i32 \<Rightarrow> i32" where "WSTOPSIG x = WEXITSTATUS x"
definition WIFEXITED :: "i32 \<Rightarrow> bool" where "WIFEXITED x \<longleftrightarrow> WTERMSIG x = 0"

text \<open>The sum is cut to a \<open>signed char\<close> and promoted back to \<open>int\<close> before the shift.\<close>

definition WIFSIGNALED :: "i32 \<Rightarrow> bool" where
  "WIFSIGNALED x \<longleftrightarrow>
     0 <s signed_drop_bit 1 (scast (ucast ((x AND 0x7f) + 1) :: 8 word) :: i32)"

definition WIFSTOPPED :: "i32 \<Rightarrow> bool" where "WIFSTOPPED x \<longleftrightarrow> x AND 0xff = 0x7f"
definition WIFCONTINUED :: "i32 \<Rightarrow> bool" where "WIFCONTINUED x \<longleftrightarrow> x = 0xffff"
definition WCOREDUMP :: "i32 \<Rightarrow> i32" where "WCOREDUMP x = x AND WCOREFLAG"
definition W_EXITCODE :: "i32 \<Rightarrow> i32 \<Rightarrow> i32" where "W_EXITCODE ret sig = push_bit 8 ret OR sig"

text \<open>What \<open>WIFSIGNALED\<close> computes: the low seven bits are neither 0 nor all ones.\<close>

lemma wifsignaled_iff: "WIFSIGNALED x \<longleftrightarrow> WTERMSIG x \<noteq> 0 \<and> WTERMSIG x \<noteq> 0x7f"
proof -
  define n where "n = unat (x AND 0x7f)"
  have e: "x AND 0x7f = of_nat n" by (simp add: n_def)
  have "(0x7f :: i32) = mask 7" by (simp add: mask_eq_exp_minus_1)
  then have "uint (x AND 0x7f) < 2 ^ 7" using and_mask_lt_2p[of x 7] by simp
  moreover have "int n = uint (x AND 0x7f)" unfolding n_def by (rule uint_nat[symmetric])
  ultimately have n: "n < 128" by simp
  define c :: "8 word" where "c = ucast ((x AND 0x7f) + 1)"
  have s: "(x AND 0x7f) + 1 = of_nat (Suc n)" unfolding e by (simp only: of_nat_Suc add.commute)
  have "take_bit 32 (Suc n) = Suc n" using n by (intro take_bit_nat_eq_self) simp
  then have "c = of_nat (Suc n)" unfolding c_def s by (simp only: unsigned_of_nat) simp
  then have c: "c = word_of_int (int n + 1)" by simp
  have "sint c = signed_take_bit 7 (int n + 1)" unfolding c by (simp only: signed_of_int) simp
  also have "\<dots> = (if n < 127 then int n + 1 else - 128)"
  proof (cases "n < 127")
    case True
    then show ?thesis by (simp add: signed_take_bit_int_eq_self)
  next
    case False
    then have "n = 127" using n by simp
    then show ?thesis by simp
  qed
  finally have sc: "sint c = (if n < 127 then int n + 1 else - 128)" .
  have "WIFSIGNALED x \<longleftrightarrow> 0 < sint (signed_drop_bit 1 (scast c :: i32))"
    by (simp add: WIFSIGNALED_def c_def word_sless_alt)
  also have "sint (signed_drop_bit 1 (scast c :: i32)) = drop_bit 1 (sint c)"
    using sint_up_scast[of c, where 'b = 32] by (simp add: sint_signed_drop_bit_eq is_up)
  finally have "WIFSIGNALED x \<longleftrightarrow> n \<noteq> 0 \<and> n \<noteq> 127"
    using n by (auto simp: sc drop_bit_eq_div)
  then show ?thesis by (simp add: WTERMSIG_def n_def word_unat_eq_iff)
qed

lemma exitcode_parts:
  assumes "r < 256" "s < 128"
  shows "WTERMSIG (W_EXITCODE r s) = s" "WEXITSTATUS (W_EXITCODE r s) = r"
    "W_EXITCODE r s AND 0xff = s"
proof -
  have b: "bit r k \<Longrightarrow> k < 8" "bit s k \<Longrightarrow> k < 7" for k
    using assms high_bits_clear[of r 8 k] high_bits_clear[of s 7 k] by auto
  have m: "(127::i32) = mask 7" "(255::i32) = mask 8" "(65280::i32) = push_bit 8 (mask 8)"
    by (simp_all add: mask_eq_exp_minus_1)
  show "WTERMSIG (W_EXITCODE r s) = s" "W_EXITCODE r s AND 0xff = s"
    by (rule bit_eqI, auto simp: WTERMSIG_def W_EXITCODE_def m bit_simps dest: b)+
  show "WEXITSTATUS (W_EXITCODE r s) = r"
    by (rule bit_eqI) (auto simp: WEXITSTATUS_def W_EXITCODE_def m bit_simps dest: b)
qed

subsection \<open>Properties\<close>

text \<open>C33: round trip of request codes. Every request code composed of a direction, a type and a
  number in their fields and a size below 16 KiB is decoded into exactly these parts, so that
  requests which differ in any part have different codes.\<close>

theorem ioctl_code_round_trip:
  assumes "d < 4" "t < 256" "n < 256" "s < 0x4000"
  shows "IOC_DIR (IOC d t n s) = ucast d \<and> IOC_TYPE (IOC d t n s) = ucast t \<and>
    IOC_NR (IOC d t n s) = ucast n \<and> IOC_SIZE (IOC d t n s) = s \<and>
    (d' < 4 \<longrightarrow> t' < 256 \<longrightarrow> n' < 256 \<longrightarrow> s' < 0x4000 \<longrightarrow> IOC d t n s = IOC d' t' n' s' \<longrightarrow>
      (d, t, n, s) = (d', t', n', s'))"
proof -
  have v: "ioc_valid (d, t, n, s)" using assms by (simp add: ioc_valid_def)
  have "(d, t, n, s) = (d', t', n', s')"
    if "d' < 4" "t' < 256" "n' < 256" "s' < 0x4000" "IOC d t n s = IOC d' t' n' s'"
    using ioc.enc_eq_iff[OF v, of "(d', t', n', s')"] that by (simp add: ioc_valid_def ioc_enc_def)
  then show ?thesis using ioc_round_trip[OF v] by blast
qed

theorem ioctl_code_round_trip_witness:
  "IOC_NR (IOR 0x50 3 128) = 3 \<and> IOC_SIZE (IOR 0x50 3 128) = 128"
  using ioctl_code_round_trip[where d = 2 and t = 80 and n = 3 and s = 128] by (simp add: IOR_def IOC_READ_def)

text \<open>Device numbers. Composing a device number and taking it apart are inverse to each other,
  on all 32-bit majors and minors and all 64-bit device numbers.\<close>

theorem device_numbers:
  "dev_major (dev_makedev maj mnr) = maj \<and> dev_minor (dev_makedev maj mnr) = mnr \<and>
   dev_makedev (dev_major dev) (dev_minor dev) = dev"
  by (simp add: dev_round_trip dev_make_parts)

text \<open>Wait statuses. A status says at most one of exited, signalled, stopped and continued. An
  exit with code \<open>r\<close>, a death by signal \<open>s\<close> and a stop by signal \<open>r\<close>, encoded as the kernel does,
  are recognised as such, with that code or signal.\<close>

theorem wait_status_decoding:
  assumes "r < 256" "0 < s" "s < 127"
  shows "\<not> (WIFEXITED x \<and> WIFSIGNALED x) \<and> \<not> (WIFEXITED x \<and> WIFSTOPPED x) \<and>
    \<not> (WIFSIGNALED x \<and> WIFSTOPPED x) \<and>
    (WIFCONTINUED x \<longrightarrow> \<not> WIFEXITED x \<and> \<not> WIFSIGNALED x \<and> \<not> WIFSTOPPED x) \<and>
    WIFEXITED (W_EXITCODE r 0) \<and> WEXITSTATUS (W_EXITCODE r 0) = r \<and>
    WIFSIGNALED (W_EXITCODE r s) \<and> WTERMSIG (W_EXITCODE r s) = s \<and>
    WIFSTOPPED (W_EXITCODE r 0x7f) \<and> WSTOPSIG (W_EXITCODE r 0x7f) = r"
proof -
  have stopped: "WTERMSIG x = 0x7f" if "WIFSTOPPED x" for x
  proof -
    have "x AND 0x7f = (x AND 0xff) AND 0x7f" by (simp add: and.assoc)
    with that show ?thesis by (simp add: WIFSTOPPED_def WTERMSIG_def)
  qed
  have s: "s < 128" "s \<noteq> 0" "s \<noteq> 0x7f" using assms(2,3) by (auto simp: word_less_nat_alt)
  have continued: "WTERMSIG x = 0x7f \<and> \<not> WIFSTOPPED x" if "WIFCONTINUED x"
    using that by (simp add: WIFCONTINUED_def WTERMSIG_def WIFSTOPPED_def)
  show ?thesis
    using stopped[of x] continued exitcode_parts[OF assms(1), of 0] exitcode_parts[OF assms(1) s(1)]
      exitcode_parts[OF assms(1), of 127] s(2,3)
    by (auto simp: wifsignaled_iff WIFEXITED_def WIFSTOPPED_def[of "W_EXITCODE r 127"] WSTOPSIG_def)
qed

theorem wait_status_decoding_witness:
  "WTERMSIG (W_EXITCODE 3 9) = 9 \<and> WIFSIGNALED (W_EXITCODE 3 9) \<and> WEXITSTATUS (W_EXITCODE 3 0) = 3"
  using wait_status_decoding[of 3 9] by simp

end
