(* ===== verification/Abi_Tables.thy ===== *)
theory Abi_Tables
  imports Abi_Bits
begin

text \<open>
  The numbers of the kernel interface, as the headers define them: one table per group of
  constants (\<open>mlibc-salernos/abi/*.h\<close>, \<open>sysdeps/include/salernos/*.h\<close>,
  \<open>sysdeps/include/asm/ioctls.h\<close>, \<open>sysdeps/include/linux/fb.h\<close>), in the order of the file, with
  the value each macro expands to. Requests whose code depends on the size of a structure that
  the headers do not define are left out. \<open>clashes\<close> lists the pairs of names for one value,
  \<open>overlaps\<close> the pairs of flags with a bit in common.
\<close>

type_synonym table = "(string \<times> int) list"

fun clashes :: "table \<Rightarrow> (string \<times> string) list" where
  "clashes [] = []"
| "clashes ((a, v) # t) = map (\<lambda>e. (a, fst e)) (filter (\<lambda>e. snd e = v) t) @ clashes t"

fun overlaps :: "table \<Rightarrow> (string \<times> string) list" where
  "overlaps [] = []"
| "overlaps ((a, v) # t) = map (\<lambda>e. (a, fst e)) (filter (\<lambda>e. snd e AND v \<noteq> 0) t) @ overlaps t"

subsection \<open>Numbers\<close>

definition syscall_numbers :: table where
  "syscall_numbers =
   [(''__SALERNOS_SYSCALL_TEST'', 0), (''__SALERNOS_SYSCALL_WRITEV'', 1),
    (''__SALERNOS_SYSCALL_READV'', 2), (''__SALERNOS_SYSCALL_EXECVE'', 3),
    (''__SALERNOS_SYSCALL_FORK'', 4), (''__SALERNOS_SYSSCALL_SYSINFO'', 5),
    (''__SALERNOS_SYSCALL_WAITPID'', 6), (''__SALERNOS_SYSCALL_EXIT'', 7),
    (''__SALERNOS_SYSCALL_IOCTL'', 8), (''__SALERNOS_SYSCALL_OPENAT'', 9),
    (''__SALERNOS_SYSCALL_MMAP'', 10), (''__SALERNOS_SYSCALL_SET_TLS'', 11),
    (''__SALERNOS_SYSCALL_SEEK'', 12), (''__SALERNOS_SYSCALL_ISATTY'', 13),
    (''__SALERNOS_SYSCALL_FSTATAT'', 14), (''__SALERNOS_SYSCALL_TRUNCATE'', 15),
    (''__SALERNOS_SYSCALL_PIPE'', 16), (''__SALERNOS_SYSCALL_GETPID'', 17),
    (''__SALERNOS_SYSCALL_CLONE'', 18), (''__SALERNOS_SYSCALL_EXIT_THREAD'', 19),
    (''__SALERNOS_SYSCALL_FUTEX'', 20), (''__SALERNOS_SYSCALL_GETPPID'', 21),
    (''__SALERNOS_SYSCALL_GETPGID'', 22), (''__SALERNOS_SYSCALL_GETSID'', 23),
    (''__SALERNOS_SYSCALL_SETPGID'', 24), (''__SALERNOS_SYSCALL_SETSID'', 25),
    (''__SALERNOS_SYSCALL_SIGPROCMASK'', 26), (''__SALERNOS_SYSCALL_SIGPENDING'', 27),
    (''__SALERNOS_SYSCALL_SIGTHREADMASK'', 28), (''__SALERNOS_SYSCALL_SIGACTION'', 29),
    (''__SALERNOS_SYSCALL_KILL'', 30), (''__SALERNOS_SYSCALL_KILL_THREAD'', 31),
    (''__SALERNOS_SYSCALL_SIGRETURN'', 32), (''__SALERNOS_SYSCALL_DUP3'', 33),
    (''__SALERNOS_SYSCALL_GETCWD'', 34), (''__SALERNOS_SYSCALL_FCNTL'', 35),
    (''__SALERNOS_SYSCALL_CLOSE'', 36), (''__SALERNOS_SYSCALL_READDIR'', 37),
    (''__SALERNOS_SYSCALL_CHDIR'', 38), (''__SALERNOS_SYSCALL_CLOCK_GET'', 39),
    (''__SALERNOS_SYSCALL_FACCESSAT'', 40), (''__SALERNOS_SYSCALL_PPOLL'', 41),
    (''__SALERNOS_SYSCALL_READLINKAT'', 42), (''__SALERNOS_SYSCALL_SYMLINKAT'', 43),
    (''__SALERNOS_SYSCALL_UNLINKAT'', 44), (''__SALERNOS_SYSCALL_SOCKET'', 45),
    (''__SALERNOS_SYSCALL_BIND'', 46), (''__SALERNOS_SYSCALL_LISTEN'', 47),
    (''__SALERNOS_SYSCALL_ACCEPT'', 48), (''__SALERNOS_SYSCALL_CONNECT'', 49),
    (''__SALERNOS_SYSCALL_SENDMSG'', 50), (''__SALERNOS_SYSCALL_RECVMSG'', 51),
    (''__SALERNOS_SYSCALL_SETITIMER'', 52), (''__SALERNOS_SYSCALL_MKDIRAT'', 53),
    (''__SALERNOS_SYSCALL_GETPEERNAME'', 54), (''__SALERNOS_SYSCALL_MUNMAP'', 55)]"

definition errno_codes :: table where
  "errno_codes =
   [(''EPERM'', 1), (''ENOENT'', 2), (''ESRCH'', 3), (''EINTR'', 4), (''EIO'', 5), (''ENXIO'', 6),
    (''E2BIG'', 7), (''ENOEXEC'', 8), (''EBADF'', 9), (''ECHILD'', 10), (''EAGAIN'', 11),
    (''ENOMEM'', 12), (''EACCES'', 13), (''EFAULT'', 14), (''ENOTBLK'', 15), (''EBUSY'', 16),
    (''EEXIST'', 17), (''EXDEV'', 18), (''ENODEV'', 19), (''ENOTDIR'', 20), (''EISDIR'', 21),
    (''EINVAL'', 22), (''ENFILE'', 23), (''EMFILE'', 24), (''ENOTTY'', 25), (''ETXTBSY'', 26),
    (''EFBIG'', 27), (''ENOSPC'', 28), (''ESPIPE'', 29), (''EROFS'', 30), (''EMLINK'', 31),
    (''EPIPE'', 32), (''EDOM'', 33), (''ERANGE'', 34), (''EDEADLK'', 35), (''ENAMETOOLONG'', 36),
    (''ENOLCK'', 37), (''ENOSYS'', 38), (''ENOTEMPTY'', 39), (''ELOOP'', 40),
    (''EWOULDBLOCK'', 11), (''ENOMSG'', 42), (''EIDRM'', 43), (''ECHRNG'', 44), (''EL2NSYNC'', 45),
    (''EL3HLT'', 46), (''EL3RST'', 47), (''ELNRNG'', 48), (''EUNATCH'', 49), (''ENOCSI'', 50),
    (''EL2HLT'', 51), (''EBADE'', 52), (''EBADR'', 53), (''EXFULL'', 54), (''ENOANO'', 55),
    (''EBADRQC'', 56), (''EBADSLT'', 57), (''EDEADLOCK'', 35), (''EBFONT'', 59), (''ENOSTR'', 60),
    (''ENODATA'', 61), (''ETIME'', 62), (''ENOSR'', 63), (''ENONET'', 64), (''ENOPKG'', 65),
    (''EREMOTE'', 66), (''ENOLINK'', 67), (''EADV'', 68), (''ESRMNT'', 69), (''ECOMM'', 70),
    (''EPROTO'', 71), (''EMULTIHOP'', 72), (''EDOTDOT'', 73), (''EBADMSG'', 74),
    (''EOVERFLOW'', 75), (''ENOTUNIQ'', 76), (''EBADFD'', 77), (''EREMCHG'', 78),
    (''ELIBACC'', 79), (''ELIBBAD'', 80), (''ELIBSCN'', 81), (''ELIBMAX'', 82), (''ELIBEXEC'', 83),
    (''EILSEQ'', 84), (''ERESTART'', 85), (''ESTRPIPE'', 86), (''EUSERS'', 87), (''ENOTSOCK'', 88),
    (''EDESTADDRREQ'', 89), (''EMSGSIZE'', 90), (''EPROTOTYPE'', 91), (''ENOPROTOOPT'', 92),
    (''EPROTONOSUPPORT'', 93), (''ESOCKTNOSUPPORT'', 94), (''EOPNOTSUPP'', 95), (''ENOTSUP'', 95),
    (''EPFNOSUPPORT'', 96), (''EAFNOSUPPORT'', 97), (''EADDRINUSE'', 98), (''EADDRNOTAVAIL'', 99),
    (''ENETDOWN'', 100), (''ENETUNREACH'', 101), (''ENETRESET'', 102), (''ECONNABORTED'', 103),
    (''ECONNRESET'', 104), (''ENOBUFS'', 105), (''EISCONN'', 106), (''ENOTCONN'', 107),
    (''ESHUTDOWN'', 108), (''ETOOMANYREFS'', 109), (''ETIMEDOUT'', 110), (''ECONNREFUSED'', 111),
    (''EHOSTDOWN'', 112), (''EHOSTUNREACH'', 113), (''EALREADY'', 114), (''EINPROGRESS'', 115),
    (''ESTALE'', 116), (''EUCLEAN'', 117), (''ENOTNAM'', 118), (''ENAVAIL'', 119),
    (''EISNAM'', 120), (''EREMOTEIO'', 121), (''EDQUOT'', 122), (''ENOMEDIUM'', 123),
    (''EMEDIUMTYPE'', 124), (''ECANCELED'', 125), (''ENOKEY'', 126), (''EKEYEXPIRED'', 127),
    (''EKEYREVOKED'', 128), (''EKEYREJECTED'', 129), (''EOWNERDEAD'', 130),
    (''ENOTRECOVERABLE'', 131), (''ERFKILL'', 132), (''EHWPOISON'', 133), (''EIEIO'', 4095)]"

definition signal_numbers :: table where
  "signal_numbers =
   [(''SIGABRT'', 6), (''SIGFPE'', 8), (''SIGILL'', 4), (''SIGINT'', 2), (''SIGSEGV'', 11),
    (''SIGTERM'', 15), (''SIGPROF'', 27), (''SIGIO'', 29), (''SIGPWR'', 30), (''SIGRTMIN'', 35),
    (''SIGRTMAX'', 64), (''SIGHUP'', 1), (''SIGQUIT'', 3), (''SIGTRAP'', 5), (''SIGIOT'', 6),
    (''SIGBUS'', 7), (''SIGKILL'', 9), (''SIGUSR1'', 10), (''SIGUSR2'', 12), (''SIGPIPE'', 13),
    (''SIGALRM'', 14), (''SIGSTKFLT'', 16), (''SIGCHLD'', 17), (''SIGCONT'', 18),
    (''SIGSTOP'', 19), (''SIGTSTP'', 20), (''SIGTTIN'', 21), (''SIGTTOU'', 22), (''SIGURG'', 23),
    (''SIGXCPU'', 24), (''SIGXFSZ'', 25), (''SIGVTALRM'', 26), (''SIGWINCH'', 28),
    (''SIGPOLL'', 29), (''SIGSYS'', 31), (''SIGUNUSED'', 31), (''SIGCANCEL'', 32),
    (''SIGTIMER'', 33)]"

definition key_codes :: table where
  "key_codes =
   [(''KBD_KEY_RESERVED'', 0), (''KBD_KEY_ESCAPE'', 1), (''KBD_KEY_1'', 2), (''KBD_KEY_2'', 3),
    (''KBD_KEY_3'', 4), (''KBD_KEY_4'', 5), (''KBD_KEY_5'', 6), (''KBD_KEY_6'', 7),
    (''KBD_KEY_7'', 8), (''KBD_KEY_8'', 9), (''KBD_KEY_9'', 10), (''KBD_KEY_0'', 11),
    (''KBD_KEY_MINUS'', 12), (''KBD_KEY_EQUAL'', 13), (''KBD_KEY_BACKSPACE'', 14),
    (''KBD_KEY_TAB'', 15), (''KBD_KEY_Q'', 16), (''KBD_KEY_W'', 17), (''KBD_KEY_E'', 18),
    (''KBD_KEY_R'', 19), (''KBD_KEY_T'', 20), (''KBD_KEY_Y'', 21), (''KBD_KEY_U'', 22),
    (''KBD_KEY_I'', 23), (''KBD_KEY_O'', 24), (''KBD_KEY_P'', 25), (''KBD_KEY_LEFTBRACE'', 26),
    (''KBD_KEY_RIGHTBRACE'', 27), (''KBD_KEY_ENTER'', 28), (''KBD_KEY_LEFTCTRL'', 29),
    (''KBD_KEY_A'', 30), (''KBD_KEY_S'', 31), (''KBD_KEY_D'', 32), (''KBD_KEY_F'', 33),
    (''KBD_KEY_G'', 34), (''KBD_KEY_H'', 35), (''KBD_KEY_J'', 36), (''KBD_KEY_K'', 37),
    (''KBD_KEY_L'', 38), (''KBD_KEY_SEMICOLON'', 39), (''KBD_KEY_APOSTROPHE'', 40),
    (''KBD_KEY_GRAVE'', 41), (''KBD_KEY_LEFTSHIFT'', 42), (''KBD_KEY_BACKSLASH'', 43),
    (''KBD_KEY_Z'', 44), (''KBD_KEY_X'', 45), (''KBD_KEY_C'', 46), (''KBD_KEY_V'', 47),
    (''KBD_KEY_B'', 48), (''KBD_KEY_N'', 49), (''KBD_KEY_M'', 50), (''KBD_KEY_COMMA'', 51),
    (''KBD_KEY_DOT'', 52), (''KBD_KEY_SLASH'', 53), (''KBD_KEY_RIGHTSHIFT'', 54),
    (''KBD_KEY_KEYPADASTERISK'', 55), (''KBD_KEY_LEFTALT'', 56), (''KBD_KEY_SPACE'', 57),
    (''KBD_KEY_CAPSLOCK'', 58), (''KBD_KEY_F1'', 59), (''KBD_KEY_F2'', 60), (''KBD_KEY_F3'', 61),
    (''KBD_KEY_F4'', 62), (''KBD_KEY_F5'', 63), (''KBD_KEY_F6'', 64), (''KBD_KEY_F7'', 65),
    (''KBD_KEY_F8'', 66), (''KBD_KEY_F9'', 67), (''KBD_KEY_F10'', 68), (''KBD_KEY_NUMLOCK'', 69),
    (''KBD_KEY_SCROLLLOCK'', 70), (''KBD_KEY_KEYPAD7'', 71), (''KBD_KEY_KEYPAD8'', 72),
    (''KBD_KEY_KEYPAD9'', 73), (''KBD_KEY_KEYPADMINUS'', 74), (''KBD_KEY_KEYPAD4'', 75),
    (''KBD_KEY_KEYPAD5'', 76), (''KBD_KEY_KEYPAD6'', 77), (''KBD_KEY_KEYPADPLUS'', 78),
    (''KBD_KEY_KEYPAD1'', 79), (''KBD_KEY_KEYPAD2'', 80), (''KBD_KEY_KEYPAD3'', 81),
    (''KBD_KEY_KEYPAD0'', 82), (''KBD_KEY_KEYPADDOT'', 83), (''KBD_KEY_F11'', 87),
    (''KBD_KEY_F12'', 88), (''KBD_KEY_KEYPADENTER'', 96), (''KBD_KEY_RIGHTCTRL'', 97),
    (''KBD_KEY_KEYPADSLASH'', 98), (''KBD_KEY_SYSREQ'', 99), (''KBD_KEY_RIGHTALT'', 100),
    (''KBD_KEY_LINEFEED'', 101), (''KBD_KEY_HOME'', 102), (''KBD_KEY_UP'', 103),
    (''KBD_KEY_PAGEUP'', 104), (''KBD_KEY_LEFT'', 105), (''KBD_KEY_RIGHT'', 106),
    (''KBD_KEY_END'', 107), (''KBD_KEY_DOWN'', 108), (''KBD_KEY_PAGEDOWN'', 109),
    (''KBD_KEY_INSERT'', 110), (''KBD_KEY_DELETE'', 111)]"

definition key_states :: table where
  "key_states =
   [(''KBD_KEYSTATE_PRESSED'', 1), (''KBD_KEYSTATE_RELEASED'', 2)]"

definition tty_requests :: table where
  "tty_requests =
   [(''TCGETS'', 21505), (''TCSETS'', 21506), (''TCSETSW'', 21507), (''TCSETSF'', 21508),
    (''TCGETA'', 21509), (''TCSETA'', 21510), (''TCSETAW'', 21511), (''TCSETAF'', 21512),
    (''TCSBRK'', 21513), (''TCXONC'', 21514), (''TCFLSH'', 21515), (''TIOCEXCL'', 21516),
    (''TIOCNXCL'', 21517), (''TIOCSCTTY'', 21518), (''TIOCGPGRP'', 21519), (''TIOCSPGRP'', 21520),
    (''TIOCOUTQ'', 21521), (''TIOCSTI'', 21522), (''TIOCGWINSZ'', 21523), (''TIOCSWINSZ'', 21524),
    (''TIOCMGET'', 21525), (''TIOCMBIS'', 21526), (''TIOCMBIC'', 21527), (''TIOCMSET'', 21528),
    (''TIOCGSOFTCAR'', 21529), (''TIOCSSOFTCAR'', 21530), (''FIONREAD'', 21531),
    (''TIOCINQ'', 21531), (''TIOCLINUX'', 21532), (''TIOCCONS'', 21533), (''TIOCGSERIAL'', 21534),
    (''TIOCSSERIAL'', 21535), (''TIOCPKT'', 21536), (''FIONBIO'', 21537), (''TIOCNOTTY'', 21538),
    (''TIOCSETD'', 21539), (''TIOCGETD'', 21540), (''TCSBRKP'', 21541), (''TIOCSBRK'', 21543),
    (''TIOCCBRK'', 21544), (''TIOCGSID'', 21545), (''TIOCGRS485'', 21550), (''TIOCSRS485'', 21551),
    (''TIOCGPTN'', uint (IOR 84 48 4)), (''TIOCSPTLCK'', uint (IOW 84 49 4)),
    (''TIOCGDEV'', uint (IOR 84 50 4)), (''TCGETX'', 21554), (''TCSETX'', 21555),
    (''TCSETXF'', 21556), (''TCSETXW'', 21557), (''TIOCSIG'', uint (IOW 84 54 4)),
    (''TIOCVHANGUP'', 21559), (''TIOCGPKT'', uint (IOR 84 56 4)),
    (''TIOCGPTLCK'', uint (IOR 84 57 4)), (''TIOCGEXCL'', uint (IOR 84 64 4)),
    (''TIOCGPTPEER'', uint (IO 84 65)), (''FIONCLEX'', 21584), (''FIOCLEX'', 21585),
    (''FIOASYNC'', 21586), (''TIOCSERCONFIG'', 21587), (''TIOCSERGWILD'', 21588),
    (''TIOCSERSWILD'', 21589), (''TIOCGLCKTRMIOS'', 21590), (''TIOCSLCKTRMIOS'', 21591),
    (''TIOCSERGSTRUCT'', 21592), (''TIOCSERGETLSR'', 21593), (''TIOCSERGETMULTI'', 21594),
    (''TIOCSERSETMULTI'', 21595), (''TIOCMIWAIT'', 21596), (''TIOCGICOUNT'', 21597),
    (''FIOQSIZE'', 21600)]"

definition vt_requests :: table where
  "vt_requests =
   [(''VT_OPENQRY'', 22016), (''VT_GETMODE'', 22017), (''VT_SETMODE'', 22018),
    (''VT_GETSTATE'', 22019), (''VT_SENDSIG'', 22020), (''VT_RELDISP'', 22021),
    (''VT_ACTIVATE'', 22022), (''VT_WAITACTIVE'', 22023), (''VT_DISALLOCATE'', 22024),
    (''VT_RESIZE'', 22025), (''VT_RESIZEX'', 22026), (''VT_LOCKSWITCH'', 22027),
    (''VT_UNLOCKSWITCH'', 22028), (''VT_GETHIFONTMASK'', 22029), (''VT_WAITEVENT'', 22030),
    (''VT_SETACTIVATE'', 22031)]"

definition fb_requests :: table where
  "fb_requests =
   [(''FBIOGET_VSCREENINFO'', 17920), (''FBIOPUT_VSCREENINFO'', 17921),
    (''FBIOGET_FSCREENINFO'', 17922), (''FBIOGETCMAP'', 17924), (''FBIOPUTCMAP'', 17925),
    (''FBIOPAN_DISPLAY'', 17926), (''FBIOGET_CON2FBMAP'', 17935), (''FBIOPUT_CON2FBMAP'', 17936),
    (''FBIOBLANK'', 17937), (''FBIO_ALLOC'', 17939), (''FBIO_FREE'', 17940),
    (''FBIOGET_GLYPH'', 17941), (''FBIOGET_HWCINFO'', 17942), (''FBIOPUT_MODEINFO'', 17943),
    (''FBIOGET_DISPINFO'', 17944), (''FBIO_WAITFORVSYNC'', uint (IOW 70 32 4))]"

definition fb_types :: table where
  "fb_types =
   [(''FB_TYPE_PACKED_PIXELS'', 0), (''FB_TYPE_PLANES'', 1), (''FB_TYPE_INTERLEAVED_PLANES'', 2),
    (''FB_TYPE_TEXT'', 3), (''FB_TYPE_VGA_PLANES'', 4), (''FB_TYPE_FOURCC'', 5)]"

definition fb_visuals :: table where
  "fb_visuals =
   [(''FB_VISUAL_MONO01'', 0), (''FB_VISUAL_MONO10'', 1), (''FB_VISUAL_TRUECOLOR'', 2),
    (''FB_VISUAL_PSEUDOCOLOR'', 3), (''FB_VISUAL_DIRECTCOLOR'', 4),
    (''FB_VISUAL_STATIC_PSEUDOCOLOR'', 5), (''FB_VISUAL_FOURCC'', 6)]"

definition fb_accels :: table where
  "fb_accels =
   [(''FB_ACCEL_NONE'', 0), (''FB_ACCEL_ATARIBLITT'', 1), (''FB_ACCEL_AMIGABLITT'', 2),
    (''FB_ACCEL_S3_TRIO64'', 3), (''FB_ACCEL_NCR_77C32BLT'', 4), (''FB_ACCEL_S3_VIRGE'', 5),
    (''FB_ACCEL_ATI_MACH64GX'', 6), (''FB_ACCEL_DEC_TGA'', 7), (''FB_ACCEL_ATI_MACH64CT'', 8),
    (''FB_ACCEL_ATI_MACH64VT'', 9), (''FB_ACCEL_ATI_MACH64GT'', 10),
    (''FB_ACCEL_SUN_CREATOR'', 11), (''FB_ACCEL_SUN_CGSIX'', 12), (''FB_ACCEL_SUN_LEO'', 13),
    (''FB_ACCEL_IMS_TWINTURBO'', 14), (''FB_ACCEL_3DLABS_PERMEDIA2'', 15),
    (''FB_ACCEL_MATROX_MGA2064W'', 16), (''FB_ACCEL_MATROX_MGA1064SG'', 17),
    (''FB_ACCEL_MATROX_MGA2164W'', 18), (''FB_ACCEL_MATROX_MGA2164W_AGP'', 19),
    (''FB_ACCEL_MATROX_MGAG100'', 20), (''FB_ACCEL_MATROX_MGAG200'', 21),
    (''FB_ACCEL_SUN_CG14'', 22), (''FB_ACCEL_SUN_BWTWO'', 23), (''FB_ACCEL_SUN_CGTHREE'', 24),
    (''FB_ACCEL_SUN_TCX'', 25), (''FB_ACCEL_MATROX_MGAG400'', 26), (''FB_ACCEL_NV3'', 27),
    (''FB_ACCEL_NV4'', 28), (''FB_ACCEL_NV5'', 29), (''FB_ACCEL_CT_6555x'', 30),
    (''FB_ACCEL_3DFX_BANSHEE'', 31), (''FB_ACCEL_ATI_RAGE128'', 32),
    (''FB_ACCEL_IGS_CYBER2000'', 33), (''FB_ACCEL_IGS_CYBER2010'', 34),
    (''FB_ACCEL_IGS_CYBER5000'', 35), (''FB_ACCEL_SIS_GLAMOUR'', 36),
    (''FB_ACCEL_3DLABS_PERMEDIA3'', 37), (''FB_ACCEL_ATI_RADEON'', 38), (''FB_ACCEL_I810'', 39),
    (''FB_ACCEL_SIS_GLAMOUR_2'', 40), (''FB_ACCEL_SIS_XABRE'', 41), (''FB_ACCEL_I830'', 42),
    (''FB_ACCEL_NV_10'', 43), (''FB_ACCEL_NV_20'', 44), (''FB_ACCEL_NV_30'', 45),
    (''FB_ACCEL_NV_40'', 46), (''FB_ACCEL_XGI_VOLARI_V'', 47), (''FB_ACCEL_XGI_VOLARI_Z'', 48),
    (''FB_ACCEL_OMAP1610'', 49), (''FB_ACCEL_TRIDENT_TGUI'', 50),
    (''FB_ACCEL_TRIDENT_3DIMAGE'', 51), (''FB_ACCEL_TRIDENT_BLADE3D'', 52),
    (''FB_ACCEL_TRIDENT_BLADEXP'', 53), (''FB_ACCEL_CIRRUS_ALPINE'', 53),
    (''FB_ACCEL_NEOMAGIC_NM2070'', 90), (''FB_ACCEL_NEOMAGIC_NM2090'', 91),
    (''FB_ACCEL_NEOMAGIC_NM2093'', 92), (''FB_ACCEL_NEOMAGIC_NM2097'', 93),
    (''FB_ACCEL_NEOMAGIC_NM2160'', 94), (''FB_ACCEL_NEOMAGIC_NM2200'', 95),
    (''FB_ACCEL_NEOMAGIC_NM2230'', 96), (''FB_ACCEL_NEOMAGIC_NM2360'', 97),
    (''FB_ACCEL_NEOMAGIC_NM2380'', 98), (''FB_ACCEL_PXA3XX'', 99), (''FB_ACCEL_SAVAGE4'', 128),
    (''FB_ACCEL_SAVAGE3D'', 129), (''FB_ACCEL_SAVAGE3D_MV'', 130), (''FB_ACCEL_SAVAGE2000'', 131),
    (''FB_ACCEL_SAVAGE_MX_MV'', 132), (''FB_ACCEL_SAVAGE_MX'', 133),
    (''FB_ACCEL_SAVAGE_IX_MV'', 134), (''FB_ACCEL_SAVAGE_IX'', 135),
    (''FB_ACCEL_PROSAVAGE_PM'', 136), (''FB_ACCEL_PROSAVAGE_KM'', 137),
    (''FB_ACCEL_S3TWISTER_P'', 138), (''FB_ACCEL_S3TWISTER_K'', 139),
    (''FB_ACCEL_SUPERSAVAGE'', 140), (''FB_ACCEL_PROSAVAGE_DDR'', 141),
    (''FB_ACCEL_PROSAVAGE_DDRK'', 142), (''FB_ACCEL_PUV3_UNIGFX'', 160)]"

definition fcntl_requests :: table where
  "fcntl_requests =
   [(''F_DUPFD'', 0), (''F_GETFD'', 1), (''F_SETFD'', 2), (''F_GETFL'', 3), (''F_SETFL'', 4),
    (''F_SETOWN'', 8), (''F_GETOWN'', 9), (''F_SETSIG'', 10), (''F_GETSIG'', 11), (''F_GETLK'', 5),
    (''F_SETLK'', 6), (''F_SETLK64'', 6), (''F_SETLKW'', 7), (''F_SETLKW64'', 7),
    (''F_GETOWNER_UIDS'', 17), (''F_SETLEASE'', 1024), (''F_GETLEASE'', 1025),
    (''F_NOTIFY'', 1026), (''F_DUPFD_CLOEXEC'', 1030), (''F_SETPIPE_SZ'', 1031),
    (''F_GETPIPE_SZ'', 1032), (''F_ADD_SEALS'', 1033), (''F_GET_SEALS'', 1034)]"

definition madvise_values :: table where
  "madvise_values =
   [(''MADV_NORMAL'', 0), (''MADV_RANDOM'', 1), (''MADV_SEQUENTIAL'', 2), (''MADV_WILLNEED'', 3),
    (''MADV_DONTNEED'', 4), (''MADV_FREE'', 8), (''MADV_REMOVE'', 9), (''MADV_DONTFORK'', 10),
    (''MADV_DOFORK'', 11), (''MADV_MERGEABLE'', 12), (''MADV_UNMERGEABLE'', 13),
    (''MADV_HUGEPAGE'', 14), (''MADV_NOHUGEPAGE'', 15), (''MADV_DONTDUMP'', 16),
    (''MADV_DODUMP'', 17), (''MADV_WIPEONFORK'', 18), (''MADV_KEEPONFORK'', 19),
    (''MADV_COLD'', 20), (''MADV_PAGEOUT'', 21), (''MADV_HWPOISON'', 100),
    (''MADV_SOFT_OFFLINE'', 101)]"

definition cc_indices :: table where
  "cc_indices =
   [(''VINTR'', 0), (''VQUIT'', 1), (''VERASE'', 2), (''VKILL'', 3), (''VEOF'', 4), (''VTIME'', 5),
    (''VMIN'', 6), (''VSWTC'', 7), (''VSTART'', 8), (''VSTOP'', 9), (''VSUSP'', 10),
    (''VEOL'', 11), (''VREPRINT'', 12), (''VDISCARD'', 13), (''VWERASE'', 14), (''VLNEXT'', 15),
    (''VEOL2'', 16)]"

definition registers :: table where
  "registers =
   [(''REG_R8'', 0), (''REG_R9'', 1), (''REG_R10'', 2), (''REG_R11'', 3), (''REG_R12'', 4),
    (''REG_R13'', 5), (''REG_R14'', 6), (''REG_R15'', 7), (''REG_RDI'', 8), (''REG_RSI'', 9),
    (''REG_RBP'', 10), (''REG_RBX'', 11), (''REG_RDX'', 12), (''REG_RAX'', 13), (''REG_RCX'', 14),
    (''REG_RSP'', 15), (''REG_RIP'', 16), (''REG_EFL'', 17), (''REG_CSGSFS'', 18),
    (''REG_ERR'', 19), (''REG_TRAPNO'', 20), (''REG_OLDMASK'', 21), (''REG_CR2'', 22)]"

definition shut_values :: table where
  "shut_values =
   [(''SHUT_RD'', 0), (''SHUT_WR'', 1), (''SHUT_RDWR'', 2)]"

definition socket_types :: table where
  "socket_types =
   [(''SOCK_STREAM'', 1), (''SOCK_DGRAM'', 2), (''SOCK_RAW'', 3), (''SOCK_RDM'', 4),
    (''SOCK_SEQPACKET'', 5), (''SOCK_DCCP'', 6), (''SOCK_PACKET'', 10)]"

definition protocol_families :: table where
  "protocol_families =
   [(''PF_UNSPEC'', 0), (''PF_LOCAL'', 1), (''PF_UNIX'', 1), (''PF_FILE'', 1), (''PF_INET'', 2),
    (''PF_AX25'', 3), (''PF_IPX'', 4), (''PF_APPLETALK'', 5), (''PF_NETROM'', 6),
    (''PF_BRIDGE'', 7), (''PF_ATMPVC'', 8), (''PF_X25'', 9), (''PF_INET6'', 10), (''PF_ROSE'', 11),
    (''PF_DECnet'', 12), (''PF_NETBEUI'', 13), (''PF_SECURITY'', 14), (''PF_KEY'', 15),
    (''PF_NETLINK'', 16), (''PF_ROUTE'', 16), (''PF_PACKET'', 17), (''PF_ASH'', 18),
    (''PF_ECONET'', 19), (''PF_ATMSVC'', 20), (''PF_RDS'', 21), (''PF_SNA'', 22),
    (''PF_IRDA'', 23), (''PF_PPPOX'', 24), (''PF_WANPIPE'', 25), (''PF_LLC'', 26), (''PF_IB'', 27),
    (''PF_MPLS'', 28), (''PF_CAN'', 29), (''PF_TIPC'', 30), (''PF_BLUETOOTH'', 31),
    (''PF_IUCV'', 32), (''PF_RXRPC'', 33), (''PF_ISDN'', 34), (''PF_PHONET'', 35),
    (''PF_IEEE802154'', 36), (''PF_CAIF'', 37), (''PF_ALG'', 38), (''PF_NFC'', 39),
    (''PF_VSOCK'', 40), (''PF_KCM'', 41), (''PF_QIPCRTR'', 42), (''PF_SMC'', 43), (''PF_XDP'', 44),
    (''PF_MAX'', 45)]"

definition address_families :: table where
  "address_families =
   [(''AF_UNSPEC'', 0), (''AF_LOCAL'', 1), (''AF_UNIX'', 1), (''AF_FILE'', 1), (''AF_INET'', 2),
    (''AF_AX25'', 3), (''AF_IPX'', 4), (''AF_APPLETALK'', 5), (''AF_NETROM'', 6),
    (''AF_BRIDGE'', 7), (''AF_ATMPVC'', 8), (''AF_X25'', 9), (''AF_INET6'', 10), (''AF_ROSE'', 11),
    (''AF_DECnet'', 12), (''AF_NETBEUI'', 13), (''AF_SECURITY'', 14), (''AF_KEY'', 15),
    (''AF_NETLINK'', 16), (''AF_ROUTE'', 16), (''AF_PACKET'', 17), (''AF_ASH'', 18),
    (''AF_ECONET'', 19), (''AF_ATMSVC'', 20), (''AF_RDS'', 21), (''AF_SNA'', 22),
    (''AF_IRDA'', 23), (''AF_PPPOX'', 24), (''AF_WANPIPE'', 25), (''AF_LLC'', 26), (''AF_IB'', 27),
    (''AF_MPLS'', 28), (''AF_CAN'', 29), (''AF_TIPC'', 30), (''AF_BLUETOOTH'', 31),
    (''AF_IUCV'', 32), (''AF_RXRPC'', 33), (''AF_ISDN'', 34), (''AF_PHONET'', 35),
    (''AF_IEEE802154'', 36), (''AF_CAIF'', 37), (''AF_ALG'', 38), (''AF_NFC'', 39),
    (''AF_VSOCK'', 40), (''AF_KCM'', 41), (''AF_QIPCRTR'', 42), (''AF_SMC'', 43), (''AF_XDP'', 44),
    (''AF_MAX'', 45)]"

definition socket_options :: table where
  "socket_options =
   [(''SO_DEBUG'', 1), (''SO_REUSEADDR'', 2), (''SO_TYPE'', 3), (''SO_ERROR'', 4),
    (''SO_DONTROUTE'', 5), (''SO_BROADCAST'', 6), (''SO_SNDBUF'', 7), (''SO_RCVBUF'', 8),
    (''SO_KEEPALIVE'', 9), (''SO_OOBINLINE'', 10), (''SO_NO_CHECK'', 11), (''SO_PRIORITY'', 12),
    (''SO_LINGER'', 13), (''SO_BSDCOMPAT'', 14), (''SO_REUSEPORT'', 15), (''SO_PASSCRED'', 16),
    (''SO_PEERCRED'', 17), (''SO_RCVLOWAT'', 18), (''SO_SNDLOWAT'', 19), (''SO_ACCEPTCONN'', 30),
    (''SO_PEERSEC'', 31), (''SO_SNDBUFFORCE'', 32), (''SO_RCVBUFFORCE'', 33),
    (''SO_PROTOCOL'', 38), (''SO_DOMAIN'', 39), (''SO_RCVTIMEO'', 66), (''SO_RCVTIMEO'', 20),
    (''SO_RCVTIMEO_OLD'', 20), (''SO_SNDTIMEO'', 67), (''SO_SNDTIMEO'', 21),
    (''SO_SNDTIMEO_OLD'', 21), (''SO_TIMESTAMP'', 63), (''SO_TIMESTAMPNS'', 64),
    (''SO_TIMESTAMPING'', 65), (''SO_TIMESTAMP'', 29), (''SO_TIMESTAMPNS'', 35),
    (''SO_TIMESTAMPING'', 37), (''SO_SECURITY_AUTHENTICATION'', 22),
    (''SO_SECURITY_ENCRYPTION_TRANSPORT'', 23), (''SO_SECURITY_ENCRYPTION_NETWORK'', 24),
    (''SO_BINDTODEVICE'', 25), (''SO_ATTACH_FILTER'', 26), (''SO_DETACH_FILTER'', 27),
    (''SO_GET_FILTER'', 26), (''SO_PEERNAME'', 28)]"

definition ip_protocols :: table where
  "ip_protocols =
   [(''IPPROTO_IP'', 0), (''IPPROTO_HOPOPTS'', 0), (''IPPROTO_ICMP'', 1), (''IPPROTO_IGMP'', 2),
    (''IPPROTO_IPIP'', 4), (''IPPROTO_TCP'', 6), (''IPPROTO_EGP'', 8), (''IPPROTO_PUP'', 12),
    (''IPPROTO_UDP'', 17), (''IPPROTO_IDP'', 22), (''IPPROTO_TP'', 29), (''IPPROTO_DCCP'', 33),
    (''IPPROTO_IPV6'', 41), (''IPPROTO_ROUTING'', 43), (''IPPROTO_FRAGMENT'', 44),
    (''IPPROTO_RSVP'', 46), (''IPPROTO_GRE'', 47), (''IPPROTO_ESP'', 50), (''IPPROTO_AH'', 51),
    (''IPPROTO_ICMPV6'', 58), (''IPPROTO_NONE'', 59), (''IPPROTO_DSTOPTS'', 60),
    (''IPPROTO_MTP'', 92), (''IPPROTO_BEETPH'', 94), (''IPPROTO_ENCAP'', 98),
    (''IPPROTO_PIM'', 103), (''IPPROTO_COMP'', 108), (''IPPROTO_SCTP'', 132),
    (''IPPROTO_MH'', 135), (''IPPROTO_UDPLITE'', 136), (''IPPROTO_MPLS'', 137),
    (''IPPROTO_RAW'', 255), (''IPPROTO_MAX'', 256)]"

subsection \<open>Flags\<close>

definition open_flags :: table where
  "open_flags =
   [(''O_CREAT'', 64), (''O_EXCL'', 128), (''O_NOCTTY'', 256), (''O_TRUNC'', 512),
    (''O_APPEND'', 1024), (''O_NONBLOCK'', 2048), (''O_DSYNC'', 4096), (''O_ASYNC'', 8192),
    (''O_DIRECT'', 16384), (''O_DIRECTORY'', 65536), (''O_NOFOLLOW'', 131072),
    (''O_CLOEXEC'', 524288), (''O_SYNC'', 1052672), (''O_RSYNC'', 1052672),
    (''O_LARGEFILE'', 32768), (''O_NOATIME'', 262144), (''O_TMPFILE'', 4194304)]"

definition seal_flags :: table where
  "seal_flags =
   [(''F_SEAL_SEAL'', 1), (''F_SEAL_SHRINK'', 2), (''F_SEAL_GROW'', 4), (''F_SEAL_WRITE'', 8)]"

definition at_flags :: table where
  "at_flags =
   [(''AT_SYMLINK_NOFOLLOW'', 256), (''AT_REMOVEDIR'', 512), (''AT_SYMLINK_FOLLOW'', 1024),
    (''AT_EACCESS'', 512), (''AT_NO_AUTOMOUNT'', 2048), (''AT_EMPTY_PATH'', 4096)]"

definition map_flags :: table where
  "map_flags =
   [(''MAP_SHARED'', 1), (''MAP_PRIVATE'', 2), (''MAP_FIXED'', 16), (''MAP_ANON'', 32),
    (''MAP_ANONYMOUS'', 32), (''MAP_GROWSDOWN'', 256), (''MAP_DENYWRITE'', 2048),
    (''MAP_EXECUTABLE'', 4096), (''MAP_LOCKED'', 8192), (''MAP_NORESERVE'', 16384),
    (''MAP_POPULATE'', 32768), (''MAP_NONBLOCK'', 65536), (''MAP_STACK'', 131072),
    (''MAP_HUGETLB'', 262144), (''MAP_SYNC'', 524288), (''MAP_FIXED_NOREPLACE'', 1048576)]"

definition prot_flags :: table where
  "prot_flags =
   [(''PROT_READ'', 1), (''PROT_WRITE'', 2), (''PROT_EXEC'', 4)]"

definition iflags :: table where
  "iflags =
   [(''IGNBRK'', 1), (''BRKINT'', 2), (''IGNPAR'', 4), (''PARMRK'', 8), (''INPCK'', 16),
    (''ISTRIP'', 32), (''INLCR'', 64), (''IGNCR'', 128), (''ICRNL'', 256), (''IUCLC'', 512),
    (''IXON'', 1024), (''IXANY'', 2048), (''IXOFF'', 4096), (''IMAXBEL'', 8192),
    (''IUTF8'', 16384)]"

definition oflags :: table where
  "oflags =
   [(''OPOST'', 1), (''OLCUC'', 2), (''ONLCR'', 4), (''OCRNL'', 8), (''ONOCR'', 16),
    (''ONLRET'', 32), (''OFILL'', 64), (''OFDEL'', 128)]"

definition cflags :: table where
  "cflags =
   [(''CSTOPB'', 64), (''CREAD'', 128), (''PARENB'', 256), (''PARODD'', 512), (''HUPCL'', 1024),
    (''CLOCAL'', 2048)]"

definition lflags :: table where
  "lflags =
   [(''ISIG'', 1), (''ICANON'', 2), (''ECHO'', 8), (''ECHOE'', 16), (''ECHOK'', 32),
    (''ECHONL'', 64), (''NOFLSH'', 128), (''TOSTOP'', 256), (''IEXTEN'', 32768)]"

definition sigaction_flags :: table where
  "sigaction_flags =
   [(''SA_NOCLDSTOP'', 1), (''SA_NOCLDWAIT'', 2), (''SA_SIGINFO'', 4), (''SA_ONSTACK'', 134217728),
    (''SA_RESTART'', 268435456), (''SA_NODEFER'', 1073741824), (''SA_RESETHAND'', 2147483648),
    (''SA_RESTORER'', 67108864)]"

definition poll_events :: table where
  "poll_events =
   [(''POLLIN'', 1), (''POLLPRI'', 2), (''POLLOUT'', 4), (''POLLERR'', 8), (''POLLHUP'', 16),
    (''POLLNVAL'', 32), (''POLLRDNORM'', 64), (''POLLRDBAND'', 128), (''POLLWRNORM'', 256),
    (''POLLWRBAND'', 512), (''POLLRDHUP'', 8192)]"

definition mouse_buttons :: table where
  "mouse_buttons =
   [(''MOUSE_BUTTON_RIGHT'', 1), (''MOUSE_BUTTON_MID'', 2), (''MOUSE_BUTTON_LEFT'', 4),
    (''MOUSE_BUTTON_4'', 8), (''MOUSE_BUTTON_5'', 16)]"

definition packet_flags :: table where
  "packet_flags =
   [(''TIOCPKT_FLUSHREAD'', 1), (''TIOCPKT_FLUSHWRITE'', 2), (''TIOCPKT_STOP'', 4),
    (''TIOCPKT_START'', 8), (''TIOCPKT_NOSTOP'', 16), (''TIOCPKT_DOSTOP'', 32),
    (''TIOCPKT_IOCTL'', 64)]"

definition permission_bits :: table where
  "permission_bits =
   [(''S_IRUSR'', 256), (''S_IWUSR'', 128), (''S_IXUSR'', 64), (''S_IRGRP'', 32),
    (''S_IWGRP'', 16), (''S_IXGRP'', 8), (''S_IROTH'', 4), (''S_IWOTH'', 2), (''S_IXOTH'', 1),
    (''S_ISUID'', 2048), (''S_ISGID'', 1024), (''S_ISVTX'', 512)]"

definition msg_flags :: table where
  "msg_flags =
   [(''MSG_OOB'', 1), (''MSG_PEEK'', 2), (''MSG_DONTROUTE'', 4), (''MSG_CTRUNC'', 8),
    (''MSG_PROXY'', 16), (''MSG_TRUNC'', 32), (''MSG_DONTWAIT'', 64), (''MSG_EOR'', 128),
    (''MSG_WAITALL'', 256), (''MSG_FIN'', 512), (''MSG_SYN'', 1024), (''MSG_CONFIRM'', 2048),
    (''MSG_RST'', 4096), (''MSG_ERRQUEUE'', 8192), (''MSG_NOSIGNAL'', 16384),
    (''MSG_MORE'', 32768), (''MSG_WAITFORONE'', 65536), (''MSG_BATCH'', 262144),
    (''MSG_ZEROCOPY'', 67108864), (''MSG_FASTOPEN'', 536870912),
    (''MSG_CMSG_CLOEXEC'', 1073741824)]"

subsection \<open>Ambiguities\<close>

text \<open>A table whose values go up has no clash.\<close>

fun ascending :: "table \<Rightarrow> bool" where
  "ascending ((a, v) # (b, w) # t) \<longleftrightarrow> v < w \<and> ascending ((b, w) # t)"
| "ascending _ \<longleftrightarrow> True"

lemma ascending_above: "ascending ((a, v) # t) \<Longrightarrow> e \<in> set t \<Longrightarrow> v < snd e"
proof (induction t arbitrary: a v)
  case (Cons x t)
  obtain b w where x: "x = (b, w)" by (cases x)
  with Cons.prems have "v < w" "ascending ((b, w) # t)" by auto
  with Cons.IH[of b w] Cons.prems(2) x show ?case by (cases "e = x") force+
qed simp

lemma ascending_clashes: "ascending t \<Longrightarrow> clashes t = []"
proof (induction t rule: clashes.induct)
  case (2 a v t)
  have "filter (\<lambda>e. snd e = v) t = []"
    using ascending_above[OF 2(2)] by (auto simp: filter_empty_conv)
  moreover have "ascending t" using 2(2) by (cases t) auto
  ultimately show ?case using 2(1) by simp
qed simp

lemma ascending_tables:
  "ascending syscall_numbers" "ascending key_codes" "ascending vt_requests" "ascending madvise_values"
  "ascending cc_indices" "ascending registers" "ascending socket_types" "ascending fb_types" "ascending fb_visuals"
  by code_simp+

lemma syscalls_all: "map snd syscall_numbers = map int [0..<56]"
  by code_simp

lemma errno_clashes: "clashes errno_codes =
    [(''EAGAIN'', ''EWOULDBLOCK''), (''EDEADLK'', ''EDEADLOCK''), (''EOPNOTSUPP'', ''ENOTSUP'')]"
  by code_simp

lemma signal_clashes: "clashes signal_numbers =
    [(''SIGABRT'', ''SIGIOT''), (''SIGIO'', ''SIGPOLL''), (''SIGSYS'', ''SIGUNUSED'')]"
  by code_simp

lemma ioc_request_values:
  "uint (IOR 84 48 4) = 0x80045430" "uint (IOW 84 49 4) = 0x40045431" "uint (IOR 84 50 4) = 0x80045432"
  "uint (IOW 84 54 4) = 0x40045436" "uint (IOR 84 56 4) = 0x80045438" "uint (IOR 84 57 4) = 0x80045439"
  "uint (IOR 84 64 4) = 0x80045440" "uint (IO 84 65) = 0x5441" "uint (IOW 70 32 4) = 0x40044620"
  by (simp_all add: IOR_def IOW_def IO_def IOC_def ioc_defs)

lemma tty_clashes: "clashes tty_requests = [(''FIONREAD'', ''TIOCINQ'')]"
  unfolding tty_requests_def ioc_request_values by code_simp

lemma fb_request_clashes: "clashes fb_requests = []"
  unfolding fb_requests_def ioc_request_values by code_simp

lemma fb_accel_clashes: "clashes fb_accels = [(''FB_ACCEL_TRIDENT_BLADEXP'', ''FB_ACCEL_CIRRUS_ALPINE'')]"
  by code_simp

lemma fcntl_clashes: "clashes fcntl_requests = [(''F_SETLK'', ''F_SETLK64''), (''F_SETLKW'', ''F_SETLKW64'')]"
  by code_simp

lemma family_clashes: "clashes protocol_families =
    [(''PF_LOCAL'', ''PF_UNIX''), (''PF_LOCAL'', ''PF_FILE''), (''PF_UNIX'', ''PF_FILE''), (''PF_NETLINK'', ''PF_ROUTE'')]"
  by code_simp

lemma option_clashes: "clashes socket_options =
    [(''SO_RCVTIMEO'', ''SO_RCVTIMEO_OLD''), (''SO_SNDTIMEO'', ''SO_SNDTIMEO_OLD''), (''SO_ATTACH_FILTER'', ''SO_GET_FILTER'')]"
  by code_simp

lemma protocol_clashes: "clashes ip_protocols = [(''IPPROTO_IP'', ''IPPROTO_HOPOPTS'')]"
  by code_simp

lemma families_agree: "map snd address_families = map snd protocol_families"
  by code_simp

lemma flag_tables_disjoint:
  "overlaps seal_flags = []" "overlaps prot_flags = []" "overlaps iflags = []" "overlaps oflags = []"
  "overlaps cflags = []" "overlaps lflags = []" "overlaps sigaction_flags = []" "overlaps poll_events = []"
  "overlaps mouse_buttons = []" "overlaps packet_flags = []" "overlaps permission_bits = []" "overlaps msg_flags = []"
  by code_simp+

lemma flag_tables_overlap:
  "overlaps open_flags = [(''O_DSYNC'', ''O_SYNC''), (''O_DSYNC'', ''O_RSYNC''), (''O_SYNC'', ''O_RSYNC'')]"
  "overlaps at_flags = [(''AT_REMOVEDIR'', ''AT_EACCESS'')]"
  "overlaps map_flags = [(''MAP_ANON'', ''MAP_ANONYMOUS'')]"
  by code_simp+

subsection \<open>Properties\<close>

text \<open>Which numbers are ambiguous. Every system call has its own number, and the numbers are 0
  to 55 without a gap. Error codes, signals, requests of the terminal, the console and the
  framebuffer, key codes, families, options and protocols name a value twice only where the pair
  is listed here; all but one of these are the aliases the headers intend.\<close>

theorem abi_numbers:
  "map snd syscall_numbers = map int [0..<56] \<and> clashes key_codes = [] \<and> clashes vt_requests = [] \<and>
   clashes fb_requests = [] \<and> clashes madvise_values = [] \<and> clashes socket_types = [] \<and>
   clashes errno_codes = [(''EAGAIN'', ''EWOULDBLOCK''), (''EDEADLK'', ''EDEADLOCK''), (''EOPNOTSUPP'', ''ENOTSUP'')] \<and>
   clashes signal_numbers = [(''SIGABRT'', ''SIGIOT''), (''SIGIO'', ''SIGPOLL''), (''SIGSYS'', ''SIGUNUSED'')] \<and>
   clashes tty_requests = [(''FIONREAD'', ''TIOCINQ'')] \<and>
   clashes fb_accels = [(''FB_ACCEL_TRIDENT_BLADEXP'', ''FB_ACCEL_CIRRUS_ALPINE'')] \<and>
   clashes fcntl_requests = [(''F_SETLK'', ''F_SETLK64''), (''F_SETLKW'', ''F_SETLKW64'')] \<and>
   clashes socket_options =
     [(''SO_RCVTIMEO'', ''SO_RCVTIMEO_OLD''), (''SO_SNDTIMEO'', ''SO_SNDTIMEO_OLD''), (''SO_ATTACH_FILTER'', ''SO_GET_FILTER'')] \<and>
   clashes ip_protocols = [(''IPPROTO_IP'', ''IPPROTO_HOPOPTS'')] \<and>
   map snd address_families = map snd protocol_families"
  by (simp only: syscalls_all ascending_tables[THEN ascending_clashes] fb_request_clashes errno_clashes
      signal_clashes tty_clashes fb_accel_clashes fcntl_clashes option_clashes protocol_clashes families_agree simp_thms)

text \<open>Which flags overlap. In the flag words of \<open>mmap\<close>'s protection, the terminal modes, signal
  actions, \<open>poll\<close>, packet mode, file permissions, messages and mouse buttons, no two flags share a
  bit, so a combination determines its members. The flags of \<open>open\<close>, the \<open>AT_\<close> flags and the
  mapping flags share bits only in the pairs listed.\<close>

theorem abi_flags:
  "overlaps prot_flags = [] \<and> overlaps iflags = [] \<and> overlaps oflags = [] \<and> overlaps cflags = [] \<and>
   overlaps lflags = [] \<and> overlaps sigaction_flags = [] \<and> overlaps poll_events = [] \<and> overlaps mouse_buttons = [] \<and>
   overlaps packet_flags = [] \<and> overlaps permission_bits = [] \<and> overlaps msg_flags = [] \<and> overlaps seal_flags = [] \<and>
   overlaps open_flags = [(''O_DSYNC'', ''O_SYNC''), (''O_DSYNC'', ''O_RSYNC''), (''O_SYNC'', ''O_RSYNC'')] \<and>
   overlaps at_flags = [(''AT_REMOVEDIR'', ''AT_EACCESS'')] \<and>
   overlaps map_flags = [(''MAP_ANON'', ''MAP_ANONYMOUS'')]"
  by (simp only: flag_tables_disjoint flag_tables_overlap simp_thms)

end
