(* ===== verification/Sysdeps.thy ===== *)
theory Sysdeps
  imports Abi_Tables "HOL-Library.Signed_Division"
begin

text \<open>
  The system layer of the C library (\<open>mlibc-salernos/sysdeps/generic/generic.cpp\<close>,
  \<open>stubs.cpp\<close>). The kernel is a parameter \<open>K\<close>: from the number of a call, its arguments and
  the kernel's state to the two result registers, the values it stored through pointers, and
  the new state. A wrapper returns the error code it reports (left) or its result (right).
\<close>

subsection \<open>The system call\<close>

record pollfd =
  pfd :: int
  events :: "16 word"
  revents :: "16 word"

text \<open>\<open>struct sigaction\<close> (\<open>abi/signal.h\<close>).\<close>

record sigact =
  sa_handler :: int
  sa_flags :: u64
  sa_restorer :: int
  sa_mask :: "int list"

text \<open>Arguments: numbers and addresses, strings and vectors of them, byte buffers, null pointers,
  pointers the kernel stores through, times, \<open>pollfd\<close> arrays, signal actions, signal sets.\<close>

datatype karg =
    A_num int | A_str string | A_strs "string list" | A_bytes "byte list" | A_null | A_out
  | A_time "int \<times> int" | A_poll "pollfd list" | A_act sigact | A_set "int list"

record sysret =
  sret :: u64
  serrno :: u64
  sdata :: "int list"

type_synonym 'k kernel = "int \<Rightarrow> karg list \<Rightarrow> 'k \<Rightarrow> sysret \<times> 'k"
type_synonym ('a, 'k) sysres = "(i32 + 'a) \<times> 'k"

definition SYS :: "string \<Rightarrow> int" where
  "SYS name = (case map_of syscall_numbers (''__SALERNOS_SYSCALL_'' @ name) of Some n \<Rightarrow> n | None \<Rightarrow> - 1)"

definition errno_of :: "string \<Rightarrow> i32" where
  "errno_of name = (case map_of errno_codes name of Some n \<Rightarrow> word_of_int n | None \<Rightarrow> 0)"

text \<open>The shape of nearly every wrapper: the error if there is one, else the result as a function of
  the registers.\<close>

definition sys_result :: "(sysret \<Rightarrow> 'a) \<Rightarrow> sysret \<times> 'k \<Rightarrow> ('a, 'k) sysres" where
  "sys_result f rk = (if serrno (fst rk) \<noteq> 0 then Inl (ucast (serrno (fst rk))) else Inr (f (fst rk)), snd rk)"

definition ret_int :: "sysret \<Rightarrow> int" where "ret_int r = sint (ucast (sret r) :: i32)"
definition ret_long :: "sysret \<Rightarrow> int" where "ret_long r = sint (sret r)"
definition ret_unit :: "sysret \<Rightarrow> unit" where "ret_unit r = ()"

text \<open>A result together with what the kernel stored through the pointers it was given.\<close>

definition with_data :: "(sysret \<Rightarrow> 'a) \<Rightarrow> sysret \<Rightarrow> 'a \<times> int list" where "with_data f r = (f r, sdata r)"

definition AT_FDCWD :: int where "AT_FDCWD = - 100"
definition AT_EMPTY_PATH :: int where "AT_EMPTY_PATH = 0x1000"
definition AT_REMOVEDIR :: int where "AT_REMOVEDIR = 0x200"
definition INT_MAX :: int where "INT_MAX = 2147483647"

subsection \<open>Files\<close>

definition sys_write :: "'k kernel \<Rightarrow> int \<Rightarrow> byte list \<Rightarrow> 'k \<Rightarrow> (int, 'k) sysres" where
  "sys_write K fd buf k = sys_result ret_long (K (SYS ''WRITEV'') [A_num fd, A_bytes buf, A_num 1] k)"

definition sys_read :: "'k kernel \<Rightarrow> int \<Rightarrow> int \<Rightarrow> 'k \<Rightarrow> (int \<times> int list, 'k) sysres" where
  "sys_read K fd cnt k = sys_result (with_data ret_long) (K (SYS ''READV'') [A_num fd, A_num cnt, A_num 1] k)"

definition sys_openat :: "'k kernel \<Rightarrow> int \<Rightarrow> string \<Rightarrow> int \<Rightarrow> int \<Rightarrow> 'k \<Rightarrow> (int, 'k) sysres" where
  "sys_openat K dirfd path flags mode k =
     sys_result ret_int (K (SYS ''OPENAT'') [A_num dirfd, A_str path, A_num flags, A_num mode] k)"

definition sys_open :: "'k kernel \<Rightarrow> string \<Rightarrow> int \<Rightarrow> int \<Rightarrow> 'k \<Rightarrow> (int, 'k) sysres" where
  "sys_open K path flags mode k = sys_openat K AT_FDCWD path flags mode k"

definition sys_seek :: "'k kernel \<Rightarrow> int \<Rightarrow> int \<Rightarrow> int \<Rightarrow> 'k \<Rightarrow> (int, 'k) sysres" where
  "sys_seek K fd offset whence k =
     sys_result ret_long (K (SYS ''SEEK'') [A_num fd, A_num offset, A_num whence] k)"

definition sys_close :: "'k kernel \<Rightarrow> int \<Rightarrow> 'k \<Rightarrow> (unit, 'k) sysres" where
  "sys_close K fd k = sys_result ret_unit (K (SYS ''CLOSE'') [A_num fd] k)"

definition sys_ftruncate :: "'k kernel \<Rightarrow> int \<Rightarrow> int \<Rightarrow> 'k \<Rightarrow> (unit, 'k) sysres" where
  "sys_ftruncate K fd sz k = sys_result ret_unit (K (SYS ''TRUNCATE'') [A_num fd, A_num sz] k)"

text \<open>The flags of \<open>sys_pipe\<close> and of \<open>sys_dup\<close> are dropped.\<close>

definition sys_pipe :: "'k kernel \<Rightarrow> int \<Rightarrow> 'k \<Rightarrow> (int list, 'k) sysres" where
  "sys_pipe K flags k = sys_result sdata (K (SYS ''PIPE'') [A_out] k)"

definition sys_dup :: "'k kernel \<Rightarrow> int \<Rightarrow> int \<Rightarrow> 'k \<Rightarrow> (int, 'k) sysres" where
  "sys_dup K fd flags k = sys_result ret_int (K (SYS ''FCNTL'') [A_num fd, A_num 0, A_num 0] k)"

definition sys_dup2 :: "'k kernel \<Rightarrow> int \<Rightarrow> int \<Rightarrow> int \<Rightarrow> 'k \<Rightarrow> (unit, 'k) sysres" where
  "sys_dup2 K fd flags newfd k =
     sys_result ret_unit (K (SYS ''DUP3'') [A_num fd, A_num newfd, A_num flags] k)"

definition sys_fcntl :: "'k kernel \<Rightarrow> int \<Rightarrow> int \<Rightarrow> int \<Rightarrow> 'k \<Rightarrow> (int, 'k) sysres" where
  "sys_fcntl K fd request arg k =
     sys_result ret_int (K (SYS ''FCNTL'') [A_num fd, A_num request, A_num arg] k)"

text \<open>What \<open>sys_stat\<close> returns when the kernel reports no error is the first register, so a nonzero one is an
  error to the caller. \<open>None\<close>: the program ends in \<open>__ensure\<close>.\<close>

datatype fsfd_target = T_none | T_fd | T_path | T_fd_path

definition stat_result :: "sysret \<times> 'k \<Rightarrow> (int list, 'k) sysres" where
  "stat_result rk =
     (let r = fst rk
      in (if serrno r \<noteq> 0 then Inl (ucast (serrno r))
          else if (ucast (sret r) :: i32) \<noteq> 0 then Inl (ucast (sret r)) else Inr (sdata r), snd rk))"

definition sys_stat :: "'k kernel \<Rightarrow> fsfd_target \<Rightarrow> int \<Rightarrow> string \<Rightarrow> int \<Rightarrow> 'k \<Rightarrow> (int list, 'k) sysres option" where
  "sys_stat K fsfdt fd path flags k =
     map_option stat_result
       (case fsfdt of
          T_fd \<Rightarrow> Some (K (SYS ''FSTATAT'') [A_num fd, A_str path, A_out, A_num (flags OR AT_EMPTY_PATH)] k)
        | T_path \<Rightarrow> Some (K (SYS ''FSTATAT'') [A_num AT_FDCWD, A_str path, A_out, A_num flags] k)
        | T_fd_path \<Rightarrow> Some (K (SYS ''FSTATAT'') [A_num fd, A_str path, A_out, A_num flags] k)
        | T_none \<Rightarrow> None)"

definition sys_unlinkat :: "'k kernel \<Rightarrow> int \<Rightarrow> string \<Rightarrow> int \<Rightarrow> 'k \<Rightarrow> (unit, 'k) sysres" where
  "sys_unlinkat K fd path flags k =
     sys_result ret_unit (K (SYS ''UNLINKAT'') [A_num fd, A_str path, A_num flags] k)"

definition sys_rmdir :: "'k kernel \<Rightarrow> string \<Rightarrow> 'k \<Rightarrow> (unit, 'k) sysres" where
  "sys_rmdir K path k = sys_unlinkat K AT_FDCWD path AT_REMOVEDIR k"

definition sys_mkdirat :: "'k kernel \<Rightarrow> int \<Rightarrow> string \<Rightarrow> int \<Rightarrow> 'k \<Rightarrow> (unit, 'k) sysres" where
  "sys_mkdirat K dirfd path mode k =
     sys_result ret_unit (K (SYS ''MKDIRAT'') [A_num dirfd, A_str path, A_num mode] k)"

definition sys_mkdir :: "'k kernel \<Rightarrow> string \<Rightarrow> int \<Rightarrow> 'k \<Rightarrow> (unit, 'k) sysres" where
  "sys_mkdir K path mode k = sys_mkdirat K AT_FDCWD path mode k"

subsection \<open>Requests of devices\<close>

text \<open>The second component is what the request stored through its pointer.\<close>

definition sys_ioctl :: "'k kernel \<Rightarrow> int \<Rightarrow> int \<Rightarrow> karg \<Rightarrow> 'k \<Rightarrow> (int \<times> int list, 'k) sysres" where
  "sys_ioctl K fd request arg k =
     sys_result (\<lambda>r. (ret_int r, sdata r)) (K (SYS ''IOCTL'') [A_num fd, A_num request, arg] k)"

definition TIOCGWINSZ :: int where "TIOCGWINSZ = 0x5413"
definition TCGETS :: int where "TCGETS = 0x5401"
definition TCSETS :: int where "TCSETS = 0x5402"
definition TIOCGPTN :: int where "TIOCGPTN = uint (IOR 84 48 4)"
definition TIOCSPTLCK :: int where "TIOCSPTLCK = uint (IOW 84 49 4)"

definition sys_isatty :: "'k kernel \<Rightarrow> int \<Rightarrow> 'k \<Rightarrow> i32 \<times> 'k" where
  "sys_isatty K fd k =
     (case sys_ioctl K fd TIOCGWINSZ A_out k of
        (Inr _, k') \<Rightarrow> (0, k')
      | (Inl err, k') \<Rightarrow> (if err = 0 then 0 else errno_of ''ENOTTY'', k'))"

definition sys_tcgetattr :: "'k kernel \<Rightarrow> int \<Rightarrow> 'k \<Rightarrow> (int \<times> int list, 'k) sysres" where
  "sys_tcgetattr K fd k = sys_ioctl K fd TCGETS A_out k"

definition sys_tcsetattr :: "'k kernel \<Rightarrow> int \<Rightarrow> int \<Rightarrow> byte list \<Rightarrow> 'k \<Rightarrow> (int \<times> int list, 'k) sysres" where
  "sys_tcsetattr K fd optional_action attr k = sys_ioctl K fd TCSETS (A_bytes attr) k"

text \<open>\<open>sys_unlockpt\<close> and \<open>sys_ptsname\<close> test the variable \<open>result\<close> and not what \<open>sys_ioctl\<close> returns. When
  the call fails nothing is stored in it: \<open>junk\<close> is what the uninitialised variable holds, and
  \<open>junk_index\<close> the same for the index.\<close>

definition sys_unlockpt :: "'k kernel \<Rightarrow> i32 \<Rightarrow> int \<Rightarrow> 'k \<Rightarrow> i32 \<times> 'k" where
  "sys_unlockpt K junk fd k =
     (case sys_ioctl K fd TIOCSPTLCK (A_num 0) k of
        (Inr (result, _), k') \<Rightarrow> (if result \<noteq> 0 then word_of_int result else 0, k')
      | (Inl _, k') \<Rightarrow> (if junk \<noteq> 0 then junk else 0, k'))"

definition digit :: "nat \<Rightarrow> char" where
  "digit n = char_of (48 + n)"

function print_nat :: "nat \<Rightarrow> string" where
  "print_nat n = (if n < 10 then [digit n] else print_nat (n div 10) @ [digit (n mod 10)])"
  by pat_completeness auto
termination by (relation "measure id") auto

declare print_nat.simps [simp del]

definition print_int :: "int \<Rightarrow> string" where
  "print_int n = (if n < 0 then CHR 0x2D # print_nat (nat (- n)) else print_nat (nat n))"

text \<open>The right summand is the text in the buffer, without its NUL.\<close>

definition sys_ptsname :: "'k kernel \<Rightarrow> i32 \<Rightarrow> i32 \<Rightarrow> int \<Rightarrow> nat \<Rightarrow> 'k \<Rightarrow> (string, 'k) sysres" where
  "sys_ptsname K junk junk_index fd len0 k =
     (let (r, k') = sys_ioctl K fd TIOCGPTN A_out k;
          (result, index) =
            (case r of
               Inl _ \<Rightarrow> (junk, sint junk_index)
             | Inr (n, outs) \<Rightarrow> (word_of_int n, case outs of [] \<Rightarrow> sint junk_index | i # _ \<Rightarrow> i));
          name = ''/dev/pts/'' @ print_int index
      in if result \<noteq> 0 then (Inl result, k')
         else if len0 \<le> length name then (Inl (errno_of ''ERANGE''), k')
         else (Inr name, k'))"

definition sys_posix_openpt :: "'k kernel \<Rightarrow> int \<Rightarrow> 'k \<Rightarrow> (int, 'k) sysres" where
  "sys_posix_openpt K flags k = sys_open K ''/dev/ptmx'' flags 0 k"

subsection \<open>Processes, threads and signals\<close>

definition sys_fork :: "'k kernel \<Rightarrow> 'k \<Rightarrow> (int, 'k) sysres" where
  "sys_fork K k = sys_result ret_int (K (SYS ''FORK'') [] k)"

text \<open>The retry of \<open>sys_waitpid\<close>; \<open>None\<close> when the kernel interrupts the call forever. The result is
  the process id and the status the kernel stored.\<close>

partial_function (option) waitpid_again ::
    "'k kernel \<Rightarrow> int \<Rightarrow> int \<Rightarrow> 'k \<Rightarrow> (int \<times> int list, 'k) sysres option" where
  "waitpid_again K pid flags k =
     (case K (SYS ''WAITPID'') [A_num pid, A_out, A_num flags] k of
        (r, k') \<Rightarrow>
          (if serrno r \<noteq> 0 then
             (if serrno r = 4 then waitpid_again K pid flags k'
              else Some (Inl (ucast (serrno r)), k'))
           else Some (Inr (ret_int r, sdata r), k')))"

definition sys_waitpid :: "'k kernel \<Rightarrow> int \<Rightarrow> int \<Rightarrow> bool \<Rightarrow> 'k \<Rightarrow> (int \<times> int list, 'k) sysres option" where
  "sys_waitpid K pid flags ru k =
     (if ru then Some (Inl (errno_of ''ENOSYS''), k) else waitpid_again K pid flags k)"

definition sys_getpid :: "'k kernel \<Rightarrow> 'k \<Rightarrow> int \<times> 'k" where
  "sys_getpid K k = (case K (SYS ''GETPID'') [] k of (r, k') \<Rightarrow> (ret_int r, k'))"

definition sys_kill :: "'k kernel \<Rightarrow> int \<Rightarrow> int \<Rightarrow> 'k \<Rightarrow> (unit, 'k) sysres" where
  "sys_kill K pid sig k = sys_result ret_unit (K (SYS ''KILL'') [A_num pid, A_num sig] k)"

definition sys_tgkill :: "'k kernel \<Rightarrow> int \<Rightarrow> int \<Rightarrow> int \<Rightarrow> 'k \<Rightarrow> (unit, 'k) sysres" where
  "sys_tgkill K tgid tid sig k =
     (case sys_getpid K k of
        (pid, k') \<Rightarrow>
          (if tgid \<noteq> pid then (Inl (errno_of ''ENOSYS''), k')
           else sys_result ret_unit (K (SYS ''KILL_THREAD'') [A_num tid, A_num sig] k')))"

definition sys_setsid :: "'k kernel \<Rightarrow> 'k \<Rightarrow> (int, 'k) sysres" where
  "sys_setsid K k = sys_result ret_int (K (SYS ''SETSID'') [] k)"

definition sys_futex_wait :: "'k kernel \<Rightarrow> int \<Rightarrow> int \<Rightarrow> 'k \<Rightarrow> (unit, 'k) sysres" where
  "sys_futex_wait K ptr expected k =
     sys_result ret_unit (K (SYS ''FUTEX'') [A_num ptr, A_num 0, A_num expected] k)"

definition sys_futex_wake :: "'k kernel \<Rightarrow> int \<Rightarrow> 'k \<Rightarrow> (unit, 'k) sysres" where
  "sys_futex_wake K ptr k =
     sys_result ret_unit (K (SYS ''FUTEX'') [A_num ptr, A_num 1, A_num INT_MAX] k)"

text \<open>The action handed to the kernel always has a restorer. The result is what the kernel stored through
  \<open>oldact\<close>.\<close>

definition SA_RESTORER :: u64 where "SA_RESTORER = 0x04000000"

definition call_action :: "int \<Rightarrow> sigact \<Rightarrow> sigact" where
  "call_action restorer act =
     (if sa_flags act AND SA_RESTORER = 0
      then act\<lparr>sa_restorer := restorer, sa_flags := sa_flags act OR SA_RESTORER\<rparr> else act)"

definition sys_sigaction :: "'k kernel \<Rightarrow> int \<Rightarrow> int \<Rightarrow> sigact option \<Rightarrow> karg \<Rightarrow> 'k \<Rightarrow> (int list, 'k) sysres" where
  "sys_sigaction K restorer signum act oldact k =
     sys_result sdata
       (K (SYS ''SIGACTION'')
          [A_num signum, (case act of None \<Rightarrow> A_null | Some a \<Rightarrow> A_act (call_action restorer a)), oldact] k)"

text \<open>The calls that do not come back: the state of the kernel after them.\<close>

definition sys_exit :: "'k kernel \<Rightarrow> int \<Rightarrow> 'k \<Rightarrow> 'k" where
  "sys_exit K status k = snd (K (SYS ''EXIT'') [A_num status] k)"

definition sys_thread_exit :: "'k kernel \<Rightarrow> 'k \<Rightarrow> 'k" where
  "sys_thread_exit K k = snd (K (SYS ''EXIT_THREAD'') [] k)"

definition sys_libc_log :: "'k kernel \<Rightarrow> string \<Rightarrow> 'k \<Rightarrow> 'k" where
  "sys_libc_log K message k = snd (K (SYS ''TEST'') [A_str message] k)"

definition sys_libc_panic :: "'k kernel \<Rightarrow> 'k \<Rightarrow> 'k" where
  "sys_libc_panic K k = sys_exit K 1 (sys_libc_log K (newline # ''MLIBC PANIC'' @ [newline]) k)"

subsection \<open>Waiting for events\<close>

definition sys_ppoll :: "'k kernel \<Rightarrow> pollfd list \<Rightarrow> (int \<times> int) option \<Rightarrow> 'k \<Rightarrow> (int \<times> int list, 'k) sysres" where
  "sys_ppoll K fds timeout k =
     sys_result (\<lambda>r. (ret_int r, sdata r))
       (K (SYS ''PPOLL'')
          [A_poll fds, A_num (int (length fds)), (case timeout of None \<Rightarrow> A_null | Some ts \<Rightarrow> A_time ts)] k)"

definition poll_time :: "i32 \<Rightarrow> (int \<times> int) option" where
  "poll_time timeout =
     (let tv_sec = sint timeout sdiv 1000; tv_nsec = (sint timeout smod 1000) * 1000000
      in if timeout <s 0 then None else Some (tv_sec, tv_nsec))"

definition sys_poll :: "'k kernel \<Rightarrow> pollfd list \<Rightarrow> i32 \<Rightarrow> 'k \<Rightarrow> (int \<times> int list, 'k) sysres" where
  "sys_poll K fds timeout k = sys_ppoll K fds (poll_time timeout) k"

text \<open>The argument \<open>sys_sleep\<close> hands to \<open>poll\<close>, cut to an \<open>int\<close>. The sum is computed in \<open>unsigned
  long\<close>, and so is the quotient of the nanoseconds.\<close>

definition sleep_arg :: "u64 option \<Rightarrow> u64 option \<Rightarrow> i32" where
  "sleep_arg secs nanos =
     (let s = (case secs of None \<Rightarrow> 0 | Some s \<Rightarrow> s); n = (case nanos of None \<Rightarrow> 0 | Some n \<Rightarrow> n);
          tot = s * 1000 + n div 1000000
      in ucast tot)"

definition sys_sleep :: "'k kernel \<Rightarrow> u64 option \<Rightarrow> u64 option \<Rightarrow> 'k \<Rightarrow> i32 \<times> 'k" where
  "sys_sleep K secs nanos k = (0, snd (sys_poll K [] (sleep_arg secs nanos) k))"

definition sys_pause :: "'k kernel \<Rightarrow> 'k \<Rightarrow> i32 \<times> 'k" where
  "sys_pause K k = (0, snd (sys_poll K [] (- 1) k))"

definition POLLIN :: "16 word" where "POLLIN = 1"
definition POLLPRI :: "16 word" where "POLLPRI = 2"
definition POLLOUT :: "16 word" where "POLLOUT = 4"
definition POLLERR :: "16 word" where "POLLERR = 8"
definition POLLHUP :: "16 word" where "POLLHUP = 0x10"

text \<open>A descriptor set is the set of its members; a null pointer is \<open>None\<close>.\<close>

type_synonym fd_set = "nat set"

definition fd_isset :: "nat \<Rightarrow> fd_set option \<Rightarrow> bool" where
  "fd_isset i s = (case s of None \<Rightarrow> False | Some S \<Rightarrow> i \<in> S)"

definition select_pollfd :: "fd_set option \<Rightarrow> fd_set option \<Rightarrow> fd_set option \<Rightarrow> nat \<Rightarrow> pollfd" where
  "select_pollfd R W E i =
     (let e0 = 0;
          e1 = (if fd_isset i R then e0 OR POLLIN else e0);
          e2 = (if fd_isset i W then e1 OR POLLOUT else e1);
          e3 = (if fd_isset i E then e2 OR POLLPRI else e2)
      in if e3 = 0 then \<lparr>pfd = - 1, events = e3, revents = 0\<rparr>
         else \<lparr>pfd = int i, events = e3, revents = 0\<rparr>)"

text \<open>The second loop: descriptor \<open>i\<close> is put into a result set if the caller asked and the event bits
  that the kernel stored have one of the set's bits.\<close>

definition result_set :: "nat \<Rightarrow> fd_set option \<Rightarrow> 16 word \<Rightarrow> 16 word list \<Rightarrow> fd_set option" where
  "result_set nfds S bits revs =
     (case S of None \<Rightarrow> None
      | Some _ \<Rightarrow> Some (set (filter (\<lambda>i. fd_isset i S \<and> revs ! i AND bits \<noteq> 0) [0..<nfds])))"

type_synonym select_result = "int \<times> fd_set option \<times> fd_set option \<times> fd_set option"

definition sys_pselect ::
    "'k kernel \<Rightarrow> bool \<Rightarrow> nat \<Rightarrow> fd_set option \<Rightarrow> fd_set option \<Rightarrow> fd_set option \<Rightarrow>
     (int \<times> int) option \<Rightarrow> 'k \<Rightarrow> (select_result, 'k) sysres" where
  "sys_pselect K calloc_ok nfds R W E timeout k =
     (if \<not> calloc_ok then (Inl (errno_of ''ENOMEM''), k)
      else
        (case sys_ppoll K (map (select_pollfd R W E) [0..<nfds]) timeout k of
           (Inl e, k') \<Rightarrow> (Inl e, k')
         | (Inr (n, outs), k') \<Rightarrow>
             (let revs = map word_of_int outs
              in (Inr (n, result_set nfds R (POLLIN OR POLLERR OR POLLHUP) revs,
                       result_set nfds W (POLLOUT OR POLLERR OR POLLHUP) revs,
                       result_set nfds E POLLPRI revs), k'))))"

subsection \<open>Sockets\<close>

definition sys_socket :: "'k kernel \<Rightarrow> int \<Rightarrow> int \<Rightarrow> int \<Rightarrow> 'k \<Rightarrow> (int, 'k) sysres" where
  "sys_socket K domain typ proto k =
     sys_result ret_int (K (SYS ''SOCKET'') [A_num domain, A_num typ, A_num proto] k)"

definition SOCK_NONBLOCK :: int where "SOCK_NONBLOCK = 0x800"
definition SOCK_CLOEXEC :: int where "SOCK_CLOEXEC = 0x80000"
definition O_NONBLOCK :: int where "O_NONBLOCK = 0x800"
definition FD_CLOEXEC :: int where "FD_CLOEXEC = 1"
definition F_GETFD :: int where "F_GETFD = 1"
definition F_SETFD :: int where "F_SETFD = 2"
definition F_GETFL :: int where "F_GETFL = 3"
definition F_SETFL :: int where "F_SETFL = 4"

text \<open>Read a flag word, add a flag, and store it. The results of both calls are ignored; when the first
  fails, the variable keeps its 0. The argument of the first is whatever the register holds.\<close>

definition add_flag :: "'k kernel \<Rightarrow> int \<Rightarrow> int \<Rightarrow> int \<Rightarrow> int \<Rightarrow> int \<Rightarrow> 'k \<Rightarrow> 'k" where
  "add_flag K junk fd get_req set_req flag k =
     (case sys_fcntl K fd get_req junk k of
        (Inl _, k') \<Rightarrow> snd (sys_fcntl K fd set_req (0 OR flag) k')
      | (Inr v, k') \<Rightarrow> snd (sys_fcntl K fd set_req (v OR flag) k'))"

definition sys_accept :: "'k kernel \<Rightarrow> int \<Rightarrow> int \<Rightarrow> int \<Rightarrow> 'k \<Rightarrow> (int \<times> int list, 'k) sysres" where
  "sys_accept K junk fd flags k =
     (case sys_result (with_data ret_int) (K (SYS ''ACCEPT'') [A_num fd, A_out, A_out] k) of
        (Inl e, k') \<Rightarrow> (Inl e, k')
      | (Inr (newfd, addr), k') \<Rightarrow>
          (let k1 = (if flags AND SOCK_NONBLOCK \<noteq> 0 then add_flag K junk newfd F_GETFL F_SETFL O_NONBLOCK k' else k');
               k2 = (if flags AND SOCK_CLOEXEC \<noteq> 0 then add_flag K junk newfd F_GETFD F_SETFD FD_CLOEXEC k1 else k1)
           in (Inr (newfd, addr), k2)))"

subsection \<open>The other wrappers\<close>

text \<open>A zero result of \<open>sys_execve\<close> is not seen: the process image is another one by then.\<close>

definition sys_execve :: "'k kernel \<Rightarrow> string \<Rightarrow> string list \<Rightarrow> string list \<Rightarrow> 'k \<Rightarrow> i32 \<times> 'k" where
  "sys_execve K path argv envp k =
     (case K (SYS ''EXECVE'') [A_str path, A_strs argv, A_strs envp] k of (r, k') \<Rightarrow> (ucast (serrno r), k'))"

text \<open>An address is the register as it is. The kernel takes the flags before the protection.\<close>

definition ret_addr :: "sysret \<Rightarrow> int" where "ret_addr r = uint (sret r)"

definition sys_vm_map :: "'k kernel \<Rightarrow> int \<Rightarrow> int \<Rightarrow> int \<Rightarrow> int \<Rightarrow> int \<Rightarrow> int \<Rightarrow> 'k \<Rightarrow> (int, 'k) sysres" where
  "sys_vm_map K hint sz prot flags fd offset k =
     sys_result ret_addr
       (K (SYS ''MMAP'') [A_num hint, A_num sz, A_num flags, A_num prot, A_num fd, A_num offset] k)"

definition PROT_READ :: int where "PROT_READ = 0x01"
definition PROT_WRITE :: int where "PROT_WRITE = 0x02"
definition PROT_EXEC :: int where "PROT_EXEC = 0x04"
definition MAP_ANONYMOUS :: int where "MAP_ANONYMOUS = 0x20"

definition sys_anon_allocate :: "'k kernel \<Rightarrow> int \<Rightarrow> 'k \<Rightarrow> (int, 'k) sysres" where
  "sys_anon_allocate K sz k =
     sys_vm_map K 0 sz (PROT_EXEC OR PROT_READ OR PROT_WRITE) MAP_ANONYMOUS (- 1) 0 k"

definition sys_tcb_set :: "'k kernel \<Rightarrow> int \<Rightarrow> 'k \<Rightarrow> i32 \<times> 'k" where
  "sys_tcb_set K pointer k = (0, snd (K (SYS ''SET_TLS'') [A_num pointer] k))"

definition sys_vm_unmap :: "'k kernel \<Rightarrow> int \<Rightarrow> int \<Rightarrow> 'k \<Rightarrow> (unit, 'k) sysres" where
  "sys_vm_unmap K pointer sz k = sys_result ret_unit (K (SYS ''MUNMAP'') [A_num pointer, A_num sz] k)"

definition sys_anon_free :: "'k kernel \<Rightarrow> int \<Rightarrow> int \<Rightarrow> 'k \<Rightarrow> (unit, 'k) sysres" where
  "sys_anon_free K pointer sz k = sys_vm_unmap K pointer sz k"

definition sys_clone :: "'k kernel \<Rightarrow> int \<Rightarrow> int \<Rightarrow> 'k \<Rightarrow> (int, 'k) sysres" where
  "sys_clone K thread_entry stack k = sys_result ret_int (K (SYS ''CLONE'') [A_num thread_entry, A_num stack] k)"

definition sys_getppid :: "'k kernel \<Rightarrow> 'k \<Rightarrow> int \<times> 'k" where
  "sys_getppid K k = (case K (SYS ''GETPPID'') [] k of (r, k') \<Rightarrow> (ret_int r, k'))"

definition sys_getpgid :: "'k kernel \<Rightarrow> int \<Rightarrow> 'k \<Rightarrow> (int, 'k) sysres" where
  "sys_getpgid K pid k = sys_result ret_int (K (SYS ''GETPGID'') [A_num pid] k)"

definition sys_getsid :: "'k kernel \<Rightarrow> int \<Rightarrow> 'k \<Rightarrow> (int, 'k) sysres" where
  "sys_getsid K pid k = sys_result ret_int (K (SYS ''GETSID'') [A_num pid] k)"

definition sys_setpgid :: "'k kernel \<Rightarrow> int \<Rightarrow> int \<Rightarrow> 'k \<Rightarrow> (unit, 'k) sysres" where
  "sys_setpgid K pid pgid k = sys_result ret_unit (K (SYS ''SETPGID'') [A_num pid, A_num pgid] k)"

text \<open>The mask of the process and the mask of a thread are the same call; the result is the set stored
  through \<open>retrieve\<close>.\<close>

definition sys_sigprocmask :: "'k kernel \<Rightarrow> int \<Rightarrow> karg \<Rightarrow> karg \<Rightarrow> 'k \<Rightarrow> (int list, 'k) sysres" where
  "sys_sigprocmask K how sigs retrieve k = sys_result sdata (K (SYS ''SIGPROCMASK'') [A_num how, sigs, retrieve] k)"

definition sys_thread_sigmask :: "'k kernel \<Rightarrow> int \<Rightarrow> karg \<Rightarrow> karg \<Rightarrow> 'k \<Rightarrow> (int list, 'k) sysres" where
  "sys_thread_sigmask K how sigs retrieve k = sys_result sdata (K (SYS ''SIGPROCMASK'') [A_num how, sigs, retrieve] k)"

definition sys_sigpending :: "'k kernel \<Rightarrow> 'k \<Rightarrow> (int list, 'k) sysres" where
  "sys_sigpending K k = sys_result sdata (K (SYS ''SIGPENDING'') [A_out] k)"

definition sys_getcwd :: "'k kernel \<Rightarrow> int \<Rightarrow> 'k \<Rightarrow> (int list, 'k) sysres" where
  "sys_getcwd K sz k = sys_result sdata (K (SYS ''GETCWD'') [A_out, A_num sz] k)"

definition O_DIRECTORY :: int where "O_DIRECTORY = 0x10000"

definition sys_open_dir :: "'k kernel \<Rightarrow> string \<Rightarrow> 'k \<Rightarrow> (int, 'k) sysres" where
  "sys_open_dir K path k = sys_open K path O_DIRECTORY 0 k"

definition sys_read_entries :: "'k kernel \<Rightarrow> int \<Rightarrow> int \<Rightarrow> 'k \<Rightarrow> (int \<times> int list, 'k) sysres" where
  "sys_read_entries K fd max_size k = sys_result (with_data ret_addr) (K (SYS ''READDIR'') [A_num fd, A_out, A_num max_size] k)"

definition sys_chdir :: "'k kernel \<Rightarrow> string \<Rightarrow> 'k \<Rightarrow> (unit, 'k) sysres" where
  "sys_chdir K path k = sys_result ret_unit (K (SYS ''CHDIR'') [A_str path] k)"

definition sys_faccessat :: "'k kernel \<Rightarrow> int \<Rightarrow> string \<Rightarrow> int \<Rightarrow> int \<Rightarrow> 'k \<Rightarrow> (unit, 'k) sysres" where
  "sys_faccessat K dirfd path mode flags k = sys_result ret_unit (K (SYS ''FACCESSAT'') [A_num dirfd, A_str path, A_num mode, A_num flags] k)"

definition sys_access :: "'k kernel \<Rightarrow> string \<Rightarrow> int \<Rightarrow> 'k \<Rightarrow> (unit, 'k) sysres" where
  "sys_access K path mode k = sys_faccessat K AT_FDCWD path mode 0 k"

text \<open>The kernel stores the seconds and the nanoseconds.\<close>

definition sys_clock_get :: "'k kernel \<Rightarrow> int \<Rightarrow> 'k \<Rightarrow> (int list, 'k) sysres" where
  "sys_clock_get K clock k = sys_result sdata (K (SYS ''CLOCK_GET'') [A_num clock, A_out] k)"

definition sys_readlinkat :: "'k kernel \<Rightarrow> int \<Rightarrow> string \<Rightarrow> int \<Rightarrow> 'k \<Rightarrow> (int \<times> int list, 'k) sysres" where
  "sys_readlinkat K dirfd path max_size k = sys_result (with_data ret_long) (K (SYS ''READLINKAT'') [A_num dirfd, A_str path, A_out, A_num max_size] k)"

definition sys_readlink :: "'k kernel \<Rightarrow> string \<Rightarrow> int \<Rightarrow> 'k \<Rightarrow> (int \<times> int list, 'k) sysres" where
  "sys_readlink K path max_size k = sys_readlinkat K AT_FDCWD path max_size k"

definition sys_symlinkat :: "'k kernel \<Rightarrow> string \<Rightarrow> int \<Rightarrow> string \<Rightarrow> 'k \<Rightarrow> (unit, 'k) sysres" where
  "sys_symlinkat K target_path dirfd link_path k = sys_result ret_unit (K (SYS ''SYMLINKAT'') [A_str target_path, A_num dirfd, A_str link_path] k)"

definition sys_symlink :: "'k kernel \<Rightarrow> string \<Rightarrow> string \<Rightarrow> 'k \<Rightarrow> (unit, 'k) sysres" where
  "sys_symlink K target_path link_path k = sys_symlinkat K target_path AT_FDCWD link_path k"

definition sys_bind :: "'k kernel \<Rightarrow> int \<Rightarrow> byte list \<Rightarrow> int \<Rightarrow> 'k \<Rightarrow> (unit, 'k) sysres" where
  "sys_bind K fd addr addr_length k = sys_result ret_unit (K (SYS ''BIND'') [A_num fd, A_bytes addr, A_num addr_length] k)"

definition sys_listen :: "'k kernel \<Rightarrow> int \<Rightarrow> int \<Rightarrow> 'k \<Rightarrow> (unit, 'k) sysres" where
  "sys_listen K fd backlog k = sys_result ret_unit (K (SYS ''LISTEN'') [A_num fd, A_num backlog] k)"

definition sys_connect :: "'k kernel \<Rightarrow> int \<Rightarrow> byte list \<Rightarrow> int \<Rightarrow> 'k \<Rightarrow> (unit, 'k) sysres" where
  "sys_connect K fd addr addr_length k = sys_result ret_unit (K (SYS ''CONNECT'') [A_num fd, A_bytes addr, A_num addr_length] k)"

definition sys_setitimer :: "'k kernel \<Rightarrow> int \<Rightarrow> karg \<Rightarrow> karg \<Rightarrow> 'k \<Rightarrow> (int list, 'k) sysres" where
  "sys_setitimer K which new_value old_value k = sys_result sdata (K (SYS ''SETITIMER'') [A_num which, new_value, old_value] k)"

definition ret_socklen :: "sysret \<Rightarrow> int" where "ret_socklen r = uint (ucast (sret r) :: u32)"

definition sys_peername :: "'k kernel \<Rightarrow> int \<Rightarrow> int \<Rightarrow> 'k \<Rightarrow> (int \<times> int list, 'k) sysres" where
  "sys_peername K fd max_addr_length k = sys_result (with_data ret_socklen) (K (SYS ''GETPEERNAME'') [A_num fd, A_out, A_num max_addr_length] k)"

definition sys_msg_send :: "'k kernel \<Rightarrow> int \<Rightarrow> karg \<Rightarrow> int \<Rightarrow> 'k \<Rightarrow> (int, 'k) sysres" where
  "sys_msg_send K sockfd hdr flags k = sys_result ret_long (K (SYS ''SENDMSG'') [A_num sockfd, hdr, A_num flags] k)"

definition sys_msg_recv :: "'k kernel \<Rightarrow> int \<Rightarrow> karg \<Rightarrow> int \<Rightarrow> 'k \<Rightarrow> (int \<times> int list, 'k) sysres" where
  "sys_msg_recv K sockfd hdr flags k = sys_result (with_data ret_long) (K (SYS ''RECVMSG'') [A_num sockfd, hdr, A_num flags] k)"

subsection \<open>Properties\<close>

lemma waitpid_again_run:
  "\<forall>i<n. K (SYS ''WAITPID'') [A_num pid, A_out, A_num flags] (ks i) = (rs i, ks (Suc i)) \<and> serrno (rs i) = 4 \<Longrightarrow>
   K (SYS ''WAITPID'') [A_num pid, A_out, A_num flags] (ks n) = (r, k') \<Longrightarrow> serrno r \<noteq> 4 \<Longrightarrow>
   waitpid_again K pid flags (ks 0) = Some (sys_result (\<lambda>r. (ret_int r, sdata r)) (r, k'))"
proof (induction n arbitrary: ks rs)
  case 0
  then show ?case by (subst waitpid_again.simps) (simp add: sys_result_def)
next
  case (Suc n)
  from Suc.IH[of "\<lambda>i. ks (Suc i)" "\<lambda>i. rs (Suc i)"] Suc.prems
  have "waitpid_again K pid flags (ks (Suc 0)) = Some (sys_result (\<lambda>r. (ret_int r, sdata r)) (r, k'))" by simp
  moreover have "K (SYS ''WAITPID'') [A_num pid, A_out, A_num flags] (ks 0) = (rs 0, ks (Suc 0))" "serrno (rs 0) = 4"
    using Suc.prems(1) by auto
  ultimately show ?case by (subst waitpid_again.simps) simp
qed

text \<open>C34: \<open>sys_waitpid\<close> hides interruptions. If the kernel interrupts the call \<open>n\<close> times, for any \<open>n\<close>,
  and then answers, the wrapper returns, after exactly these \<open>n + 1\<close> calls, what the last one
  answered: its error code, or the process id and the status.\<close>

theorem waitpid_retries:
  assumes "\<forall>i<n. K (SYS ''WAITPID'') [A_num pid, A_out, A_num flags] (ks i) = (rs i, ks (Suc i)) \<and> serrno (rs i) = 4"
    and "K (SYS ''WAITPID'') [A_num pid, A_out, A_num flags] (ks n) = (r, k')" "serrno r \<noteq> 4"
  shows "sys_waitpid K pid flags False (ks 0) =
    Some (if serrno r = 0 then Inr (ret_int r, sdata r) else Inl (ucast (serrno r)), k')"
  using waitpid_again_run[of n K pid flags ks rs r k'] assms by (simp add: sys_waitpid_def sys_result_def)

definition eintr_kernel :: "nat kernel" where
  "eintr_kernel n as k = (if k < 3 then (\<lparr>sret = 0, serrno = 4, sdata = []\<rparr>, Suc k)
     else (\<lparr>sret = 42, serrno = 0, sdata = [256]\<rparr>, Suc k))"

theorem waitpid_retries_witness:
  "sys_waitpid eintr_kernel (- 1) 0 False 0 = Some (Inr (42, [256]), 4)"
  using waitpid_retries[of 3 eintr_kernel "- 1" 0 id "\<lambda>_. \<lparr>sret = 0, serrno = 4, sdata = []\<rparr>"
      "\<lparr>sret = 42, serrno = 0, sdata = [256]\<rparr>" 4]
  by (simp add: eintr_kernel_def ret_int_def)

lemma select_pollfd_asks:
  "pfd (select_pollfd (Some R) (Some W) (Some E) i) = (if i \<in> R \<union> W \<union> E then int i else - 1)"
  "events (select_pollfd (Some R) (Some W) (Some E) i) AND POLLIN \<noteq> 0 \<longleftrightarrow> i \<in> R"
  "events (select_pollfd (Some R) (Some W) (Some E) i) AND POLLOUT \<noteq> 0 \<longleftrightarrow> i \<in> W"
  "events (select_pollfd (Some R) (Some W) (Some E) i) AND POLLPRI \<noteq> 0 \<longleftrightarrow> i \<in> E"
  by (simp_all add: select_pollfd_def fd_isset_def POLLIN_def POLLOUT_def POLLPRI_def)

lemma result_set_eq: "result_set nfds (Some S) bits revs = Some {i \<in> S. i < nfds \<and> revs ! i AND bits \<noteq> 0}"
  by (auto simp: result_set_def fd_isset_def)

text \<open>C35: \<open>pselect\<close> on top of \<open>ppoll\<close>. The kernel is asked about exactly the descriptors below \<open>nfds\<close>
  that are in some set, each with the events of the sets it is in; and if it answers, each result
  set is the part of the caller's set whose descriptors have one of its events, an error or a
  hang-up counting as readable and as writable. The count is the one of \<open>ppoll\<close>, descriptors and
  not bits.\<close>

theorem pselect_refines_ppoll:
  assumes "K (SYS ''PPOLL'') [A_poll (map (select_pollfd (Some R) (Some W) (Some E)) [0..<nfds]), A_num (int nfds), A_time t] k = (r, k')"
    and "serrno r = 0" "length (sdata r) = nfds"
  shows "(\<forall>i<nfds. let p = map (select_pollfd (Some R) (Some W) (Some E)) [0..<nfds] ! i in
      pfd p = (if i \<in> R \<union> W \<union> E then int i else - 1) \<and>
      (events p AND POLLIN \<noteq> 0 \<longleftrightarrow> i \<in> R) \<and> (events p AND POLLOUT \<noteq> 0 \<longleftrightarrow> i \<in> W) \<and>
      (events p AND POLLPRI \<noteq> 0 \<longleftrightarrow> i \<in> E)) \<and>
    sys_pselect K True nfds (Some R) (Some W) (Some E) (Some t) k =
      (Inr (ret_int r,
         Some {i \<in> R. i < nfds \<and> word_of_int (sdata r ! i) AND (POLLIN OR POLLERR OR POLLHUP) \<noteq> 0},
         Some {i \<in> W. i < nfds \<and> word_of_int (sdata r ! i) AND (POLLOUT OR POLLERR OR POLLHUP) \<noteq> 0},
         Some {i \<in> E. i < nfds \<and> word_of_int (sdata r ! i) AND POLLPRI \<noteq> 0}), k')"
proof
  have "{i \<in> S. i < nfds \<and> map word_of_int (sdata r) ! i AND bits \<noteq> 0} =
      {i \<in> S. i < nfds \<and> word_of_int (sdata r ! i) AND bits \<noteq> 0}" for S and bits :: "16 word"
    using assms(3) by auto
  then show "sys_pselect K True nfds (Some R) (Some W) (Some E) (Some t) k =
      (Inr (ret_int r,
         Some {i \<in> R. i < nfds \<and> word_of_int (sdata r ! i) AND (POLLIN OR POLLERR OR POLLHUP) \<noteq> 0},
         Some {i \<in> W. i < nfds \<and> word_of_int (sdata r ! i) AND (POLLOUT OR POLLERR OR POLLHUP) \<noteq> 0},
         Some {i \<in> E. i < nfds \<and> word_of_int (sdata r ! i) AND POLLPRI \<noteq> 0}), k')"
    using assms(1,2) by (simp add: sys_pselect_def sys_ppoll_def sys_result_def result_set_eq Let_def)
qed (simp add: Let_def select_pollfd_asks del: Un_iff)

definition hup_kernel :: "nat kernel" where
  "hup_kernel n as k = (\<lparr>sret = 1, serrno = 0, sdata = [0, 16]\<rparr>, Suc k)"

theorem pselect_refines_ppoll_witness:
  "sys_pselect hup_kernel True 2 (Some {0, 1}) (Some {1}) (Some {}) (Some (5, 0)) 0 =
     (Inr (1, Some {1}, Some {1}, Some {}), 1)"
proof -
  have s: "{i. (i = 0 \<or> i = 1) \<and> i < 2 \<and> (word_of_int ([0, 16] ! i) :: 16 word) AND (POLLIN OR POLLERR OR POLLHUP) \<noteq> 0} = {1}"
    "{i. i = 1 \<and> i < 2 \<and> (word_of_int ([0, 16] ! i) :: 16 word) AND (POLLOUT OR POLLERR OR POLLHUP) \<noteq> 0} = {1}"
    by (auto simp: POLLIN_def POLLOUT_def POLLERR_def POLLHUP_def)
  have "sys_pselect hup_kernel True 2 (Some {0, 1}) (Some {1}) (Some {}) (Some (5, 0)) 0 =
     (Inr (1, Some {i. (i = 0 \<or> i = 1) \<and> i < 2 \<and> (word_of_int ([0, 16] ! i) :: 16 word) AND (POLLIN OR POLLERR OR POLLHUP) \<noteq> 0},
        Some {i. i = 1 \<and> i < 2 \<and> (word_of_int ([0, 16] ! i) :: 16 word) AND (POLLOUT OR POLLERR OR POLLHUP) \<noteq> 0}, Some {}), 1)"
    using pselect_refines_ppoll[of hup_kernel "{0, 1}" "{1}" "{}" 2 "(5, 0)" 0 "\<lparr>sret = 1, serrno = 0, sdata = [0, 16]\<rparr>" 1]
    by (simp add: hup_kernel_def ret_int_def)
  then show ?thesis unfolding s .
qed

lemma sleep_arg_value:
  assumes "unat s * 1000 + unat n div 1000000 < 2 ^ 32"
  shows "uint (sleep_arg (Some s) (Some n)) = int (unat s * 1000 + unat n div 1000000)"
proof -
  let ?T = "unat s * 1000 + unat n div 1000000"
  have "s * 1000 + n div 1000000 = of_nat ?T"
    by (simp add: word_arith_nat_div)
  then have "sleep_arg (Some s) (Some n) = ucast (of_nat ?T :: u64)" by (simp only: sleep_arg_def Let_def option.case)
  also have "\<dots> = of_nat ?T"
    using assms by (simp only: unsigned_of_nat) (simp add: take_bit_nat_eq_self)
  finally show ?thesis using assms by (simp only: unsigned_of_nat) (simp add: take_bit_nat_eq_self)
qed

lemma poll_time_value:
  assumes "uint (a :: i32) = int T" "T < 2 ^ 32"
  shows "poll_time a = (if T < 2 ^ 31 then Some (int (T div 1000), int (T mod 1000 * 1000000)) else None)"
proof (cases "T < 2 ^ 31")
  case True
  then have "sint a = int T"
    using assms(1) by (simp add: sint_uint signed_take_bit_int_eq_self)
  then show ?thesis using True
    by (simp add: poll_time_def word_sless_alt Let_def signed_divide_int_def signed_modulo_int_def zdiv_int zmod_int sgn_if)
next
  case False
  then have "T div 2 ^ 31 = 1" using assms(2) by (intro div_nat_eqI) auto
  then have "int T div 2 ^ 31 = 1" by (metis of_nat_1 of_nat_numeral of_nat_power zdiv_int)
  then have "bit (int T) 31" by (simp add: bit_iff_odd)
  then have "sint a < 0" using assms(1) by (simp add: sint_uint)
  then show ?thesis using False by (simp add: poll_time_def word_sless_alt)
qed

text \<open>How long \<open>sys_sleep\<close> sleeps. Up to \<open>2 ^ 31 - 1\<close> milliseconds it asks the kernel for exactly the
  time of its caller, cut to milliseconds. From \<open>2 ^ 31\<close> on, for as much again, the \<open>int\<close> is
  negative and the process waits without a limit.\<close>

theorem sleep_truncated:
  assumes "unat s * 1000 + unat n div 1000000 = T" "T < 2 ^ 32"
  shows "sys_sleep K (Some s) (Some n) k =
    (0, snd (K (SYS ''PPOLL'')
      [A_poll [], A_num 0,
       (if T < 2 ^ 31 then A_time (int (T div 1000), int (T mod 1000 * 1000000)) else A_null)] k))"
proof -
  have "uint (sleep_arg (Some s) (Some n)) = int T" using sleep_arg_value[of s n] assms by simp
  from poll_time_value[OF this assms(2)] show ?thesis
    by (simp add: sys_sleep_def sys_poll_def sys_ppoll_def sys_result_def split: prod.splits)
qed

theorem sleep_truncated_witness:
  "sys_sleep (\<lambda>n as k. (\<lparr>sret = 0, serrno = 0, sdata = []\<rparr>, as)) (Some 2147484) (Some 0) [] =
     (0, [A_poll [], A_num 0, A_null]) \<and>
   sys_sleep (\<lambda>n as k. (\<lparr>sret = 0, serrno = 0, sdata = []\<rparr>, as)) (Some 2) (Some 7500000) [] =
     (0, [A_poll [], A_num 0, A_time (2, 7000000)])"
  using sleep_truncated[of 2147484 0 2147484000 "\<lambda>n as k. (\<lparr>sret = 0, serrno = 0, sdata = []\<rparr>, as)" "[]"]
    sleep_truncated[of 2 7500000 2007 "\<lambda>n as k. (\<lparr>sret = 0, serrno = 0, sdata = []\<rparr>, as)" "[]"]
  by simp

subsection \<open>Names of terminals\<close>

lemma digit_chars: "digit (Suc 0) = CHR ''1''" "digit 2 = CHR ''2''" "digit 3 = CHR ''3''"
  by code_simp+

fun read_nat :: "string \<Rightarrow> nat" where
  "read_nat cs = foldl (\<lambda>a c. a * 10 + (of_char c - 48)) 0 cs"

lemma read_print_nat: "read_nat (print_nat n) = n"
proof (induction n rule: print_nat.induct)
  case (1 n)
  have d: "of_char (digit m) = (48 + m :: nat)" if "m < 10" for m
    using that by (simp add: digit_def take_bit_eq_mod)
  show ?case
    using 1 d[of n] d[of "n mod 10"] by (subst print_nat.simps) auto
qed

lemma print_int_inj: "print_int i = print_int j \<Longrightarrow> 0 \<le> i \<Longrightarrow> 0 \<le> j \<Longrightarrow> i = j"
  using read_print_nat[of "nat i"] read_print_nat[of "nat j"] by (simp add: print_int_def)

text \<open>The name of a terminal. When the kernel gives the index of the slave, \<open>sys_ptsname\<close> stores its
  name if it fits with its NUL and is \<open>ERANGE\<close> otherwise, and two terminals have two names. When the
  kernel refuses, the result is whatever the uninitialised variable held, a success with an
  arbitrary index among the cases; \<open>sys_unlockpt\<close> has the same fault.\<close>

theorem ptsname_result:
  "(\<forall>i j. 0 \<le> i \<longrightarrow> 0 \<le> j \<longrightarrow> ''/dev/pts/'' @ print_int i = ''/dev/pts/'' @ print_int j \<longrightarrow> i = j) \<and>
   (\<forall>i outs. K (SYS ''IOCTL'') [A_num fd, A_num TIOCGPTN, A_out] k = (\<lparr>sret = 0, serrno = 0, sdata = i # outs\<rparr>, k') \<longrightarrow>
      sys_ptsname K junk junk_index fd len0 k =
        (if length (''/dev/pts/'' @ print_int i) < len0 then Inr (''/dev/pts/'' @ print_int i)
         else Inl (errno_of ''ERANGE''), k')) \<and>
   (\<forall>r. K (SYS ''IOCTL'') [A_num fd, A_num TIOCGPTN, A_out] k = (r, k') \<and> serrno r \<noteq> 0 \<longrightarrow>
      sys_ptsname K 0 3 fd 64 k = (Inr ''/dev/pts/3'', k') \<and>
      (junk \<noteq> 0 \<longrightarrow> sys_ptsname K junk junk_index fd len0 k = (Inl junk, k'))) \<and>
   (\<forall>r. K (SYS ''IOCTL'') [A_num fd, A_num TIOCSPTLCK, A_num 0] k = (r, k') \<and> serrno r \<noteq> 0 \<longrightarrow>
      sys_unlockpt K junk fd k = (junk, k'))"
proof (intro conjI allI impI)
  fix i j :: int assume "0 \<le> i" "0 \<le> j" "''/dev/pts/'' @ print_int i = ''/dev/pts/'' @ print_int j"
  then show "i = j" using print_int_inj by simp
next
  fix r assume "K (SYS ''IOCTL'') [A_num fd, A_num TIOCGPTN, A_out] k = (r, k') \<and> serrno r \<noteq> 0"
  then show "sys_ptsname K 0 3 fd 64 k = (Inr ''/dev/pts/3'', k')"
    by (simp add: sys_ptsname_def sys_ioctl_def sys_result_def print_int_def print_nat.simps digit_chars)
qed (auto simp: sys_ptsname_def sys_unlockpt_def sys_ioctl_def sys_result_def ret_int_def Let_def)

definition pts_kernel :: "nat kernel" where
  "pts_kernel n as k =
     (if k = 0 then \<lparr>sret = 0, serrno = 0, sdata = [12]\<rparr> else \<lparr>sret = 0, serrno = 25, sdata = []\<rparr>, Suc k)"

theorem ptsname_result_witness:
  "sys_ptsname pts_kernel 7 9 5 64 0 = (Inr ''/dev/pts/12'', 1) \<and>
   sys_ptsname pts_kernel 0 3 5 64 1 = (Inr ''/dev/pts/3'', 2) \<and>
   sys_unlockpt pts_kernel 0 5 1 = (0, 2)"
proof -
  have p: "print_int 12 = ''12''" by (simp add: print_int_def print_nat.simps digit_chars)
  show ?thesis
    using ptsname_result[of pts_kernel 5 0 1 7 9 64] ptsname_result[of pts_kernel 5 1 2 0 3 64]
    by (simp add: pts_kernel_def p)
qed

end
