(* ===== verification/Pty.thy ===== *)
theory Pty
  imports Fd_Table Sysdeps "HOL-Library.State_Monad"
begin

text \<open>
  Pseudo terminals (\<open>mlibc-salernos/sysdeps/generic/pty.cpp\<close>) on the descriptor table of a process,
  in the state monad. Which calls succeed is the parameter \<open>ok\<close>, so every error branch is a case of
  the theorems. A descriptor of the table stands for the master side of a pair or for an opened
  file; the kernel numbers the pairs.
\<close>

subsection \<open>The process and its calls\<close>

datatype dev = Ptm nat | File string

datatype pcall =
    C_openpt | C_grantpt int | C_unlockpt int | C_ptsname int | C_open string
  | C_tcsetattr int | C_winsize int | C_close int | C_setsid | C_getsid | C_ctty int | C_dup2 int int

record tproc =
  tab :: "dev option list"
  next_pair :: nat
  leader :: bool
  terminal :: "dev option"
  log :: "pcall list"

type_synonym 'a io = "(tproc, 'a) state"

definition trace :: "pcall \<Rightarrow> unit io" where
  "trace c = State (\<lambda>p. ((), p\<lparr>log := log p @ [c]\<rparr>))"

definition open_dev :: "bool \<Rightarrow> dev \<Rightarrow> int io" where
  "open_dev b d =
     State (\<lambda>p. if b then (int (first_free (tab p)), p\<lparr>tab := tab_put (int (first_free (tab p))) (Some d) (tab p)\<rparr>)
                else (- 1, p))"

text \<open>The calls that only succeed or fail.\<close>

definition try_call :: "(pcall \<Rightarrow> bool) \<Rightarrow> pcall \<Rightarrow> int io" where
  "try_call ok c = do { trace c; State_Monad.return (if ok c then 0 else - 1) }"

definition posix_openpt :: "(pcall \<Rightarrow> bool) \<Rightarrow> int io" where
  "posix_openpt ok = do {
     trace C_openpt;
     p \<leftarrow> State_Monad.get;
     fd \<leftarrow> open_dev (ok C_openpt) (Ptm (next_pair p));
     State (\<lambda>p. ((), if ok C_openpt then p\<lparr>next_pair := Suc (next_pair p)\<rparr> else p));
     State_Monad.return fd }"

definition pts_name :: "nat \<Rightarrow> string" where
  "pts_name n = ''/dev/pts/'' @ print_int (int n)"

definition ptsname :: "(pcall \<Rightarrow> bool) \<Rightarrow> int \<Rightarrow> string option io" where
  "ptsname ok fd = do {
     trace (C_ptsname fd);
     p \<leftarrow> State_Monad.get;
     State_Monad.return
       (case tab_get (tab p) fd of Some (Ptm n) \<Rightarrow> if ok (C_ptsname fd) then Some (pts_name n) else None | _ \<Rightarrow> None) }"

definition open_file :: "(pcall \<Rightarrow> bool) \<Rightarrow> string \<Rightarrow> int io" where
  "open_file ok path = do { trace (C_open path); open_dev (ok (C_open path)) (File path) }"

definition close :: "int \<Rightarrow> unit io" where
  "close fd = do { trace (C_close fd); State (\<lambda>p. ((), if 0 \<le> fd then p\<lparr>tab := tab_put fd None (tab p)\<rparr> else p)) }"

text \<open>\<open>dup2\<close> of an open descriptor.\<close>

definition dup2 :: "int \<Rightarrow> int \<Rightarrow> unit io" where
  "dup2 fd n = do {
     trace (C_dup2 fd n);
     State (\<lambda>p. ((), case tab_get (tab p) fd of None \<Rightarrow> p | Some d \<Rightarrow> p\<lparr>tab := tab_put n (Some d) (tab p)\<rparr>)) }"

definition setsid :: "(pcall \<Rightarrow> bool) \<Rightarrow> int io" where
  "setsid ok = do {
     r \<leftarrow> try_call ok C_setsid;
     State (\<lambda>p. (r, if r = 0 then p\<lparr>leader := True, terminal := None\<rparr> else p)) }"

definition ioctl_ctty :: "(pcall \<Rightarrow> bool) \<Rightarrow> int \<Rightarrow> int io" where
  "ioctl_ctty ok fd = do {
     r \<leftarrow> try_call ok (C_ctty fd);
     State (\<lambda>p. (r, if r = 0 then p\<lparr>terminal := tab_get (tab p) fd\<rparr> else p)) }"

subsection \<open>The code\<close>

definition getdtablesize :: "(string \<Rightarrow> int) \<Rightarrow> int" where "getdtablesize sysconf = sysconf ''_SC_OPEN_MAX''"

text \<open>The results: 0 with the two descriptors and the name, or - 1.\<close>

definition openpty :: "(pcall \<Rightarrow> bool) \<Rightarrow> bool \<Rightarrow> bool \<Rightarrow> (int \<times> int \<times> string) option io" where
  "openpty ok termp winp = do {
     master \<leftarrow> posix_openpt ok;
     if master = - 1 then State_Monad.return None
     else do {
       let bad = do { close master; State_Monad.return None };
       r \<leftarrow> try_call ok (C_grantpt master);
       if r = - 1 then bad else do {
       r \<leftarrow> try_call ok (C_unlockpt master);
       if r = - 1 then bad else do {
       name \<leftarrow> ptsname ok master;
       case name of None \<Rightarrow> bad | Some slavename \<Rightarrow> do {
       slave \<leftarrow> open_file ok slavename;
       if slave = - 1 then bad else do {
       (if termp then try_call ok (C_tcsetattr slave) else State_Monad.return 0);
       (if winp then try_call ok (C_winsize slave) else State_Monad.return 0);
       State_Monad.return (Some (master, slave, slavename)) }}}}}}"

text \<open>\<open>tcsetsid\<close> ignores the session it is given.\<close>

definition tcsetsid :: "(pcall \<Rightarrow> bool) \<Rightarrow> int \<Rightarrow> int \<Rightarrow> int io" where
  "tcsetsid ok fd pid = ioctl_ctty ok fd"

definition login_tty :: "(pcall \<Rightarrow> bool) \<Rightarrow> int \<Rightarrow> int io" where
  "login_tty ok fd = do {
     s \<leftarrow> setsid ok;
     s \<leftarrow> (if s = - 1 then try_call ok C_getsid else State_Monad.return s);
     r \<leftarrow> tcsetsid ok fd s;
     if r = - 1 then State_Monad.return (- 1)
     else do {
       dup2 fd 0; dup2 fd 1; dup2 fd 2;
       (if 2 < fd then close fd else State_Monad.return ());
       State_Monad.return 0 }}"

text \<open>What a process that forks becomes: a parent that knows the child's id, and a child.\<close>

datatype fork_result = Forked int | Fork_failed

definition forkpty_child :: "(pcall \<Rightarrow> bool) \<Rightarrow> int \<Rightarrow> int \<Rightarrow> int io" where
  "forkpty_child ok master slave = do { close master; login_tty ok slave; State_Monad.return 0 }"

definition forkpty_parent :: "fork_result \<Rightarrow> int \<Rightarrow> int \<Rightarrow> (int \<times> int option) io" where
  "forkpty_parent r master slave =
     (case r of
        Fork_failed \<Rightarrow> do { close master; close slave; State_Monad.return (- 1, None) }
      | Forked pid \<Rightarrow> do { close slave; State_Monad.return (pid, Some master) })"

text \<open>The result and the state of the parent, and of the child if there is one. The parent's result has
  the descriptor that is stored through \<open>amaster\<close>.\<close>

definition forkpty ::
    "(pcall \<Rightarrow> bool) \<Rightarrow> (pcall \<Rightarrow> bool) \<Rightarrow> fork_result \<Rightarrow> bool \<Rightarrow> bool \<Rightarrow> tproc \<Rightarrow>
     ((int \<times> int option) \<times> tproc) \<times> (int \<times> tproc) option" where
  "forkpty ok ok_child fork termp winp p =
     (case run_state (openpty ok termp winp) p of
        (None, p1) \<Rightarrow> (((- 1, None), p1), None)
      | (Some (master, slave, name), p1) \<Rightarrow>
          (run_state (forkpty_parent fork master slave) p1,
           case fork of Fork_failed \<Rightarrow> None
           | Forked _ \<Rightarrow> Some (run_state (forkpty_child ok_child master slave) p1)))"

subsection \<open>What each call does to the table\<close>

text \<open>Runs of the calls; none but these change the table.\<close>

lemma run_calls [simp]:
  "run_state (trace c) p = ((), p\<lparr>log := log p @ [c]\<rparr>)"
  "run_state (try_call ok c) p = (if ok c then 0 else - 1, p\<lparr>log := log p @ [c]\<rparr>)"
  "run_state (close fd) p = ((), (if 0 \<le> fd then p\<lparr>tab := tab_put fd None (tab p)\<rparr> else p)\<lparr>log := log p @ [C_close fd]\<rparr>)"
  by (simp_all add: trace_def try_call_def close_def)

lemma run_openpt:
  "run_state (posix_openpt ok) p =
     (if ok C_openpt
      then (int (first_free (tab p)),
            p\<lparr>log := log p @ [C_openpt], next_pair := Suc (next_pair p),
              tab := tab_put (int (first_free (tab p))) (Some (Ptm (next_pair p))) (tab p)\<rparr>)
      else (- 1, p\<lparr>log := log p @ [C_openpt]\<rparr>))"
  by (simp add: posix_openpt_def open_dev_def)

lemma run_open_file:
  "run_state (open_file ok path) p =
     (if ok (C_open path)
      then (int (first_free (tab p)),
            p\<lparr>log := log p @ [C_open path], tab := tab_put (int (first_free (tab p))) (Some (File path)) (tab p)\<rparr>)
      else (- 1, p\<lparr>log := log p @ [C_open path]\<rparr>))"
  by (simp add: open_file_def open_dev_def)

lemma run_ptsname:
  "tab_get (tab p) fd = Some (Ptm n) \<Longrightarrow>
     run_state (ptsname ok fd) p = (if ok (C_ptsname fd) then Some (pts_name n) else None, p\<lparr>log := log p @ [C_ptsname fd]\<rparr>)"
  by (simp add: ptsname_def)

lemma openpty_table:
  assumes "run_state (openpty ok termp winp) p = (r, p')"
  shows "(r = None \<longrightarrow> tab_get (tab p') = tab_get (tab p)) \<and>
    (\<forall>m s name. r = Some (m, s, name) \<longrightarrow>
       0 \<le> m \<and> 0 \<le> s \<and> m \<noteq> s \<and> tab_get (tab p) m = None \<and> tab_get (tab p) s = None \<and> name = pts_name (next_pair p) \<and>
       tab_get (tab p') = (tab_get (tab p))(m \<mapsto> Ptm (next_pair p), s \<mapsto> File name))"
proof (cases "ok C_openpt")
  case False
  then show ?thesis using assms by (auto simp: openpty_def run_openpt)
next
  case True
  define m where "m = int (first_free (tab p))"
  define t where "t = tab_put m (Some (Ptm (next_pair p))) (tab p)"
  define s where "s = int (first_free t)"
  have m: "0 \<le> m" "0 \<le> s" "m \<noteq> - 1" "s \<noteq> - 1" by (simp_all add: m_def s_def)
  have t: "tab_get t = (tab_get (tab p))(m \<mapsto> Ptm (next_pair p))" "tab_get t m = Some (Ptm (next_pair p))"
    "tab_get (tab_put m None t) = tab_get (tab p)"
    by (simp_all add: t_def m_def tab.get_alloc tab.close_alloc)
  have fresh: "tab_get (tab p) m = None" "tab_get t s = None" by (simp_all add: m_def s_def tab.get_free)
  then have "s \<noteq> m" using t(2) by auto
  then show ?thesis
    using assms True fresh t m
    by (auto simp: openpty_def run_openpt run_ptsname run_open_file m_def[symmetric] t_def[symmetric] s_def[symmetric]
        tab_get_put Let_def split: if_splits)
qed

lemma run_dup2:
  "tab_get (tab p) fd = Some d \<Longrightarrow>
     run_state (dup2 fd n) p = ((), p\<lparr>log := log p @ [C_dup2 fd n], tab := tab_put n (Some d) (tab p)\<rparr>)"
  by (simp add: dup2_def)

lemma run_setsid:
  "run_state (setsid ok) p =
     (if ok C_setsid then (0, p\<lparr>log := log p @ [C_setsid], leader := True, terminal := None\<rparr>)
      else (- 1, p\<lparr>log := log p @ [C_setsid]\<rparr>))"
  by (simp add: setsid_def)

lemma run_ctty:
  "run_state (tcsetsid ok fd pid) p =
     (if ok (C_ctty fd) then (0, p\<lparr>log := log p @ [C_ctty fd], terminal := tab_get (tab p) fd\<rparr>)
      else (- 1, p\<lparr>log := log p @ [C_ctty fd]\<rparr>))"
  by (simp add: tcsetsid_def ioctl_ctty_def)

lemma login_tty_table:
  assumes "tab_get (tab p) fd = Some d" "run_state (login_tty ok fd) p = (r, p')"
  shows "if ok (C_ctty fd)
    then r = 0 \<and> terminal p' = Some d \<and> (ok C_setsid \<longrightarrow> leader p') \<and>
      tab_get (tab p') = (\<lambda>n. if n \<in> {0, 1, 2} then Some d else if n = fd then None else tab_get (tab p) n)
    else r = - 1 \<and> tab p' = tab p"
proof -
  have fd: "0 \<le> fd" using assms(1) by (rule tab.get_valid)
  have "run_state (login_tty ok fd) p = (r, p') \<Longrightarrow> ok (C_ctty fd) \<Longrightarrow>
      r = 0 \<and> terminal p' = Some d \<and> (ok C_setsid \<longrightarrow> leader p') \<and>
      tab p' = (let t = tab_put 2 (Some d) (tab_put 1 (Some d) (tab_put 0 (Some d) (tab p)))
                in if 2 < fd then tab_put fd None t else t)"
    using assms(1) fd
    by (auto simp: login_tty_def run_setsid run_ctty run_dup2 tab_get_put split: if_splits)
  moreover have "run_state (login_tty ok fd) p = (r, p') \<Longrightarrow> \<not> ok (C_ctty fd) \<Longrightarrow> r = - 1 \<and> tab p' = tab p"
    by (auto simp: login_tty_def run_setsid run_ctty split: if_splits)
  ultimately show ?thesis
    using assms(2) fd by (auto simp: Let_def tab_get_put fun_eq_iff)
qed

subsection \<open>Properties\<close>

text \<open>C23: \<open>openpty\<close> keeps the table of descriptors. Whichever of its calls fail, a failure leaves the
  table as it was; after a success exactly two descriptors are new, the master of a new pair and
  the slave that belongs to it, under the name that is returned.\<close>

theorem openpty_descriptors:
  assumes "run_state (openpty ok termp winp) p = (r, p')"
  shows "case r of
      None \<Rightarrow> tab_get (tab p') = tab_get (tab p)
    | Some (m, s, name) \<Rightarrow>
        m \<noteq> s \<and> tab_get (tab p) m = None \<and> tab_get (tab p) s = None \<and> name = pts_name (next_pair p) \<and>
        tab_get (tab p') = (tab_get (tab p))(m \<mapsto> Ptm (next_pair p), s \<mapsto> File name)"
  using openpty_table[OF assms] by (auto split: option.splits)

definition shell :: tproc where
  "shell = \<lparr>tab = [Some (File ''tty''), None, Some (File ''tty'')], next_pair = 4, leader = False, terminal = None, log = []\<rparr>"

lemmas run_all = openpty_def run_openpt run_ptsname run_open_file tab_get_put tab_put_def tab_get_def Let_def

lemma pts_name_4: "pts_name 4 = ''/dev/pts/4''"
  by (simp add: pts_name_def print_int_def print_nat.simps) code_simp

theorem openpty_descriptors_witness:
  "tab_get (tab (snd (run_state (openpty (\<lambda>c. c \<noteq> C_open ''/dev/pts/4'') True True) shell))) = tab_get (tab shell) \<and>
   tab_get (tab (snd (run_state (openpty (\<lambda>_. True) True True) shell))) =
     (tab_get (tab shell))(1 \<mapsto> Ptm 4, 3 \<mapsto> File ''/dev/pts/4'')"
proof -
  have "fst (run_state (openpty (\<lambda>c. c \<noteq> C_open ''/dev/pts/4'') True True) shell) = None"
    "fst (run_state (openpty (\<lambda>_. True) True True) shell) = Some (1, 3, ''/dev/pts/4'')"
    by (simp_all add: run_all shell_def pts_name_4)
  then show ?thesis
    using openpty_descriptors[OF surjective_pairing, of "\<lambda>c. c \<noteq> C_open ''/dev/pts/4''" True True shell]
      openpty_descriptors[OF surjective_pairing, of "\<lambda>_. True" True True shell]
    by (simp add: shell_def)
qed

text \<open>C24: the descriptors after \<open>forkpty\<close>. If there is no pair or no child, the caller has the descriptors
  it had. Else the parent has the master and nothing else new, and the child has the slave as its three
  standard descriptors and as its controlling terminal and nothing else new, wherever the pair was in
  the table. When the terminal cannot be taken over, the child is told of success all the same: it has
  the slave as one more descriptor and its standard descriptors are the old ones.\<close>

theorem forkpty_descriptors:
  assumes "forkpty ok okc fork termp winp p = (((res, am), pp), ch)"
  shows "(case ch of
      None \<Rightarrow> res = - 1 \<and> am = None \<and> tab_get (tab pp) = tab_get (tab p)
    | Some (cres, pc) \<Rightarrow>
        cres = 0 \<and> fork = Forked res \<and>
        (\<exists>m s. am = Some m \<and> m \<noteq> s \<and> tab_get (tab p) m = None \<and> tab_get (tab p) s = None \<and>
          tab_get (tab pp) = (tab_get (tab p))(m \<mapsto> Ptm (next_pair p)) \<and>
          (let slave = File (pts_name (next_pair p)) in
           if okc (C_ctty s)
           then terminal pc = Some slave \<and>
             tab_get (tab pc) = (\<lambda>n. if n \<in> {0, 1, 2} then Some slave else tab_get (tab p) n)
           else tab_get (tab pc) = (tab_get (tab p))(s \<mapsto> slave))))"
proof -
  obtain r p1 where o: "run_state (openpty ok termp winp) p = (r, p1)" by fastforce
  show ?thesis
  proof (cases r)
    case None
    then show ?thesis using assms o openpty_table[OF o] by (auto simp: forkpty_def)
  next
    case (Some x)
    obtain m s name where x: "x = (m, s, name)" by (cases x)
    with openpty_table[OF o] Some have T: "0 \<le> m" "0 \<le> s" "m \<noteq> s" "tab_get (tab p) m = None" "tab_get (tab p) s = None"
      "name = pts_name (next_pair p)" "tab_get (tab p1) = (tab_get (tab p))(m \<mapsto> Ptm (next_pair p), s \<mapsto> File name)"
      by auto
    show ?thesis
    proof (cases fork)
      case Fork_failed
      then show ?thesis using assms o Some x T
        by (auto simp: forkpty_def forkpty_parent_def tab_get_put fun_eq_iff)
    next
      case (Forked pid)
      let ?c = "snd (run_state (close m) p1)"
      obtain lr lp where l: "run_state (login_tty okc s) ?c = (lr, lp)" by fastforce
      have c: "tab_get (tab ?c) = (tab_get (tab p))(s \<mapsto> File name)"
        using T by (auto simp: tab_get_put fun_eq_iff)
      then have "tab_get (tab ?c) s = Some (File name)" by simp
      note L = login_tty_table[OF this l]
      have "ch = Some (0, lp)"
        using assms o Some x Forked l by (auto simp: forkpty_def forkpty_child_def)
      moreover have "res = pid" "am = Some m" "tab_get (tab pp) = (tab_get (tab p))(m \<mapsto> Ptm (next_pair p))"
        using assms o Some x Forked T by (auto simp: forkpty_def forkpty_parent_def tab_get_put fun_eq_iff)
      ultimately show ?thesis using L T c Forked
        by (auto simp: fun_eq_iff intro!: exI[of _ s] split: if_splits)
    qed
  qed
qed

theorem forkpty_descriptors_witness:
  "let ((res, pp), ch) = forkpty (\<lambda>_. True) (\<lambda>_. True) (Forked 7) True True shell; pc = snd (the ch)
   in res = (7, Some 1) \<and> tab_get (tab pc) 2 = Some (File ''/dev/pts/4'') \<and> tab_get (tab pc) 3 = None"
proof -
  let ?f = "forkpty (\<lambda>_. True) (\<lambda>_. True) (Forked 7) True True shell"
  have "fst (fst ?f) = (7, Some 1)" "\<exists>pc. snd ?f = Some (0, pc)"
    by (simp_all add: forkpty_def run_all shell_def pts_name_4 forkpty_parent_def forkpty_child_def split: prod.splits)
  moreover have "tab_get (tab shell) 3 = None" "next_pair shell = 4" by (simp_all add: shell_def tab_get_def)
  ultimately show ?thesis
    using forkpty_descriptors[of "\<lambda>_. True" "\<lambda>_. True" "Forked 7" True True shell 7 "Some 1" "snd (fst ?f)" "snd ?f"]
    by (auto simp: case_prod_beta Let_def pts_name_4 prod_eq_iff)
qed

end
