(* ===== verification/Init_Terminal.thy ===== *)
theory Init_Terminal
  imports Init_Start Pty
begin

text \<open>
  The children of init on the system layer: the calls that a child of \<open>Init_Start\<close> makes, carried out on the
  descriptor table and the session of \<open>Pty\<close>. The parent opens nothing between its forks, so every child starts
  with the parent's table, which has the configuration file in it.
\<close>

definition carry_out :: "(pcall \<Rightarrow> bool) \<Rightarrow> kcall \<Rightarrow> unit io" where
  "carry_out ok k =
     (case k of
        K_open path \<Rightarrow> do { fd \<leftarrow> open_file ok path; State_Monad.return () }
      | K_dup2 fd n \<Rightarrow> dup2 fd n
      | K_setsid \<Rightarrow> do { r \<leftarrow> setsid ok; State_Monad.return () }
      | K_ioctl fd request arg \<Rightarrow>
          (if request = TIOCSCTTY then do { r \<leftarrow> ioctl_ctty ok fd; State_Monad.return () } else State_Monad.return ())
      | K_print s \<Rightarrow> State_Monad.return ()
      | K_execv path argv env \<Rightarrow> State_Monad.return ())"

fun carry_out_all :: "(pcall \<Rightarrow> bool) \<Rightarrow> kcall list \<Rightarrow> unit io" where
  "carry_out_all ok [] = State_Monad.return ()"
| "carry_out_all ok (k # ks) = do { carry_out ok k; carry_out_all ok ks }"

text \<open>The calls that do not touch the table, and those of a child before them.\<close>

definition quiet :: "kcall \<Rightarrow> bool" where
  "quiet k \<longleftrightarrow> (case k of K_ioctl fd request arg \<Rightarrow> request \<noteq> TIOCSCTTY | K_print s \<Rightarrow> True | K_execv p a e \<Rightarrow> True | _ \<Rightarrow> False)"

lemma run_quiet: "list_all quiet ks \<Longrightarrow> run_state (carry_out_all ok ks) p = ((), p)"
  by (induction ks) (auto simp: carry_out_def quiet_def split: kcall.splits)

lemma run_append: "run_state (carry_out_all ok (xs @ ys)) p = run_state (carry_out_all ok ys) (snd (run_state (carry_out_all ok xs) p))"
  by (induction xs arbitrary: p) (simp_all split: prod.splits)

lemma run_setup:
  assumes "ok (C_open path)" "fd = int (first_free (tab p))"
  shows "\<exists>p'. run_state (carry_out_all ok
        [K_open path, K_dup2 fd 1, K_dup2 fd 0, K_dup2 fd 2, K_setsid, K_ioctl fd TIOCSCTTY 0]) p = ((), p') \<and>
     tab_get (tab p') = (tab_get (tab p))(fd \<mapsto> File path, 0 \<mapsto> File path, 1 \<mapsto> File path, 2 \<mapsto> File path) \<and>
     (ok C_setsid \<and> ok (C_ctty fd) \<longrightarrow> leader p' \<and> terminal p' = Some (File path))"
proof -
  define t0 where "t0 = tab_put fd (Some (File path)) (tab p)"
  define t1 where "t1 = tab_put 1 (Some (File path)) t0"
  define t2 where "t2 = tab_put 0 (Some (File path)) t1"
  define t3 where "t3 = tab_put 2 (Some (File path)) t2"
  have fd: "0 \<le> fd" using assms(2) by simp
  have g: "tab_get t0 = (tab_get (tab p))(fd \<mapsto> File path)" "tab_get t1 = (tab_get t0)(1 \<mapsto> File path)"
      "tab_get t2 = (tab_get t1)(0 \<mapsto> File path)" "tab_get t3 = (tab_get t2)(2 \<mapsto> File path)"
    using fd by (simp_all add: t0_def t1_def t2_def t3_def tab_get_put)
  then have "tab_get t0 fd = Some (File path)" "tab_get t1 fd = Some (File path)" "tab_get t2 fd = Some (File path)"
      "tab_get t3 fd = Some (File path)" by simp_all
  moreover have "tab_get t3 = (tab_get (tab p))(fd \<mapsto> File path, 0 \<mapsto> File path, 1 \<mapsto> File path, 2 \<mapsto> File path)"
    using fd by (auto simp: g fun_eq_iff)
  ultimately show ?thesis
    using assms(1) by (simp add: carry_out_def run_open_file run_dup2 run_setsid ioctl_ctty_def assms(2)[symmetric]
        t0_def[symmetric] t1_def[symmetric] t2_def[symmetric] t3_def[symmetric])
qed

text \<open>C12: where the program of a child finds its terminal. Whatever the interleaving of the start, when the
  program of a child runs, its descriptors 0, 1 and 2 are the terminal of its directive. If the session
  and the controlling terminal could be had, it leads a session with that terminal. The other
  descriptors are those of init when it forked, with the number the terminal was opened at as well: it
  is not closed, and neither is the configuration file.\<close>

theorem child_terminal:
  assumes "fst (parse_config okp s h) = Inr (q, ds)"
    and "boot_reach fork s opn exe (boot_start ds e) b" "p \<in> set (procs b)" "pc p = Running"
    and "opn (prog p) = int (first_free (tab init))" "ok (C_open (ctty (prog p)))"
  shows "\<exists>child. run_state (carry_out_all ok (calls p)) init = ((), child) \<and>
    (\<forall>fd\<in>{0, 1, 2}. tab_get (tab child) fd = Some (File (ctty (prog p)))) \<and>
    (\<forall>fd. fd \<notin> {0, 1, 2, opn (prog p)} \<longrightarrow> tab_get (tab child) fd = tab_get (tab init) fd) \<and>
    tab_get (tab child) (opn (prog p)) = Some (File (ctty (prog p))) \<and>
    (ok C_setsid \<and> ok (C_ctty (opn (prog p))) \<longrightarrow> leader child \<and> terminal child = Some (File (ctty (prog p))))"
proof -
  let ?fd = "opn (prog p)" and ?tty = "ctty (prog p)"
  define prep where "prep = [K_open ?tty, K_dup2 ?fd 1, K_dup2 ?fd 0, K_dup2 ?fd 2, K_setsid, K_ioctl ?fd TIOCSCTTY 0]"
  define rest where "rest =
    (if cmode (prog p) = TTY_GFX then [K_ioctl ?fd KTTY_IOCTL_SETMODE KTTY_MODE_GRAPHICS] else []) @
    (if OPT_CLEAR AND copts (prog p) \<noteq> 0 then [K_print clear_screen] else []) @
    [K_execv (hd (cargv (prog p))) (cargv (prog p)) (cenv (prog p))]"
  have calls: "calls p = prep @ rest"
    using running_child_calls[OF assms(1-4)] by (simp add: prep_def rest_def)
  have "list_all quiet rest" by (simp add: rest_def quiet_def KTTY_IOCTL_SETMODE_def TIOCSCTTY_def)
  moreover obtain child where "run_state (carry_out_all ok prep) init = ((), child)"
      "tab_get (tab child) = (tab_get (tab init))(?fd \<mapsto> File ?tty, 0 \<mapsto> File ?tty, 1 \<mapsto> File ?tty, 2 \<mapsto> File ?tty)"
      "ok C_setsid \<and> ok (C_ctty ?fd) \<longrightarrow> leader child \<and> terminal child = Some (File ?tty)"
    using run_setup[where ok = ok and p = init, OF assms(6,5)] unfolding prep_def by blast
  ultimately show ?thesis
    by (intro exI[of _ child]) (simp add: calls run_append run_quiet)
qed

theorem child_terminal_witness:
  "\<exists>(child :: tproc) path. tab_get (tab child) 0 = Some (File path) \<and> tab_get (tab child) 2 = Some (File path) \<and>
     tab_get (tab child) 3 = Some (File path) \<and> leader child \<and> terminal child = Some (File path)"
proof -
  let ?init = "\<lparr>tab = [Some (File ''a''), Some (File ''b''), Some (File ''c'')], next_pair = 0, leader = False, terminal = None, log = []\<rparr>"
  obtain b p where b: "boot_reach (\<lambda>_. 7) (render demo) (\<lambda>_. 3) (\<lambda>_. True) (boot_start (dirs_of demo) (\<lambda>_. None)) b"
    "p \<in> set (procs b)" "pc p = Running" using demo_boot by blast
  have "(3 :: int) = int (first_free (tab ?init))" by simp
  from child_terminal[OF demo_parse b this, of "\<lambda>_. True"] show ?thesis by fastforce
qed

end
