(* ===== verification/F32.thy ===== *)
theory F32
  imports Complex_Main "HOL-Library.Log_Nat" Prelude
begin

text \<open>
  The C types \<open>float\<close> and \<open>double\<close> as far as the programs use them: IEEE binary32 and binary64,
  rounding to nearest with ties to even, on non-negative values that are in the normal range or 0
  (a quotient of two 64-bit counts is at least \<open>2 ^ - 64\<close> and below \<open>2 ^ 65\<close>). A value is the rational
  number it stands for. \<open>rnd_error\<close> is the error bound of one rounding.
\<close>

text \<open>Division of naturals, rounded to the nearest natural, ties to even.\<close>

definition round_div :: "nat \<Rightarrow> nat \<Rightarrow> nat" where
  "round_div p q =
     (let d = p div q; r = p mod q
      in if 2 * r < q then d else if q < 2 * r then Suc d else if even d then d else Suc d)"

text \<open>\<open>round_quot m p q\<close> is \<open>p / q\<close> rounded to a significand with \<open>m\<close> bits after the leading one: the
  exponent is that of the leading bit of the quotient, and numerator or denominator is shifted so
  that the quotient of the integers has \<open>m + 1\<close> bits.\<close>

definition quot_exp :: "nat \<Rightarrow> nat \<Rightarrow> int" where
  "quot_exp p q =
     (let e = int (floorlog 2 p) - int (floorlog 2 q)
      in if 2 ^ nat e * q \<le> 2 ^ nat (- e) * p then e else e - 1)"

definition round_quot :: "nat \<Rightarrow> nat \<Rightarrow> nat \<Rightarrow> rat" where
  "round_quot m p q =
     (if p = 0 then 0
      else (let s = int m - quot_exp p q
            in if 0 \<le> s then of_nat (round_div (p * 2 ^ nat s) q) / 2 ^ nat s
               else of_nat (round_div p (q * 2 ^ nat (- s))) * 2 ^ nat (- s)))"

definition rnd :: "nat \<Rightarrow> rat \<Rightarrow> rat" where
  "rnd m x = (case quotient_of x of (a, b) \<Rightarrow> round_quot m (nat a) (nat b))"

definition rnd32 :: "rat \<Rightarrow> rat" where "rnd32 = rnd 23"
definition rnd64 :: "rat \<Rightarrow> rat" where "rnd64 = rnd 52"

text \<open>\<open>(float) n\<close> for an unsigned integer, and the quotient of two floats.\<close>

definition f32_of_u64 :: "u64 \<Rightarrow> rat" where
  "f32_of_u64 n = rnd32 (of_nat (unat n))"

definition f32_div :: "rat \<Rightarrow> rat \<Rightarrow> rat" where
  "f32_div x y = rnd32 (x / y)"

subsection \<open>The error of a rounding\<close>

lemma round_div_error:
  assumes "0 < q"
  shows "\<bar>of_nat (round_div p q) - of_nat p / of_nat q\<bar> \<le> (1 / 2 :: rat)"
proof -
  define d where "d = p div q"
  define r where "r = p mod q"
  have pq: "of_nat p / of_nat q = (of_nat d + of_nat r / of_nat q :: rat)"
    using assms by (simp add: d_def r_def field_simps flip: of_nat_mult of_nat_add)
  have r: "0 \<le> (of_nat r / of_nat q :: rat)" by simp
  have lt: "2 * r \<le> q \<Longrightarrow> of_nat r / of_nat q \<le> (1 / 2 :: rat)"
  proof -
    assume "2 * r \<le> q"
    then have "of_nat (2 * r) \<le> (of_nat q :: rat)" by (simp only: of_nat_le_iff)
    then show ?thesis using assms by (simp add: field_simps)
  qed
  have ge: "q \<le> 2 * r \<Longrightarrow> (1 / 2 :: rat) \<le> of_nat r / of_nat q"
  proof -
    assume "q \<le> 2 * r"
    then have "(of_nat q :: rat) \<le> of_nat (2 * r)" by (simp only: of_nat_le_iff)
    then show ?thesis using assms by (simp add: field_simps)
  qed
  have "r < q" using assms by (simp add: r_def)
  then have "of_nat r < (of_nat q :: rat)" by simp
  then have r1: "of_nat r / of_nat q \<le> (1 :: rat)" using assms by (simp add: field_simps)
  show ?thesis
    using lt ge r r1 unfolding pq
    by (auto simp: round_div_def Let_def abs_le_iff simp flip: d_def r_def)
qed

lemma two_powi: "(2 :: rat) powi i = (if 0 \<le> i then 2 ^ nat i else 1 / 2 ^ nat (- i))"
  by (simp add: power_int_def inverse_eq_divide power_divide)

lemma floorlog_rat:
  assumes "0 < n"
  shows "(2 :: rat) powi (int (floorlog 2 n) - 1) \<le> of_nat n" "of_nat n < (2 :: rat) powi int (floorlog 2 n)"
proof -
  have b: "2 ^ (floorlog 2 n - 1) \<le> n" "n < 2 ^ floorlog 2 n" using floorlog_bounds[of n 2] assms by auto
  have "0 < floorlog 2 n" using b(2) assms by (cases "floorlog 2 n") auto
  then have "(2 :: rat) powi (int (floorlog 2 n) - 1) = of_nat (2 ^ (floorlog 2 n - 1))"
    by (simp add: two_powi nat_diff_distrib)
  then show "(2 :: rat) powi (int (floorlog 2 n) - 1) \<le> of_nat n" using b(1) by (simp only: of_nat_le_iff)
  have "(2 :: rat) powi int (floorlog 2 n) = of_nat (2 ^ floorlog 2 n)" by (simp add: two_powi)
  then show "of_nat n < (2 :: rat) powi int (floorlog 2 n)" using b(2) by (simp only: of_nat_less_iff)
qed

text \<open>The exponent is at most that of the quotient.\<close>

lemma quot_exp_le:
  assumes "0 < p" "0 < q"
  shows "(2 :: rat) powi quot_exp p q \<le> of_nat p / of_nat q"
proof -
  define e where "e = int (floorlog 2 p) - int (floorlog 2 q)"
  show ?thesis
  proof (cases "2 ^ nat e * q \<le> 2 ^ nat (- e) * p")
    case True
    then have "of_nat (2 ^ nat e * q) \<le> (of_nat (2 ^ nat (- e) * p) :: rat)" by (simp only: of_nat_le_iff)
    then have "2 ^ nat e / 2 ^ nat (- e) \<le> (of_nat p / of_nat q :: rat)"
      using assms by (simp add: field_simps)
    moreover have "(2 :: rat) powi e = 2 ^ nat e / 2 ^ nat (- e)" by (simp add: two_powi)
    ultimately show ?thesis using True by (simp add: quot_exp_def Let_def flip: e_def)
  next
    case False
    then have E: "quot_exp p q = (int (floorlog 2 p) - 1) - int (floorlog 2 q)"
      by (simp add: quot_exp_def Let_def e_def)
    have "(2 :: rat) powi quot_exp p q = 2 powi (int (floorlog 2 p) - 1) / 2 powi int (floorlog 2 q)"
      unfolding E by (rule power_int_diff) simp
    also have "\<dots> \<le> of_nat p / of_nat q"
      using floorlog_rat[OF assms(1)] floorlog_rat(2)[OF assms(2)] assms(2)
      by (intro frac_le) simp_all
    finally show ?thesis .
  qed
qed

lemma round_quot_error:
  assumes "0 < q"
  shows "\<bar>round_quot m p q - of_nat p / of_nat q\<bar> \<le> (of_nat p / of_nat q) / 2 ^ Suc m"
proof (cases "p = 0")
  case True
  then show ?thesis by (simp add: round_quot_def)
next
  case False
  define s where "s = int m - quot_exp p q"
  have "(2 :: rat) powi (- s) / 2 = 2 powi quot_exp p q / 2 ^ Suc m"
  proof -
    have e: "- s = quot_exp p q - int m" by (simp add: s_def)
    have "(2 :: rat) powi (quot_exp p q - int m) = 2 powi quot_exp p q / 2 powi int m" by (rule power_int_diff) simp
    then show ?thesis unfolding e by (simp add: two_powi)
  qed
  also have "\<dots> \<le> (of_nat p / of_nat q) / 2 ^ Suc m"
    using quot_exp_le[of p q] False assms by (intro divide_right_mono) (simp_all only: neq0_conv zero_le_power zero_le_numeral)
  finally have small: "(2 :: rat) powi (- s) / 2 \<le> (of_nat p / of_nat q) / 2 ^ Suc m" .
  have "\<bar>round_quot m p q - of_nat p / of_nat q\<bar> \<le> (2 :: rat) powi (- s) / 2"
  proof (cases "0 \<le> s")
    case True
    have "round_quot m p q - of_nat p / of_nat q =
        (of_nat (round_div (p * 2 ^ nat s) q) - of_nat (p * 2 ^ nat s) / of_nat q) / (2 :: rat) ^ nat s"
      using False True by (simp add: round_quot_def diff_divide_distrib flip: s_def)
    then have "\<bar>round_quot m p q - of_nat p / of_nat q\<bar> =
        \<bar>of_nat (round_div (p * 2 ^ nat s) q) - of_nat (p * 2 ^ nat s) / of_nat q\<bar> / (2 :: rat) ^ nat s"
      by simp
    also have "\<dots> \<le> (1 / 2) / 2 ^ nat s"
      by (intro divide_right_mono round_div_error assms) simp
    also have "\<dots> = (2 :: rat) powi (- s) / 2" using True by (simp add: two_powi)
    finally show ?thesis .
  next
    case neg: False
    have "round_quot m p q - of_nat p / of_nat q =
        (of_nat (round_div p (q * 2 ^ nat (- s))) - of_nat p / of_nat (q * 2 ^ nat (- s))) * (2 :: rat) ^ nat (- s)"
      using False neg by (simp add: round_quot_def left_diff_distrib flip: s_def)
    then have "\<bar>round_quot m p q - of_nat p / of_nat q\<bar> =
        \<bar>of_nat (round_div p (q * 2 ^ nat (- s))) - of_nat p / of_nat (q * 2 ^ nat (- s))\<bar> * (2 :: rat) ^ nat (- s)"
      by (simp add: abs_mult)
    also have "\<dots> \<le> (1 / 2) * 2 ^ nat (- s)"
      using assms by (intro mult_right_mono round_div_error) simp_all
    also have "\<dots> = (2 :: rat) powi (- s) / 2" using neg by (simp add: two_powi)
    finally show ?thesis .
  qed
  from order_trans[OF this small] show ?thesis .
qed

text \<open>One rounding changes a value by at most one part in \<open>2 ^ (m + 1)\<close>.\<close>

lemma rnd_error:
  assumes "0 \<le> x"
  shows "\<bar>rnd m x - x\<bar> \<le> x / 2 ^ Suc m"
proof -
  obtain a b where ab: "quotient_of x = (a, b)" by fastforce
  have x: "x = of_int a / of_int b" "0 < b" using quotient_of_div[OF ab] quotient_of_denom_pos[OF ab] by auto
  then have "0 \<le> a" using assms by (simp add: zero_le_divide_iff)
  with x have "x = of_nat (nat a) / of_nat (nat b)" by simp
  then show ?thesis using round_quot_error[of "nat b" m "nat a"] x(2) ab by (simp add: rnd_def)
qed

lemma rnd32_bounds:
  assumes "0 \<le> x"
  shows "x * (1 - 1 / 2 ^ 24) \<le> rnd32 x" "rnd32 x \<le> x * (1 + 1 / 2 ^ 24)"
  using rnd_error[OF assms, of 23] unfolding abs_le_iff by (simp_all add: rnd32_def algebra_simps)

subsection \<open>Computing a rounding\<close>

lemma quot_exp_gt:
  assumes "0 < p" "0 < q"
  shows "of_nat p / of_nat q < (2 :: rat) powi (quot_exp p q + 1)"
proof -
  define e where "e = int (floorlog 2 p) - int (floorlog 2 q)"
  show ?thesis
  proof (cases "2 ^ nat e * q \<le> 2 ^ nat (- e) * p")
    case True
    have "of_nat p / of_nat q < (2 :: rat) powi int (floorlog 2 p) / 2 powi (int (floorlog 2 q) - 1)"
      using floorlog_rat(2)[OF assms(1)] floorlog_rat(1)[OF assms(2)] assms by (intro frac_less) simp_all
    also have "\<dots> = 2 powi (int (floorlog 2 p) - (int (floorlog 2 q) - 1))" by (rule power_int_diff[symmetric]) simp
    finally show ?thesis using True by (simp add: quot_exp_def Let_def algebra_simps flip: e_def) (simp add: e_def algebra_simps)
  next
    case False
    then have "of_nat (2 ^ nat (- e) * p) < (of_nat (2 ^ nat e * q) :: rat)" by (simp only: of_nat_less_iff not_le)
    then have "of_nat p / of_nat q < (2 ^ nat e / 2 ^ nat (- e) :: rat)" using assms by (simp add: field_simps)
    moreover have "(2 :: rat) powi e = 2 ^ nat e / 2 ^ nat (- e)" by (simp add: two_powi)
    ultimately show ?thesis using False by (simp add: quot_exp_def Let_def flip: e_def)
  qed
qed

lemma quot_exp_unique:
  assumes "0 < p" "0 < q" "(2 :: rat) powi e \<le> of_nat p / of_nat q" "of_nat p / of_nat q < (2 :: rat) powi (e + 1)"
  shows "quot_exp p q = e"
proof -
  have "(2 :: rat) powi e < 2 powi (quot_exp p q + 1)" "(2 :: rat) powi quot_exp p q < 2 powi (e + 1)"
    using assms quot_exp_le[OF assms(1,2)] quot_exp_gt[OF assms(1,2)] by (auto intro: le_less_trans)
  moreover have "i < j" if "(2 :: rat) powi i < 2 powi j" for i j
    using that power_int_increasing[of j i "2 :: rat"] by force
  ultimately have "e < quot_exp p q + 1" "quot_exp p q < e + 1" by blast+
  then show ?thesis by simp
qed

lemma round_div_scale: "0 < k \<Longrightarrow> round_div (p * k) (q * k) = round_div p q"
  by (simp add: round_div_def Let_def mod_mult_mult2 flip: mult.assoc)

lemma round_quot_cong:
  assumes "p * b = a * q" "0 < q" "0 < b"
  shows "round_quot m p q = round_quot m a b"
proof (cases "p = 0")
  case True
  then show ?thesis using assms by (simp add: round_quot_def)
next
  case False
  then have pos: "0 < p" "0 < a" using assms by (cases a; auto)+
  have "of_nat (p * b) = (of_nat (a * q) :: rat)" using assms(1) by simp
  then have r: "of_nat p / of_nat q = (of_nat a / of_nat b :: rat)" using assms by (simp add: field_simps)
  have e: "quot_exp p q = quot_exp a b"
    using quot_exp_le[of a b] quot_exp_gt[of a b] pos assms(2,3) by (intro quot_exp_unique) (simp_all only: r)
  have c: "round_div (p * k) (q * l) = round_div (a * k) (b * l)" if "0 < l" for k l
  proof -
    have "round_div (p * k) (q * l) = round_div ((p * k) * b) ((q * l) * b)" using assms(3) by (simp add: round_div_scale)
    also have "(p * k) * b = (a * k) * q" using assms(1) by (simp add: algebra_simps)
    also have "(q * l) * b = (b * l) * q" by simp
    also have "round_div ((a * k) * q) ((b * l) * q) = round_div (a * k) (b * l)" using assms(2) by (simp add: round_div_scale)
    finally show ?thesis .
  qed
  show ?thesis using pos c[of 1] c[of _ "2 ^ _" , of _ 1] by (simp add: round_quot_def e Let_def) (use c[where l = 1] c[where k = 1] in auto)
qed

lemma rnd_quot:
  assumes "0 < q"
  shows "rnd m (of_nat p / of_nat q) = round_quot m p q"
proof -
  obtain a b where ab: "quotient_of (of_nat p / of_nat q) = (a, b)" by fastforce
  have x: "of_nat p / of_nat q = (of_int a / of_int b :: rat)" "0 < b"
    using quotient_of_div[OF ab] quotient_of_denom_pos[OF ab] by auto
  have "0 \<le> (of_int a / of_int b :: rat)" by (simp flip: x(1))
  with x(2) have "0 \<le> a" by (simp add: zero_le_divide_iff)
  moreover have "(of_int (int p * b) :: rat) = of_int (a * int q)" using x assms by (simp add: field_simps)
  then have "int p * b = a * int q" by (simp only: of_int_eq_iff)
  ultimately have "p * nat b = nat a * q" using x(2) by (metis int_nat_eq nat_int nat_mult_distrib of_nat_0_le_iff order_less_imp_le)
  from round_quot_cong[OF this assms] x(2) show ?thesis by (simp add: rnd_def ab)
qed

text \<open>With the exponent given, a rounding of a quotient is a division of integers.\<close>

lemma rnd_eval:
  assumes "x = of_nat p / of_nat q" "0 < p" "0 < q"
    and "(2 :: rat) powi e \<le> x" "x < 2 powi (e + 1)" "e \<le> int m" "t = nat (int m - e)"
  shows "rnd m x = of_nat (round_div (p * 2 ^ t) q) / 2 ^ t"
proof -
  have "quot_exp p q = e" using assms by (intro quot_exp_unique) simp_all
  then show ?thesis using assms(2,3,6,7) by (simp add: assms(1) rnd_quot round_quot_def Let_def)
qed

text \<open>A value with at most \<open>m + 1\<close> bits is not changed.\<close>

lemma round_div_exact: "0 < q \<Longrightarrow> round_div (n * q) q = n"
  by (simp add: round_div_def)

lemma rnd_exact:
  assumes "x = of_nat n / 2 ^ k" "n < 2 ^ Suc m"
  shows "rnd m x = x"
proof (cases "n = 0")
  case True
  then show ?thesis using rnd_quot[of 1 m 0] assms(1) by (simp add: round_quot_def)
next
  case False
  define e where "e = quot_exp n (2 ^ k)"
  have "(2 :: rat) powi e \<le> of_nat n / 2 ^ k" using quot_exp_le[of n "2 ^ k"] False by (simp add: e_def)
  also have "of_nat n / 2 ^ k < (2 ^ Suc m / 2 ^ k :: rat)"
  proof -
    have "(of_nat n :: rat) < of_nat (2 ^ Suc m)" using assms(2) by (simp only: of_nat_less_iff)
    then show ?thesis by (simp add: divide_strict_right_mono)
  qed
  also have "(2 ^ Suc m / 2 ^ k :: rat) = 2 powi (int (Suc m) - int k)"
    by (subst power_int_diff) (simp_all only: power_int_of_nat, simp)
  finally have "(2 :: rat) powi e < 2 powi (int (Suc m) - int k)" .
  then have e: "e < int (Suc m) - int k"
    using power_int_increasing[of "int (Suc m) - int k" e "2 :: rat"] by force
  define d where "d = nat (int m - e) - k"
  have s: "nat (int m - e) = d + k" "0 \<le> int m - e" using e by (simp_all add: d_def)
  have "round_div (n * 2 ^ (d + k)) (2 ^ k) = n * 2 ^ d"
    using round_div_exact[of "2 ^ k" "n * 2 ^ d"] by (simp add: power_add mult.assoc)
  then have "rnd m (of_nat n / of_nat (2 ^ k)) = of_nat (n * 2 ^ d) / 2 ^ (d + k)"
    using False s by (subst rnd_quot) (simp_all add: round_quot_def Let_def flip: e_def)
  then show ?thesis by (simp add: assms(1) power_add)
qed

lemma rnd_numeral:
  "numeral n < (2 :: nat) ^ Suc m \<Longrightarrow> rnd m (numeral n) = numeral n"
  "numeral n < (2 :: nat) ^ Suc m \<Longrightarrow> rnd m (numeral n / 2) = numeral n / 2"
  "rnd m 1 = 1" "rnd m (1 / 2) = 1 / 2"
  using rnd_exact[of "numeral n" "numeral n" 0 m] rnd_exact[of "numeral n / 2" "numeral n" 1 m]
    rnd_exact[of 1 1 0 m] rnd_exact[of "1 / 2" 1 1 m] one_less_power[of "2 :: nat" "Suc m"] by simp_all

end
