(* ===== verification/Stdlib_Sort.thy ===== *)
theory Stdlib_Sort
  imports Prelude "HOL-Library.Multiset"
begin

text \<open>
  \<open>qsort\<close>, \<open>qsort_r\<close> and \<open>bsearch\<close> of the C library (\<open>mlibc-salernos/stdlib.patched.cpp\<close>). The
  array is the list of its bytes, an element the slice of \<open>size\<close> bytes at its index, and a
  comparison a function on such slices; elements are exchanged byte by byte, as in the source.
  \<open>exchange_sort\<close> is the same algorithm on a list of elements, and \<open>qsort_r_elements\<close> shows that
  the bytes implement it. The contract of a comparison function is the locale \<open>three_way\<close>.
\<close>

subsection \<open>The code on bytes\<close>

definition elem :: "nat \<Rightarrow> 'b list \<Rightarrow> nat \<Rightarrow> 'b list" where
  "elem sz m i = take sz (drop (i * sz) m)"

text \<open>The swap of two elements, from byte \<open>k\<close> on, \<open>n\<close> bytes to go.\<close>

primrec swap_bytes :: "nat \<Rightarrow> nat \<Rightarrow> nat \<Rightarrow> nat \<Rightarrow> 'b list \<Rightarrow> 'b list" where
  "swap_bytes u v k 0 m = m"
| "swap_bytes u v k (Suc n) m =
     (let temp = m ! (u + k);
          m1 = m[u + k := m ! (v + k)];
          m2 = m1[v + k := temp]
      in swap_bytes u v (Suc k) n m2)"

function qsort_inner :: "('b list \<Rightarrow> 'b list \<Rightarrow> int) \<Rightarrow> nat \<Rightarrow> nat \<Rightarrow> nat \<Rightarrow> nat \<Rightarrow> 'b list \<Rightarrow> 'b list" where
  "qsort_inner compare sz cnt i j m =
     (if j < cnt then
        qsort_inner compare sz cnt i (Suc j)
          (if compare (elem sz m i) (elem sz m j) \<le> 0 then m
           else swap_bytes (i * sz) (j * sz) 0 sz m)
      else m)"
  by pat_completeness auto
termination by (relation "measure (\<lambda>(compare, sz, cnt, i, j, m). cnt - j)") auto

function qsort_outer :: "('b list \<Rightarrow> 'b list \<Rightarrow> int) \<Rightarrow> nat \<Rightarrow> nat \<Rightarrow> nat \<Rightarrow> 'b list \<Rightarrow> 'b list" where
  "qsort_outer compare sz cnt i m =
     (if i < cnt then
        qsort_outer compare sz cnt (Suc i) (qsort_inner compare sz cnt i (Suc i) m)
      else m)"
  by pat_completeness auto
termination by (relation "measure (\<lambda>(compare, sz, cnt, i, m). cnt - i)") auto

declare qsort_inner.simps [simp del] qsort_outer.simps [simp del]

definition qsort_r :: "'b list \<Rightarrow> nat \<Rightarrow> nat \<Rightarrow> ('b list \<Rightarrow> 'b list \<Rightarrow> 'x \<Rightarrow> int) \<Rightarrow> 'x \<Rightarrow> 'b list" where
  "qsort_r base cnt sz compare arg = qsort_outer (\<lambda>a b. compare a b arg) sz cnt 0 base"

definition qsort_callback :: "'b list \<Rightarrow> 'b list \<Rightarrow> ('b list \<Rightarrow> 'b list \<Rightarrow> int) \<Rightarrow> int" where
  "qsort_callback a b arg = arg a b"

definition qsort :: "'b list \<Rightarrow> nat \<Rightarrow> nat \<Rightarrow> ('b list \<Rightarrow> 'b list \<Rightarrow> int) \<Rightarrow> 'b list" where
  "qsort base cnt sz compare = qsort_r base cnt sz qsort_callback compare"

text \<open>\<open>bsearch\<close> returns the index of the element, \<open>None\<close> for a null pointer.\<close>

function bsearch_loop :: "('k \<Rightarrow> 'b list \<Rightarrow> int) \<Rightarrow> 'k \<Rightarrow> 'b list \<Rightarrow> nat \<Rightarrow> nat \<Rightarrow> nat \<Rightarrow> nat option" where
  "bsearch_loop compare key base sz i j =
     (if i < j then
        (let k = (j - i) div 2; res = compare key (elem sz base (i + k))
         in if res < 0 then bsearch_loop compare key base sz i (i + k)
            else if 0 < res then bsearch_loop compare key base sz (i + k + 1) j
            else Some (i + k))
      else None)"
  by pat_completeness auto
termination by (relation "measure (\<lambda>(compare, key, base, sz, i, j). j - i)") auto

declare bsearch_loop.simps [simp del]

definition bsearch :: "'k \<Rightarrow> 'b list \<Rightarrow> nat \<Rightarrow> nat \<Rightarrow> ('k \<Rightarrow> 'b list \<Rightarrow> int) \<Rightarrow> nat option" where
  "bsearch key base cnt sz compare = bsearch_loop compare key base sz 0 cnt"

subsection \<open>The elements of an array\<close>

definition elems :: "nat \<Rightarrow> nat \<Rightarrow> 'b list \<Rightarrow> 'b list list" where
  "elems sz cnt m = map (elem sz m) [0..<cnt]"

lemma elems_simps [simp]:
  "length (elems sz cnt m) = cnt"
  "i < cnt \<Longrightarrow> elems sz cnt m ! i = elem sz m i"
  by (simp_all add: elems_def)

lemma swap_bytes_length [simp]: "length (swap_bytes u v k n m) = length m"
  by (induction n arbitrary: k m) (simp_all add: Let_def)

lemma swap_bytes_nth:
  "u + (k + n) \<le> v \<Longrightarrow> v + (k + n) \<le> length m \<Longrightarrow> x < length m \<Longrightarrow>
   swap_bytes u v k n m ! x =
     (if u + k \<le> x \<and> x < u + k + n then m ! (x - u + v)
      else if v + k \<le> x \<and> x < v + k + n then m ! (x - v + u) else m ! x)"
proof (induction n arbitrary: k m)
  case (Suc n)
  define m2 where "m2 = m[u + k := m ! (v + k), v + k := m ! (u + k)]"
  have m2: "m2 ! y = (if y = u + k then m ! (v + k) else if y = v + k then m ! (u + k) else m ! y)" for y
    using Suc.prems by (auto simp: m2_def nth_list_update)
  have IH: "swap_bytes u v k (Suc n) m ! x =
     (if u + Suc k \<le> x \<and> x < u + Suc k + n then m2 ! (x - u + v)
      else if v + Suc k \<le> x \<and> x < v + Suc k + n then m2 ! (x - v + u) else m2 ! x)"
    using Suc.prems Suc.IH[of "Suc k" m2] by (simp add: m2_def Let_def)
  consider "x = u + k" | "x = v + k" | "u + Suc k \<le> x" "x < u + Suc k + n"
    | "v + Suc k \<le> x" "x < v + Suc k + n"
    | "x < u + k \<or> u + Suc k + n \<le> x" "x < v + k \<or> v + Suc k + n \<le> x"
    by linarith
  then show ?case
  proof cases
    case 3
    then have "x - u + v \<noteq> u + k" "x - u + v \<noteq> v + k" using Suc.prems by linarith+
    with 3 show ?thesis unfolding IH m2 by simp
  next
    case 4
    then have "x - v + u \<noteq> u + k" "x - v + u \<noteq> v + k" using Suc.prems by linarith+
    with 4 Suc.prems show ?thesis unfolding IH m2 by simp
  next
    case 1
    then have "\<not> (u + Suc k \<le> x \<and> x < u + Suc k + n)" "\<not> (v + Suc k \<le> x \<and> x < v + Suc k + n)"
      using Suc.prems by linarith+
    moreover have "x - u + v = v + k" using 1 by simp
    ultimately show ?thesis unfolding IH m2 using 1 Suc.prems by (simp add: add.commute)
  next
    case 2
    then have "\<not> (u + Suc k \<le> x \<and> x < u + Suc k + n)" "\<not> (u + k \<le> x \<and> x < u + k + Suc n)" "x \<noteq> u + k"
      using Suc.prems by linarith+
    moreover have "x - v + u = u + k" "\<not> (v + Suc k \<le> x \<and> x < v + Suc k + n)" using 2 by simp_all
    ultimately show ?thesis unfolding IH m2 using 2 Suc.prems by (simp add: add.commute)
  next
    case 5
    then have "\<not> (u + Suc k \<le> x \<and> x < u + Suc k + n)" "\<not> (v + Suc k \<le> x \<and> x < v + Suc k + n)"
        "\<not> (u + k \<le> x \<and> x < u + k + Suc n)" "\<not> (v + k \<le> x \<and> x < v + k + Suc n)" "x \<noteq> u + k" "x \<noteq> v + k"
      by auto
    then show ?thesis unfolding IH m2 by (simp only: if_False)
  qed
qed auto

lemma elem_nth: "k < sz \<Longrightarrow> i * sz + k < length m \<Longrightarrow> elem sz m i ! k = m ! (i * sz + k)"
  by (simp add: elem_def)

lemma slot_bounds:
  assumes "i < (cnt::nat)" "length m = cnt * sz"
  shows "i * sz + sz \<le> length m"
  using assms mult_le_mono1[of "Suc i" cnt sz] by simp

lemma elem_length: "i < cnt \<Longrightarrow> length m = cnt * sz \<Longrightarrow> length (elem sz m i) = sz"
  using slot_bounds[of i cnt m sz] by (simp add: elem_def)

lemma slots_apart: "i < j \<Longrightarrow> i * sz + sz \<le> j * (sz::nat)"
  using mult_le_mono1[of "Suc i" j sz] by simp

text \<open>The byte-wise exchange of two slots exchanges the elements and nothing else.\<close>

lemma swap_elem:
  assumes "i < j" "j < cnt" "length m = cnt * sz" "l < cnt"
  shows "elem sz (swap_bytes (i * sz) (j * sz) 0 sz m) l =
    elem sz m (if l = i then j else if l = j then i else l)"
proof (rule nth_equalityI)
  let ?m = "swap_bytes (i * sz) (j * sz) 0 sz m"
  let ?t = "if l = i then j else if l = j then i else l"
  have t: "?t < cnt" using assms by auto
  show "length (elem sz ?m l) = length (elem sz m ?t)"
    using assms t by (simp only: elem_length[of _ cnt] swap_bytes_length)
  fix k assume "k < length (elem sz ?m l)"
  then have k: "k < sz" using assms elem_length[of l cnt ?m sz] by simp
  have b: "i * sz + sz \<le> j * sz" "j * sz + sz \<le> length m" "l * sz + sz \<le> length m"
    using slots_apart[OF assms(1)] slot_bounds[OF assms(2,3)] slot_bounds[OF assms(4,3)] by auto
  have sep: "l * sz + k < i * sz \<or> i * sz + sz \<le> l * sz + k" if "l \<noteq> i"
    using slots_apart[of l i sz] slots_apart[of i l sz] that k by (cases "l < i") auto
  have sep': "l * sz + k < j * sz \<or> j * sz + sz \<le> l * sz + k" if "l \<noteq> j"
    using slots_apart[of l j sz] slots_apart[of j l sz] that k by (cases "l < j") auto
  have "elem sz ?m l ! k = ?m ! (l * sz + k)" using k b(3) by (simp add: elem_nth)
  also have "\<dots> = m ! (?t * sz + k)"
    using k b sep sep' assms(1) by (auto simp: swap_bytes_nth add.commute)
  also have "\<dots> = elem sz m ?t ! k"
    using k slot_bounds[OF t assms(3)] by (simp add: elem_nth)
  finally show "elem sz ?m l ! k = elem sz m ?t ! k" .
qed

subsection \<open>The sort on elements\<close>

definition exchange :: "nat \<Rightarrow> nat \<Rightarrow> 'a list \<Rightarrow> 'a list" where
  "exchange i j xs = xs[i := xs ! j, j := xs ! i]"

function exch_inner :: "('a \<Rightarrow> 'a \<Rightarrow> int) \<Rightarrow> nat \<Rightarrow> nat \<Rightarrow> 'a list \<Rightarrow> 'a list" where
  "exch_inner cmp i j xs =
     (if j < length xs then
        exch_inner cmp i (Suc j) (if cmp (xs ! i) (xs ! j) \<le> 0 then xs else exchange i j xs)
      else xs)"
  by pat_completeness auto
termination by (relation "measure (\<lambda>(cmp, i, j, xs). length xs - j)") (auto simp: exchange_def)

declare exch_inner.simps [simp del]

lemma exch_inner_length [simp]: "length (exch_inner cmp i j xs) = length xs"
proof (induction cmp i j xs rule: exch_inner.induct)
  case (1 cmp i j xs)
  then show ?case by (subst exch_inner.simps) (simp add: exchange_def)
qed

function exch_outer :: "('a \<Rightarrow> 'a \<Rightarrow> int) \<Rightarrow> nat \<Rightarrow> 'a list \<Rightarrow> 'a list" where
  "exch_outer cmp i xs =
     (if i < length xs then exch_outer cmp (Suc i) (exch_inner cmp i (Suc i) xs) else xs)"
  by pat_completeness auto
termination by (relation "measure (\<lambda>(cmp, i, xs). length xs - i)") auto

declare exch_outer.simps [simp del]

definition exchange_sort :: "('a \<Rightarrow> 'a \<Rightarrow> int) \<Rightarrow> 'a list \<Rightarrow> 'a list" where
  "exchange_sort cmp xs = exch_outer cmp 0 xs"

lemma exchange_elems:
  assumes "i < j" "j < cnt" "length m = cnt * sz"
  shows "elems sz cnt (swap_bytes (i * sz) (j * sz) 0 sz m) = exchange i j (elems sz cnt m)"
proof (rule nth_equalityI)
  fix l assume "l < length (elems sz cnt (swap_bytes (i * sz) (j * sz) 0 sz m))"
  then show "elems sz cnt (swap_bytes (i * sz) (j * sz) 0 sz m) ! l = exchange i j (elems sz cnt m) ! l"
    using assms swap_elem[OF assms, of l] by (auto simp: exchange_def nth_list_update)
qed (simp add: exchange_def)

lemma qsort_inner_elems:
  "length m = cnt * sz \<Longrightarrow> i < j \<Longrightarrow>
     length (qsort_inner cmp sz cnt i j m) = cnt * sz \<and>
     elems sz cnt (qsort_inner cmp sz cnt i j m) = exch_inner cmp i j (elems sz cnt m)"
proof (induction cmp sz cnt i j m rule: qsort_inner.induct)
  case (1 cmp sz cnt i j m)
  let ?m = "if cmp (elem sz m i) (elem sz m j) \<le> 0 then m else swap_bytes (i * sz) (j * sz) 0 sz m"
  show ?case
  proof (cases "j < cnt")
    case True
    then have "elems sz cnt ?m =
        (if cmp (elems sz cnt m ! i) (elems sz cnt m ! j) \<le> 0 then elems sz cnt m else exchange i j (elems sz cnt m))"
      using "1.prems" exchange_elems[of i j cnt m sz] by simp
    then show ?thesis
      using True "1.IH"[OF True] "1.prems" qsort_inner.simps[of cmp sz cnt i j m]
        exch_inner.simps[of cmp i j "elems sz cnt m"] by simp
  next
    case False
    then show ?thesis
      using "1.prems" qsort_inner.simps[of cmp sz cnt i j m] exch_inner.simps[of cmp i j "elems sz cnt m"] by simp
  qed
qed

lemma qsort_outer_elems:
  "length m = cnt * sz \<Longrightarrow>
     length (qsort_outer cmp sz cnt i m) = cnt * sz \<and>
     elems sz cnt (qsort_outer cmp sz cnt i m) = exch_outer cmp i (elems sz cnt m)"
proof (induction cmp sz cnt i m rule: qsort_outer.induct)
  case (1 cmp sz cnt i m)
  then show ?case
    using qsort_inner_elems[of m cnt sz i "Suc i" cmp]
      qsort_outer.simps[of cmp sz cnt i m] exch_outer.simps[of cmp i "elems sz cnt m"] by auto
qed

lemma qsort_elems:
  assumes "length m = cnt * sz"
  shows "length (qsort m cnt sz cmp) = length m \<and>
    elems sz cnt (qsort m cnt sz cmp) = exchange_sort cmp (elems sz cnt m)"
  using qsort_outer_elems[OF assms, of cmp 0] assms
  by (simp add: qsort_def qsort_r_def qsort_callback_def exchange_sort_def)

subsection \<open>It permutes the elements\<close>

lemma exchange_mset: "i < length xs \<Longrightarrow> j < length xs \<Longrightarrow> mset (exchange i j xs) = mset xs"
  by (simp add: exchange_def mset_swap)

lemma exch_inner_mset: "i < j \<Longrightarrow> mset (exch_inner cmp i j xs) = mset xs"
proof (induction cmp i j xs rule: exch_inner.induct)
  case (1 cmp i j xs)
  then show ?case by (subst exch_inner.simps) (simp add: exchange_mset)
qed

lemma exch_outer_mset: "mset (exch_outer cmp i xs) = mset xs"
proof (induction cmp i xs rule: exch_outer.induct)
  case (1 cmp i xs)
  then show ?case by (subst exch_outer.simps) (simp add: exch_inner_mset)
qed

lemma exchange_sort_mset: "mset (exchange_sort cmp xs) = mset xs"
  by (simp add: exchange_sort_def exch_outer_mset)

subsection \<open>The contract of a comparison function, and what it buys\<close>

locale three_way =
  fixes cmp :: "'a \<Rightarrow> 'a \<Rightarrow> int"
  assumes anti: "cmp a b < 0 \<longleftrightarrow> 0 < cmp b a"
    and trans: "cmp a b \<le> 0 \<Longrightarrow> cmp b c \<le> 0 \<Longrightarrow> cmp a c \<le> 0"
begin

definition below :: "'a \<Rightarrow> 'a \<Rightarrow> bool" where
  "below a b \<longleftrightarrow> cmp a b \<le> 0"

lemma below_refl: "below a a"
  using anti[of a a] by (auto simp: below_def)

lemma below_trans: "below a b \<Longrightarrow> below b c \<Longrightarrow> below a c"
  by (auto simp: below_def intro: trans)

lemma below_total: "\<not> cmp a b \<le> 0 \<Longrightarrow> below b a"
  using anti[of b a] by (simp add: below_def)

lemma cmp_zero_sym: "cmp a b = 0 \<Longrightarrow> cmp b a = 0"
  using anti[of a b] anti[of b a] by auto

text \<open>After the inner loop, slot \<open>i\<close> is below every slot the loop has passed.\<close>

lemma inner_min:
  "i < j \<Longrightarrow> j \<le> length xs \<Longrightarrow> \<forall>l. i < l \<and> l < j \<longrightarrow> below (xs ! i) (xs ! l) \<Longrightarrow>
   \<forall>l. i < l \<and> l < length xs \<longrightarrow> below (exch_inner cmp i j xs ! i) (exch_inner cmp i j xs ! l)"
proof (induction "length xs - j" arbitrary: j xs)
  case 0
  then show ?case by (subst exch_inner.simps, subst exch_inner.simps) simp
next
  case (Suc n)
  let ?ys = "if cmp (xs ! i) (xs ! j) \<le> 0 then xs else exchange i j xs"
  have j: "j < length xs" using Suc by simp
  have "\<forall>l. i < l \<and> l < Suc j \<longrightarrow> below (?ys ! i) (?ys ! l)"
  proof (cases "cmp (xs ! i) (xs ! j) \<le> 0")
    case True
    then show ?thesis using Suc.prems by (auto simp: less_Suc_eq below_def)
  next
    case False
    then have "below (xs ! j) (xs ! i)" by (rule below_total)
    then show ?thesis
      using False Suc.prems j
      by (auto simp: less_Suc_eq exchange_def nth_list_update intro: below_trans)
  qed
  moreover have "n = length ?ys - Suc j" "Suc j \<le> length ?ys" "length ?ys = length xs"
    using Suc j by (auto simp: exchange_def)
  ultimately have "\<forall>l. i < l \<and> l < length xs \<longrightarrow>
      below (exch_inner cmp i (Suc j) ?ys ! i) (exch_inner cmp i (Suc j) ?ys ! l)"
    using Suc.hyps(1)[of ?ys "Suc j"] Suc.prems(1) by simp
  then show ?case using j exch_inner.simps[of cmp i j xs] by simp
qed

lemma inner_keeps: "i < j \<Longrightarrow> l < i \<Longrightarrow> exch_inner cmp i j xs ! l = xs ! l"
proof (induction cmp i j xs rule: exch_inner.induct)
  case (1 c i j xs)
  then show ?case by (subst exch_inner.simps) (simp add: exchange_def)
qed

lemma inner_tail: "i < j \<Longrightarrow> i < length xs \<Longrightarrow> mset (drop i (exch_inner cmp i j xs)) = mset (drop i xs)"
proof -
  assume a: "i < j" "i < length xs"
  have "take i (exch_inner cmp i j xs) = take i xs"
    by (rule nth_equalityI) (use a inner_keeps in auto)
  moreover have "mset (take i ys) + mset (drop i ys) = mset ys" for ys :: "'a list"
    by (metis append_take_drop_id mset_append)
  ultimately show ?thesis using exch_inner_mset[OF a(1), of cmp xs] by (metis add_left_cancel)
qed

text \<open>The slots the outer loop has passed are final.\<close>

lemma outer_sorted:
  "\<forall>a b. a < i \<and> a < b \<and> b < length xs \<longrightarrow> below (xs ! a) (xs ! b) \<Longrightarrow>
   sorted_wrt below (exch_outer cmp i xs)"
proof (induction "length xs - i" arbitrary: i xs)
  case 0
  then show ?case by (subst exch_outer.simps) (simp add: sorted_wrt_iff_nth_less)
next
  case (Suc n)
  let ?ys = "exch_inner cmp i (Suc i) xs"
  have i: "i < length xs" using Suc.hyps(2) by simp
  have tail: "set (drop i ?ys) = set (drop i xs)"
    using inner_tail[of i "Suc i" xs] i by (metis lessI mset_eq_setD)
  have "below (?ys ! a) (?ys ! b)" if "a < Suc i" "a < b" "b < length xs" for a b
  proof (cases "a = i")
    case True
    have "\<forall>l. i < l \<and> l < Suc i \<longrightarrow> below (xs ! i) (xs ! l)" by auto
    then show ?thesis using True inner_min[of i "Suc i" xs] i that by simp
  next
    case False
    then have a: "a < i" "?ys ! a = xs ! a" using that inner_keeps[of i "Suc i" a xs] by auto
    show ?thesis
    proof (cases "b < i")
      case True
      then show ?thesis using a that Suc.prems inner_keeps[of i "Suc i" b xs] by simp
    next
      case False
      then have "?ys ! b \<in> set (drop i ?ys)"
        using that by (auto simp: in_set_conv_nth intro!: exI[of _ "b - i"])
      then obtain d where "d < length xs - i" "?ys ! b = xs ! (i + d)"
        unfolding tail by (auto simp: in_set_conv_nth)
      then obtain c where "i \<le> c" "c < length xs" "?ys ! b = xs ! c"
        using that[of "i + d"] by simp
      then show ?thesis using a Suc.prems by simp
    qed
  qed
  then have "sorted_wrt below (exch_outer cmp (Suc i) ?ys)"
    using Suc.hyps(1)[of ?ys "Suc i"] Suc.hyps(2) by simp
  then show ?case using i exch_outer.simps[of cmp i xs] by simp
qed

lemma exchange_sort_sorted: "sorted_wrt below (exchange_sort cmp xs)"
  unfolding exchange_sort_def by (rule outer_sorted) simp

text \<open>A sorted array and a key: the comparisons with the elements go from positive to negative.\<close>

lemma sorted_signs:
  assumes "sorted_wrt below xs" "i \<le> j" "j < length xs"
  shows "cmp key (xs ! i) < 0 \<Longrightarrow> cmp key (xs ! j) < 0" "0 < cmp key (xs ! j) \<Longrightarrow> 0 < cmp key (xs ! i)"
proof -
  have le: "cmp (xs ! i) (xs ! j) \<le> 0"
    using assms below_refl by (cases "i = j") (auto simp: sorted_wrt_iff_nth_less below_def)
  show "cmp key (xs ! i) < 0 \<Longrightarrow> cmp key (xs ! j) < 0"
    using trans[OF le, of key] anti[of key "xs ! i"] anti[of key "xs ! j"] anti[of "xs ! j" key]
    by (metis leD leI less_le_not_le order_less_imp_le)
  show "0 < cmp key (xs ! j) \<Longrightarrow> 0 < cmp key (xs ! i)"
    using trans[OF _ le, of key] by (metis leD leI)
qed

end

subsection \<open>The search\<close>

lemma bsearch_loop_correct:
  assumes "\<And>a b. a \<le> b \<Longrightarrow> b < cnt \<Longrightarrow> compare key (elem sz base a) < 0 \<Longrightarrow> compare key (elem sz base b) < 0"
    and "\<And>a b. a \<le> b \<Longrightarrow> b < cnt \<Longrightarrow> 0 < compare key (elem sz base b) \<Longrightarrow> 0 < compare key (elem sz base a)"
  shows "j \<le> cnt \<Longrightarrow> case bsearch_loop compare key base sz i j of
      Some k \<Rightarrow> i \<le> k \<and> k < j \<and> compare key (elem sz base k) = 0
    | None \<Rightarrow> \<forall>k. i \<le> k \<and> k < j \<longrightarrow> compare key (elem sz base k) \<noteq> 0"
proof (induction "j - i" arbitrary: i j rule: less_induct)
  case less
  show ?case
  proof (cases "i < j")
    case False
    then show ?thesis by (subst bsearch_loop.simps) simp
  next
    case True
    define k where "k = (j - i) div 2"
    have k: "i + k < j" "i + k < cnt" using True less.prems by (auto simp: k_def)
    consider (lt) "compare key (elem sz base (i + k)) < 0" | (gt) "0 < compare key (elem sz base (i + k))"
      | (eq) "compare key (elem sz base (i + k)) = 0" by linarith
    then show ?thesis
    proof cases
      case lt
      then have "bsearch_loop compare key base sz i j = bsearch_loop compare key base sz i (i + k)"
        using True by (subst bsearch_loop.simps) (simp add: Let_def k_def)
      moreover have "compare key (elem sz base x) \<noteq> 0" if "i + k \<le> x" "x < j" for x
        using assms(1)[OF that(1) _ lt] that less.prems by auto
      moreover have "case bsearch_loop compare key base sz i (i + k) of
          Some l \<Rightarrow> i \<le> l \<and> l < i + k \<and> compare key (elem sz base l) = 0
        | None \<Rightarrow> \<forall>l. i \<le> l \<and> l < i + k \<longrightarrow> compare key (elem sz base l) \<noteq> 0"
        using less.hyps[of "i + k" i] k less.prems by simp
      ultimately show ?thesis using k(1)
        by (cases "bsearch_loop compare key base sz i (i + k)") (auto, metis linorder_le_less_linear)
    next
      case gt
      then have "bsearch_loop compare key base sz i j = bsearch_loop compare key base sz (i + k + 1) j"
        using True by (subst bsearch_loop.simps) (simp add: Let_def k_def)
      moreover have "compare key (elem sz base x) \<noteq> 0" if "x \<le> i + k" for x
        using assms(2)[OF that k(2) gt] by simp
      moreover have "case bsearch_loop compare key base sz (i + k + 1) j of
          Some l \<Rightarrow> i + k + 1 \<le> l \<and> l < j \<and> compare key (elem sz base l) = 0
        | None \<Rightarrow> \<forall>l. i + k + 1 \<le> l \<and> l < j \<longrightarrow> compare key (elem sz base l) \<noteq> 0"
        using less.hyps[of j "i + k + 1"] True less.prems by simp
      ultimately show ?thesis
        by (cases "bsearch_loop compare key base sz (i + k + 1) j") (auto, metis not_less_eq_eq)
    next
      case eq
      then have "bsearch_loop compare key base sz i j = Some (i + k)"
        using True by (subst bsearch_loop.simps) (simp add: Let_def k_def)
      then show ?thesis using eq k by simp
    qed
  qed
qed

subsection \<open>Properties\<close>

lemma qsort_correct:
  assumes "three_way cmp" "length m = cnt * sz"
  shows "length (qsort m cnt sz cmp) = length m" "mset (elems sz cnt (qsort m cnt sz cmp)) = mset (elems sz cnt m)"
    "sorted_wrt (\<lambda>a b. cmp a b \<le> 0) (elems sz cnt (qsort m cnt sz cmp))"
  using qsort_elems[OF assms(2), of cmp] three_way.exchange_sort_sorted[OF assms(1), of "elems sz cnt m"]
  by (simp_all add: exchange_sort_mset three_way.below_def[OF assms(1), abs_def])

text \<open>C16: \<open>qsort\<close> sorts. For a comparison function that is a total preorder, on an array of
  \<open>cnt\<close> elements of \<open>sz\<close> bytes, the bytes that \<open>qsort\<close> leaves are as many, their elements are
  the same with the same multiplicities, and they are in order.\<close>

theorem qsort_sorts:
  assumes "\<forall>a b. cmp a b < 0 \<longleftrightarrow> 0 < cmp b a"
    and "\<forall>a b c. cmp a b \<le> 0 \<longrightarrow> cmp b c \<le> 0 \<longrightarrow> cmp a c \<le> 0"
    and "length m = cnt * sz"
  shows "length (qsort m cnt sz cmp) = length m \<and>
    mset (elems sz cnt (qsort m cnt sz cmp)) = mset (elems sz cnt m) \<and>
    sorted_wrt (\<lambda>a b. cmp a b \<le> 0) (elems sz cnt (qsort m cnt sz cmp))"
proof -
  have "three_way cmp" using assms(1,2) by (simp add: three_way_def)
  from qsort_correct[OF this assms(3)] show ?thesis by blast
qed

definition first_cmp :: "nat list \<Rightarrow> nat list \<Rightarrow> int" where
  "first_cmp a b = int (hd a) - int (hd b)"

theorem qsort_sorts_witness:
  "qsort [3, 30, 1, 10, 2, 20] 3 2 first_cmp = [1, 10, 2, 20, 3, 30] \<and>
   sorted_wrt (\<lambda>a b. first_cmp a b \<le> 0) (elems 2 3 (qsort [3, 30, 1, 10, 2, 20] 3 2 first_cmp))"
proof
  show "qsort [3, 30, 1, 10, 2, 20] 3 2 first_cmp = [1, 10, 2, 20, 3, 30]" by code_simp
  show "sorted_wrt (\<lambda>a b. first_cmp a b \<le> 0) (elems 2 3 (qsort [3, 30, 1, 10, 2, 20] 3 2 first_cmp))"
    using qsort_sorts[of first_cmp "[3, 30, 1, 10, 2, 20]" 3 2] by (simp add: first_cmp_def)
qed

text \<open>C17: \<open>bsearch\<close> after \<open>qsort\<close>. On the array that \<open>qsort\<close> returned, \<open>bsearch\<close> with the same
  comparison function returns an element that compares equal to the key, and returns a null
  pointer exactly when the original array has none.\<close>

theorem bsearch_after_qsort:
  assumes "\<forall>a b. cmp a b < 0 \<longleftrightarrow> 0 < cmp b a"
    and "\<forall>a b c. cmp a b \<le> 0 \<longrightarrow> cmp b c \<le> 0 \<longrightarrow> cmp a c \<le> 0"
    and "length m = cnt * sz"
  shows "case bsearch key (qsort m cnt sz cmp) cnt sz cmp of
      Some k \<Rightarrow> k < cnt \<and> cmp key (elem sz (qsort m cnt sz cmp) k) = 0
    | None \<Rightarrow> \<forall>k<cnt. cmp key (elem sz m k) \<noteq> 0"
proof -
  have tw: "three_way cmp" using assms(1,2) by (simp add: three_way_def)
  let ?s = "qsort m cnt sz cmp"
  note Q = qsort_correct[OF tw assms(3)]
  have srt: "sorted_wrt (three_way.below cmp) (elems sz cnt ?s)"
    using Q(3) by (simp add: three_way.below_def[OF tw, abs_def])
  have "case bsearch_loop cmp key ?s sz 0 cnt of
      Some k \<Rightarrow> 0 \<le> k \<and> k < cnt \<and> cmp key (elem sz ?s k) = 0
    | None \<Rightarrow> \<forall>k. 0 \<le> k \<and> k < cnt \<longrightarrow> cmp key (elem sz ?s k) \<noteq> 0"
    by (rule bsearch_loop_correct[where cnt = cnt]) (use three_way.sorted_signs[OF tw srt, of _ _ key] in auto)
  moreover have "(\<forall>k<cnt. cmp key (elem sz ?s k) \<noteq> 0) \<longleftrightarrow> (\<forall>e\<in>set (elems sz cnt ?s). cmp key e \<noteq> 0)"
    by (auto simp: elems_def)
  moreover have "(\<forall>k<cnt. cmp key (elem sz m k) \<noteq> 0) \<longleftrightarrow> (\<forall>e\<in>set (elems sz cnt m). cmp key e \<noteq> 0)"
    by (auto simp: elems_def)
  ultimately show ?thesis
    using mset_eq_setD[OF Q(2)] by (auto simp: bsearch_def split: option.splits)
qed

theorem bsearch_after_qsort_witness:
  "bsearch [2, 0] (qsort [3, 30, 1, 10, 2, 20] 3 2 first_cmp) 3 2 first_cmp = Some 1 \<and>
   first_cmp [2, 0] (elem 2 (qsort [3, 30, 1, 10, 2, 20] 3 2 first_cmp) 1) = 0"
proof -
  have run: "bsearch [2, 0] (qsort [3, 30, 1, 10, 2, 20] 3 2 first_cmp) 3 2 first_cmp = Some 1" by code_simp
  from bsearch_after_qsort[of first_cmp "[3, 30, 1, 10, 2, 20]" 3 2 "[2, 0]"] run show ?thesis
    by (simp add: first_cmp_def)
qed

end
