(* ===== verification/Kprofile.thy ===== *)
theory Kprofile
  imports F32 Abi_Bits Stdlib_Sort
begin

text \<open>
  The kernel profiler front end (\<open>util-salernos/src/kprofile.c\<close>, with the structures of
  \<open>salernos/devprofile.h\<close>): its four comparators, its options, the two reports and \<open>main\<close>. The
  device is a parameter: whether it opens, and what each \<open>ioctl\<close> returns. Rows are sorted as the
  88 bytes they are in memory by \<open>qsort\<close> of \<open>Stdlib_Sort\<close>. What is printed is a value here, the rows
  of the table with the numbers \<open>printf\<close> receives; the characters are in \<open>Kprofile_Text\<close>.
\<close>

subsection \<open>The device\<close>

definition char_P :: u32 where "char_P = 0x50"

definition DEVPROFILE_IOCTL_GET_NUM_FUNCTIONS :: u64 where "DEVPROFILE_IOCTL_GET_NUM_FUNCTIONS = IOR char_P 0 8"
definition DEVPROFILE_IOCTL_GET_NUM_SYSCALLS :: u64 where "DEVPROFILE_IOCTL_GET_NUM_SYSCALLS = IOR char_P 1 8"
definition DEVPROFILE_IOCTL_GET_FUNCTIONS :: u64 where "DEVPROFILE_IOCTL_GET_FUNCTIONS = IOR char_P 2 128"
definition DEVPROFILE_IOCTL_GET_SYSCALLS :: u64 where "DEVPROFILE_IOCTL_GET_SYSCALLS = IOR char_P 3 128"

definition SIZEOF_FN_DATA :: nat where "SIZEOF_FN_DATA = 88"

definition DEVPROFILE_SIZEOF_FN_RES :: "u64 \<Rightarrow> u64" where
  "DEVPROFILE_SIZEOF_FN_RES n = n * 88 + 128"

record devprofile_fn_data =
  fn_name :: "byte list"
  real_time_ns :: u64
  cpu_time_ns :: u64
  num_calls :: u64

definition le64 :: "byte list \<Rightarrow> u64" where
  "le64 bs = foldr (\<lambda>b acc. push_bit 8 acc OR ucast b) bs 0"

text \<open>The structure in memory: 64 bytes of name and three little-endian 64-bit numbers.\<close>

definition fn_data_at :: "byte list \<Rightarrow> devprofile_fn_data" where
  "fn_data_at bs =
     \<lparr>fn_name = take 64 bs, real_time_ns = le64 (take 8 (drop 64 bs)),
      cpu_time_ns = le64 (take 8 (drop 72 bs)), num_calls = le64 (take 8 (drop 80 bs))\<rparr>"

text \<open>\<open>dev_num op\<close> is what a counting \<open>ioctl\<close> stores, \<open>dev_data op n\<close> what \<open>res->data\<close> holds after a
  reading one, with room for \<open>n\<close> rows; \<open>None\<close> is a failure.\<close>

record profdev =
  dev_open :: bool
  dev_num :: "u64 \<Rightarrow> u64 option"
  dev_data :: "u64 \<Rightarrow> u64 \<Rightarrow> byte list option"
  malloc_ok :: "u64 \<Rightarrow> bool"

subsection \<open>Comparators\<close>

definition comparator_real :: "devprofile_fn_data \<Rightarrow> devprofile_fn_data \<Rightarrow> int" where
  "comparator_real a b =
     (if real_time_ns b < real_time_ns a then - 1 else if real_time_ns a < real_time_ns b then 1 else 0)"

definition comparator_cpu :: "devprofile_fn_data \<Rightarrow> devprofile_fn_data \<Rightarrow> int" where
  "comparator_cpu a b =
     (if cpu_time_ns b < cpu_time_ns a then - 1 else if cpu_time_ns a < cpu_time_ns b then 1 else 0)"

definition comparator_calls :: "devprofile_fn_data \<Rightarrow> devprofile_fn_data \<Rightarrow> int" where
  "comparator_calls a b =
     (if num_calls b < num_calls a then - 1 else if num_calls a < num_calls b then 1 else 0)"

definition fn_ratio :: "devprofile_fn_data \<Rightarrow> rat" where
  "fn_ratio a = f32_div (f32_of_u64 (cpu_time_ns a)) (f32_of_u64 (num_calls a))"

definition comparator_ratio :: "devprofile_fn_data \<Rightarrow> devprofile_fn_data \<Rightarrow> int" where
  "comparator_ratio a b =
     (if num_calls a = 0 \<and> num_calls b = 0 then 0
      else if num_calls a = 0 then 1
      else if num_calls b = 0 then - 1
      else (let p1 = fn_ratio a; p2 = fn_ratio b
            in if p2 < p1 then - 1 else if p1 < p2 then 1 else 0))"

datatype comparator = by_real | by_cpu | by_calls | by_ratio

fun g_comparator :: "comparator \<Rightarrow> devprofile_fn_data \<Rightarrow> devprofile_fn_data \<Rightarrow> int" where
  "g_comparator by_real = comparator_real"
| "g_comparator by_cpu = comparator_cpu"
| "g_comparator by_calls = comparator_calls"
| "g_comparator by_ratio = comparator_ratio"

definition on_bytes :: "(devprofile_fn_data \<Rightarrow> devprofile_fn_data \<Rightarrow> int) \<Rightarrow> byte list \<Rightarrow> byte list \<Rightarrow> int" where
  "on_bytes cmp a b = cmp (fn_data_at a) (fn_data_at b)"

subsection \<open>Reports\<close>

record table_row =
  row_name :: "byte list"
  row_real :: u64
  row_cpu :: u64
  row_calls :: u64
  row_ratio :: rat

definition row_of :: "devprofile_fn_data \<Rightarrow> table_row" where
  "row_of d =
     \<lparr>row_name = fn_name d, row_real = real_time_ns d, row_cpu = cpu_time_ns d, row_calls = num_calls d,
      row_ratio = (if num_calls d \<noteq> 0 then fn_ratio d else 0)\<rparr>"

definition print_function_table :: "byte list \<Rightarrow> nat \<Rightarrow> table_row list" where
  "print_function_table m n = map (\<lambda>i. row_of (fn_data_at (elem SIZEOF_FN_DATA m i))) [0..<n]"

datatype kp_out =
    Out_nothing | Out_error string | Out_unknown_option string | Out_unknown_command string
  | Out_perror string | Out_help | Out_table "table_row list"

text \<open>The body that \<open>profile_functions\<close> and \<open>profile_syscalls\<close> share, with the checks of
  \<open>open_devprofile\<close>, \<open>checked_malloc\<close> and \<open>checked_ioctl\<close>, each of which ends the program.\<close>

definition profile :: "profdev \<Rightarrow> u64 \<Rightarrow> u64 \<Rightarrow> comparator \<Rightarrow> kp_out \<times> int" where
  "profile dev num_op get_op c =
     (if \<not> dev_open dev then (Out_error ''unable to open profiler device'', EXIT_FAILURE)
      else
        (case dev_num dev num_op of
           None \<Rightarrow> (Out_perror ''ioctl'', EXIT_FAILURE)
         | Some n \<Rightarrow>
             (if \<not> malloc_ok dev (DEVPROFILE_SIZEOF_FN_RES n) then (Out_error ''out of memory'', EXIT_FAILURE)
              else
                (case dev_data dev get_op n of
                   None \<Rightarrow> (Out_perror ''ioctl'', EXIT_FAILURE)
                 | Some data \<Rightarrow>
                     (Out_table (print_function_table
                        (qsort data (unat n) SIZEOF_FN_DATA (on_bytes (g_comparator c))) (unat n)),
                      EXIT_SUCCESS)))))"

definition profile_functions :: "profdev \<Rightarrow> comparator \<Rightarrow> kp_out \<times> int" where
  "profile_functions dev c = profile dev DEVPROFILE_IOCTL_GET_NUM_FUNCTIONS DEVPROFILE_IOCTL_GET_FUNCTIONS c"

definition profile_syscalls :: "profdev \<Rightarrow> comparator \<Rightarrow> kp_out \<times> int" where
  "profile_syscalls dev c = profile dev DEVPROFILE_IOCTL_GET_NUM_SYSCALLS DEVPROFILE_IOCTL_GET_SYSCALLS c"

subsection \<open>The command line\<close>

text \<open>The loop over the options, from \<open>argv[2]\<close> on; the left summand is the unknown option.\<close>

fun parse_options :: "string list \<Rightarrow> comparator \<Rightarrow> string + comparator" where
  "parse_options [] c = Inr c"
| "parse_options (opt # opts) c =
     (if opt = ''--by-real'' then parse_options opts by_real
      else if opt = ''--by-cpu'' then parse_options opts by_cpu
      else if opt = ''--by-calls'' then parse_options opts by_calls
      else if opt = ''--by-ratio'' then parse_options opts by_ratio
      else Inl opt)"

definition kprofile_main :: "profdev \<Rightarrow> string list \<Rightarrow> kp_out \<times> int" where
  "kprofile_main dev argv =
     (case argv of
        [] \<Rightarrow> (Out_nothing, EXIT_FAILURE)
      | [_] \<Rightarrow> (Out_error ''not enough arguments, try --help'', EXIT_FAILURE)
      | _ # command # opts \<Rightarrow>
          (case parse_options opts by_ratio of
             Inl opt \<Rightarrow> (Out_unknown_option opt, EXIT_FAILURE)
           | Inr c \<Rightarrow>
               (if command = ''--help'' then (Out_help, EXIT_SUCCESS)
                else if command = ''--functions'' then profile_functions dev c
                else if command = ''--syscalls'' then profile_syscalls dev c
                else (Out_unknown_command command, EXIT_FAILURE))))"

subsection \<open>Every comparator keeps the contract of \<open>qsort\<close>\<close>

text \<open>A comparator that orders by a key is a total preorder; so is it on encodings.\<close>

lemma three_way_key: "three_way (\<lambda>a b. if key b < key a then - 1 else if key a < (key b :: 'k::linorder) then 1 else 0)"
  by unfold_locales (auto split: if_splits)

interpretation real_order: three_way comparator_real
  using three_way_key[of real_time_ns] by (simp add: comparator_real_def[abs_def])

interpretation cpu_order: three_way comparator_cpu
  using three_way_key[of cpu_time_ns] by (simp add: comparator_cpu_def[abs_def])

interpretation calls_order: three_way comparator_calls
  using three_way_key[of num_calls] by (simp add: comparator_calls_def[abs_def])

interpretation ratio_order: three_way comparator_ratio
  by unfold_locales (auto simp: comparator_ratio_def Let_def split: if_splits)

lemma g_comparator_three_way: "three_way (g_comparator c)"
  using real_order.three_way_axioms cpu_order.three_way_axioms calls_order.three_way_axioms
    ratio_order.three_way_axioms by (cases c) simp_all

lemma on_bytes_three_way: "three_way cmp \<Longrightarrow> three_way (on_bytes cmp)"
  by (simp add: three_way_def on_bytes_def)

subsection \<open>Properties\<close>

definition kernel_rows :: "byte list \<Rightarrow> u64 \<Rightarrow> devprofile_fn_data list" where
  "kernel_rows data n = map fn_data_at (elems SIZEOF_FN_DATA (unat n) data)"

lemma sorted_wrt_map: "sorted_wrt (\<lambda>a b. P (f a) (f b)) xs \<longleftrightarrow> sorted_wrt P (map f xs)"
  by (induction xs) auto

lemma profile_table:
  assumes "dev_open dev" "dev_num dev num_op = Some n" "malloc_ok dev (DEVPROFILE_SIZEOF_FN_RES n)"
    "dev_data dev get_op n = Some data" "length data = unat n * SIZEOF_FN_DATA"
  shows "\<exists>ds. profile dev num_op get_op c = (Out_table (map row_of ds), EXIT_SUCCESS) \<and>
    mset ds = mset (kernel_rows data n) \<and> sorted_wrt (\<lambda>a b. g_comparator c a b \<le> 0) ds"
proof -
  define m where "m = qsort data (unat n) SIZEOF_FN_DATA (on_bytes (g_comparator c))"
  note Q = qsort_correct[OF on_bytes_three_way[OF g_comparator_three_way[of c]] assms(5), folded m_def]
  let ?ds = "map fn_data_at (elems SIZEOF_FN_DATA (unat n) m)"
  have "print_function_table m (unat n) = map row_of ?ds"
    by (simp add: print_function_table_def elems_def)
  moreover have "mset ?ds = mset (kernel_rows data n)" using Q(2) by (simp add: kernel_rows_def)
  moreover have "sorted_wrt (\<lambda>a b. g_comparator c a b \<le> 0) ?ds"
    using Q(3) sorted_wrt_map[of "\<lambda>a b. g_comparator c a b \<le> 0" fn_data_at] by (simp add: on_bytes_def)
  ultimately show ?thesis using assms by (intro exI[of _ ?ds]) (simp add: profile_def m_def)
qed

text \<open>C31: the report of kprofile. For a report command and known options, with a device that
  answers, the program succeeds and its table has exactly the rows of the kernel, with the same
  multiplicities, in the order of the comparator the options chose.\<close>

theorem kprofile_report:
  assumes "parse_options opts by_ratio = Inr c"
    and "command = ''--functions'' \<and> num_op = DEVPROFILE_IOCTL_GET_NUM_FUNCTIONS \<and> get_op = DEVPROFILE_IOCTL_GET_FUNCTIONS \<or>
      command = ''--syscalls'' \<and> num_op = DEVPROFILE_IOCTL_GET_NUM_SYSCALLS \<and> get_op = DEVPROFILE_IOCTL_GET_SYSCALLS"
    and "dev_open dev" "dev_num dev num_op = Some n" "malloc_ok dev (DEVPROFILE_SIZEOF_FN_RES n)"
    and "dev_data dev get_op n = Some data" "length data = unat n * SIZEOF_FN_DATA"
  shows "\<exists>ds. kprofile_main dev (name # command # opts) = (Out_table (map row_of ds), EXIT_SUCCESS) \<and>
    mset ds = mset (kernel_rows data n) \<and> sorted_wrt (\<lambda>a b. g_comparator c a b \<le> 0) ds"
  using profile_table[OF assms(3-7), of c] assms(1,2)
  by (auto simp: kprofile_main_def profile_functions_def profile_syscalls_def)

text \<open>A device with two functions, the second called more often.\<close>

definition demo_row :: "8 word \<Rightarrow> byte list" where
  "demo_row calls = replicate 80 1 @ [calls] @ replicate 7 0"

definition demo_dev :: profdev where
  "demo_dev = \<lparr>dev_open = True, dev_num = (\<lambda>_. Some 2), dev_data = (\<lambda>_ _. Some (demo_row 3 @ demo_row 5)),
     malloc_ok = (\<lambda>_. True)\<rparr>"

theorem kprofile_report_witness:
  "\<exists>ds. kprofile_main demo_dev [''kprofile'', ''--functions'', ''--by-calls''] = (Out_table (map row_of ds), EXIT_SUCCESS) \<and>
     length ds = 2 \<and> sorted_wrt (\<lambda>a b. g_comparator by_calls a b \<le> 0) ds"
proof -
  have "\<exists>ds. kprofile_main demo_dev [''kprofile'', ''--functions'', ''--by-calls''] = (Out_table (map row_of ds), EXIT_SUCCESS) \<and>
      mset ds = mset (kernel_rows (demo_row 3 @ demo_row 5) 2) \<and>
      sorted_wrt (\<lambda>a b. g_comparator by_calls a b \<le> 0) ds"
    by (rule kprofile_report[where num_op = DEVPROFILE_IOCTL_GET_NUM_FUNCTIONS and get_op = DEVPROFILE_IOCTL_GET_FUNCTIONS])
      (simp_all add: demo_dev_def demo_row_def SIZEOF_FN_DATA_def)
  then obtain ds where ds: "kprofile_main demo_dev [''kprofile'', ''--functions'', ''--by-calls''] = (Out_table (map row_of ds), EXIT_SUCCESS)"
    "mset ds = mset (kernel_rows (demo_row 3 @ demo_row 5) 2)" "sorted_wrt (\<lambda>a b. g_comparator by_calls a b \<le> 0) ds"
    by blast
  from mset_eq_length[OF ds(2)] have "length ds = 2" by (simp add: kernel_rows_def)
  with ds show ?thesis by blast
qed

lemma f32_quotient_bounds:
  fixes c n :: rat
  assumes "0 \<le> c" "0 < n"
  shows "c / n * (1 - 1 / 2 ^ 22) \<le> f32_div (rnd32 c) (rnd32 n)"
    "f32_div (rnd32 c) (rnd32 n) \<le> c / n * (1 + 1 / 2 ^ 22)"
proof -
  let ?u = "1 / 2 ^ 24 :: rat"
  let ?C = "rnd32 c" and ?N = "rnd32 n" and ?r = "f32_div (rnd32 c) (rnd32 n)"
  have C: "c * (1 - ?u) \<le> ?C" "?C \<le> c * (1 + ?u)" and N: "n * (1 - ?u) \<le> ?N" "?N \<le> n * (1 + ?u)"
    using rnd32_bounds[of c] rnd32_bounds[of n] assms by auto
  have "0 \<le> c * (1 - ?u)" "0 < n * (1 - ?u)" using assms by simp_all
  then have C0: "0 \<le> ?C" and N0: "0 < ?N" using C(1) N(1) by linarith+
  have q: "c * (1 - ?u) / (n * (1 + ?u)) \<le> ?C / ?N" "?C / ?N \<le> c * (1 + ?u) / (n * (1 - ?u))"
    using C C0 N N0 assms by (intro frac_le; simp)+
  have "0 \<le> ?C / ?N" using C0 N0 by simp
  then have r: "?C / ?N * (1 - ?u) \<le> ?r" "?r \<le> ?C / ?N * (1 + ?u)"
    using rnd32_bounds[of "?C / ?N"] unfolding f32_div_def by auto
  have x0: "0 \<le> c / n" using assms by simp
  have "c / n * (1 - 1 / 2 ^ 22) \<le> c / n * ((1 - ?u) / (1 + ?u) * (1 - ?u))"
    using x0 by (intro mult_left_mono) (simp_all add: field_simps)
  also have "\<dots> = c * (1 - ?u) / (n * (1 + ?u)) * (1 - ?u)" by simp
  also have "\<dots> \<le> ?C / ?N * (1 - ?u)" using q(1) by (intro mult_right_mono) simp_all
  finally show "c / n * (1 - 1 / 2 ^ 22) \<le> ?r" using r(1) by linarith
  have "?C / ?N * (1 + ?u) \<le> c * (1 + ?u) / (n * (1 - ?u)) * (1 + ?u)"
    using q(2) by (intro mult_right_mono) simp_all
  also have "\<dots> = c / n * ((1 + ?u) / (1 - ?u) * (1 + ?u))" by simp
  also have "\<dots> \<le> c / n * (1 + 1 / 2 ^ 22)"
    using x0 by (intro mult_left_mono) (simp_all add: field_simps)
  finally show "?r \<le> c / n * (1 + 1 / 2 ^ 22)" using r(2) by linarith
qed

definition exact_ratio :: "devprofile_fn_data \<Rightarrow> rat" where
  "exact_ratio a = of_nat (unat (cpu_time_ns a)) / of_nat (unat (num_calls a))"

lemma fn_ratio_bounds:
  assumes "num_calls a \<noteq> 0"
  shows "exact_ratio a * (1 - 1 / 2 ^ 22) \<le> fn_ratio a" "fn_ratio a \<le> exact_ratio a * (1 + 1 / 2 ^ 22)"
proof -
  have "0 < unat (num_calls a)" using assms by (simp add: unat_gt_0 word_neq_0_conv)
  then have n: "(0 :: rat) < of_nat (unat (num_calls a))" by (simp only: of_nat_0_less_iff)
  have c: "(0 :: rat) \<le> of_nat (unat (cpu_time_ns a))" by (rule of_nat_0_le_iff)
  show "exact_ratio a * (1 - 1 / 2 ^ 22) \<le> fn_ratio a" "fn_ratio a \<le> exact_ratio a * (1 + 1 / 2 ^ 22)"
    unfolding exact_ratio_def fn_ratio_def f32_of_u64_def by (rule f32_quotient_bounds[OF c n])+
qed

lemma exact_ratio_nonneg: "0 \<le> exact_ratio a"
  unfolding exact_ratio_def by (intro divide_nonneg_nonneg of_nat_0_le_iff)

lemma margin: "0 \<le> (y :: rat) \<Longrightarrow> y * (1 + 1 / 2 ^ 22) \<le> (y * (1 + 1 / 2 ^ 20)) * (1 - 1 / 2 ^ 22)"
  by (simp add: field_simps)

text \<open>The ratio comparator is right up to rounding. If the exact CPU time per call of one row
  exceeds that of another by more than one part in \<open>2 ^ 20\<close>, the comparator puts it first,
  although it divides rounded single-precision numbers.\<close>

theorem comparator_ratio_accuracy:
  assumes "num_calls a \<noteq> 0" "num_calls b \<noteq> 0"
    and "exact_ratio b * (1 + 1 / 2 ^ 20) < exact_ratio a"
  shows "comparator_ratio a b = - 1 \<and> comparator_ratio b a = 1"
proof -
  have "fn_ratio b \<le> exact_ratio b * (1 + 1 / 2 ^ 22)" by (rule fn_ratio_bounds(2)[OF assms(2)])
  also have "\<dots> \<le> (exact_ratio b * (1 + 1 / 2 ^ 20)) * (1 - 1 / 2 ^ 22)"
    by (rule margin[OF exact_ratio_nonneg])
  also have "\<dots> < exact_ratio a * (1 - 1 / 2 ^ 22)"
    using assms(3) by (intro mult_strict_right_mono) simp_all
  also have "\<dots> \<le> fn_ratio a" by (rule fn_ratio_bounds(1)[OF assms(1)])
  finally show ?thesis using assms(1,2) by (simp add: comparator_ratio_def)
qed

definition ratio_row :: "u64 \<Rightarrow> u64 \<Rightarrow> devprofile_fn_data" where
  "ratio_row t n = \<lparr>fn_name = [], real_time_ns = 0, cpu_time_ns = t, num_calls = n\<rparr>"

theorem comparator_ratio_accuracy_witness:
  "comparator_ratio (ratio_row 3000000000 3) (ratio_row 3000000000 4) = - 1"
  using comparator_ratio_accuracy[of "ratio_row 3000000000 3" "ratio_row 3000000000 4"]
  by (simp add: ratio_row_def exact_ratio_def)

text \<open>The comparator an option selects.\<close>

fun option_key :: "string \<Rightarrow> comparator option" where
  "option_key o1 = map_of [(''--by-real'', by_real), (''--by-cpu'', by_cpu), (''--by-calls'', by_calls), (''--by-ratio'', by_ratio)] o1"

lemma option_key_Some: "option_key o1 = Some c \<longleftrightarrow>
    (o1 = ''--by-real'' \<and> c = by_real) \<or> (o1 = ''--by-cpu'' \<and> c = by_cpu) \<or>
    (o1 = ''--by-calls'' \<and> c = by_calls) \<or> (o1 = ''--by-ratio'' \<and> c = by_ratio)"
  by auto

lemma option_key_None: "option_key o1 = None \<longleftrightarrow>
    o1 \<notin> {''--by-real'', ''--by-cpu'', ''--by-calls'', ''--by-ratio''}"
  by auto

lemma parse_options_known:
  "\<forall>o1\<in>set opts. option_key o1 \<noteq> None \<Longrightarrow>
     parse_options opts c = Inr (if opts = [] then c else the (option_key (last opts)))"
proof (induction opts arbitrary: c)
  case (Cons opt opts)
  then obtain k where k: "option_key opt = Some k" by auto
  then have "parse_options (opt # opts) c = parse_options opts k"
    unfolding option_key_Some by auto
  with Cons k show ?case by (simp del: option_key.simps)
qed simp

lemma parse_options_unknown:
  "\<forall>o1\<in>set pre. option_key o1 \<noteq> None \<Longrightarrow> option_key bad = None \<Longrightarrow>
     parse_options (pre @ bad # post) c = Inl bad"
proof (induction pre arbitrary: c)
  case Nil
  then show ?case by (auto simp: option_key_None simp del: option_key.simps)
next
  case (Cons o1 pre)
  then obtain k where k: "option_key o1 = Some k" by auto
  then have "parse_options (o1 # pre @ bad # post) c = parse_options (pre @ bad # post) k"
    unfolding option_key_Some by auto
  with Cons show ?case by (simp del: option_key.simps)
qed

text \<open>The options of kprofile. The last of the sorting options decides, \<open>--by-ratio\<close> without
  any; the first option that is not one of the four ends the program with status 1 and without
  touching the device, whatever the command.\<close>

theorem kprofile_options:
  assumes "\<forall>o1\<in>set pre. option_key o1 \<noteq> None"
  shows "parse_options pre by_ratio = Inr (if pre = [] then by_ratio else the (option_key (last pre))) \<and>
    (option_key bad = None \<longrightarrow>
      kprofile_main dev (name # command # pre @ bad # post) = (Out_unknown_option bad, EXIT_FAILURE))"
  using parse_options_known[OF assms] parse_options_unknown[OF assms, of bad post by_ratio]
  by (simp add: kprofile_main_def del: option_key.simps)

theorem kprofile_options_witness:
  "parse_options [''--by-cpu'', ''--by-real''] by_ratio = Inr by_real"
  using kprofile_options[of "[''--by-cpu'', ''--by-real'']"] by simp

end
