(* ===== verification/Mntent.thy ===== *)
theory Mntent
  imports Sysdeps
begin

text \<open>
  The mount table (\<open>mlibc-salernos/sysdeps/generic/mntent.cpp\<close>). A stream is its text, the position
  and the end-of-file flag; reading never fails otherwise, and a given line buffer has at least one
  byte. \<open>getline\<close>, \<open>fgets\<close> and the formats that the code gives to the \<open>scanf\<close> family are
  translated as the C standard defines them. An \<open>int\<close> has 32 bits. What \<open>%d\<close> stores for a number that does
  not fit is undefined in C; the parameter \<open>conv\<close> gives what the library stores for a number, and the standard says of it
  that a number that fits is stored as it is.
\<close>

subsection \<open>Streams\<close>

record stream =
  contents :: string
  position :: nat
  eof :: bool

definition rest_of :: "stream \<Rightarrow> string" where
  "rest_of f = drop (position f) (contents f)"

text \<open>A line with its newline, if it has one.\<close>

definition line_upto :: "string \<Rightarrow> string" where
  "line_upto s = takeWhile (\<lambda>c. c \<noteq> newline) s @ (if newline \<in> set s then [newline] else [])"

text \<open>\<open>getline\<close> (\<open>None\<close>) and \<open>fgets\<close> with a buffer of \<open>n\<close> bytes.\<close>

definition read_line :: "nat option \<Rightarrow> stream \<Rightarrow> string \<times> stream" where
  "read_line lim f =
     (let line = line_upto (rest_of f);
          got = (case lim of None \<Rightarrow> line | Some n \<Rightarrow> take (n - 1) line);
          hit_end = (newline \<notin> set got \<and> (case lim of None \<Rightarrow> True | Some n \<Rightarrow> length got < n - 1))
      in (got, f\<lparr>position := position f + length got, eof := eof f \<or> hit_end\<rparr>))"

text \<open>\<open>fscanf(f, "%*[^\n]%*[\n]")\<close>: the second part is tried only if the first matches something.\<close>

definition skip_line :: "stream \<Rightarrow> stream" where
  "skip_line f =
     (let a = takeWhile (\<lambda>c. c \<noteq> newline) (rest_of f);
          b = takeWhile (\<lambda>c. c = newline) (drop (length a) (rest_of f));
          k = (if a = [] then 0 else length a + length b)
      in f\<lparr>position := position f + k, eof := eof f \<or> k = length (rest_of f)\<rparr>)"

subsection \<open>The formats\<close>

definition skip_spaces :: "string \<Rightarrow> nat \<Rightarrow> nat" where
  "skip_spaces s p = p + length (takeWhile isspace (drop p s))"

definition skip_word :: "string \<Rightarrow> nat \<Rightarrow> nat" where
  "skip_word s p = p + length (takeWhile (\<lambda>c. \<not> isspace c) (drop p s))"

text \<open>\<open>k\<close> times \<open>" %n%*s%n"\<close>: the positions stored, and where the scan goes on, if every word was there.\<close>

fun scan_words :: "nat \<Rightarrow> string \<Rightarrow> nat \<Rightarrow> nat list \<times> nat option" where
  "scan_words 0 s p = ([], Some p)"
| "scan_words (Suc k) s p =
     (let a = skip_spaces s p; b = skip_word s a
      in if a = b then ([a], None) else (let (ns, q) = scan_words k s b in (a # b # ns, q)))"

definition digit_value :: "char \<Rightarrow> nat" where
  "digit_value c = of_char c - 48"

definition isdigit :: "char \<Rightarrow> bool" where
  "isdigit c \<longleftrightarrow> 48 \<le> (of_char c :: nat) \<and> (of_char c :: nat) \<le> 57"

definition digits_value :: "string \<Rightarrow> nat" where
  "digits_value cs = foldl (\<lambda>a c. a * 10 + digit_value c) 0 cs"

text \<open>\<open>" %d"\<close>: the value and where the scan goes on.\<close>

definition scan_int :: "string \<Rightarrow> nat \<Rightarrow> (int \<times> nat) option" where
  "scan_int s p =
     (let a = skip_spaces s p;
          sign = (a < length s \<and> s ! a \<in> {CHR 0x2B, CHR 0x2D});
          b = (if sign then Suc a else a);
          ds = takeWhile isdigit (drop b s)
      in if ds = [] then None
         else Some (if sign \<and> s ! a = CHR 0x2D then - int (digits_value ds) else int (digits_value ds), b + length ds))"

text \<open>The whole \<open>sscanf\<close>: the eight positions, which are the length where nothing was stored, and the two
  numbers, which keep the values \<open>freq\<close> and \<open>passno\<close> where nothing was stored.\<close>

definition scan_entry :: "(int \<Rightarrow> i32) \<Rightarrow> string \<Rightarrow> i32 \<Rightarrow> i32 \<Rightarrow> nat list \<times> i32 \<times> i32" where
  "scan_entry conv s freq passno =
     (let (ns, q) = scan_words 4 s 0;
          n = ns @ replicate (8 - length ns) (length s)
      in case q of None \<Rightarrow> (n, freq, passno)
         | Some p \<Rightarrow>
             (case scan_int s p of None \<Rightarrow> (n, freq, passno)
              | Some (x, p1) \<Rightarrow>
                  (case scan_int s p1 of None \<Rightarrow> (n, conv x, passno) | Some (y, p2) \<Rightarrow> (n, conv x, conv y))))"

subsection \<open>The code\<close>

record mntent =
  mnt_fsname :: string
  mnt_dir :: string
  mnt_type :: string
  mnt_opts :: string
  mnt_freq :: i32
  mnt_passno :: i32

text \<open>Where C leaves the outcome undefined: a line whose length does not fit the \<open>int\<close>s that \<open>%n\<close> stores. The
  guard of the code, \<open>len > INT_MAX\<close>, compares an \<open>int\<close> and is never true.\<close>

datatype mnt_result = Mnt_end | Mnt_erange | Mnt_entry mntent | Mnt_undefined

definition c_str :: "string \<Rightarrow> nat \<Rightarrow> string" where
  "c_str b p = takeWhile (\<lambda>c. c \<noteq> nul) (drop p b)"

text \<open>The stores of NUL behind the fields, and the entry whose strings point into the buffer.\<close>

definition cut_fields :: "string \<Rightarrow> nat list \<Rightarrow> string" where
  "cut_fields s n = (s @ [nul])[n ! 1 := nul, n ! 3 := nul, n ! 5 := nul, n ! 7 := nul]"

definition entry_of :: "string \<Rightarrow> nat list \<times> i32 \<times> i32 \<Rightarrow> mntent" where
  "entry_of s r =
     (let (n, freq, passno) = r; b = cut_fields s n
      in \<lparr>mnt_fsname = c_str b (n ! 0), mnt_dir = c_str b (n ! 2), mnt_type = c_str b (n ! 4),
          mnt_opts = c_str b (n ! 6), mnt_freq = freq, mnt_passno = passno\<rparr>)"

text \<open>A line is skipped if its first word begins with \<open>#\<close> or is not there.\<close>

definition skipped :: "string \<Rightarrow> nat list \<Rightarrow> bool" where
  "skipped s n \<longleftrightarrow> peek s (n ! 0) = CHR 0x23 \<or> n ! 1 = length s"

lemma read_line_position:
  assumes "read_line lim f = (line, f')" "\<not> eof f'" "newline \<in> set line"
  shows "position f < position f'" "position f < length (contents f)" "contents f' = contents f"
proof -
  have l: "line = (case lim of None \<Rightarrow> line_upto (rest_of f) | Some n \<Rightarrow> take (n - 1) (line_upto (rest_of f)))"
    "f' = f\<lparr>position := position f + length line, eof := eof f'\<rparr>"
    using assms(1) by (auto simp: read_line_def Let_def split: option.splits)
  have "line \<noteq> []" using assms(3) by auto
  then show "position f < position f'" "contents f' = contents f" by (subst l(2), simp)+
  have "newline \<in> set (rest_of f)"
    using assms(3) l(1) by (auto simp: line_upto_def dest: in_set_takeD set_takeWhileD split: option.splits if_splits)
  then show "position f < length (contents f)" by (auto simp: rest_of_def not_le[symmetric])
qed

function getmntent_loop ::
    "(int \<Rightarrow> i32) \<Rightarrow> nat option \<Rightarrow> i32 \<Rightarrow> i32 \<Rightarrow> stream \<Rightarrow> mnt_result \<times> stream" where
  "getmntent_loop conv lim freq passno f =
     (let (line, f1) = read_line lim f; s = c_str line 0
      in if eof f1 then (Mnt_end, f1)
         else if newline \<notin> set s then (Mnt_erange, skip_line f1)
         else if INT_MAX < int (length s) then (Mnt_undefined, f1)
         else
           (let r = scan_entry conv s freq passno
            in if skipped s (fst r) then getmntent_loop conv lim (fst (snd r)) (snd (snd r)) f1
               else (Mnt_entry (entry_of s r), f1)))"
  by pat_completeness auto
termination
proof (relation "measure (\<lambda>(conv, lim, freq, passno, f). length (contents f) - position f)", goal_cases)
  case (2 conv lim freq passno f x line f1 s r)
  then have "newline \<in> set line" by (auto simp: c_str_def dest: set_takeWhileD)
  with 2 read_line_position[of lim f line f1] show ?case by auto
qed simp

declare getmntent_loop.simps [simp del]

definition getmntent_r :: "(int \<Rightarrow> i32) \<Rightarrow> nat option \<Rightarrow> stream \<Rightarrow> mnt_result \<times> stream" where
  "getmntent_r conv lim f = getmntent_loop conv lim 0 0 f"

definition getmntent :: "(int \<Rightarrow> i32) \<Rightarrow> stream \<Rightarrow> mnt_result \<times> stream" where
  "getmntent conv f = getmntent_r conv None f"

definition setmntent :: "(string \<Rightarrow> string \<Rightarrow> stream option) \<Rightarrow> string \<Rightarrow> string \<Rightarrow> stream option" where
  "setmntent fopen name mode = fopen name mode"

definition endmntent :: "('f \<Rightarrow> 's \<Rightarrow> 's) \<Rightarrow> 'f option \<Rightarrow> 's \<Rightarrow> int \<times> 's" where
  "endmntent fclose f s = (1, case f of None \<Rightarrow> s | Some g \<Rightarrow> fclose g s)"

definition tab_char :: char where "tab_char = CHR 0x09"

definition print_entry :: "mntent \<Rightarrow> string" where
  "print_entry m =
     mnt_fsname m @ [tab_char] @ mnt_dir m @ [tab_char] @ mnt_type m @ [tab_char] @ mnt_opts m @ [tab_char] @
     print_int (sint (mnt_freq m)) @ [tab_char] @ print_int (sint (mnt_passno m)) @ [newline]"

text \<open>How the two calls of \<open>addmntent\<close> end: \<open>fseek\<close> fails, \<open>fprintf\<close> fails after some bytes, or all is written.\<close>

datatype write_result = Seek_fails | Print_fails nat | Printed

definition append_text :: "string \<Rightarrow> stream \<Rightarrow> stream" where
  "append_text x f = f\<lparr>contents := contents f @ x, position := length (contents f @ x), eof := False\<rparr>"

definition addmntent :: "write_result \<Rightarrow> stream \<Rightarrow> mntent \<Rightarrow> int \<times> stream" where
  "addmntent w f m =
     (case w of
        Seek_fails \<Rightarrow> (1, f)
      | Print_fails k \<Rightarrow> (1, append_text (take k (print_entry m)) f)
      | Printed \<Rightarrow> (0, append_text (print_entry m) f))"

text \<open>\<open>strstr\<close>: the first position at which \<open>opt\<close> occurs.\<close>

fun strstr :: "string \<Rightarrow> string \<Rightarrow> nat option" where
  "strstr [] t = (if t = [] then Some 0 else None)"
| "strstr (c # s) t = (if take (length t) (c # s) = t then Some 0 else map_option Suc (strstr s t))"

definition hasmntopt :: "mntent \<Rightarrow> string \<Rightarrow> nat option" where
  "hasmntopt m opt = strstr (mnt_opts m) opt"

subsection \<open>The words of a line\<close>

text \<open>The reference: the fields of a line without positions and stores. \<open>old\<close> are the values of the two
  numbers before the line.\<close>

definition word_of :: "string \<Rightarrow> string" where
  "word_of s = takeWhile (\<lambda>c. \<not> isspace c) (dropWhile isspace s)"

definition after_word :: "string \<Rightarrow> string" where
  "after_word s = dropWhile (\<lambda>c. \<not> isspace c) (dropWhile isspace s)"

definition text_int :: "string \<Rightarrow> (int \<times> string) option" where
  "text_int t =
     (let u = dropWhile isspace t;
          v = (if chd u \<in> {CHR 0x2B, CHR 0x2D} then tl u else u);
          n = int (digits_value (takeWhile isdigit v))
      in if takeWhile isdigit v = [] then None
         else Some (if chd u = CHR 0x2D then - n else n, dropWhile isdigit v))"

definition text_numbers :: "(int \<Rightarrow> i32) \<Rightarrow> string \<Rightarrow> i32 \<times> i32 \<Rightarrow> i32 \<times> i32" where
  "text_numbers conv t old =
     (case text_int t of None \<Rightarrow> old
      | Some (x, t1) \<Rightarrow> (case text_int t1 of None \<Rightarrow> (conv x, snd old) | Some (y, _) \<Rightarrow> (conv x, conv y)))"

definition line_numbers :: "(int \<Rightarrow> i32) \<Rightarrow> string \<Rightarrow> i32 \<times> i32 \<Rightarrow> i32 \<times> i32" where
  "line_numbers conv s = text_numbers conv ((after_word ^^ 4) s)"

definition line_entry :: "(int \<Rightarrow> i32) \<Rightarrow> string \<Rightarrow> i32 \<times> i32 \<Rightarrow> mntent" where
  "line_entry conv s old =
     \<lparr>mnt_fsname = word_of s, mnt_dir = word_of (after_word s), mnt_type = word_of ((after_word ^^ 2) s),
      mnt_opts = word_of ((after_word ^^ 3) s), mnt_freq = fst (line_numbers conv s old),
      mnt_passno = snd (line_numbers conv s old)\<rparr>"

definition line_skipped :: "string \<Rightarrow> bool" where
  "line_skipped s \<longleftrightarrow> word_of s = [] \<or> hd (word_of s) = CHR 0x23"

text \<open>The positions of the words, and that the scan stores them, those it does not reach included.\<close>

fun word_positions :: "nat \<Rightarrow> string \<Rightarrow> nat \<Rightarrow> nat list" where
  "word_positions 0 s p = []"
| "word_positions (Suc k) s p =
     (let a = skip_spaces s p; b = skip_word s a in a # b # word_positions k s b)"

lemma drop_skip_spaces: "drop (skip_spaces s p) s = dropWhile isspace (drop p s)"
  by (simp add: skip_spaces_def dropWhile_eq_drop add.commute)

lemma drop_skip_word: "drop (skip_word s p) s = dropWhile (\<lambda>c. \<not> isspace c) (drop p s)"
  by (simp add: skip_word_def dropWhile_eq_drop add.commute)

lemma skip_le:
  "p \<le> skip_spaces s p" "p \<le> skip_word s p"
  "p \<le> length s \<Longrightarrow> skip_spaces s p \<le> length s" "p \<le> length s \<Longrightarrow> skip_word s p \<le> length s"
  using length_takeWhile_le[of isspace "drop p s"] length_takeWhile_le[of "\<lambda>c. \<not> isspace c" "drop p s"]
  by (auto simp: skip_spaces_def skip_word_def)

lemma drop_words:
  "drop (skip_word s (skip_spaces s p)) s = after_word (drop p s)"
  "take (skip_word s (skip_spaces s p) - skip_spaces s p) (drop (skip_spaces s p) s) = word_of (drop p s)"
  by (simp_all add: drop_skip_word drop_skip_spaces after_word_def word_of_def)
    (simp add: skip_word_def drop_skip_spaces flip: takeWhile_eq_take)

text \<open>An empty word is at the end of the line.\<close>

lemma skip_word_stuck:
  assumes "p \<le> length s" "skip_word s (skip_spaces s p) = skip_spaces s p"
  shows "skip_spaces s p = length s"
proof -
  have "takeWhile (\<lambda>c. \<not> isspace c) (dropWhile isspace (drop p s)) = []"
    using assms(2) by (simp add: skip_word_def drop_skip_spaces)
  then have "dropWhile isspace (drop p s) = []"
    using hd_dropWhile[of isspace "drop p s"] by (cases "dropWhile isspace (drop p s)") (auto simp: dropWhile_eq_Nil_conv)
  then have "length s \<le> skip_spaces s p" by (simp flip: drop_skip_spaces)
  with skip_le(3)[OF assms(1)] show ?thesis by simp
qed

lemma word_positions_end: "word_positions k s (length s) = replicate (2 * k) (length s)"
  by (induction k) (simp_all add: skip_spaces_def skip_word_def Let_def)

lemma scan_words_positions:
  assumes "p \<le> length s" "scan_words k s p = (ns, q)"
  shows "ns @ replicate (2 * k - length ns) (length s) = word_positions k s p \<and>
    drop (case q of None \<Rightarrow> length s | Some e \<Rightarrow> e) s = (after_word ^^ k) (drop p s) \<and>
    (case q of None \<Rightarrow> length s | Some e \<Rightarrow> e) \<le> length s"
  using assms
proof (induction k arbitrary: p ns q)
  case (Suc k)
  define a where "a = skip_spaces s p"
  define b where "b = skip_word s a"
  have ab: "a \<le> length s" "b \<le> length s"
    using skip_le(3)[OF Suc.prems(1)] skip_le(4)[of a s] by (simp_all add: a_def b_def)
  have db: "drop b s = after_word (drop p s)" by (simp add: a_def b_def drop_words)
  show ?case
  proof (cases "a = b")
    case True
    then have "a = length s" using skip_word_stuck[OF Suc.prems(1)] by (simp add: a_def b_def)
    moreover have "(after_word ^^ k) [] = []" by (induction k) (simp_all add: after_word_def)
    ultimately show ?thesis using Suc.prems(2) True db
      by (auto simp: a_def b_def Let_def word_positions_end funpow_Suc_right simp del: funpow.simps(2))
  next
    case False
    obtain ns' where "scan_words k s b = (ns', q)" "ns = a # b # ns'"
      using Suc.prems(2) False by (auto simp: a_def b_def Let_def split: prod.splits)
    with Suc.IH[OF ab(2)] show ?thesis
      by (auto simp: a_def b_def drop_words Let_def funpow_Suc_right simp del: funpow.simps(2))
  qed
qed simp

lemma scan_int_text:
  assumes "p \<le> length s"
  shows "map_option (\<lambda>(x, e). (x, drop e s)) (scan_int s p) = text_int (drop p s)"
    "scan_int s p = Some (x, e) \<Longrightarrow> e \<le> length s"
proof -
  define a where "a = skip_spaces s p"
  have a: "drop a s = dropWhile isspace (drop p s)" "a \<le> length s"
    using skip_le(3)[OF assms] by (simp_all add: a_def drop_skip_spaces)
  define sign where "sign \<longleftrightarrow> a < length s \<and> s ! a \<in> {CHR 0x2B, CHR 0x2D}"
  define b where "b = (if sign then Suc a else a)"
  have c: "chd (drop a s) = (if a < length s then s ! a else nul)" by (auto simp: Cons_nth_drop_Suc[symmetric])
  then have sg: "chd (drop a s) \<in> {CHR 0x2B, CHR 0x2D} \<longleftrightarrow> sign"
    and mn: "chd (drop a s) = CHR 0x2D \<longleftrightarrow> sign \<and> s ! a = CHR 0x2D" by (auto simp: sign_def nul_def)
  have v: "(if sign then tl (drop a s) else drop a s) = drop b s" by (simp add: b_def drop_Suc tl_drop)
  have d: "drop (b + length (takeWhile isdigit (drop b s))) s = dropWhile isdigit (drop b s)"
    by (simp add: dropWhile_eq_drop add.commute)
  have l: "b + length (takeWhile isdigit (drop b s)) \<le> length s"
    using length_takeWhile_le[of isdigit "drop b s"] a(2) by (auto simp: b_def sign_def)
  show "map_option (\<lambda>(x, e). (x, drop e s)) (scan_int s p) = text_int (drop p s)"
    unfolding text_int_def Let_def a(1)[symmetric] sg mn v
    unfolding scan_int_def Let_def a_def[symmetric] unfolding sign_def[symmetric] unfolding b_def[symmetric]
    by (simp add: d)
  show "scan_int s p = Some (x, e) \<Longrightarrow> e \<le> length s"
    unfolding scan_int_def Let_def a_def[symmetric] unfolding sign_def[symmetric] unfolding b_def[symmetric]
    using l by (auto split: if_splits)
qed

lemma scan_entry_words:
  "scan_entry conv s freq passno = (word_positions 4 s 0, line_numbers conv s (freq, passno))"
proof -
  obtain ns q where sw: "scan_words 4 s 0 = (ns, q)" by fastforce
  define e where "e = (case q of None \<Rightarrow> length s | Some e \<Rightarrow> e)"
  from scan_words_positions[OF _ sw]
  have n: "ns @ replicate (8 - length ns) (length s) = word_positions 4 s 0"
    and d: "drop e s = (after_word ^^ 4) s" and e: "e \<le> length s" by (auto simp: e_def)
  show ?thesis
  proof (cases q)
    case None
    then have "(after_word ^^ 4) s = []" using d by (simp add: e_def)
    with None n sw show ?thesis
      by (simp add: scan_entry_def line_numbers_def text_numbers_def text_int_def chd_def)
  next
    case (Some p)
    then have p: "(after_word ^^ 4) s = drop p s" "p \<le> length s" using d e by (simp_all add: e_def)
    show ?thesis
    proof (cases "scan_int s p")
      case None
      then show ?thesis using n sw Some scan_int_text(1)[OF p(2)]
        by (simp add: scan_entry_def line_numbers_def text_numbers_def p(1))
    next
      case (Some r)
      obtain x p1 where r: "r = (x, p1)" by fastforce
      have "p1 \<le> length s" using scan_int_text(2)[OF p(2)] Some r by simp
      from scan_int_text(1)[OF p(2), symmetric] scan_int_text(1)[OF this, symmetric] show ?thesis
        using n sw \<open>q = Some p\<close> Some r
        by (auto simp: scan_entry_def line_numbers_def text_numbers_def p(1) split: option.splits)
    qed
  qed
qed

text \<open>A string in the buffer, when the byte behind it is the first NUL.\<close>

lemma c_str_field:
  assumes "length b = Suc (length s)" "e \<le> length s" "b ! e = nul" "nul \<notin> set s"
    "\<And>j. a \<le> j \<Longrightarrow> j < e \<Longrightarrow> b ! j = s ! j" "a \<le> e"
  shows "c_str b a = take (e - a) (drop a s)"
proof -
  have "take (e - a) (drop a b) = take (e - a) (drop a s)"
    using assms by (auto intro!: nth_equalityI)
  moreover have "drop a b = take (e - a) (drop a b) @ nul # drop (Suc e) b"
    using assms(1-3,6) id_take_nth_drop[of "e - a" "drop a b"] by simp
  moreover have "nul \<notin> set (take (e - a) (drop a s))" using assms(4) by (auto dest: in_set_takeD in_set_dropD)
  ultimately have "drop a b = take (e - a) (drop a s) @ nul # drop (Suc e) b"
    "\<forall>c\<in>set (take (e - a) (drop a s)). c \<noteq> nul" by auto
  then show ?thesis by (simp only: c_str_def) (simp add: takeWhile_append)
qed

text \<open>The stores do not hit a field: they are on a space or the end of the line.\<close>

lemma word_end_space: "skip_word s a < length s \<Longrightarrow> isspace (s ! skip_word s a)"
  using hd_dropWhile[of "\<lambda>c. \<not> isspace c" "drop a s"]
  by (simp add: hd_drop_conv_nth flip: drop_skip_word)

lemma in_word:
  assumes "a \<le> j" "j < skip_word s a"
  shows "\<not> isspace (s ! j)"
proof -
  have "j - a < length (takeWhile (\<lambda>c. \<not> isspace c) (drop a s))" using assms by (simp add: skip_word_def)
  from nth_mem[OF this] takeWhile_nth[OF this] show ?thesis
    using assms(1) by (cases "a \<le> length s") (auto dest!: set_takeWhileD)
qed

lemma field_text:
  assumes "nul \<notin> set s" "p \<le> length s" "a = skip_spaces s p"
    "length b = Suc (length s)" "b ! skip_word s a = nul"
    "\<And>j. j < length s \<Longrightarrow> \<not> isspace (s ! j) \<Longrightarrow> b ! j = s ! j"
  shows "c_str b a = word_of (drop p s)"
proof -
  have "skip_word s a \<le> length s" using skip_le(3,4) assms(2,3) by blast
  moreover have "b ! j = s ! j" if "a \<le> j" "j < skip_word s a" for j
    using assms(6)[of j] in_word[OF that] that(2) calculation by simp
  ultimately show ?thesis
    using c_str_field[of b s "skip_word s a" a] assms drop_words(2)[of s p] skip_le(2)[of a s] by simp
qed

lemma entry_of_line:
  assumes "nul \<notin> set s"
  shows "entry_of s (scan_entry conv s freq passno) = line_entry conv s (freq, passno)"
    "s \<noteq> [] \<Longrightarrow> isspace (last s) \<Longrightarrow> skipped s (fst (scan_entry conv s freq passno)) \<longleftrightarrow> line_skipped s"
proof -
  define a0 where "a0 = skip_spaces s 0"
  define b0 where "b0 = skip_word s a0"
  define a1 where "a1 = skip_spaces s b0"
  define b1 where "b1 = skip_word s a1"
  define a2 where "a2 = skip_spaces s b1"
  define b2 where "b2 = skip_word s a2"
  define a3 where "a3 = skip_spaces s b2"
  define b3 where "b3 = skip_word s a3"
  have n: "word_positions 4 s 0 = [a0, b0, a1, b1, a2, b2, a3, b3]"
    by (simp add: eval_nat_numeral Let_def a0_def b0_def a1_def b1_def a2_def b2_def a3_def b3_def)
  have le: "b0 \<le> length s" "b1 \<le> length s" "b2 \<le> length s" "b3 \<le> length s"
    unfolding b0_def a1_def b1_def a2_def b2_def a3_def b3_def a0_def by (meson le0 skip_le)+
  have sp: "isspace (s ! b)" if "b \<in> {b0, b1, b2, b3}" "b < length s" for b
    using that word_end_space by (auto simp: b0_def b1_def b2_def b3_def)
  define b where "b = cut_fields s [a0, b0, a1, b1, a2, b2, a3, b3]"
  have b: "length b = Suc (length s)" "b ! b0 = nul" "b ! b1 = nul" "b ! b2 = nul" "b ! b3 = nul"
    using le by (auto simp: b_def cut_fields_def nth_list_update)
  have bs: "b ! j = s ! j" if "j < length s" "\<not> isspace (s ! j)" for j
  proof -
    have "j \<noteq> b0" "j \<noteq> b1" "j \<noteq> b2" "j \<noteq> b3" using that sp[of j] by auto
    with that(1) show ?thesis by (simp add: b_def cut_fields_def nth_append)
  qed
  have d: "drop b0 s = after_word s" "drop b1 s = (after_word ^^ 2) s" "drop b2 s = (after_word ^^ 3) s"
    using drop_words(1)[of s 0] drop_words(1)[of s b0] drop_words(1)[of s b1]
    by (simp_all add: a0_def b0_def a1_def b1_def a2_def b2_def eval_nat_numeral)
  have f: "c_str b a0 = word_of s" "c_str b a1 = word_of (after_word s)"
    "c_str b a2 = word_of ((after_word ^^ 2) s)" "c_str b a3 = word_of ((after_word ^^ 3) s)"
    using field_text[OF assms _ a0_def b(1) _ bs] field_text[OF assms le(1) a1_def b(1) _ bs]
      field_text[OF assms le(2) a2_def b(1) _ bs] field_text[OF assms le(3) a3_def b(1) _ bs] b
    by (simp_all add: d flip: b0_def b1_def b2_def b3_def)
  then show "entry_of s (scan_entry conv s freq passno) = line_entry conv s (freq, passno)"
    by (simp add: scan_entry_words entry_of_def line_entry_def n Let_def flip: b_def split: prod.splits)
  have w: "word_of s = take (b0 - a0) (drop a0 s)" using drop_words(2)[of s 0] by (simp add: a0_def b0_def)
  assume ends: "s \<noteq> []" "isspace (last s)"
  show "skipped s (fst (scan_entry conv s freq passno)) \<longleftrightarrow> line_skipped s"
  proof (cases "b0 = a0")
    case True
    then have "b0 = length s" using skip_word_stuck[of 0 s] by (simp add: a0_def b0_def)
    with True w show ?thesis by (simp add: skipped_def line_skipped_def scan_entry_words n)
  next
    case False
    then have a: "a0 < b0" using skip_le(2)[of a0 s] by (simp add: b0_def)
    have "b0 \<noteq> length s"
    proof
      assume "b0 = length s"
      with a have "\<not> isspace (s ! (length s - 1))" by (intro in_word[of a0]) (simp_all add: b0_def)
      with ends show False by (simp add: last_conv_nth)
    qed
    with a w le(1) show ?thesis
      by (auto simp: skipped_def line_skipped_def scan_entry_words n peek_def hd_drop_conv_nth)
  qed
qed

subsection \<open>Reading the lines of a stream\<close>

definition is_line :: "string \<Rightarrow> bool" where
  "is_line l \<longleftrightarrow> l \<noteq> [] \<and> last l = newline \<and> newline \<notin> set (butlast l) \<and> nul \<notin> set l \<and> int (length l) \<le> INT_MAX"

text \<open>The reference: the first line that is not skipped, and the lines behind it. The numbers of the
  skipped lines are the initial values of the next.\<close>

fun first_entry :: "(int \<Rightarrow> i32) \<Rightarrow> string list \<Rightarrow> i32 \<times> i32 \<Rightarrow> (mntent \<times> string list) option" where
  "first_entry conv [] old = None"
| "first_entry conv (l # ls) old =
     (if line_skipped l then first_entry conv ls (line_numbers conv l old) else Some (line_entry conv l old, ls))"

definition fits :: "nat option \<Rightarrow> string \<Rightarrow> bool" where
  "fits lim l \<longleftrightarrow> (case lim of None \<Rightarrow> True | Some n \<Rightarrow> length l < n)"

lemma is_line_obtain:
  assumes "is_line l"
  obtains x where "l = x @ [newline]" "newline \<notin> set x" "nul \<notin> set l"
  using assms that[of "butlast l"] append_butlast_last_id[of l] by (metis is_line_def)

lemma read_line_line:
  assumes "is_line l" "fits lim l" "rest_of f = l @ t" "\<not> eof f"
  shows "read_line lim f = (l, f\<lparr>position := position f + length l\<rparr>)"
proof -
  obtain x where x: "l = x @ [newline]" "newline \<notin> set x" by (rule is_line_obtain[OF assms(1)])
  then have "line_upto (rest_of f) = l" by (auto simp: assms(3) line_upto_def takeWhile_append)
  with x assms(2,4) show ?thesis
    by (auto simp: read_line_def Let_def fits_def split: option.splits)
qed

lemma read_line_tail:
  assumes "newline \<notin> set (rest_of f)" "fits lim (newline # rest_of f)"
  shows "eof (snd (read_line lim f))"
proof -
  have "line_upto (rest_of f) = rest_of f" using assms(1) by (auto simp: line_upto_def takeWhile_eq_all_conv)
  with assms show ?thesis by (auto simp: read_line_def Let_def fits_def split: option.splits)
qed

lemma c_str_line: "is_line l \<Longrightarrow> c_str l 0 = l"
  by (auto simp: is_line_def c_str_def takeWhile_eq_all_conv)

lemma getmntent_loop_lines:
  assumes "rest_of f = concat ls @ tail" "\<forall>l\<in>set ls. is_line l \<and> fits lim l" "newline \<notin> set tail"
    "fits lim (newline # tail)" "\<not> eof f"
  shows "case first_entry conv ls (freq, passno) of
      None \<Rightarrow> fst (getmntent_loop conv lim freq passno f) = Mnt_end
    | Some (m, ls') \<Rightarrow>
        (\<exists>f'. getmntent_loop conv lim freq passno f = (Mnt_entry m, f') \<and> rest_of f' = concat ls' @ tail \<and>
          contents f' = contents f \<and> \<not> eof f')"
  using assms(1,2,5)
proof (induction ls arbitrary: f freq passno)
  case Nil
  with read_line_tail[of f lim] assms(3,4) show ?case
    by (subst getmntent_loop.simps) (auto simp: Let_def split: prod.splits)
next
  case (Cons l ls)
  define f1 where "f1 = f\<lparr>position := position f + length l\<rparr>"
  have l: "is_line l" "fits lim l" using Cons.prems(2) by auto
  then have rl: "read_line lim f = (l, f1)" using Cons.prems(1,3) by (simp add: read_line_line f1_def)
  have nl: "nul \<notin> set l" "newline \<in> set l" "isspace (last l)" "l \<noteq> []"
    and short: "\<not> INT_MAX < int (length l)"
    using l(1) last_in_set[of l] by (auto simp: is_line_def)
  have "drop (length l) (rest_of f) = concat ls @ tail" using Cons.prems(1) by simp
  then have f1: "rest_of f1 = concat ls @ tail" "contents f1 = contents f" "\<not> eof f1"
    using Cons.prems(3) by (simp_all add: rest_of_def f1_def add.commute)
  have step: "getmntent_loop conv lim freq passno f =
      (if line_skipped l then getmntent_loop conv lim (fst (line_numbers conv l (freq, passno))) (snd (line_numbers conv l (freq, passno))) f1
       else (Mnt_entry (line_entry conv l (freq, passno)), f1))"
    using f1(3) nl short entry_of_line[OF nl(1)]
    by (subst getmntent_loop.simps) (simp add: rl c_str_line[OF l(1)], simp add: scan_entry_words)
  show ?case
  proof (cases "line_skipped l")
    case True
    have "\<forall>l\<in>set ls. is_line l \<and> fits lim l" using Cons.prems(2) by simp
    moreover obtain a b where ab: "line_numbers conv l (freq, passno) = (a, b)" by fastforce
    moreover have "getmntent_loop conv lim freq passno f = getmntent_loop conv lim a b f1" unfolding step by (simp add: True ab)
    ultimately show ?thesis
      using Cons.IH[OF f1(1) _ f1(3), where freq = a and passno = b] by (simp only: f1(2) first_entry.simps True if_True)
  next
    case False
    with f1 show ?thesis by (simp add: step)
  qed
qed

text \<open>C19: what \<open>getmntent\<close> and \<open>getmntent_r\<close> read. On a stream whose next bytes are the lines \<open>ls\<close>, each with its
  newline, without NUL, of a length that fits an \<open>int\<close> and shorter than the caller's buffer (no bound for \<open>getmntent\<close>),
  and a rest without newline, the result is that of the reference on words: the first line that has a word and does not
  begin with \<open>#\<close>, its first four words and its two numbers as 32-bit integers, those that do not fit as the library
  converts them, and the stream is then behind that line. If there is none the result is the null pointer; a last line
  without newline is never read.\<close>

theorem getmntent_words:
  assumes "rest_of f = concat ls @ tail" "\<forall>l\<in>set ls. is_line l \<and> fits lim l" "newline \<notin> set tail"
    "fits lim (newline # tail)" "\<not> eof f"
  shows "case first_entry conv ls (0, 0) of
      None \<Rightarrow> fst (getmntent_r conv lim f) = Mnt_end
    | Some (m, ls') \<Rightarrow>
        (\<exists>f'. getmntent_r conv lim f = (Mnt_entry m, f') \<and> rest_of f' = concat ls' @ tail \<and>
          contents f' = contents f \<and> \<not> eof f')"
  unfolding getmntent_r_def by (rule getmntent_loop_lines[OF assms])

definition mtab_line1 :: string where "mtab_line1 = ''# a comment'' @ [newline]"
definition mtab_line2 :: string where "mtab_line2 = '' /dev/sda1 /  ext4 rw,ro 1 -2'' @ [newline]"

theorem getmntent_words_witness:
  "\<exists>f'. getmntent_r word_of_int (Some 40) \<lparr>contents = mtab_line1 @ mtab_line2 @ ''x'', position = 0, eof = False\<rparr> =
       (Mnt_entry \<lparr>mnt_fsname = ''/dev/sda1'', mnt_dir = ''/'', mnt_type = ''ext4'', mnt_opts = ''rw,ro'',
                   mnt_freq = 1, mnt_passno = - 2\<rparr>, f') \<and> rest_of f' = ''x''"
proof -
  have e: "first_entry word_of_int [mtab_line1, mtab_line2] (0, 0) =
      Some (\<lparr>mnt_fsname = ''/dev/sda1'', mnt_dir = ''/'', mnt_type = ''ext4'', mnt_opts = ''rw,ro'',
             mnt_freq = 1, mnt_passno = - 2\<rparr>, [])" by code_simp
  have l: "is_line mtab_line1 \<and> fits (Some 40) mtab_line1" "is_line mtab_line2 \<and> fits (Some 40) mtab_line2"
    "newline \<notin> set ''x'' \<and> fits (Some 40) (newline # ''x'')" by code_simp+
  have r: "rest_of \<lparr>contents = mtab_line1 @ mtab_line2 @ ''x'', position = 0, eof = False\<rparr> =
      concat [mtab_line1, mtab_line2] @ ''x''" by (simp add: rest_of_def)
  show ?thesis using getmntent_words[OF r, of "Some 40" word_of_int] l by (simp add: e del: first_entry.simps) blast
qed

subsection \<open>Round trip\<close>

definition word_char :: "char \<Rightarrow> bool" where
  "word_char c \<longleftrightarrow> \<not> isspace c \<and> c \<noteq> nul"

text \<open>The entries that \<open>addmntent\<close> can write: fields are nonempty words, the first is no comment, and the
  line is not too long to be read.\<close>

definition writable_entry :: "mntent \<Rightarrow> bool" where
  "writable_entry m \<longleftrightarrow>
     (\<forall>w\<in>set [mnt_fsname m, mnt_dir m, mnt_type m, mnt_opts m]. w \<noteq> [] \<and> list_all word_char w) \<and>
     hd (mnt_fsname m) \<noteq> CHR 0x23 \<and> int (length (print_entry m)) \<le> INT_MAX"

text \<open>What the standard says of \<open>%d\<close>.\<close>

definition converts :: "(int \<Rightarrow> i32) \<Rightarrow> bool" where
  "converts conv \<longleftrightarrow> (\<forall>x. - (2 ^ 31) \<le> x \<and> x < 2 ^ 31 \<longrightarrow> conv x = word_of_int x)"

lemma converts_sint: "converts conv \<Longrightarrow> conv (sint (w :: i32)) = w"
  using sint_range_size[of w] by (simp add: converts_def word_size)

lemma word_field:
  assumes "w \<noteq> []" "list_all word_char w" "isspace c"
  shows "word_of (w @ c # t) = w" "after_word (w @ c # t) = c # t"
    "word_of (c # t) = word_of t" "after_word (c # t) = after_word t"
proof -
  obtain x w' where w: "w = x # w'" "\<not> isspace x" using assms(1,2) by (cases w) (auto simp: word_char_def)
  then have "dropWhile isspace (w @ c # t) = w @ c # t" by simp
  moreover have "\<forall>y\<in>set w. \<not> isspace y" using assms(2) by (auto simp: list_all_iff word_char_def)
  ultimately show "word_of (w @ c # t) = w" "after_word (w @ c # t) = c # t"
    using assms(3) by (simp_all add: word_of_def after_word_def takeWhile_append dropWhile_append)
qed (use assms(3) in \<open>simp_all add: word_of_def after_word_def\<close>)

lemma isspace_tab: "isspace tab_char"
  by (simp add: isspace_def tab_char_def)

lemma digit_code: "k < 10 \<Longrightarrow> of_char (digit k) = (48 + k :: nat)"
  by (simp add: digit_def take_bit_eq_mod)

lemma print_nat_digits: "list_all isdigit (print_nat n) \<and> print_nat n \<noteq> []"
proof (induction n rule: print_nat.induct)
  case (1 n)
  moreover have "isdigit (digit k)" if "k < 10" for k using that by (simp add: isdigit_def digit_code)
  ultimately show ?case by (subst (1 2) print_nat.simps) auto
qed

lemma isdigit_no_space: "isdigit c \<Longrightarrow> \<not> isspace c \<and> c \<noteq> nul \<and> c \<noteq> CHR 0x2B \<and> c \<noteq> CHR 0x2D"
  by (auto simp: isdigit_def isspace_def nul_def)

lemma digits_value_print: "digits_value (print_nat n) = n"
  using read_print_nat[of n] by (simp add: digits_value_def digit_value_def)

text \<open>Reading a printed number back, behind a space and before a byte that is not a digit.\<close>

lemma text_int_print:
  assumes "isspace c" "isspace c'"
  shows "text_int (c # print_int i @ c' # t) = Some (i, c' # t)"
proof -
  define ds where "ds = print_nat (nat \<bar>i\<bar>)"
  have d: "\<forall>x\<in>set ds. isdigit x" "ds \<noteq> []" "digits_value ds = nat \<bar>i\<bar>"
    using print_nat_digits digits_value_print by (auto simp: ds_def list_all_iff)
  then obtain x ds' where x: "ds = x # ds'" "isdigit x" by (cases ds) auto
  have "\<not> isdigit c'" using assms(2) isdigit_no_space by blast
  then have tk: "takeWhile isdigit (ds @ c' # t) = ds" "dropWhile isdigit (ds @ c' # t) = c' # t"
    using d(1) by (simp_all add: takeWhile_append dropWhile_append)
  have m: "\<not> isspace CHR 0x2D" by (simp add: isspace_def)
  show ?thesis
  proof (cases "i < 0")
    case True
    then have "print_int i = CHR 0x2D # ds" by (simp add: print_int_def ds_def)
    with True assms(1) m tk d(2,3) show ?thesis by (simp add: text_int_def)
  next
    case False
    then have "print_int i = ds" by (simp add: print_int_def ds_def)
    with False assms(1) isdigit_no_space[OF x(2)] tk d(2,3) show ?thesis by (simp add: text_int_def x(1))
  qed
qed

lemma line_of_entry:
  assumes "writable_entry m" "converts conv"
  shows "is_line (print_entry m)" "\<not> line_skipped (print_entry m)" "line_entry conv (print_entry m) old = m"
proof -
  obtain a b c d where w: "mnt_fsname m = a" "mnt_dir m = b" "mnt_type m = c" "mnt_opts m = d" by simp
  define x y where "x = sint (mnt_freq m)" and "y = sint (mnt_passno m)"
  have f: "a \<noteq> []" "list_all word_char a" "b \<noteq> []" "list_all word_char b" "c \<noteq> []" "list_all word_char c"
    "d \<noteq> []" "list_all word_char d" "hd a \<noteq> CHR 0x23"
    using assms by (auto simp: writable_entry_def w)
  define n where "n = tab_char # print_int x @ tab_char # print_int y @ newline # []"
  have p: "print_entry m = a @ tab_char # b @ tab_char # c @ tab_char # d @ n"
    by (simp add: print_entry_def w n_def x_def y_def)
  note wf = word_field[OF f(1,2) isspace_tab] word_field[OF f(3,4) isspace_tab]
    word_field[OF f(5,6) isspace_tab] word_field[OF f(7,8) isspace_tab]
  have words: "word_of (print_entry m) = a" "word_of (after_word (print_entry m)) = b"
    "word_of ((after_word ^^ 2) (print_entry m)) = c" "word_of ((after_word ^^ 3) (print_entry m)) = d"
    "(after_word ^^ 4) (print_entry m) = n"
    by (simp_all add: p wf eval_nat_numeral n_def)
  have "text_numbers conv n old = (mnt_freq m, mnt_passno m)"
    using text_int_print[OF isspace_tab isspace_tab, of x] text_int_print[OF isspace_tab isspace_chars(1), of y]
      converts_sint[OF assms(2)]
    by (simp add: text_numbers_def n_def) (simp add: x_def y_def)
  with words show "line_entry conv (print_entry m) old = m"
    by (simp add: line_entry_def line_numbers_def w)
  show "\<not> line_skipped (print_entry m)" using f(1,9) by (simp add: line_skipped_def words)
  have ok: "word_char v \<Longrightarrow> v \<noteq> newline \<and> v \<noteq> nul" "isdigit v \<Longrightarrow> v \<noteq> newline \<and> v \<noteq> nul" for v
    using isdigit_no_space[of v] isspace_chars(1) by (auto simp: word_char_def)
  have no: "newline \<notin> set v \<and> nul \<notin> set v" if "list_all word_char v" for v
    using that ok(1) by (auto simp: list_all_iff)
  have ni: "newline \<notin> set (print_int i) \<and> nul \<notin> set (print_int i)" for i
  proof -
    have "newline \<notin> set (print_nat k) \<and> nul \<notin> set (print_nat k)" for k
      using print_nat_digits[of k] ok(2) by (auto simp: list_all_iff)
    moreover have "newline \<noteq> CHR 0x2D" "nul \<noteq> CHR 0x2D" by (simp_all add: newline_def nul_def)
    ultimately show ?thesis by (simp add: print_int_def)
  qed
  have "tab_char \<noteq> newline" "tab_char \<noteq> nul" by (simp_all add: tab_char_def newline_def nul_def)
  moreover have "int (length (print_entry m)) \<le> INT_MAX" using assms(1) by (simp add: writable_entry_def)
  ultimately show "is_line (print_entry m)"
    using no[OF f(2)] no[OF f(4)] no[OF f(6)] no[OF f(8)] ni[of x] ni[of y]
    unfolding is_line_def by (auto simp: p n_def butlast_append)
qed

text \<open>The entries \<open>k\<close> calls of \<open>getmntent\<close> return, up to the null pointer.\<close>

fun get_entries :: "(int \<Rightarrow> i32) \<Rightarrow> nat \<Rightarrow> stream \<Rightarrow> mntent list" where
  "get_entries conv 0 f = []"
| "get_entries conv (Suc k) f = (case getmntent conv f of (Mnt_entry m, f') \<Rightarrow> m # get_entries conv k f' | _ \<Rightarrow> [])"

lemma get_entries_lines:
  assumes "rest_of f = concat (map print_entry ms)" "\<forall>m\<in>set ms. writable_entry m" "\<not> eof f" "converts conv"
  shows "get_entries conv k f = take k ms"
  using assms(1-3)
proof (induction k arbitrary: f ms)
  case (Suc k)
  note le = line_of_entry[OF _ assms(4)]
  have "case first_entry conv (map print_entry ms) (0, 0) of
      None \<Rightarrow> fst (getmntent conv f) = Mnt_end
    | Some (m, ls') \<Rightarrow>
        (\<exists>f'. getmntent conv f = (Mnt_entry m, f') \<and> rest_of f' = concat ls' @ [] \<and> contents f' = contents f \<and> \<not> eof f')"
    unfolding getmntent_def getmntent_r_def
    by (rule getmntent_loop_lines) (use Suc.prems le in \<open>auto simp: fits_def\<close>)
  then show ?case
    using Suc.prems Suc.IH[of _ "tl ms"] le
    by (cases ms) (auto split: prod.splits mnt_result.splits)
qed simp

text \<open>A list of calls of \<open>addmntent\<close>, with the way each ends and its result.\<close>

fun add_entries :: "(write_result \<times> mntent) list \<Rightarrow> stream \<Rightarrow> int list \<times> stream" where
  "add_entries [] f = ([], f)"
| "add_entries ((w, m) # cs) f =
     (let (r, f1) = addmntent w f m; (rs, f2) = add_entries cs f1 in (r # rs, f2))"

text \<open>The entries of the calls that returned 0.\<close>

definition added :: "int list \<Rightarrow> (write_result \<times> mntent) list \<Rightarrow> mntent list" where
  "added rs cs = map (\<lambda>(r, w, m). m) (filter (\<lambda>(r, w, m). r = 0) (zip rs cs))"

lemma added_Cons: "added (r # rs) ((w, m) # cs) = (if r = 0 then m # added rs cs else added rs cs)"
  by (simp add: added_def)

lemma added_subset: "set (added rs cs) \<subseteq> snd ` set cs"
  by (force simp: added_def dest: set_zip_rightD)

lemma add_entries_contents:
  "add_entries cs f = (rs, f') \<Longrightarrow> \<forall>(w, m)\<in>set cs. \<forall>k. w = Print_fails k \<longrightarrow> k = 0 \<Longrightarrow>
     contents f' = contents f @ concat (map print_entry (added rs cs))"
proof (induction cs f arbitrary: rs f' rule: add_entries.induct)
  case (2 w m cs f)
  obtain r f1 where 1: "addmntent w f m = (r, f1)" by fastforce
  obtain rs' where rs: "add_entries cs f1 = (rs', f')" "rs = r # rs'"
    using "2.prems"(1) 1 by (auto split: prod.splits)
  have "contents f' = contents f1 @ concat (map print_entry (added rs' cs))"
    using "2.IH"[OF 1[symmetric] refl rs(1)] "2.prems"(2) by auto
  moreover have "r = 0 \<and> contents f1 = contents f @ print_entry m \<or> r \<noteq> 0 \<and> contents f1 = contents f"
    using 1 "2.prems"(2) by (cases w) (auto simp: addmntent_def append_text_def)
  ultimately show ?case by (auto simp: rs(2) added_Cons)
qed (simp add: added_def)

text \<open>C20: round trip of the mount table. Entries whose fields are nonempty words without NUL, the first
  not beginning with \<open>#\<close>, and whose numbers are any 32-bit integers, are passed to \<open>addmntent\<close>; some of its calls may
  fail, if a \<open>fprintf\<close> that fails has written nothing. As many calls of \<open>getmntent\<close> from the old end of the file
  read back just the entries whose \<open>addmntent\<close> returned 0, in the same order. The next call returns the null pointer.\<close>

theorem mntent_round_trip:
  assumes "\<forall>(w, m)\<in>set cs. writable_entry m \<and> (\<forall>k. w = Print_fails k \<longrightarrow> k = 0)"
    and "add_entries cs f = (rs, f')" "converts conv"
  shows "get_entries conv (Suc (length cs)) (f'\<lparr>position := length (contents f), eof := False\<rparr>) = added rs cs"
proof -
  have "contents f' = contents f @ concat (map print_entry (added rs cs))"
    by (rule add_entries_contents[OF assms(2)]) (use assms(1) in auto)
  then have r: "rest_of (f'\<lparr>position := length (contents f), eof := False\<rparr>) = concat (map print_entry (added rs cs))"
    by (simp add: rest_of_def)
  have w: "\<forall>m\<in>set (added rs cs). writable_entry m" using assms(1) added_subset[of rs cs] by fastforce
  have "length (added rs cs) \<le> length (zip rs cs)" unfolding added_def length_map by (rule length_filter_le)
  then have "length (added rs cs) \<le> Suc (length cs)" by simp
  with get_entries_lines[OF r w _ assms(3), of "Suc (length cs)"] show ?thesis by simp
qed

definition sample_entry :: mntent where
  "sample_entry = \<lparr>mnt_fsname = ''/dev/sda1'', mnt_dir = ''/'', mnt_type = ''ext4'', mnt_opts = ''rw'', mnt_freq = 0, mnt_passno = - 12\<rparr>"

theorem mntent_round_trip_witness:
  "get_entries word_of_int 3
     ((snd (add_entries [(Seek_fails, sample_entry), (Printed, sample_entry)] \<lparr>contents = ''junk'', position = 0, eof = False\<rparr>))
       \<lparr>position := 4, eof := False\<rparr>) = [sample_entry]"
proof -
  let ?cs = "[(Seek_fails, sample_entry), (Printed, sample_entry)]" and ?f = "\<lparr>contents = ''junk'', position = 0, eof = False\<rparr>"
  obtain f' where f': "add_entries ?cs ?f = ([1, 0], f')" by (simp add: addmntent_def)
  have "writable_entry sample_entry" by code_simp
  then have "\<forall>(w, m)\<in>set ?cs. writable_entry m \<and> (\<forall>k. w = Print_fails k \<longrightarrow> k = 0)" by simp
  from mntent_round_trip[OF this f', of word_of_int] show ?thesis
    by (simp add: f' converts_def added_def eval_nat_numeral del: add_entries.simps get_entries.simps)
qed

subsection \<open>Numbers of skipped lines\<close>

text \<open>C21: the numbers are reset before the loop, not in it. An entry that has no numbers of its own reads
  0 and 0 when it is the first line, but those of a comment when the comment is before it.\<close>

theorem mntent_stale_numbers:
  assumes "is_line c" "line_skipped c" "is_line l" "\<not> line_skipped l" "text_int ((after_word ^^ 4) l) = None"
  shows "fst (getmntent conv \<lparr>contents = l, position = 0, eof = False\<rparr>) = Mnt_entry (line_entry conv l (0, 0)) \<and>
      mnt_freq (line_entry conv l (0, 0)) = 0 \<and> mnt_passno (line_entry conv l (0, 0)) = 0 \<and>
      fst (getmntent conv \<lparr>contents = c @ l, position = 0, eof = False\<rparr>) = Mnt_entry (line_entry conv l (line_numbers conv c (0, 0))) \<and>
      (mnt_freq (line_entry conv l (line_numbers conv c (0, 0))), mnt_passno (line_entry conv l (line_numbers conv c (0, 0)))) =
      line_numbers conv c (0, 0)"
proof (intro conjI)
  have n: "line_numbers conv l old = old" for old using assms(5) by (simp add: line_numbers_def text_numbers_def)
  have r: "rest_of \<lparr>contents = l, position = 0, eof = False\<rparr> = concat [l] @ []"
    "rest_of \<lparr>contents = c @ l, position = 0, eof = False\<rparr> = concat [c, l] @ []" by (simp_all add: rest_of_def)
  show "fst (getmntent conv \<lparr>contents = l, position = 0, eof = False\<rparr>) = Mnt_entry (line_entry conv l (0, 0))"
    using getmntent_loop_lines[OF r(1), of None conv 0 0] assms
    by (auto simp: getmntent_def getmntent_r_def fits_def)
  show "fst (getmntent conv \<lparr>contents = c @ l, position = 0, eof = False\<rparr>) = Mnt_entry (line_entry conv l (line_numbers conv c (0, 0)))"
    using getmntent_loop_lines[OF r(2), of None conv 0 0] assms
    by (auto simp: getmntent_def getmntent_r_def fits_def)
  show "mnt_freq (line_entry conv l (0, 0)) = 0" "mnt_passno (line_entry conv l (0, 0)) = 0"
    "(mnt_freq (line_entry conv l (line_numbers conv c (0, 0))), mnt_passno (line_entry conv l (line_numbers conv c (0, 0)))) = line_numbers conv c (0, 0)"
    by (simp_all add: line_entry_def n)
qed

theorem mntent_stale_numbers_witness:
  "fst (getmntent word_of_int \<lparr>contents = ''# was 1 2 3 7 8'' @ newline # ''/dev/sda1 / ext4 rw'' @ [newline], position = 0, eof = False\<rparr>) =
   Mnt_entry \<lparr>mnt_fsname = ''/dev/sda1'', mnt_dir = ''/'', mnt_type = ''ext4'', mnt_opts = ''rw'', mnt_freq = 3, mnt_passno = 7\<rparr>"
proof -
  let ?c = "''# was 1 2 3 7 8'' @ [newline]" and ?l = "''/dev/sda1 / ext4 rw'' @ [newline]"
  have "is_line ?c" "line_skipped ?c" "is_line ?l" "\<not> line_skipped ?l" "text_int ((after_word ^^ 4) ?l) = None"
    by code_simp+
  note mntent_stale_numbers[OF this, of word_of_int]
  moreover have "line_entry word_of_int ?l (line_numbers word_of_int ?c (0, 0)) =
    \<lparr>mnt_fsname = ''/dev/sda1'', mnt_dir = ''/'', mnt_type = ''ext4'', mnt_opts = ''rw'', mnt_freq = 3, mnt_passno = 7\<rparr>"
    by code_simp
  ultimately show ?thesis by simp
qed

subsection \<open>Options\<close>

text \<open>\<open>hasmntopt\<close> finds the first occurrence of the text anywhere in the options, not an option: the text
  of an option that is part of another is found.\<close>

lemma strstr_first:
  "strstr s t = Some i \<longleftrightarrow>
     i \<le> length s \<and> take (length t) (drop i s) = t \<and> (\<forall>j<i. take (length t) (drop j s) \<noteq> t)"
proof (induction s arbitrary: i)
  case (Cons c s)
  show ?case
    by (cases i) (auto simp: Cons.IH less_Suc_eq_0_disj)
qed auto

lemma hasmntopt_inside_word: "hasmntopt \<lparr>mnt_fsname = [], mnt_dir = [], mnt_type = [], mnt_opts = ''rw,nosuid'', mnt_freq = 0, mnt_passno = 0\<rparr> ''suid'' = Some 5"
  by code_simp

end
