(* ===== verification/Kprofile_Text.thy ===== *)
theory Kprofile_Text
  imports Kprofile Mntent
begin

text \<open>
  What \<open>util-salernos/src/kprofile.c\<close> prints, character by character: the table with its columns, the
  help and the error messages. The texts of \<open>%lf\<close> and of \<open>perror\<close> are the C library's and parameters. The
  table is read back by its words, which gives the rows of the kernel again.
\<close>

subsection \<open>Formats\<close>

text \<open>\<open>%15s\<close> and \<open>%-32s\<close>: a text that is too long is not cut.\<close>

definition pad_left :: "nat \<Rightarrow> string \<Rightarrow> string" where
  "pad_left k s = replicate (k - length s) (CHR '' '') @ s"

definition pad_right :: "nat \<Rightarrow> string \<Rightarrow> string" where
  "pad_right k s = s @ replicate (k - length s) (CHR '' '')"

text \<open>The text in an array of bytes; \<open>None\<close> when it has no NUL and \<open>printf\<close> reads on behind its end.\<close>

definition c_text :: "byte list \<Rightarrow> string option" where
  "c_text bs = (if 0 \<in> set bs then Some (map (\<lambda>b. char_of (unat b)) (takeWhile (\<lambda>b. b \<noteq> 0) bs)) else None)"

subsection \<open>The table\<close>

text \<open>The five columns of \<open>%-32s %15s %15s %10s %15s\<close>.\<close>

definition columns :: "string \<Rightarrow> string \<Rightarrow> string \<Rightarrow> string \<Rightarrow> string \<Rightarrow> string" where
  "columns a b c d e =
     pad_right 32 a @ '' '' @ pad_left 15 b @ '' '' @ pad_left 15 c @ '' '' @ pad_left 10 d @ '' '' @ pad_left 15 e"

definition table_header :: string where
  "table_header =
     columns ''Name'' ''Real Time (ns)'' ''CPU Time (ns)'' ''Calls'' ''CPU Time / Calls'' @ [newline, newline]"

definition row_text :: "(rat \<Rightarrow> string) \<Rightarrow> table_row \<Rightarrow> string option" where
  "row_text lf r =
     (case c_text (row_name r) of
        None \<Rightarrow> None
      | Some name \<Rightarrow>
          Some (columns name (print_nat (unat (row_real r))) (print_nat (unat (row_cpu r)))
            (print_nat (unat (row_calls r))) (lf (row_ratio r)) @ [newline]))"

fun table_lines :: "(rat \<Rightarrow> string) \<Rightarrow> table_row list \<Rightarrow> string option" where
  "table_lines lf [] = Some []"
| "table_lines lf (r # rs) =
     (case row_text lf r of None \<Rightarrow> None
      | Some line \<Rightarrow> (case table_lines lf rs of None \<Rightarrow> None | Some ls \<Rightarrow> Some (line @ ls)))"

definition table_text :: "(rat \<Rightarrow> string) \<Rightarrow> table_row list \<Rightarrow> string option" where
  "table_text lf rs = (case table_lines lf rs of None \<Rightarrow> None | Some ls \<Rightarrow> Some (table_header @ ls))"

subsection \<open>The program\<close>

definition tab :: char where "tab = CHR 0x09"

definition help_text :: "string \<Rightarrow> string" where
  "help_text argv0 =
     [newline, tab] @ ''usage: '' @ argv0 @ '' <command> [<options>]'' @ [newline, newline] @
     [tab] @ ''commands:'' @ [newline, newline] @
     [tab, tab] @ ''--help'' @ [tab] @ ''show this menu'' @ [newline] @
     [tab, tab] @ ''--functions'' @ [tab] @ ''show kernel profile with function granularity'' @ [newline] @
     [tab, tab] @ ''--syscalls'' @ [tab] @ ''show kernel profile with system call granularity'' @ [newline] @
     [newline, newline, tab] @ ''options:'' @ [newline, newline] @
     [tab, tab] @ ''--by-real'' @ [tab] @ ''sort by real time'' @ [newline] @
     [tab, tab] @ ''--by-cpu'' @ [tab] @ ''sort by cpu time'' @ [newline] @
     [tab, tab] @ ''--by-calls'' @ [tab] @ ''sort by number of calls'' @ [newline] @
     [tab, tab] @ ''--by-ratio'' @ [tab] @ ''sort by ratio (default)'' @ [newline] @
     [newline]"

definition error_printf :: "string \<Rightarrow> string \<Rightarrow> string" where
  "error_printf module_name msg = module_name @ '': '' @ msg @ [newline]"

text \<open>Standard output and standard error; \<open>strerror\<close> is the text of \<open>errno\<close>.\<close>

fun printed :: "(rat \<Rightarrow> string) \<Rightarrow> string \<Rightarrow> string \<Rightarrow> kp_out \<Rightarrow> (string \<times> string) option" where
  "printed lf strerror argv0 Out_nothing = Some ([], [])"
| "printed lf strerror argv0 (Out_error msg) = Some ([], error_printf argv0 msg)"
| "printed lf strerror argv0 (Out_unknown_option opt) =
     Some ([], error_printf argv0 (''unknown option '' @ [CHR 0x27] @ opt @ [CHR 0x27]))"
| "printed lf strerror argv0 (Out_unknown_command cmd) =
     Some ([], error_printf argv0 (''unknown command '' @ [CHR 0x27] @ cmd @ [CHR 0x27]))"
| "printed lf strerror argv0 (Out_perror s) = Some ([], s @ '': '' @ strerror @ [newline])"
| "printed lf strerror argv0 Out_help = Some (help_text argv0, [])"
| "printed lf strerror argv0 (Out_table rs) =
     (case table_text lf rs of None \<Rightarrow> None | Some s \<Rightarrow> Some (s, []))"

definition kprofile_program ::
    "profdev \<Rightarrow> (rat \<Rightarrow> string) \<Rightarrow> string \<Rightarrow> string list \<Rightarrow> (string \<times> string) option \<times> int" where
  "kprofile_program dev lf strerror argv =
     (case kprofile_main dev argv of (out, status) \<Rightarrow>
        (printed lf strerror (case argv of [] \<Rightarrow> [] | a # as \<Rightarrow> a) out, status))"

subsection \<open>Reading a table\<close>

text \<open>The pieces of a list between separators.\<close>

fun pieces :: "'a \<Rightarrow> 'a list \<Rightarrow> 'a list list" where
  "pieces c [] = [[]]"
| "pieces c (x # xs) = (if x = c then [] # pieces c xs else (x # hd (pieces c xs)) # tl (pieces c xs))"

lemma pieces_append: "c \<notin> set w \<Longrightarrow> pieces c (w @ c # r) = w # pieces c r"
  by (induction w) auto

lemma pieces_last: "c \<notin> set w \<Longrightarrow> pieces c w = [w]"
  by (induction w) auto

lemma pieces_replicate: "pieces c (replicate n c @ r) = replicate n [] @ pieces c r"
  by (induction n) auto

definition words_of :: "string \<Rightarrow> string list" where
  "words_of s = filter (\<lambda>w. w \<noteq> []) (pieces (CHR '' '') s)"

definition lines_of :: "string \<Rightarrow> string list" where
  "lines_of s = butlast (pieces newline s)"

definition read_row :: "string \<Rightarrow> (string \<times> nat \<times> nat \<times> nat \<times> string) option" where
  "read_row line =
     (case words_of line of
        [name, rt, ct, n, ratio] \<Rightarrow> Some (name, read_nat rt, read_nat ct, read_nat n, ratio)
      | _ \<Rightarrow> None)"

text \<open>The lines behind the header and the empty line.\<close>

definition read_table :: "string \<Rightarrow> (string \<times> nat \<times> nat \<times> nat \<times> string) option list" where
  "read_table s = map read_row (drop 2 (lines_of s))"

text \<open>A word of the table: not empty, and without white space.\<close>

definition plain :: "string \<Rightarrow> bool" where
  "plain w \<longleftrightarrow> w \<noteq> [] \<and> list_all (\<lambda>c. \<not> isspace c) w"

lemma plain_no_space: "plain w \<Longrightarrow> w \<noteq> [] \<and> CHR '' '' \<notin> set w \<and> newline \<notin> set w"
  unfolding plain_def list_all_iff using isspace_chars(1,5) by blast

lemma plain_print_nat: "plain (print_nat n)"
  using print_nat_digits[of n] isdigit_no_space unfolding plain_def list_all_iff by blast

lemma words_of_blanks: "words_of (replicate n (CHR '' '') @ s) = words_of s"
  by (simp add: words_of_def pieces_replicate)

lemma words_of_word: "plain w \<Longrightarrow> words_of (w @ CHR '' '' # s) = w # words_of s"
  by (simp add: words_of_def pieces_append plain_no_space)

lemma words_of_last: "plain w \<Longrightarrow> words_of w = [w]"
  by (simp add: words_of_def pieces_last plain_no_space)

lemma words_of_columns:
  assumes "plain a" "plain b" "plain c" "plain d" "plain e"
  shows "words_of (columns a b c d e) = [a, b, c, d, e]"
  by (simp add: columns_def pad_left_def pad_right_def replicate_app_Cons_same words_of_blanks
      words_of_word words_of_last assms)

lemma columns_one_line:
  assumes "plain a" "plain b" "plain c" "plain d" "plain e"
  shows "newline \<notin> set (columns a b c d e)"
  using assms[THEN plain_no_space] by (simp add: columns_def pad_left_def pad_right_def)

subsection \<open>Lines\<close>

lemma pieces_lines: "(\<And>r. r \<in> set rs \<Longrightarrow> newline \<notin> set (l r)) \<Longrightarrow>
   pieces newline (concat (map (\<lambda>r. l r @ [newline]) rs)) = map l rs @ [[]]"
  by (induction rs) (simp_all add: pieces_append)

definition header_columns :: string where
  "header_columns = columns ''Name'' ''Real Time (ns)'' ''CPU Time (ns)'' ''Calls'' ''CPU Time / Calls''"

lemma header_one_line: "newline \<notin> set header_columns" by code_simp

lemma lines_of_table:
  assumes "\<And>r. r \<in> set rs \<Longrightarrow> newline \<notin> set (l r)"
  shows "lines_of (table_header @ concat (map (\<lambda>r. l r @ [newline]) rs)) = header_columns # [] # map l rs"
proof -
  have "table_header @ x = header_columns @ newline # newline # x" for x
    by (simp add: table_header_def header_columns_def)
  moreover have "lines_of (header_columns @ newline # newline # concat (map (\<lambda>r. l r @ [newline]) rs)) =
      header_columns # [] # map l rs"
    unfolding lines_of_def by (subst pieces_append[OF header_one_line]) (simp add: pieces_lines[OF assms])
  ultimately show ?thesis by metis
qed

definition named :: "table_row \<Rightarrow> bool" where
  "named r \<longleftrightarrow> (case c_text (row_name r) of None \<Rightarrow> False | Some w \<Rightarrow> plain w)"

definition shown :: "(rat \<Rightarrow> string) \<Rightarrow> table_row \<Rightarrow> string \<times> nat \<times> nat \<times> nat \<times> string" where
  "shown lf r = (the (c_text (row_name r)), unat (row_real r), unat (row_cpu r), unat (row_calls r), lf (row_ratio r))"

definition row_columns :: "(rat \<Rightarrow> string) \<Rightarrow> table_row \<Rightarrow> string" where
  "row_columns lf r =
     columns (the (c_text (row_name r))) (print_nat (unat (row_real r))) (print_nat (unat (row_cpu r)))
       (print_nat (unat (row_calls r))) (lf (row_ratio r))"

lemma row_text_named: "named r \<Longrightarrow> row_text lf r = Some (row_columns lf r @ [newline])"
  by (auto simp: named_def row_text_def row_columns_def split: option.splits)

lemma table_lines_named:
  "list_all named rs \<Longrightarrow> table_lines lf rs = Some (concat (map (\<lambda>r. row_columns lf r @ [newline]) rs))"
  by (induction rs) (simp_all add: row_text_named)

lemma named_name: "named r \<Longrightarrow> plain (the (c_text (row_name r)))"
  by (auto simp: named_def split: option.splits)

lemma row_columns_words:
  assumes "named r" "plain (lf (row_ratio r))"
  shows "read_row (row_columns lf r) = Some (shown lf r) \<and> newline \<notin> set (row_columns lf r)"
proof -
  note plains = named_name[OF assms(1)] plain_print_nat plain_print_nat plain_print_nat assms(2)
  show ?thesis
    using columns_one_line[OF plains] read_print_nat
    by (simp add: read_row_def row_columns_def words_of_columns[OF plains] shown_def)
qed

lemma table_text_read:
  assumes "list_all named rs" "\<And>x. plain (lf x)"
  shows "\<exists>s. table_text lf rs = Some s \<and> read_table s = map (Some \<circ> shown lf) rs"
proof -
  have ok: "named r" if "r \<in> set rs" for r using assms(1) that by (simp add: list_all_iff)
  have "read_table (table_header @ concat (map (\<lambda>r. row_columns lf r @ [newline]) rs)) = map (Some \<circ> shown lf) rs"
    using lines_of_table[of rs "row_columns lf"] row_columns_words[OF ok assms(2)]
    by (simp add: read_table_def)
  then show ?thesis by (simp add: table_text_def table_lines_named[OF assms(1)])
qed

subsection \<open>Properties\<close>

text \<open>C32: the table on standard output has what the kernel counted. For a report command and known options, with a
  device that answers, function names that are NUL-terminated words, and a \<open>%lf\<close> that prints words, the
  program succeeds, prints nothing on standard error, and the words of the lines behind the header give
  back the rows of the kernel, with the same multiplicities and in the order the options chose. No two
  columns run together, however large the numbers are.\<close>

theorem kprofile_printed:
  assumes "parse_options opts by_ratio = Inr c"
    and "command = ''--functions'' \<and> num_op = DEVPROFILE_IOCTL_GET_NUM_FUNCTIONS \<and> get_op = DEVPROFILE_IOCTL_GET_FUNCTIONS \<or>
      command = ''--syscalls'' \<and> num_op = DEVPROFILE_IOCTL_GET_NUM_SYSCALLS \<and> get_op = DEVPROFILE_IOCTL_GET_SYSCALLS"
    and "dev_open dev" "dev_num dev num_op = Some n" "malloc_ok dev (DEVPROFILE_SIZEOF_FN_RES n)"
    and "dev_data dev get_op n = Some data" "length data = unat n * SIZEOF_FN_DATA"
    and "list_all (\<lambda>d. named (row_of d)) (kernel_rows data n)" "\<And>x. plain (lf x)"
  shows "\<exists>s ds. kprofile_program dev lf strerror (argv0 # command # opts) = (Some (s, []), EXIT_SUCCESS) \<and>
    read_table s = map (\<lambda>d. Some (shown lf (row_of d))) ds \<and>
    mset ds = mset (kernel_rows data n) \<and> sorted_wrt (\<lambda>a b. g_comparator c a b \<le> 0) ds"
proof -
  obtain ds where ds: "profile dev num_op get_op c = (Out_table (map row_of ds), EXIT_SUCCESS)"
    "mset ds = mset (kernel_rows data n)" "sorted_wrt (\<lambda>a b. g_comparator c a b \<le> 0) ds"
    using profile_table[OF assms(3-7), of c] by blast
  from assms(8) mset_eq_setD[OF ds(2)] have "list_all named (map row_of ds)" by (simp add: list_all_iff)
  from table_text_read[where lf = lf, OF this assms(9)] obtain s where
    s: "table_text lf (map row_of ds) = Some s" "read_table s = map (Some \<circ> shown lf) (map row_of ds)" by blast
  from assms(2) have "kprofile_main dev (argv0 # command # opts) = profile dev num_op get_op c"
    by (auto simp: kprofile_main_def assms(1) profile_functions_def profile_syscalls_def)
  then have "kprofile_program dev lf strerror (argv0 # command # opts) = (Some (s, []), EXIT_SUCCESS)"
    by (simp add: kprofile_program_def ds(1) s(1))
  with ds(2,3) s(2) show ?thesis by (intro exI[of _ s] exI[of _ ds]) (simp add: comp_def)
qed

text \<open>Two functions, the second with more calls.\<close>

definition printed_row :: "byte list \<Rightarrow> byte \<Rightarrow> byte list" where
  "printed_row name calls = take 64 (name @ replicate 64 0) @ replicate 16 1 @ [calls] @ replicate 7 0"

definition printed_dev :: profdev where
  "printed_dev = \<lparr>dev_open = True, dev_num = (\<lambda>_. Some 2),
     dev_data = (\<lambda>_ _. Some (printed_row [0x66, 0x31] 3 @ printed_row [0x66, 0x32] 5)), malloc_ok = (\<lambda>_. True)\<rparr>"

lemma printed_rows:
  "length (printed_row [0x66, 0x31] 3 @ printed_row [0x66, 0x32] 5) = 176"
  "list_all (\<lambda>d. named (row_of d)) (kernel_rows (printed_row [0x66, 0x31] 3 @ printed_row [0x66, 0x32] 5) 2)"
  by code_simp+

theorem kprofile_printed_witness:
  "\<exists>s ds. kprofile_program printed_dev (\<lambda>x. ''0.5'') [] [''kprofile'', ''--functions'', ''--by-calls''] =
       (Some (s, []), EXIT_SUCCESS) \<and>
     read_table s = map (\<lambda>d. Some (shown (\<lambda>x. ''0.5'') (row_of d))) ds \<and> length ds = 2"
proof -
  let ?data = "printed_row [0x66, 0x31] 3 @ printed_row [0x66, 0x32] 5"
  have lf: "plain ''0.5''" by code_simp
  have "\<exists>s ds. kprofile_program printed_dev (\<lambda>x. ''0.5'') [] [''kprofile'', ''--functions'', ''--by-calls''] =
       (Some (s, []), EXIT_SUCCESS) \<and>
     read_table s = map (\<lambda>d. Some (shown (\<lambda>x. ''0.5'') (row_of d))) ds \<and>
     mset ds = mset (kernel_rows ?data 2) \<and> sorted_wrt (\<lambda>a b. g_comparator by_calls a b \<le> 0) ds"
    by (rule kprofile_printed[where num_op = DEVPROFILE_IOCTL_GET_NUM_FUNCTIONS and get_op = DEVPROFILE_IOCTL_GET_FUNCTIONS])
      (simp_all add: printed_dev_def SIZEOF_FN_DATA_def printed_rows[simplified] lf)
  then obtain s ds where "kprofile_program printed_dev (\<lambda>x. ''0.5'') [] [''kprofile'', ''--functions'', ''--by-calls''] =
       (Some (s, []), EXIT_SUCCESS)" "read_table s = map (\<lambda>d. Some (shown (\<lambda>x. ''0.5'') (row_of d))) ds"
    "mset ds = mset (kernel_rows ?data 2)" by blast
  moreover from mset_eq_length[OF this(3)] have "length ds = 2" by (simp add: kernel_rows_def elems_def)
  ultimately show ?thesis by blast
qed

text \<open>Every run reports how it ends: a failure with one line on standard error and nothing on standard
  output, a success the other way round. Only a call without \<open>argv[0]\<close> fails silently.\<close>

theorem kprofile_reports_failures:
  assumes "kprofile_program dev lf strerror argv = (Some (out, err), status)" "argv \<noteq> []"
  shows "(status = EXIT_SUCCESS \<longrightarrow> out \<noteq> [] \<and> err = []) \<and>
    (status \<noteq> EXIT_SUCCESS \<longrightarrow> status = EXIT_FAILURE \<and> out = [] \<and> err \<noteq> [] \<and> last err = newline)"
  using assms
  by (auto simp: kprofile_program_def kprofile_main_def profile_functions_def profile_syscalls_def profile_def
      error_printf_def help_text_def table_text_def table_header_def EXIT_SUCCESS_def EXIT_FAILURE_def
      split: list.splits sum.splits if_splits option.splits)

text \<open>The columns. A row whose values fit has its fields at fixed places, and is 91 characters wide; the
  header is one wider, since its last title does not fit.\<close>

lemma print_nat_length: "n < 10 ^ Suc k \<Longrightarrow> length (print_nat n) \<le> Suc k"
proof (induction k arbitrary: n)
  case 0
  then show ?case by (simp add: print_nat.simps)
next
  case (Suc k)
  from Suc.prems have "n div 10 < 10 ^ Suc k" by (simp add: less_mult_imp_div_less)
  with Suc.IH have "length (print_nat (n div 10)) \<le> Suc k" by blast
  then show ?case by (subst print_nat.simps) simp
qed

lemma columns_aligned:
  assumes "length a \<le> 32" "length b \<le> 15" "length c \<le> 15" "length d \<le> 10" "length e \<le> 15"
  shows "length (columns a b c d e) = 91 \<and> take 32 (columns a b c d e) = pad_right 32 a \<and>
    take 15 (drop 33 (columns a b c d e)) = pad_left 15 b \<and> take 15 (drop 49 (columns a b c d e)) = pad_left 15 c \<and>
    take 10 (drop 65 (columns a b c d e)) = pad_left 10 d \<and> drop 76 (columns a b c d e) = pad_left 15 e"
proof -
  have l: "length (pad_right 32 a) = 32" "length (pad_left 15 b) = 15" "length (pad_left 15 c) = 15"
    "length (pad_left 10 d) = 10" "length (pad_left 15 e) = 15"
    using assms by (simp_all add: pad_left_def pad_right_def)
  then show ?thesis by (simp add: columns_def)
qed

theorem kprofile_columns:
  assumes "length (the (c_text (row_name r))) \<le> 32" "unat (row_real r) < 10 ^ 15" "unat (row_cpu r) < 10 ^ 15"
    and "unat (row_calls r) < 10 ^ 10" "length (lf (row_ratio r)) \<le> 15"
  shows "length (row_columns lf r) = 91 \<and> length header_columns = 92 \<and>
    take 15 (drop 33 (row_columns lf r)) = pad_left 15 (print_nat (unat (row_real r))) \<and>
    drop 76 (row_columns lf r) = pad_left 15 (lf (row_ratio r)) \<and>
    drop 76 header_columns = ''CPU Time / Calls''"
proof -
  have p: "length (print_nat (unat (row_real r))) \<le> 15" "length (print_nat (unat (row_cpu r))) \<le> 15"
    "length (print_nat (unat (row_calls r))) \<le> 10"
    using print_nat_length[of _ 14] print_nat_length[of _ 9] assms(2-4) by simp_all
  have h: "length header_columns = 92" "drop 76 header_columns = ''CPU Time / Calls''" by code_simp+
  show ?thesis using columns_aligned[OF assms(1) p assms(5)] h unfolding row_columns_def by blast
qed

end
