(* ===== verification/Posix_Files.thy ===== *)
theory Posix_Files
  imports Prelude Fd_Table
begin

text \<open>
  The part of the file interface of POSIX that \<open>utmpx.c\<close> and \<open>pty.cpp\<close> call: \<open>open\<close>,
  \<open>close\<close>, \<open>lseek\<close>, \<open>read\<close> and \<open>write\<close> on the descriptors of one process. A descriptor is
  an index of the table; \<open>open\<close> takes the lowest free one. The store can refuse a path, run out
  of descriptors and run out of room, so that every error branch of the callers can be reached.
\<close>

record ofile =
  opath :: string
  opos :: nat

record fsys =
  contents :: "string \<rightharpoonup> byte list"
  fds :: "ofile option list"
  denied :: "string \<Rightarrow> bool"
  max_fds :: nat
  capacity :: nat

definition fd_get :: "fsys \<Rightarrow> int \<Rightarrow> ofile option" where
  "fd_get s fd = tab_get (fds s) fd"

definition fd_put :: "int \<Rightarrow> ofile option \<Rightarrow> fsys \<Rightarrow> fsys" where
  "fd_put fd o1 s = s\<lparr>fds := tab_put fd o1 (fds s)\<rparr>"

definition fd_alloc :: "ofile \<Rightarrow> fsys \<Rightarrow> fsys" where
  "fd_alloc f s = fd_put (int (first_free (fds s))) (Some f) s"

text \<open>\<open>open(path, O_RDWR | O_CREAT, mode)\<close>.\<close>

definition posix_open :: "string \<Rightarrow> fsys \<Rightarrow> int \<times> fsys" where
  "posix_open path s =
     (if denied s path \<or> max_fds s \<le> first_free (fds s) then (- 1, s)
      else
        (int (first_free (fds s)),
         fd_alloc \<lparr>opath = path, opos = 0\<rparr>
           (s\<lparr>contents := (case contents s path of None \<Rightarrow> (contents s)(path \<mapsto> []) | Some _ \<Rightarrow> contents s)\<rparr>)))"

definition posix_close :: "int \<Rightarrow> fsys \<Rightarrow> int \<times> fsys" where
  "posix_close fd s = (case fd_get s fd of None \<Rightarrow> (- 1, s) | Some _ \<Rightarrow> (0, fd_put fd None s))"

definition file_bytes :: "fsys \<Rightarrow> string \<Rightarrow> byte list" where
  "file_bytes s path = (case contents s path of None \<Rightarrow> [] | Some c \<Rightarrow> c)"

text \<open>\<open>lseek\<close> with offset 0, from the start and from the end.\<close>

definition seek_start :: "int \<Rightarrow> fsys \<Rightarrow> fsys" where
  "seek_start fd s = (case fd_get s fd of None \<Rightarrow> s | Some f \<Rightarrow> fd_put fd (Some (f\<lparr>opos := 0\<rparr>)) s)"

definition seek_end :: "int \<Rightarrow> fsys \<Rightarrow> fsys" where
  "seek_end fd s =
     (case fd_get s fd of None \<Rightarrow> s
      | Some f \<Rightarrow> fd_put fd (Some (f\<lparr>opos := length (file_bytes s (opath f))\<rparr>)) s)"

text \<open>\<open>read\<close>: \<open>None\<close> for the result \<open>- 1\<close>, else the bytes stored in the buffer.\<close>

definition posix_read :: "int \<Rightarrow> nat \<Rightarrow> fsys \<Rightarrow> byte list option \<times> fsys" where
  "posix_read fd n s =
     (case fd_get s fd of None \<Rightarrow> (None, s)
      | Some f \<Rightarrow>
          (let bs = take n (drop (opos f) (file_bytes s (opath f)))
           in (Some bs, fd_put fd (Some (f\<lparr>opos := opos f + length bs\<rparr>)) s)))"

text \<open>Overwriting from a position on; a position behind the end leaves zeros before it.\<close>

definition overwrite :: "nat \<Rightarrow> byte list \<Rightarrow> byte list \<Rightarrow> byte list" where
  "overwrite p bs c =
     (if bs = [] then c else take p c @ replicate (p - length c) 0 @ bs @ drop (p + length bs) c)"

text \<open>\<open>write\<close>: the number of bytes written, which is short when the room ends.\<close>

definition posix_write :: "int \<Rightarrow> byte list \<Rightarrow> fsys \<Rightarrow> int \<times> fsys" where
  "posix_write fd bs s =
     (case fd_get s fd of None \<Rightarrow> (- 1, s)
      | Some f \<Rightarrow>
          (let w = take (capacity s - opos f) bs
           in (int (length w),
               (fd_put fd (Some (f\<lparr>opos := opos f + length w\<rparr>)) s)
                 \<lparr>contents := (contents s)(opath f \<mapsto> overwrite (opos f) w (file_bytes s (opath f)))\<rparr>)))"

subsection \<open>Lemmas\<close>

interpretation fs: fd_table fd_get fd_put "\<lambda>s. first_free (fds s)"
  by unfold_locales
    (simp_all add: fd_get_def fd_put_def tab.get_put tab.get_neg tab.get_free tab.get_below fun_eq_iff)

lemma fd_get_put:
  "fd_get s fd = Some f \<Longrightarrow> fd_get (fd_put fd o1 s) fd = o1"
  "fd_get s fd = Some f \<Longrightarrow> fd' \<noteq> fd \<Longrightarrow> fd_get (fd_put fd o1 s) fd' = fd_get s fd'"
  by (simp_all add: fs.get_put fs.get_valid)

lemma fd_put_simps [simp]:
  "contents (fd_put fd o1 s) = contents s" "denied (fd_put fd o1 s) = denied s"
  "max_fds (fd_put fd o1 s) = max_fds s" "capacity (fd_put fd o1 s) = capacity s"
  "file_bytes (fd_put fd o1 s) = file_bytes s"
  by (simp_all add: fd_put_def file_bytes_def[abs_def])

lemma fd_get_contents [simp]: "fd_get (s\<lparr>contents := c\<rparr>) = fd_get s"
  by (rule ext) (auto simp: fd_get_def)

lemma fd_get_alloc:
  "fd_get (fd_alloc f s) (int n) = (if n = first_free (fds s) then Some f else fd_get s (int n))"
  by (simp add: fd_alloc_def fs.get_alloc)

lemma fd_alloc_simps [simp]:
  "contents (fd_alloc f s) = contents s" "denied (fd_alloc f s) = denied s"
  "max_fds (fd_alloc f s) = max_fds s" "capacity (fd_alloc f s) = capacity s"
  by (simp_all add: fd_alloc_def Let_def)

lemma overwrite_end: "overwrite (length c) bs c = c @ bs"
  by (simp add: overwrite_def)

text \<open>A write at the end of a file appends, and touches no other file.\<close>

lemma posix_write_end:
  assumes "fd_get s fd = Some \<lparr>opath = path, opos = length (file_bytes s path)\<rparr>"
    and "length (file_bytes s path) + length bs \<le> capacity s"
  obtains s' where "posix_write fd bs s = (int (length bs), s')"
    "\<And>p. file_bytes s' p = (if p = path then file_bytes s path @ bs else file_bytes s p)"
proof -
  have "take (capacity s - length (file_bytes s path)) bs = bs" using assms(2) by simp
  then have "posix_write fd bs s = (int (length bs),
      (fd_put fd (Some \<lparr>opath = path, opos = length (file_bytes s path) + length bs\<rparr>) s)
        \<lparr>contents := (contents s)(path \<mapsto> file_bytes s path @ bs)\<rparr>)"
    using assms(1) by (simp add: posix_write_def overwrite_end)
  then show ?thesis using that by (simp add: file_bytes_def)
qed

end
