(* ===== verification/Utmpx.thy ===== *)
theory Utmpx
  imports Posix_Files Stdlib_Sort
begin

text \<open>
  The login record file (\<open>mlibc-salernos/sysdeps/generic/utmpx.c\<close>): the static descriptor
  \<open>utmpx_file\<close>, the static record \<open>returned\<close> and the six functions on them. A record is its
  \<open>sizeof(struct utmpx)\<close> bytes. The contract of a log that is appended to, rewound and read back
  is the locale \<open>record_log\<close>.
\<close>

subsection \<open>State and operations\<close>

definition SIZEOF_UTMPX :: nat where "SIZEOF_UTMPX = 400"
definition UTMPX_FILE :: string where "UTMPX_FILE = ''/var/run/utmp''"

record utx =
  sys :: fsys
  utmpx_file :: int
  returned :: "byte list"

definition lift_fs :: "(fsys \<Rightarrow> fsys) \<Rightarrow> utx \<Rightarrow> utx" where
  "lift_fs f u = u\<lparr>sys := f (sys u)\<rparr>"

definition call_fs :: "(fsys \<Rightarrow> 'a \<times> fsys) \<Rightarrow> utx \<Rightarrow> 'a \<times> utx" where
  "call_fs f u = (let (r, s) = f (sys u) in (r, u\<lparr>sys := s\<rparr>))"

text \<open>\<open>updwtmpx\<close> is empty.\<close>

definition updwtmpx :: "string \<Rightarrow> byte list \<Rightarrow> utx \<Rightarrow> utx" where
  "updwtmpx path r u = u"

definition endutxent :: "utx \<Rightarrow> utx" where
  "endutxent u = (if 0 \<le> utmpx_file u then snd (call_fs (posix_close (utmpx_file u)) u) else u)"

definition setutxent :: "utx \<Rightarrow> utx" where
  "setutxent u =
     (if utmpx_file u < 0 then
        (let (fd, u1) = call_fs (posix_open UTMPX_FILE) u in u1\<lparr>utmpx_file := fd\<rparr>)
      else lift_fs (seek_start (utmpx_file u)) u)"

text \<open>\<open>read\<close> into \<open>returned\<close>: a short read overwrites the front of the record before the call
  fails.\<close>

definition read_record :: "utx \<Rightarrow> byte list option \<times> utx" where
  "read_record u =
     (case call_fs (posix_read (utmpx_file u) SIZEOF_UTMPX) u of
        (None, u1) \<Rightarrow> (None, u1)
      | (Some bs, u1) \<Rightarrow>
          (let u2 = u1\<lparr>returned := bs @ drop (length bs) (returned u1)\<rparr>
           in if length bs \<noteq> SIZEOF_UTMPX then (None, u2) else (Some (returned u2), u2)))"

definition getutxent :: "utx \<Rightarrow> byte list option \<times> utx" where
  "getutxent u =
     (if utmpx_file u < 0 then
        (let u1 = setutxent u in if utmpx_file u1 < 0 then (None, u1) else read_record u1)
      else read_record u)"

text \<open>The result is whether the pointer to the argument is returned.\<close>

definition append_record :: "byte list \<Rightarrow> utx \<Rightarrow> bool \<times> utx" where
  "append_record added u =
     (let u1 = lift_fs (seek_end (utmpx_file u)) u;
          (n, u2) = call_fs (posix_write (utmpx_file u1) added) u1
      in (n = int SIZEOF_UTMPX, u2))"

definition pututxline :: "byte list \<Rightarrow> utx \<Rightarrow> bool \<times> utx" where
  "pututxline added u =
     (if utmpx_file u < 0 then
        (let u1 = setutxent u in if utmpx_file u1 < 0 then (False, u1) else append_record added u1)
      else append_record added u)"

definition utmpxname :: "string \<Rightarrow> utx \<Rightarrow> int \<times> utx" where
  "utmpxname path u =
     (let u1 = (if 0 < utmpx_file u then snd (call_fs (posix_close (utmpx_file u)) u) else u);
          (fd, u2) = call_fs (posix_open path) u1;
          u3 = u2\<lparr>utmpx_file := fd\<rparr>
      in if 0 < fd then (1, lift_fs (seek_end fd) u3) else (0, u3))"

subsection \<open>The contract of a log\<close>

locale record_log =
  fixes put :: "'r \<Rightarrow> 's \<Rightarrow> bool \<times> 's" and rewind :: "'s \<Rightarrow> 's" and get :: "'s \<Rightarrow> 'r option \<times> 's"
    and log :: "'s \<Rightarrow> 'r list" and pos :: "'s \<Rightarrow> nat" and inv :: "'s \<Rightarrow> bool"
    and room :: "'s \<Rightarrow> nat" and wf :: "'r \<Rightarrow> bool"
  assumes put_log: "inv s \<Longrightarrow> wf r \<Longrightarrow> 0 < room s \<Longrightarrow> put r s = (b, s') \<Longrightarrow>
      b \<and> inv s' \<and> log s' = log s @ [r] \<and> room s' = room s - 1"
    and rewind_log: "inv s \<Longrightarrow> inv (rewind s) \<and> log (rewind s) = log s \<and> pos (rewind s) = 0"
    and get_log: "inv s \<Longrightarrow> get s = (x, s') \<Longrightarrow> inv s' \<and> log s' = log s \<and>
      x = (if pos s < length (log s) then Some (log s ! pos s) else None) \<and>
      pos s' = (if pos s < length (log s) then Suc (pos s) else pos s)"
begin

fun put_all :: "'r list \<Rightarrow> 's \<Rightarrow> bool \<times> 's" where
  "put_all [] s = (True, s)"
| "put_all (r # rs) s = (let (b, s1) = put r s; (bs, s2) = put_all rs s1 in (b \<and> bs, s2))"

fun get_many :: "nat \<Rightarrow> 's \<Rightarrow> 'r option list \<times> 's" where
  "get_many 0 s = ([], s)"
| "get_many (Suc n) s = (let (x, s1) = get s; (xs, s2) = get_many n s1 in (x # xs, s2))"

lemma put_all_log:
  "inv s \<Longrightarrow> \<forall>r\<in>set rs. wf r \<Longrightarrow> length rs \<le> room s \<Longrightarrow> put_all rs s = (b, s') \<Longrightarrow>
     b \<and> inv s' \<and> log s' = log s @ rs"
proof (induction rs arbitrary: s b)
  case (Cons r rs)
  obtain b1 s1 where p: "put r s = (b1, s1)" by (cases "put r s")
  with put_log[of s r b1 s1] Cons.prems have "b1" "inv s1" "log s1 = log s @ [r]" "room s1 = room s - 1"
    by auto
  moreover obtain b2 s2 where "put_all rs s1 = (b2, s2)" by (cases "put_all rs s1")
  ultimately show ?case using Cons.IH[of s1 b2] Cons.prems p by auto
qed simp

lemma get_many_log:
  "inv s \<Longrightarrow> pos s + n = Suc (length (log s)) \<Longrightarrow>
     fst (get_many n s) = map Some (drop (pos s) (log s)) @ (if n = 0 then [] else [None])"
proof (induction n arbitrary: s)
  case (Suc n)
  obtain x s1 where g: "get s = (x, s1)" by (cases "get s")
  obtain xs s2 where m: "get_many n s1 = (xs, s2)" by (cases "get_many n s1")
  note G = get_log[OF Suc.prems(1) g]
  show ?case
  proof (cases "pos s < length (log s)")
    case True
    then show ?thesis using Suc.IH[of s1] Suc.prems(2) G g m
      by (simp add: Cons_nth_drop_Suc[symmetric])
  next
    case False
    then have "n = 0" using Suc.prems(2) by simp
    then show ?thesis using False G g by simp
  qed
qed simp

lemma read_back:
  assumes "inv s" "\<forall>r\<in>set rs. wf r" "length rs \<le> room s" "put_all rs s = (b, s')"
  shows "b \<and> fst (get_many (Suc (length (log s) + length rs)) (rewind s')) = map Some (log s @ rs) @ [None]"
  using put_all_log[OF assms] rewind_log[of s'] get_many_log[of "rewind s'" "Suc (length (log s) + length rs)"]
  by auto

end

subsection \<open>The file as a log\<close>

text \<open>The records of the file behind the descriptor, and the index of the next one.\<close>

definition utmpx_bytes :: "utx \<Rightarrow> byte list" where
  "utmpx_bytes u = (case fd_get (sys u) (utmpx_file u) of None \<Rightarrow> [] | Some f \<Rightarrow> file_bytes (sys u) (opath f))"

definition utmpx_log :: "utx \<Rightarrow> byte list list" where
  "utmpx_log u = elems SIZEOF_UTMPX (length (utmpx_bytes u) div SIZEOF_UTMPX) (utmpx_bytes u)"

definition utmpx_pos :: "utx \<Rightarrow> nat" where
  "utmpx_pos u = (case fd_get (sys u) (utmpx_file u) of None \<Rightarrow> 0 | Some f \<Rightarrow> opos f div SIZEOF_UTMPX)"

definition utmpx_inv :: "utx \<Rightarrow> bool" where
  "utmpx_inv u \<longleftrightarrow> length (returned u) = SIZEOF_UTMPX \<and>
     (case fd_get (sys u) (utmpx_file u) of None \<Rightarrow> False
      | Some f \<Rightarrow> SIZEOF_UTMPX dvd length (utmpx_bytes u) \<and> SIZEOF_UTMPX dvd opos f \<and> opos f \<le> length (utmpx_bytes u))"

definition utmpx_room :: "utx \<Rightarrow> nat" where
  "utmpx_room u = (capacity (sys u) - length (utmpx_bytes u)) div SIZEOF_UTMPX"

lemma utmpx_invE:
  assumes "utmpx_inv u"
  obtains path n p where "fd_get (sys u) (utmpx_file u) = Some \<lparr>opath = path, opos = SIZEOF_UTMPX * p\<rparr>"
    "length (file_bytes (sys u) path) = SIZEOF_UTMPX * n" "p \<le> n" "length (returned u) = SIZEOF_UTMPX"
    "0 \<le> utmpx_file u"
proof -
  obtain f where f: "fd_get (sys u) (utmpx_file u) = Some f"
    using assms by (auto simp: utmpx_inv_def split: option.splits)
  then have "0 \<le> utmpx_file u" by (simp add: fd_get_def tab_get_def split: if_splits)
  moreover obtain n p where np: "length (file_bytes (sys u) (opath f)) = SIZEOF_UTMPX * n" "opos f = SIZEOF_UTMPX * p"
    using assms f by (auto simp: utmpx_inv_def utmpx_bytes_def elim!: dvdE)
  moreover have "p \<le> n" "length (returned u) = SIZEOF_UTMPX"
    using assms f np by (simp_all add: utmpx_inv_def utmpx_bytes_def SIZEOF_UTMPX_def)
  ultimately show ?thesis using that[of "opath f" p n] f by (cases f) auto
qed

lemma elems_snoc:
  assumes "length c = sz * n" "length r = sz"
  shows "elems sz (Suc n) (c @ r) = elems sz n c @ [r]"
proof -
  have "elem sz (c @ r) i = elem sz c i" if "i < n" for i
  proof -
    have "(i + 1) * sz \<le> n * sz" using that by (intro mult_right_mono) auto
    then show ?thesis using assms(1) by (simp add: elem_def mult.commute)
  qed
  moreover have "elem sz (c @ r) n = r" using assms by (simp add: elem_def mult.commute)
  ultimately show ?thesis by (simp add: elems_def)
qed

lemma append_record_log:
  assumes "utmpx_inv u" "length r = SIZEOF_UTMPX" "0 < utmpx_room u" "append_record r u = (b, u')"
  shows "b \<and> utmpx_inv u' \<and> utmpx_log u' = utmpx_log u @ [r] \<and> utmpx_room u' = utmpx_room u - 1"
proof -
  let ?s = "sys u" and ?fd = "utmpx_file u"
  obtain path n p where f: "fd_get ?s ?fd = Some \<lparr>opath = path, opos = SIZEOF_UTMPX * p\<rparr>"
    and c: "length (file_bytes ?s path) = SIZEOF_UTMPX * n" and "p \<le> n" and ret: "length (returned u) = SIZEOF_UTMPX"
    using assms(1) by (rule utmpx_invE) auto
  define c0 where "c0 = file_bytes ?s path"
  have cap: "SIZEOF_UTMPX * n + SIZEOF_UTMPX \<le> capacity ?s"
    using assms(3) f c by (simp add: utmpx_room_def utmpx_bytes_def SIZEOF_UTMPX_def)
  then have t: "take (capacity ?s - SIZEOF_UTMPX * n) r = r" using assms(2) by simp
  define u1 where "u1 = lift_fs (seek_end ?fd) u"
  have u1: "fd_get (sys u1) ?fd = Some \<lparr>opath = path, opos = SIZEOF_UTMPX * n\<rparr>" "utmpx_file u1 = ?fd"
    "file_bytes (sys u1) = file_bytes ?s" "capacity (sys u1) = capacity ?s" "returned u1 = returned u"
    using f c by (simp_all add: u1_def lift_fs_def seek_end_def fd_get_put)
  define s' where "s' = (fd_put ?fd (Some \<lparr>opath = path, opos = SIZEOF_UTMPX * n + SIZEOF_UTMPX\<rparr>) (sys u1))
      \<lparr>contents := (contents (sys u1))(path \<mapsto> overwrite (SIZEOF_UTMPX * n) r (file_bytes ?s path))\<rparr>"
  have w: "posix_write ?fd r (sys u1) = (int SIZEOF_UTMPX, s')"
    using u1 t assms(2) by (simp add: posix_write_def s'_def Let_def)
  have b: "b" and u': "u' = u1\<lparr>sys := s'\<rparr>"
    using assms(4) w u1 by (auto simp: append_record_def call_fs_def u1_def[symmetric] Let_def)
  have c': "file_bytes s' path = c0 @ r"
    using overwrite_end[of c0 r] c by (simp add: s'_def file_bytes_def[of "_\<lparr>contents := _\<rparr>"] c0_def)
  have f': "fd_get s' ?fd = Some \<lparr>opath = path, opos = SIZEOF_UTMPX * n + SIZEOF_UTMPX\<rparr>"
    using u1(1) by (simp add: s'_def fd_get_put)
  have bytes: "utmpx_bytes u' = c0 @ r" "utmpx_bytes u = c0"
    using f f' c' u1 by (simp_all add: utmpx_bytes_def u' c0_def)
  have "utmpx_inv u'" using f' bytes c assms(2) ret u1 by (simp add: utmpx_inv_def u' c0_def)
  moreover have "length c0 = SIZEOF_UTMPX * n" using c by (simp add: c0_def)
  moreover from this have "utmpx_log u' = utmpx_log u @ [r]"
    using elems_snoc[of c0 SIZEOF_UTMPX n r] assms(2) by (simp add: utmpx_log_def bytes SIZEOF_UTMPX_def)
  moreover have "capacity s' = capacity ?s" using u1 by (simp add: s'_def)
  ultimately show ?thesis using b bytes assms(2) cap
    by (simp add: utmpx_room_def u' SIZEOF_UTMPX_def)
qed

lemma rewind_log:
  assumes "utmpx_inv u"
  shows "utmpx_inv (setutxent u) \<and> utmpx_log (setutxent u) = utmpx_log u \<and> utmpx_pos (setutxent u) = 0"
  using assms
  by (elim utmpx_invE) (simp add: setutxent_def lift_fs_def seek_start_def utmpx_inv_def utmpx_log_def
      utmpx_pos_def utmpx_bytes_def fd_get_put)

lemma read_record_log:
  assumes "utmpx_inv u" "read_record u = (x, u')"
  shows "utmpx_inv u' \<and> utmpx_log u' = utmpx_log u \<and>
    x = (if utmpx_pos u < length (utmpx_log u) then Some (utmpx_log u ! utmpx_pos u) else None) \<and>
    utmpx_pos u' = (if utmpx_pos u < length (utmpx_log u) then Suc (utmpx_pos u) else utmpx_pos u)"
proof -
  let ?s = "sys u" and ?fd = "utmpx_file u"
  obtain path n p where f: "fd_get ?s ?fd = Some \<lparr>opath = path, opos = SIZEOF_UTMPX * p\<rparr>"
    and c: "length (file_bytes ?s path) = SIZEOF_UTMPX * n" and pn: "p \<le> n" and ret: "length (returned u) = SIZEOF_UTMPX"
    using assms(1) by (rule utmpx_invE) auto
  have log: "utmpx_log u = elems SIZEOF_UTMPX n (file_bytes ?s path)" "utmpx_pos u = p"
    using f c by (simp_all add: utmpx_log_def utmpx_bytes_def utmpx_pos_def SIZEOF_UTMPX_def)
  define bs where "bs = take SIZEOF_UTMPX (drop (SIZEOF_UTMPX * p) (file_bytes ?s path))"
  have "length bs = (if p < n then SIZEOF_UTMPX else 0)"
    using c pn by (auto simp: bs_def SIZEOF_UTMPX_def)
  moreover have "p < n \<Longrightarrow> bs = utmpx_log u ! utmpx_pos u"
    by (simp add: log elem_def bs_def mult.commute)
  moreover have "call_fs (posix_read ?fd SIZEOF_UTMPX) u =
      (Some bs, u\<lparr>sys := fd_put ?fd (Some \<lparr>opath = path, opos = SIZEOF_UTMPX * p + length bs\<rparr>) ?s\<rparr>)"
    using f by (simp add: call_fs_def posix_read_def bs_def Let_def)
  ultimately show ?thesis
    using assms(2) f c pn ret log
    by (cases "p < n")
      (auto simp: read_record_def Let_def utmpx_inv_def utmpx_bytes_def utmpx_log_def utmpx_pos_def fd_get_put
        SIZEOF_UTMPX_def)
qed

lemma utmpx_inv_fd: "utmpx_inv u \<Longrightarrow> \<not> utmpx_file u < 0"
  by (erule utmpx_invE) simp

interpretation utmp: record_log pututxline setutxent getutxent utmpx_log utmpx_pos utmpx_inv utmpx_room
    "\<lambda>r. length r = SIZEOF_UTMPX"
  by unfold_locales (auto simp: pututxline_def getutxent_def utmpx_inv_fd rewind_log
      dest: append_record_log read_record_log)

subsection \<open>Properties\<close>

fun write_all :: "byte list list \<Rightarrow> utx \<Rightarrow> bool \<times> utx" where
  "write_all [] u = (True, u)"
| "write_all (r # rs) u = (let (b, u1) = pututxline r u; (bs, u2) = write_all rs u1 in (b \<and> bs, u2))"

fun read_many :: "nat \<Rightarrow> utx \<Rightarrow> byte list option list" where
  "read_many 0 u = []"
| "read_many (Suc n) u = (let (x, u1) = getutxent u in x # read_many n u1)"

lemma write_all_eq: "write_all rs u = utmp.put_all rs u"
  by (induction rs arbitrary: u) (simp_all add: Let_def)

lemma read_many_eq: "read_many n u = fst (utmp.get_many n u)"
  by (induction n arbitrary: u) (simp_all add: Let_def split: prod.splits)

text \<open>C18: what is written to the login record file is read back. When there is room, every
  \<open>pututxline\<close> succeeds, wherever the position was; after a rewind \<open>getutxent\<close> returns the records
  the file had and then the new ones, in order, and then a null pointer.\<close>

theorem utmpx_read_back:
  assumes "utmpx_inv u" "\<forall>r\<in>set rs. length r = SIZEOF_UTMPX" "length rs \<le> utmpx_room u"
    and "write_all rs u = (b, u')"
  shows "b \<and> read_many (Suc (length (utmpx_log u) + length rs)) (setutxent u') =
    map Some (utmpx_log u @ rs) @ [None]"
  using utmp.read_back[OF assms(1,2,3) assms(4)[unfolded write_all_eq]] unfolding read_many_eq .

definition utx_boot :: utx where
  "utx_boot = \<lparr>sys = \<lparr>contents = Map.empty, fds = [], denied = (\<lambda>_. False), max_fds = 8, capacity = 4000\<rparr>,
     utmpx_file = - 1, returned = replicate SIZEOF_UTMPX 0\<rparr>"

definition utx_open :: utx where
  "utx_open = setutxent utx_boot"

lemma utx_open_eq:
  "utx_open = utx_boot\<lparr>utmpx_file := 0, sys := \<lparr>contents = [UTMPX_FILE \<mapsto> []],
     fds = [Some \<lparr>opath = UTMPX_FILE, opos = 0\<rparr>], denied = (\<lambda>_. False), max_fds = 8, capacity = 4000\<rparr>\<rparr>"
  by (simp add: utx_open_def utx_boot_def setutxent_def call_fs_def posix_open_def fd_alloc_def fd_put_def tab_put_def Let_def)

lemma utx_open_inv: "utmpx_inv utx_open" "utmpx_log utx_open = []" "utmpx_room utx_open = 10"
  by (simp_all add: utx_open_eq utx_boot_def utmpx_inv_def utmpx_bytes_def file_bytes_def fd_get_def tab_get_def utmpx_log_def
      utmpx_room_def elems_def SIZEOF_UTMPX_def)

theorem utmpx_read_back_witness:
  "read_many 3 (setutxent (snd (write_all [replicate 400 1, replicate 400 2] utx_open))) =
     [Some (replicate 400 1), Some (replicate 400 2), None]"
  using utmpx_read_back[of utx_open "[replicate 400 1, replicate 400 2]"
      "fst (write_all [replicate 400 1, replicate 400 2] utx_open)"
      "snd (write_all [replicate 400 1, replicate 400 2] utx_open)"] utx_open_inv
  by (simp add: SIZEOF_UTMPX_def numeral_3_eq_3 del: write_all.simps read_many.simps)

lemma seek_end_fd: "fd_get s fd = Some f \<Longrightarrow>
    fd_get (seek_end fd s) fd = Some (f\<lparr>opos := length (file_bytes s (opath f))\<rparr>)"
  by (simp add: seek_end_def fd_get_put)

lemma seek_end_simps [simp]:
  "contents (seek_end fd s) = contents s" "file_bytes (seek_end fd s) = file_bytes s" "capacity (seek_end fd s) = capacity s"
  by (simp_all add: seek_end_def split: option.splits)

lemma first_free_closed:
  assumes "fd_get s fd = Some f" "\<forall>i<nat fd. fds s ! i \<noteq> None"
  shows "first_free (fds (fd_put fd None s)) = nat fd" "0 \<le> fd" "nat fd < length (fds s)"
proof -
  show "0 \<le> fd" "nat fd < length (fds s)"
    using assms(1) by (auto simp: fd_get_def tab_get_def split: if_splits)
  with assms show "first_free (fds (fd_put fd None s)) = nat fd"
    by (intro fs.free_closed) (auto simp: fd_get_def tab_get_def)
qed

text \<open>C22: after \<open>endutxent\<close> the module goes on using the descriptor it has closed. Reading and writing
  fail, and a rewind does not open the file again. When the program opens another file and gets the
  same descriptor, which it does if the lower ones are in use, \<open>pututxline\<close> reports success and has
  written the record into that file; the login record file is as it was.\<close>

theorem endutxent_stale_descriptor:
  assumes "fd_get (sys u) (utmpx_file u) = Some f" "\<forall>i<nat (utmpx_file u). fds (sys u) ! i \<noteq> None"
    and "\<not> denied (sys u) q" "nat (utmpx_file u) < max_fds (sys u)" "q \<noteq> opath f"
    and "length (file_bytes (sys u) q) + SIZEOF_UTMPX \<le> capacity (sys u)" "length r = SIZEOF_UTMPX"
    and "posix_open q (sys (setutxent (endutxent u))) = (fd, s2)"
    and "pututxline r ((setutxent (endutxent u))\<lparr>sys := s2\<rparr>) = (ok, u3)"
  shows "fst (getutxent (setutxent (endutxent u))) = None \<and> \<not> fst (pututxline r (setutxent (endutxent u))) \<and>
    fd = utmpx_file u \<and> ok \<and>
    file_bytes (sys u3) q = file_bytes (sys u) q @ r \<and>
    file_bytes (sys u3) (opath f) = file_bytes (sys u) (opath f)"
proof -
  let ?fd = "utmpx_file u" and ?s = "fd_put (utmpx_file u) None (sys u)"
  note free = first_free_closed[OF assms(1,2)]
  have closed: "fd_get ?s ?fd = None" by (rule fd_get_put(1)[OF assms(1)])
  have u1: "setutxent (endutxent u) = u\<lparr>sys := ?s\<rparr>"
    using free(2) assms(1) closed
    by (simp add: setutxent_def endutxent_def call_fs_def posix_close_def lift_fs_def seek_start_def)
  have get: "fst (getutxent (u\<lparr>sys := ?s\<rparr>)) = None"
    using free(2) closed by (simp add: getutxent_def read_record_def call_fs_def posix_read_def)
  have put: "\<not> fst (pututxline r (u\<lparr>sys := ?s\<rparr>))"
    using free(2) closed
    by (simp add: pututxline_def append_record_def call_fs_def posix_write_def lift_fs_def seek_end_def SIZEOF_UTMPX_def)
  let ?c = "case contents (sys u) q of None \<Rightarrow> (contents (sys u))(q \<mapsto> []) | Some _ \<Rightarrow> contents (sys u)"
  have o: "fd = ?fd" "s2 = fd_alloc \<lparr>opath = q, opos = 0\<rparr> (?s\<lparr>contents := ?c\<rparr>)"
    using assms(3,4,8) free by (auto simp: u1 posix_open_def split: option.splits)
  have q: "fd_get s2 ?fd = Some \<lparr>opath = q, opos = 0\<rparr>"
    using fd_get_alloc[of "\<lparr>opath = q, opos = 0\<rparr>" "?s\<lparr>contents := ?c\<rparr>" "nat ?fd"] free by (simp add: o)
  have c: "file_bytes s2 = file_bytes (sys u)"
    by (rule ext) (auto simp: o file_bytes_def split: option.splits)
  define n where "n = length (file_bytes (sys u) q)"
  have e: "fd_get (seek_end ?fd s2) ?fd = Some \<lparr>opath = q, opos = n\<rparr>"
    using seek_end_fd[OF q] by (simp add: c n_def)
  have "capacity s2 = capacity (sys u)" by (simp add: o)
  then have fits: "length (file_bytes (seek_end ?fd s2) q) + length r \<le> capacity (seek_end ?fd s2)"
    using assms(6,7) by (simp add: c)
  have "fd_get (seek_end ?fd s2) ?fd = Some \<lparr>opath = q, opos = length (file_bytes (seek_end ?fd s2) q)\<rparr>"
    using e by (simp add: c n_def)
  from posix_write_end[OF this fits] obtain s3 where w: "posix_write ?fd r (seek_end ?fd s2) = (int (length r), s3)"
    "\<And>p. file_bytes s3 p = (if p = q then file_bytes (sys u) q @ r else file_bytes (sys u) p)"
    unfolding seek_end_simps c by blast
  then show ?thesis
    using get put assms(5,7,9) free(2)
    by (auto simp: u1 o(1) pututxline_def append_record_def lift_fs_def call_fs_def)
qed

theorem endutxent_stale_descriptor_witness:
  "let u1 = setutxent (endutxent utx_open); u2 = u1\<lparr>sys := snd (posix_open ''notes'' (sys u1))\<rparr>;
       (ok, u3) = pututxline (replicate 400 7) u2
   in ok \<and> file_bytes (sys u3) ''notes'' = replicate 400 7 \<and> file_bytes (sys u3) UTMPX_FILE = []"
proof -
  let ?u1 = "setutxent (endutxent utx_open)"
  have r: "length (replicate 400 7 :: byte list) = SIZEOF_UTMPX" by (simp only: length_replicate SIZEOF_UTMPX_def)
  have "file_bytes (sys utx_open) ''notes'' = []" "file_bytes (sys utx_open) UTMPX_FILE = []"
    by (simp_all add: utx_open_eq file_bytes_def UTMPX_FILE_def)
  then show ?thesis
    using endutxent_stale_descriptor[of utx_open "\<lparr>opath = UTMPX_FILE, opos = 0\<rparr>" "''notes''", OF _ _ _ _ _ _ r
        surjective_pairing[of "posix_open ''notes'' (sys ?u1)"] surjective_pairing]
    by (simp add: utx_open_eq utx_boot_def fd_get_def tab_get_def UTMPX_FILE_def SIZEOF_UTMPX_def Let_def case_prod_beta)
qed

end
