(* ===== verification/Thread.thy ===== *)
theory Thread
  imports Sysdeps
begin

text \<open>
  The start of a thread (\<open>mlibc-salernos/sysdeps/generic/thread.cpp\<close> and \<open>thread.S\<close>): the stack that
  \<open>sys_prepare_stack\<close> makes and the entry code takes apart, and the trampoline, which waits until
  its creator has stored its id. The creator (\<open>pthread_create\<close> of mlibc), the futex of the kernel, the scheduler and
  the thread's function are parameters; what is documented of the first two are hypotheses.
\<close>

subsection \<open>The stack\<close>

text \<open>Memory as 64-bit cells at the addresses that are stored to.\<close>

type_synonym cells = "u64 \<Rightarrow> u64"

definition DEFAULT_STACK :: u64 where "DEFAULT_STACK = 0x400000"

record stack_result =
  sp :: u64
  stack_size :: u64
  guard_size :: u64
  stack_base :: u64
  cells :: cells

text \<open>A zero \<open>stack\<close> asks for a mapping; the error of a failed one is returned.\<close>

definition sys_prepare_stack ::
    "(u64 \<Rightarrow> i32 + u64) \<Rightarrow> u64 \<Rightarrow> u64 \<Rightarrow> u64 \<Rightarrow> u64 \<Rightarrow> u64 \<Rightarrow> cells \<Rightarrow> i32 + stack_result" where
  "sys_prepare_stack mmap stack entry arg tcb size0 m =
     (let sz = (if size0 \<noteq> 0 then size0 else DEFAULT_STACK)
      in case (if stack = 0 then mmap sz else Inr stack) of
           Inl e \<Rightarrow> Inl e
         | Inr base \<Rightarrow>
             (let top = base + sz;
                  m1 = m(top - 8 := arg);
                  m2 = m1(top - 16 := tcb);
                  m3 = m2(top - 24 := entry)
              in Inr \<lparr>sp = top - 24, stack_size = sz, guard_size = 0, stack_base = base, cells = m3\<rparr>))"

text \<open>The entry code: three \<open>pop\<close>s and a \<open>call\<close>. The return address is the parameter \<open>ret\<close>.\<close>

record regs =
  rdi :: u64
  rsi :: u64
  rdx :: u64
  rsp :: u64

definition pop :: "cells \<Rightarrow> regs \<Rightarrow> u64 \<times> regs" where
  "pop m r = (m (rsp r), r\<lparr>rsp := rsp r + 8\<rparr>)"

definition mlibc_thread_entry :: "u64 \<Rightarrow> cells \<Rightarrow> regs \<Rightarrow> cells \<times> regs" where
  "mlibc_thread_entry ret m r0 =
     (let (v1, r1) = pop m r0; r1 = r1\<lparr>rdi := v1\<rparr>;
          (v2, r2) = pop m r1; r2 = r2\<lparr>rsi := v2\<rparr>;
          (v3, r3) = pop m r2; r3 = r3\<lparr>rdx := v3\<rparr>
      in (m(rsp r3 - 8 := ret), r3\<lparr>rsp := rsp r3 - 8\<rparr>))"

subsection \<open>The trampoline\<close>













subsection \<open>Properties\<close>

lemma dvd_word_add:
  assumes "16 dvd unat a" "16 dvd unat (b :: u64)"
  shows "16 dvd unat (a + b)"
proof -
  have "(16 :: nat) dvd 2 ^ 64" by simp
  then have "16 dvd (unat a + unat b) mod 2 ^ 64" using assms by (simp only: dvd_mod dvd_add)
  then show ?thesis by (simp add: unat_word_ariths)
qed

text \<open>C29: a new thread starts in the trampoline with the arguments its creator gave. The entry code takes off
  the stack what \<open>sys_prepare_stack\<close> has put there, in the registers of the calling convention; it
  leaves the stack at the top, less the return address, so the trampoline is entered with the
  alignment the convention asks for if the base and the size are multiples of 16. Only the three cells
  below the top are stored to, and they lie in the stack if it has room for them.\<close>

theorem thread_entry_arguments:
  assumes "sys_prepare_stack mmap stack entry arg tcb size0 m = Inr r"
    and "mlibc_thread_entry ret (cells r) \<lparr>rdi = x, rsi = y, rdx = z, rsp = sp r\<rparr> = (m', regs)"
  shows "rdi regs = entry \<and> rsi regs = tcb \<and> rdx regs = arg \<and> rsp regs + 8 = stack_base r + stack_size r \<and>
    (16 dvd unat (stack_base r) \<and> 16 dvd unat (stack_size r) \<longrightarrow> 16 dvd unat (rsp regs + 8)) \<and>
    (\<forall>a. a \<notin> {stack_base r + stack_size r - 8, stack_base r + stack_size r - 16, stack_base r + stack_size r - 24} \<longrightarrow>
      cells r a = m a) \<and>
    (24 \<le> unat (stack_size r) \<and> unat (stack_base r) + unat (stack_size r) < 2 ^ 64 \<longrightarrow>
      unat (sp r) = unat (stack_base r) + unat (stack_size r) - 24)"
proof -
  define sz where "sz = (if size0 \<noteq> 0 then size0 else DEFAULT_STACK)"
  obtain base where b: "(if stack = 0 then mmap sz else Inr stack) = Inr base"
    using assms(1) by (auto simp: sys_prepare_stack_def sz_def[symmetric] Let_def split: sum.splits)
  define top where "top = base + sz"
  have r: "r = \<lparr>sp = top - 24, stack_size = sz, guard_size = 0, stack_base = base,
      cells = m(top - 8 := arg, top - 16 := tcb, top - 24 := entry)\<rparr>"
    using assms(1) b by (simp add: sys_prepare_stack_def sz_def[symmetric] top_def Let_def)
  have regs: "rdi regs = entry" "rsi regs = tcb" "rdx regs = arg" "rsp regs + 8 = top"
    using assms(2) by (auto simp: r mlibc_thread_entry_def pop_def)
  moreover have "16 dvd unat base \<and> 16 dvd unat sz \<longrightarrow> 16 dvd unat top"
    using dvd_word_add[of base sz] by (simp add: top_def)
  moreover have "24 \<le> unat sz \<and> unat base + unat sz < 2 ^ 64 \<longrightarrow> unat (top - 24) = unat base + unat sz - 24"
    by (auto simp: top_def unat_sub word_le_nat_alt unat_word_ariths)
  ultimately show ?thesis by (simp add: r top_def)
qed

theorem thread_entry_arguments_witness:
  "\<exists>r m' regs. sys_prepare_stack (\<lambda>_. Inr 0x7000) 0 1 2 3 0 (\<lambda>_. 0) = Inr r \<and>
     mlibc_thread_entry 9 (cells r) \<lparr>rdi = 0, rsi = 0, rdx = 0, rsp = sp r\<rparr> = (m', regs) \<and>
     rdi regs = 1 \<and> rsi regs = 3 \<and> rdx regs = 2"
proof -
  obtain r where r: "sys_prepare_stack (\<lambda>_. Inr 0x7000) 0 1 2 3 0 (\<lambda>_. 0) = Inr r"
    by (simp add: sys_prepare_stack_def Let_def)
  obtain m' regs where e: "mlibc_thread_entry 9 (cells r) \<lparr>rdi = 0, rsi = 0, rdx = 0, rsp = sp r\<rparr> = (m', regs)"
    by fastforce
  show ?thesis using r e thread_entry_arguments[OF r e] by blast
qed




end
