(* ===== verification/Stdlib_Process.thy ===== *)
theory Stdlib_Process
  imports Sysdeps
begin

text \<open>
  Processes and integers of \<open>stdlib.h\<close>: \<open>system\<close>, \<open>abort\<close>, \<open>exit\<close>, \<open>abs\<close> and \<open>div\<close>
  (\<open>mlibc-salernos/stdlib.patched.cpp\<close>) on the wrappers of \<open>Sysdeps\<close>. Parameters: the kernel, \<open>raise\<close>, the
  functions registered with \<open>atexit\<close>, the address of the signal restorer, how a \<open>struct sigaction\<close> is read from
  memory, and what uninitialised memory holds. There is no cancellation of threads.
\<close>

subsection \<open>Signals\<close>

definition SIGINT :: int where "SIGINT = 2"
definition SIGQUIT :: int where "SIGQUIT = 3"
definition SIGABRT :: int where "SIGABRT = 6"
definition SIGCHLD :: int where "SIGCHLD = 17"
definition SIG_BLOCK :: int where "SIG_BLOCK = 0"
definition SIG_UNBLOCK :: int where "SIG_UNBLOCK = 1"
definition SIG_SETMASK :: int where "SIG_SETMASK = 2"
definition SIG_DFL :: int where "SIG_DFL = 0"
definition SIG_IGN :: int where "SIG_IGN = 1"

text \<open>What the code needs of the machine: the kernel, the restorer, the representation of actions, and
  the uninitialised memory.\<close>

record 'k machine =
  kern :: "'k kernel"
  restorer :: int
  act_of :: "int list \<Rightarrow> sigact"
  junk_act :: sigact
  junk_set :: "int list"
  junk_pid :: int

text \<open>The number a wrapper returns.\<close>

definition error_code :: "i32 + 'a \<Rightarrow> i32" where
  "error_code res = (case res of Inl e \<Rightarrow> e | Inr _ \<Rightarrow> 0)"

definition plain_action :: "'k machine \<Rightarrow> int \<Rightarrow> sigact" where
  "plain_action M handler = \<lparr>sa_handler = handler, sa_flags = 0, sa_restorer = sa_restorer (junk_act M), sa_mask = []\<rparr>"

text \<open>Set an action and keep the old one in a variable; a failure is ignored and leaves the variable.\<close>

definition swap_action :: "'k machine \<Rightarrow> int \<Rightarrow> sigact \<Rightarrow> 'k \<Rightarrow> sigact \<times> 'k" where
  "swap_action M sig new k =
     (case sys_sigaction (kern M) (restorer M) sig (Some new) A_out k of
        (Inl _, k') \<Rightarrow> (junk_act M, k')
      | (Inr out, k') \<Rightarrow> (act_of M out, k'))"

definition set_action :: "'k machine \<Rightarrow> int \<Rightarrow> sigact \<Rightarrow> 'k \<Rightarrow> 'k" where
  "set_action M sig act k = snd (sys_sigaction (kern M) (restorer M) sig (Some act) A_null k)"

definition block_signals :: "'k machine \<Rightarrow> int list \<Rightarrow> 'k \<Rightarrow> int list \<times> 'k" where
  "block_signals M sigs k =
     (case sys_sigprocmask (kern M) SIG_BLOCK (A_set sigs) A_out k of
        (Inl _, k') \<Rightarrow> (junk_set M, k')
      | (Inr out, k') \<Rightarrow> (out, k'))"

definition set_mask :: "'k machine \<Rightarrow> int \<Rightarrow> int list \<Rightarrow> 'k \<Rightarrow> 'k" where
  "set_mask M how sigs k = snd (sys_sigprocmask (kern M) how (A_set sigs) A_null k)"

subsection \<open>system\<close>

datatype system_end =
    Returned int  \<comment> \<open>in the parent\<close>
  | Executes string "string list"  \<comment> \<open>the child's new program\<close>
  | Exited int  \<comment> \<open>in the child\<close>

text \<open>The loop around \<open>sys_waitpid\<close>; the result is the status and \<open>errno\<close>.\<close>

partial_function (option) system_wait ::
    "'k kernel \<Rightarrow> int \<Rightarrow> int \<Rightarrow> i32 \<Rightarrow> 'k \<Rightarrow> (int \<times> i32 \<times> 'k) option" where
  "system_wait K child status errno k =
     (case sys_waitpid K child 0 False k of
        None \<Rightarrow> None
      | Some (res, k') \<Rightarrow>
          (let (err, status') = (case res of Inl e \<Rightarrow> (e, status) | Inr (_, out) \<Rightarrow> (0, hd (out @ [status])))
           in if err <s 0 then
                (if err = errno_of ''EINTR'' then system_wait K child status' errno k'
                 else system_wait K child (- 1) err k')
              else Some (status', errno, k')))"

text \<open>The two actions and the mask that are put back, in the parent and in the child.\<close>

definition restore_signals :: "'k machine \<Rightarrow> sigact \<Rightarrow> sigact \<Rightarrow> int list \<Rightarrow> 'k \<Rightarrow> 'k" where
  "restore_signals M old_int old_quit old_mask k =
     set_mask M SIG_SETMASK old_mask (set_action M SIGQUIT old_quit (set_action M SIGINT old_int k))"

definition system_child :: "'k machine \<Rightarrow> string \<Rightarrow> string list \<Rightarrow> 'k \<Rightarrow> system_end \<times> 'k" where
  "system_child M command environ k =
     (let args = [''sh'', ''-c'', command]
      in case sys_execve (kern M) ''/bin/sh'' args environ k of
           (e, k') \<Rightarrow> if e = 0 then (Executes ''/bin/sh'' args, k') else (Exited 127, sys_exit (kern M) 127 k'))"

definition system :: "'k machine \<Rightarrow> string list \<Rightarrow> string option \<Rightarrow> i32 \<Rightarrow> 'k \<Rightarrow> (system_end \<times> i32 \<times> 'k) option" where
  "system M environ command errno k =
     (case command of
        None \<Rightarrow> Some (Returned 1, errno, k)
      | Some cmd \<Rightarrow>
          (let (old_int, k1) = swap_action M SIGINT (plain_action M SIG_IGN) k;
               (old_quit, k2) = swap_action M SIGQUIT (plain_action M SIG_IGN) k1;
               (old_mask, k3) = block_signals M [SIGCHLD] k2;
               (res, k4) = sys_fork (kern M) k3;
               child = (case res of Inl _ \<Rightarrow> junk_pid M | Inr c \<Rightarrow> c)
           in if error_code res \<noteq> 0 then
                Some (Returned (- 1), error_code res, restore_signals M old_int old_quit old_mask k4)
              else if child = 0 then
                (let (r, k5) = system_child M cmd environ (restore_signals M old_int old_quit old_mask k4)
                 in Some (r, errno, k5))
              else
                (case system_wait (kern M) child (- 1) errno k4 of
                   None \<Rightarrow> None
                 | Some (status, errno', k5) \<Rightarrow>
                     Some (Returned status, errno', restore_signals M old_int old_quit old_mask k5))))"

subsection \<open>abort and exit\<close>

text \<open>How a call of \<open>raise\<close> ends: the signal ends the process, a handler takes control and does not come back
  (it jumps away or runs forever), or the call returns, after the handler if there is one.\<close>

datatype 'k raised = Dies | Leaves | Comes_back int 'k

datatype abort_end = Killed | Left | Panicked string | Trapped

text \<open>\<open>all_signals\<close> is the result of \<open>sigfillset\<close>.\<close>

definition abort :: "'k machine \<Rightarrow> int list \<Rightarrow> (int \<Rightarrow> 'k \<Rightarrow> 'k raised) \<Rightarrow> 'k \<Rightarrow> abort_end" where
  "abort M all_signals raise k =
     (let k1 = set_mask M SIG_UNBLOCK [SIGABRT] k
      in case raise SIGABRT k1 of Dies \<Rightarrow> Killed | Leaves \<Rightarrow> Left
         | Comes_back _ k2 \<Rightarrow>
             (let k3 = set_mask M SIG_SETMASK (removeAll SIGABRT all_signals) k2
              in case sys_sigaction (kern M) (restorer M) SIGABRT (Some (plain_action M SIG_DFL)) A_null k3 of
                   (res, k4) \<Rightarrow>
                     (if error_code res \<noteq> 0 then Panicked ''mlibc: sigaction failed in abort''
                      else case raise SIGABRT k4 of Dies \<Rightarrow> Killed | Leaves \<Rightarrow> Left
                        | Comes_back r _ \<Rightarrow> if r \<noteq> 0 then Panicked ''mlibc: raise failed in abort'' else Trapped)))"

definition stdlib_Exit :: "'k kernel \<Rightarrow> int \<Rightarrow> 'k \<Rightarrow> 'k" where
  "stdlib_Exit K status k = sys_exit K status k"

definition exit :: "'k kernel \<Rightarrow> ('k \<Rightarrow> 'k) \<Rightarrow> int \<Rightarrow> 'k \<Rightarrow> 'k" where
  "exit K do_finalize status k = sys_exit K status (do_finalize k)"

subsection \<open>Jumps\<close>

text \<open>The buffer of \<open>sigsetjmp\<close>; \<open>'r\<close> is the saved register state, a type of mlibc.\<close>

record 'r sigjmp =
  savesigs :: int
  jmp_sigset :: "int list"
  reg_state :: 'r

text \<open>What \<open>sigsetjmp\<close> stores about signals. \<open>sigprocmask\<close> with a null set only reads the mask.\<close>

definition sigsetjmp :: "'k machine \<Rightarrow> 'r sigjmp \<Rightarrow> int \<Rightarrow> 'k \<Rightarrow> 'r sigjmp \<times> 'k" where
  "sigsetjmp M buf saves k =
     (let buf = buf\<lparr>savesigs := saves\<rparr>
      in if saves \<noteq> 0 then
           (case sys_sigprocmask (kern M) 0 A_null A_out k of
              (Inl _, k') \<Rightarrow> (buf, k')
            | (Inr out, k') \<Rightarrow> (buf\<lparr>jmp_sigset := out\<rparr>, k'))
         else (buf, k))"

text \<open>The mask that is put back, and the registers and the value that go to \<open>longjmp\<close>.\<close>

definition siglongjmp :: "'k machine \<Rightarrow> 'r sigjmp \<Rightarrow> int \<Rightarrow> 'k \<Rightarrow> ('r \<times> int) \<times> 'k" where
  "siglongjmp M buf val k =
     ((reg_state buf, val), if savesigs buf \<noteq> 0 then set_mask M SIG_SETMASK (jmp_sigset buf) k else k)"

subsection \<open>Integers\<close>

text \<open>\<open>strtol\<close> and \<open>strtoll\<close> are templates of mlibc; \<open>atoi\<close> cuts the \<open>long\<close> to an \<open>int\<close>.\<close>

definition atoi :: "(string \<Rightarrow> nat \<Rightarrow> u64) \<Rightarrow> string \<Rightarrow> i32" where "atoi strtol s = ucast (strtol s 10)"
definition atol :: "(string \<Rightarrow> nat \<Rightarrow> u64) \<Rightarrow> string \<Rightarrow> u64" where "atol strtol s = strtol s 10"
definition atoll :: "(string \<Rightarrow> nat \<Rightarrow> u64) \<Rightarrow> string \<Rightarrow> u64" where "atoll strtoll s = strtoll s 10"

text \<open>The result is \<open>None\<close> where C leaves it undefined: an overflow or a division by zero. \<open>int\<close> has 32
  bits, \<open>long\<close> and \<open>long long\<close> 64; the functions are the same text for each.\<close>

definition in_range :: "nat \<Rightarrow> int \<Rightarrow> bool" where
  "in_range w x \<longleftrightarrow> - (2 ^ (w - 1)) \<le> x \<and> x < 2 ^ (w - 1)"

definition abs_w :: "nat \<Rightarrow> int \<Rightarrow> int option" where
  "abs_w w num = (let r = (if num < 0 then - num else num) in if in_range w r then Some r else None)"

record div_t =
  quot :: int
  rem :: int

definition div_w :: "nat \<Rightarrow> int \<Rightarrow> int \<Rightarrow> div_t option" where
  "div_w w number denom =
     (if denom = 0 \<or> \<not> in_range w (number sdiv denom) then None
      else Some \<lparr>quot = number sdiv denom, rem = number smod denom\<rparr>)"

definition stdlib_abs :: "int \<Rightarrow> int option" where "stdlib_abs = abs_w 32"
definition labs :: "int \<Rightarrow> int option" where "labs = abs_w 64"
definition llabs :: "int \<Rightarrow> int option" where "llabs = abs_w 64"
definition stdlib_div :: "int \<Rightarrow> int \<Rightarrow> div_t option" where "stdlib_div = div_w 32"
definition ldiv :: "int \<Rightarrow> int \<Rightarrow> div_t option" where "ldiv = div_w 64"
definition lldiv :: "int \<Rightarrow> int \<Rightarrow> div_t option" where "lldiv = div_w 64"

subsection \<open>The signals of system and abort\<close>

text \<open>The documented behaviour of the calls: \<open>disp\<close> is the action of every signal and \<open>blocked\<close> the set of the blocked
  ones, which a child inherits.\<close>

definition signal_kernel :: "'k machine \<Rightarrow> ('k \<Rightarrow> int \<Rightarrow> sigact) \<Rightarrow> ('k \<Rightarrow> int set) \<Rightarrow> bool" where
  "signal_kernel M disp blocked \<longleftrightarrow>
     (\<forall>sig a old k. sig \<in> {SIGINT, SIGQUIT, SIGABRT} \<longrightarrow>
        (case kern M (SYS ''SIGACTION'') [A_num sig, A_act a, old] k of
           (r, k') \<Rightarrow> serrno r = 0 \<and> act_of M (sdata r) = disp k sig \<and> disp k' = (disp k)(sig := a) \<and> blocked k' = blocked k)) \<and>
     (\<forall>how sigs old k. how \<in> {SIG_BLOCK, SIG_UNBLOCK, SIG_SETMASK} \<longrightarrow>
        (case kern M (SYS ''SIGPROCMASK'') [A_num how, A_set sigs, old] k of
           (r, k') \<Rightarrow> serrno r = 0 \<and> set (sdata r) = blocked k \<and> disp k' = disp k \<and>
             blocked k' = (if how = SIG_BLOCK then blocked k \<union> set sigs
                        else if how = SIG_UNBLOCK then blocked k - set sigs else set sigs))) \<and>
     (\<forall>k. case kern M (SYS ''FORK'') [] k of (_, k') \<Rightarrow> disp k' = disp k \<and> blocked k' = blocked k) \<and>
     (\<forall>args k. case kern M (SYS ''WAITPID'') args k of (_, k') \<Rightarrow> disp k' = disp k \<and> blocked k' = blocked k)"

lemma signal_kernelD:
  assumes "signal_kernel M disp blocked"
  shows "sig \<in> {SIGINT, SIGQUIT, SIGABRT} \<Longrightarrow> kern M (SYS ''SIGACTION'') [A_num sig, A_act a, old] k = (r, k') \<Longrightarrow>
      serrno r = 0 \<and> act_of M (sdata r) = disp k sig \<and> disp k' = (disp k)(sig := a) \<and> blocked k' = blocked k"
    and "how \<in> {SIG_BLOCK, SIG_UNBLOCK, SIG_SETMASK} \<Longrightarrow>
      kern M (SYS ''SIGPROCMASK'') [A_num how, A_set sigs, old] k = (r, k') \<Longrightarrow>
      serrno r = 0 \<and> set (sdata r) = blocked k \<and> disp k' = disp k \<and>
      blocked k' = (if how = SIG_BLOCK then blocked k \<union> set sigs
        else if how = SIG_UNBLOCK then blocked k - set sigs else set sigs)"
    and "kern M (SYS ''FORK'') [] k = (r, k') \<Longrightarrow> disp k' = disp k \<and> blocked k' = blocked k"
    and "kern M (SYS ''WAITPID'') args k = (r, k') \<Longrightarrow> disp k' = disp k \<and> blocked k' = blocked k"
proof -
  note d = assms[unfolded signal_kernel_def]
  show "sig \<in> {SIGINT, SIGQUIT, SIGABRT} \<Longrightarrow> kern M (SYS ''SIGACTION'') [A_num sig, A_act a, old] k = (r, k') \<Longrightarrow>
      serrno r = 0 \<and> act_of M (sdata r) = disp k sig \<and> disp k' = (disp k)(sig := a) \<and> blocked k' = blocked k"
    using d[THEN conjunct1, rule_format, where sig = sig and a = a and old = old and k = k] by simp
  show "how \<in> {SIG_BLOCK, SIG_UNBLOCK, SIG_SETMASK} \<Longrightarrow>
      kern M (SYS ''SIGPROCMASK'') [A_num how, A_set sigs, old] k = (r, k') \<Longrightarrow>
      serrno r = 0 \<and> set (sdata r) = blocked k \<and> disp k' = disp k \<and>
      blocked k' = (if how = SIG_BLOCK then blocked k \<union> set sigs
        else if how = SIG_UNBLOCK then blocked k - set sigs else set sigs)"
    using d[THEN conjunct2, THEN conjunct1, rule_format, where how = how and sigs = sigs and old = old and k = k] by simp
  show "kern M (SYS ''FORK'') [] k = (r, k') \<Longrightarrow> disp k' = disp k \<and> blocked k' = blocked k"
    using d[THEN conjunct2, THEN conjunct2, THEN conjunct1, rule_format, where k = k] by simp
  show "kern M (SYS ''WAITPID'') args k = (r, k') \<Longrightarrow> disp k' = disp k \<and> blocked k' = blocked k"
    using d[THEN conjunct2, THEN conjunct2, THEN conjunct2, rule_format, where args = args and k = k] by simp
qed

lemma swap_action_kernel:
  assumes "signal_kernel M disp blocked" "sig \<in> {SIGINT, SIGQUIT, SIGABRT}" "swap_action M sig new k = (old, k')"
  shows "old = disp k sig" "disp k' = (disp k)(sig := call_action (restorer M) new)" "blocked k' = blocked k"
proof -
  obtain r k1 where r: "kern M (SYS ''SIGACTION'') [A_num sig, A_act (call_action (restorer M) new), A_out] k = (r, k1)" by fastforce
  from signal_kernelD(1)[OF assms(1,2) this] r assms(3)
  show "old = disp k sig" "disp k' = (disp k)(sig := call_action (restorer M) new)" "blocked k' = blocked k"
    by (auto simp: swap_action_def sys_sigaction_def sys_result_def)
qed

lemma set_action_kernel:
  assumes "signal_kernel M disp blocked" "sig \<in> {SIGINT, SIGQUIT, SIGABRT}"
  shows "disp (set_action M sig a k) = (disp k)(sig := call_action (restorer M) a)"
    "blocked (set_action M sig a k) = blocked k"
    "error_code (fst (sys_sigaction (kern M) (restorer M) sig (Some a) A_null k)) = 0"
proof -
  obtain r k1 where r: "kern M (SYS ''SIGACTION'') [A_num sig, A_act (call_action (restorer M) a), A_null] k = (r, k1)" by fastforce
  from signal_kernelD(1)[OF assms this] r
  show "disp (set_action M sig a k) = (disp k)(sig := call_action (restorer M) a)"
    "blocked (set_action M sig a k) = blocked k"
    "error_code (fst (sys_sigaction (kern M) (restorer M) sig (Some a) A_null k)) = 0"
    by (simp_all add: set_action_def sys_sigaction_def sys_result_def error_code_def)
qed

lemma set_mask_kernel:
  assumes "signal_kernel M disp blocked" "how \<in> {SIG_UNBLOCK, SIG_SETMASK}"
  shows "disp (set_mask M how sigs k) = disp k"
    "blocked (set_mask M how sigs k) = (if how = SIG_UNBLOCK then blocked k - set sigs else set sigs)"
proof -
  obtain r k1 where r: "kern M (SYS ''SIGPROCMASK'') [A_num how, A_set sigs, A_null] k = (r, k1)" by fastforce
  from signal_kernelD(2)[OF assms(1) _ this] r assms(2)
  show "disp (set_mask M how sigs k) = disp k"
    "blocked (set_mask M how sigs k) = (if how = SIG_UNBLOCK then blocked k - set sigs else set sigs)"
    by (auto simp: set_mask_def sys_sigprocmask_def sys_result_def SIG_BLOCK_def SIG_UNBLOCK_def SIG_SETMASK_def)
qed

lemma block_signals_kernel:
  assumes "signal_kernel M disp blocked" "block_signals M sigs k = (old, k')"
  shows "set old = blocked k" "disp k' = disp k" "blocked k' = blocked k \<union> set sigs"
proof -
  obtain r k1 where r: "kern M (SYS ''SIGPROCMASK'') [A_num SIG_BLOCK, A_set sigs, A_out] k = (r, k1)" by fastforce
  from signal_kernelD(2)[OF assms(1) _ this] r assms(2)
  show "set old = blocked k" "disp k' = disp k" "blocked k' = blocked k \<union> set sigs"
    by (auto simp: block_signals_def sys_sigprocmask_def sys_result_def)
qed

text \<open>What every call of \<open>waitpid\<close> keeps, the loops around it keep.\<close>

lemma waitpid_again_keeps:
  assumes ret: "waitpid_again K pid flags k = Some y"
    and step: "\<And>args k. I (snd (K (SYS ''WAITPID'') args k)) = I k"
  shows "I (snd y) = I k"
proof -
  have "K = K \<longrightarrow> I (snd y) = I k"
  proof (rule waitpid_again.raw_induct[where P = "\<lambda>K' pid flags k y. K' = K \<longrightarrow> I (snd y) = I k", OF _ ret])
    fix f K' pid flags k y
    assume IH: "\<And>K' pid flags k y. f K' pid flags k = Some y \<Longrightarrow> K' = K \<longrightarrow> I (snd y) = I k"
      and eq: "(case K' (SYS ''WAITPID'') [A_num pid, A_out, A_num flags] k of
        (r, k') \<Rightarrow>
          (if serrno r \<noteq> 0 then
             (if serrno r = 4 then f K' pid flags k'
              else Some (Inl (ucast (serrno r)), k'))
           else Some (Inr (ret_int r, sdata r), k'))) = Some y"
    show "K' = K \<longrightarrow> I (snd y) = I k"
      using eq step[of "[A_num pid, A_out, A_num flags]" k] IH
      by (auto split: prod.splits if_splits)
  qed
  then show ?thesis by simp
qed

lemma system_wait_keeps:
  assumes ret: "system_wait K child status errno k = Some y"
    and step: "\<And>args k. I (snd (K (SYS ''WAITPID'') args k)) = I k"
  shows "I (snd (snd y)) = I k"
proof -
  have "K = K \<longrightarrow> I (snd (snd y)) = I k"
  proof (rule system_wait.raw_induct[where P = "\<lambda>K' child status errno k y. K' = K \<longrightarrow> I (snd (snd y)) = I k", OF _ ret])
    fix f K' child status errno k y
    assume IH: "\<And>K' child status errno k y. f K' child status errno k = Some y \<Longrightarrow> K' = K \<longrightarrow> I (snd (snd y)) = I k"
      and eq: "(case sys_waitpid K' child 0 False k of
        None \<Rightarrow> None
      | Some (res, k') \<Rightarrow>
          (let (err, status') = (case res of Inl e \<Rightarrow> (e, status) | Inr (_, out) \<Rightarrow> (0, hd (out @ [status])))
           in if err <s 0 then
                (if err = errno_of ''EINTR'' then f K' child status' errno k'
                 else f K' child (- 1) err k')
              else Some (status', errno, k'))) = Some y"
    show "K' = K \<longrightarrow> I (snd (snd y)) = I k"
    proof
      assume K: "K' = K"
      from eq obtain res k' where w: "sys_waitpid K child 0 False k = Some (res, k')"
        by (auto simp: K split: option.splits)
      then have "I k' = I k"
        using waitpid_again_keeps[of K child 0 k "(res, k')" I] step by (simp add: sys_waitpid_def)
      with eq w IH K show "I (snd (snd y)) = I k"
        by (auto simp: Let_def split: sum.splits prod.splits if_splits)
    qed
  qed
  then show ?thesis by simp
qed

lemma system_wait_kernel:
  assumes "signal_kernel M disp blocked" "system_wait (kern M) child status errno k = Some (st, errno', k')"
  shows "disp k' = disp k" "blocked k' = blocked k"
proof -
  have "disp (snd (kern M (SYS ''WAITPID'') args k)) = disp k \<and> blocked (snd (kern M (SYS ''WAITPID'') args k)) = blocked k"
    for args k using signal_kernelD(4)[OF assms(1) surjective_pairing] .
  then show "disp k' = disp k" "blocked k' = blocked k"
    using system_wait_keeps[OF assms(2), of "\<lambda>k'. disp k' = disp k"]
      system_wait_keeps[OF assms(2), of "\<lambda>k'. blocked k' = blocked k"] by auto
qed

text \<open>The actions of the two signals are what they were, with the restorer of the library, and the mask is
  the old one.\<close>

definition signals_restored :: "'k machine \<Rightarrow> ('k \<Rightarrow> int \<Rightarrow> sigact) \<Rightarrow> ('k \<Rightarrow> int set) \<Rightarrow> 'k \<Rightarrow> 'k \<Rightarrow> bool" where
  "signals_restored M disp blocked k k' \<longleftrightarrow>
     blocked k' = blocked k \<and>
     disp k' = (disp k)(SIGINT := call_action (restorer M) (disp k SIGINT),
                        SIGQUIT := call_action (restorer M) (disp k SIGQUIT))"

lemma restore_signals_kernel:
  assumes "signal_kernel M disp blocked" "disp k' = (disp k)(SIGINT := a, SIGQUIT := b)" "set old = blocked k"
  shows "signals_restored M disp blocked k (restore_signals M (disp k SIGINT) (disp k SIGQUIT) old k')"
  using assms set_mask_kernel[OF assms(1), of SIG_SETMASK] set_action_kernel[OF assms(1), of SIGINT]
    set_action_kernel[OF assms(1), of SIGQUIT]
  by (simp add: signals_restored_def restore_signals_def SIG_UNBLOCK_def SIG_SETMASK_def SIGINT_def SIGQUIT_def fun_upd_twist)

text \<open>Before the fork: both signals are ignored, SIGCHLD is blocked, and the saved values are the old ones.\<close>

lemma system_prologue:
  assumes "signal_kernel M disp blocked"
    and "swap_action M SIGINT (plain_action M SIG_IGN) k = (old_int, k1)"
    and "swap_action M SIGQUIT (plain_action M SIG_IGN) k1 = (old_quit, k2)"
    and "block_signals M [SIGCHLD] k2 = (old_mask, k3)"
  shows "old_int = disp k SIGINT" "old_quit = disp k SIGQUIT" "set old_mask = blocked k"
    "blocked k3 = insert SIGCHLD (blocked k)"
    "disp k3 = (disp k)(SIGINT := call_action (restorer M) (plain_action M SIG_IGN),
       SIGQUIT := call_action (restorer M) (plain_action M SIG_IGN))"
  using swap_action_kernel[OF assms(1) _ assms(2)] swap_action_kernel[OF assms(1) _ assms(3)]
    block_signals_kernel[OF assms(1,4)]
  by (auto simp: SIGINT_def SIGQUIT_def)

lemma fork_kernel:
  assumes "signal_kernel M disp blocked" "sys_fork (kern M) k = (res, k')"
  shows "disp k' = disp k" "blocked k' = blocked k"
  using signal_kernelD(3)[OF assms(1) surjective_pairing, of k] assms(2)
  by (auto simp: sys_fork_def sys_result_def)

text \<open>How \<open>system\<close> goes on when its fork returned \<open>res\<close> in the state \<open>k4\<close>: if it returns, and before the child
  executes the shell, the signals are those of \<open>k\<close> again.\<close>

definition system_goes_on ::
    "'k machine \<Rightarrow> ('k \<Rightarrow> int \<Rightarrow> sigact) \<Rightarrow> ('k \<Rightarrow> int set) \<Rightarrow> string list \<Rightarrow> string \<Rightarrow> i32 \<Rightarrow> 'k \<Rightarrow> i32 + int \<Rightarrow> 'k \<Rightarrow> bool" where
  "system_goes_on M disp blocked environ cmd errno k res k4 \<longleftrightarrow>
     (case res of
        Inl e \<Rightarrow> e \<noteq> 0 \<longrightarrow>
          (\<exists>k'. system M environ (Some cmd) errno k = Some (Returned (- 1), e, k') \<and> signals_restored M disp blocked k k')
      | Inr child \<Rightarrow>
          (if child = 0 then
             (\<exists>k' r k5. signals_restored M disp blocked k k' \<and> system_child M cmd environ k' = (r, k5) \<and>
                system M environ (Some cmd) errno k = Some (r, errno, k5))
           else
             (case system_wait (kern M) child (- 1) errno k4 of
                None \<Rightarrow> system M environ (Some cmd) errno k = None
              | Some (status, errno', k5) \<Rightarrow>
                  (\<exists>k'. system M environ (Some cmd) errno k = Some (Returned status, errno', k') \<and>
                     signals_restored M disp blocked k k'))))"

lemma system_after_fork:
  assumes "signal_kernel M disp blocked"
    and "swap_action M SIGINT (plain_action M SIG_IGN) k = (old_int, k1)"
    and "swap_action M SIGQUIT (plain_action M SIG_IGN) k1 = (old_quit, k2)"
    and "block_signals M [SIGCHLD] k2 = (old_mask, k3)"
    and "sys_fork (kern M) k3 = (res, k4)"
  shows "system_goes_on M disp blocked environ cmd errno k res k4"
proof -
  note pro = system_prologue[OF assms(1-4)]
  have rest: "signals_restored M disp blocked k (restore_signals M old_int old_quit old_mask k')"
    if "disp k' = disp k3" for k'
    using restore_signals_kernel[OF assms(1), of k' k] that pro by simp
  have k4: "disp k4 = disp k3" by (rule fork_kernel[OF assms(1,5)])
  note sys = system_def[of M environ "Some cmd" errno k, simplified assms(2-5) option.case Let_def prod.case]
  show ?thesis
  proof (cases res)
    case (Inl e)
    with sys rest[OF k4] show ?thesis by (auto simp: system_goes_on_def error_code_def)
  next
    case (Inr child)
    obtain r k5 where "system_child M cmd environ (restore_signals M old_int old_quit old_mask k4) = (r, k5)" by fastforce
    with Inr sys rest[OF k4] have "child = 0 \<longrightarrow>
        (\<exists>k' r k5. signals_restored M disp blocked k k' \<and> system_child M cmd environ k' = (r, k5) \<and>
           system M environ (Some cmd) errno k = Some (r, errno, k5))" by (auto simp: error_code_def)
    with Inr sys rest system_wait_kernel(1)[OF assms(1)] k4 show ?thesis
      by (auto simp: system_goes_on_def error_code_def split: option.splits)
  qed
qed

text \<open>C25: what \<open>system\<close> does to signals, when the kernel's calls for actions and masks behave as
  documented. At the fork, and when the parent begins to wait, SIGINT and SIGQUIT are ignored and
  SIGCHLD is blocked. Both actions and the mask are what they were before: in the parent when it returns, on
  every path, also when fork or \<open>waitpid\<close> fails; and in the child before the shell is executed.\<close>

theorem system_signals:
  assumes "signal_kernel M disp blocked"
  shows "\<exists>k3 k4 res.
    sa_handler (disp k3 SIGINT) = SIG_IGN \<and> sa_handler (disp k3 SIGQUIT) = SIG_IGN \<and>
    blocked k3 = insert SIGCHLD (blocked k) \<and>
    sys_fork (kern M) k3 = (res, k4) \<and> disp k4 = disp k3 \<and> blocked k4 = blocked k3 \<and>
    system_goes_on M disp blocked environ cmd errno k res k4"
proof -
  obtain old_int k1 where 1: "swap_action M SIGINT (plain_action M SIG_IGN) k = (old_int, k1)" by fastforce
  obtain old_quit k2 where 2: "swap_action M SIGQUIT (plain_action M SIG_IGN) k1 = (old_quit, k2)" by fastforce
  obtain old_mask k3 where 3: "block_signals M [SIGCHLD] k2 = (old_mask, k3)" by fastforce
  obtain res k4 where 4: "sys_fork (kern M) k3 = (res, k4)" by fastforce
  note pro = system_prologue[OF assms 1 2 3]
  have "sa_handler (disp k3 SIGINT) = SIG_IGN \<and> sa_handler (disp k3 SIGQUIT) = SIG_IGN"
    by (simp add: pro(5) call_action_def plain_action_def)
  then show ?thesis
    using pro(4) 4 fork_kernel[OF assms 4] system_after_fork[OF assms 1 2 3 4] by blast
qed

text \<open>A kernel that keeps actions and a mask, whose fork returns 7 and whose \<open>waitpid\<close> stores the status 256.\<close>

record sig_state =
  acts :: "int \<Rightarrow> sigact"
  blk :: "int list"

definition encode_act :: "sigact \<Rightarrow> int list" where
  "encode_act a = sa_handler a # uint (sa_flags a) # sa_restorer a # sa_mask a"

definition decode_act :: "int list \<Rightarrow> sigact" where
  "decode_act xs = \<lparr>sa_handler = xs ! 0, sa_flags = word_of_int (xs ! 1), sa_restorer = xs ! 2, sa_mask = drop 3 xs\<rparr>"

definition sig_kernel :: "sig_state kernel" where
  "sig_kernel n args k =
     (if n = SYS ''SIGACTION'' then
        (case args of
           [A_num sig, A_act a, old] \<Rightarrow> (\<lparr>sret = 0, serrno = 0, sdata = encode_act (acts k sig)\<rparr>, k\<lparr>acts := (acts k)(sig := a)\<rparr>)
         | _ \<Rightarrow> (\<lparr>sret = 0, serrno = 22, sdata = []\<rparr>, k))
      else if n = SYS ''SIGPROCMASK'' then
        (case args of
           [A_num how, A_set s, old] \<Rightarrow>
             (\<lparr>sret = 0, serrno = 0, sdata = blk k\<rparr>,
              k\<lparr>blk := (if how = SIG_BLOCK then blk k @ s
                        else if how = SIG_UNBLOCK then filter (\<lambda>x. x \<notin> set s) (blk k) else s)\<rparr>)
         | _ \<Rightarrow> (\<lparr>sret = 0, serrno = 22, sdata = []\<rparr>, k))
      else if n = SYS ''FORK'' then (\<lparr>sret = 7, serrno = 0, sdata = []\<rparr>, k)
      else (\<lparr>sret = 7, serrno = 0, sdata = [256]\<rparr>, k))"

definition sig_machine :: "sig_state machine" where
  "sig_machine = \<lparr>kern = sig_kernel, restorer = 99, act_of = decode_act,
     junk_act = \<lparr>sa_handler = 5, sa_flags = 6, sa_restorer = 7, sa_mask = [8]\<rparr>, junk_set = [9], junk_pid = 3\<rparr>"

lemma sys_numbers:
  "SYS ''SIGACTION'' = 29" "SYS ''SIGPROCMASK'' = 26" "SYS ''FORK'' = 4" "SYS ''WAITPID'' = 6"
  by code_simp+

lemma sig_machine_kernel: "signal_kernel sig_machine acts (\<lambda>k. set (blk k))"
proof -
  have "decode_act (encode_act a) = a" for a by (simp add: decode_act_def encode_act_def)
  then show ?thesis
    by (auto simp: signal_kernel_def sig_machine_def sig_kernel_def sys_numbers SIG_BLOCK_def SIG_UNBLOCK_def)
qed

theorem system_signals_witness:
  "\<exists>k'. system sig_machine [] (Some ''ls'') 0
      \<lparr>acts = (\<lambda>sig. \<lparr>sa_handler = sig + 1000, sa_flags = 0, sa_restorer = 0, sa_mask = []\<rparr>), blk = [10]\<rparr> =
    Some (Returned 256, 0, k') \<and> set (blk k') = {10} \<and> sa_handler (acts k' SIGINT) = 1002 \<and> sa_handler (acts k' SIGQUIT) = 1003"
proof -
  have fork: "fst (sys_fork (kern sig_machine) k) = Inr 7" for k
    by (simp add: sys_fork_def sig_machine_def sig_kernel_def sys_numbers sys_result_def ret_int_def)
  have "system_wait sig_kernel 7 (- 1) 0 k = Some (256, 0, k)" for k
    by (subst system_wait.simps) (simp add: sys_waitpid_def waitpid_again.simps sig_kernel_def sys_numbers)
  then have wait: "system_wait (kern sig_machine) 7 (- 1) 0 k = Some (256, 0, k)" for k by (simp add: sig_machine_def)
  define k0 :: sig_state where
    "k0 = \<lparr>acts = (\<lambda>sig. \<lparr>sa_handler = sig + 1000, sa_flags = 0, sa_restorer = 0, sa_mask = []\<rparr>), blk = [10]\<rparr>"
  from system_signals[OF sig_machine_kernel, of k0 "[]" "''ls''" 0]
  obtain k3 k4 res where r: "sys_fork (kern sig_machine) k3 = (res, k4)"
    and c: "system_goes_on sig_machine acts (\<lambda>k. set (blk k)) [] ''ls'' 0 k0 res k4" by blast
  have "res = Inr 7" using fork[of k3] r by simp
  with c wait obtain k' where "system sig_machine [] (Some ''ls'') 0 k0 = Some (Returned 256, 0, k')"
    "signals_restored sig_machine acts (\<lambda>k. set (blk k)) k0 k'" by (auto simp: system_goes_on_def)
  then show ?thesis unfolding k0_def
    by (intro exI[of _ k']) (simp add: signals_restored_def call_action_def SIGINT_def SIGQUIT_def)
qed

text \<open>C26: the end of the wait in \<open>system\<close>. However often the kernel interrupts it, the loop runs once, because error
  codes are positive: a success stores the status of the child; a failure is not reported, the status and
  \<open>errno\<close> are what they were.\<close>

theorem system_wait_result:
  assumes "\<forall>i<n. K (SYS ''WAITPID'') [A_num child, A_out, A_num 0] (ks i) = (rs i, ks (Suc i)) \<and> serrno (rs i) = 4"
    and "K (SYS ''WAITPID'') [A_num child, A_out, A_num 0] (ks n) = (r, k')" "serrno r \<noteq> 4"
    and "serrno r < 2 ^ 31"
  shows "system_wait K child status errno (ks 0) =
    Some (if serrno r = 0 then hd (sdata r @ [status]) else status, errno, k')"
proof -
  have "uint (serrno r) < 2 ^ 31" using assms(4) by (simp add: word_less_def)
  then have "\<not> bit (uint (serrno r)) 31" by (simp add: bit_iff_odd)
  then have "0 \<le> sint (ucast (serrno r) :: i32)"
    by (simp add: sint_uint unsigned_ucast_eq bit_take_bit_iff)
  then have "\<not> (ucast (serrno r) :: i32) <s 0" by (simp add: word_sless_alt)
  with waitpid_again_run[of n K child 0 ks rs r k'] assms(1-3) show ?thesis
    by (subst system_wait.simps) (simp add: sys_waitpid_def sys_result_def Let_def)
qed

definition echild_kernel :: "nat kernel" where
  "echild_kernel n args k = (if k = 0 then (\<lparr>sret = 0, serrno = 4, sdata = []\<rparr>, 1) else (\<lparr>sret = 0, serrno = 10, sdata = []\<rparr>, 2))"

theorem system_wait_result_witness:
  "system_wait echild_kernel 7 (- 1) 55 0 = Some (- 1, 55, 2)"
  using system_wait_result[of 1 echild_kernel 7 id "\<lambda>_. \<lparr>sret = 0, serrno = 4, sdata = []\<rparr>"
      "\<lparr>sret = 0, serrno = 10, sdata = []\<rparr>" 2 "- 1" 55]
  by (simp add: echild_kernel_def)

text \<open>What is documented of \<open>raise\<close> for SIGABRT, in a process whose other threads leave the signal alone: a blocked signal is
  left pending, the default action ends the process, an ignored signal does nothing, and otherwise the handler runs.
  \<open>handler f k\<close> is the state after the handler at \<open>f\<close>, whatever it has done, and \<open>None\<close> if it does not come back.\<close>

definition raises_abort ::
    "('k \<Rightarrow> int \<Rightarrow> sigact) \<Rightarrow> ('k \<Rightarrow> int set) \<Rightarrow> (int \<Rightarrow> 'k \<Rightarrow> 'k option) \<Rightarrow> (int \<Rightarrow> 'k \<Rightarrow> 'k raised) \<Rightarrow> bool" where
  "raises_abort disp blocked handler raise \<longleftrightarrow>
     (\<forall>k. if SIGABRT \<in> blocked k then (\<exists>k'. raise SIGABRT k = Comes_back 0 k')
          else if sa_handler (disp k SIGABRT) = SIG_DFL then raise SIGABRT k = Dies
          else if sa_handler (disp k SIGABRT) = SIG_IGN then raise SIGABRT k = Comes_back 0 k
          else raise SIGABRT k =
            (case handler (sa_handler (disp k SIGABRT)) k of None \<Rightarrow> Leaves | Some k' \<Rightarrow> Comes_back 0 k'))"

text \<open>The second attempt: mask and action are set whatever the state is, and the signal has its default action.\<close>

lemma abort_second_raise:
  assumes "signal_kernel M disp blocked" "raises_abort disp blocked handler raise"
    and "raise SIGABRT (set_mask M SIG_UNBLOCK [SIGABRT] k) = Comes_back x k2"
  shows "abort M all_signals raise k = Killed"
proof -
  define k3 where "k3 = set_mask M SIG_SETMASK (removeAll SIGABRT all_signals) k2"
  obtain res k4 where a: "sys_sigaction (kern M) (restorer M) SIGABRT (Some (plain_action M SIG_DFL)) A_null k3 = (res, k4)"
    by fastforce
  have k4: "k4 = set_action M SIGABRT (plain_action M SIG_DFL) k3" by (simp add: set_action_def a)
  have "disp k4 SIGABRT = call_action (restorer M) (plain_action M SIG_DFL)" "blocked k4 = blocked k3" "error_code res = 0"
    using set_action_kernel[OF assms(1), of SIGABRT "plain_action M SIG_DFL" k3] a by (simp_all add: k4)
  moreover have "SIGABRT \<notin> blocked k3"
    using set_mask_kernel(2)[OF assms(1), of SIG_SETMASK "removeAll SIGABRT all_signals" k2]
    by (simp add: k3_def SIG_SETMASK_def SIG_UNBLOCK_def)
  moreover have "sa_handler (call_action (restorer M) (plain_action M SIG_DFL)) = SIG_DFL"
    by (simp add: call_action_def plain_action_def)
  ultimately have "raise SIGABRT k4 = Dies" "error_code res = 0"
    using assms(2)[unfolded raises_abort_def, rule_format, of k4] by simp_all
  then show ?thesis using a by (simp add: abort_def assms(3) flip: k3_def)
qed

text \<open>C27: how \<open>abort\<close> ends. SIGABRT is unblocked first. If it has a handler then, and that handler does not come back,
  control is the handler's, as the standard allows. In every other case the process is killed: whether SIGABRT was
  blocked, ignored or caught, and whatever a handler that came back has done to the actions and the mask. \<open>abort\<close>
  does not return, panic or trap.\<close>

theorem abort_kills:
  assumes "signal_kernel M disp blocked" "raises_abort disp blocked handler raise"
  shows "\<exists>k1. blocked k1 = blocked k - {SIGABRT} \<and> disp k1 = disp k \<and>
    abort M all_signals raise k =
      (if sa_handler (disp k SIGABRT) \<notin> {SIG_DFL, SIG_IGN} \<and> handler (sa_handler (disp k SIGABRT)) k1 = None
       then Left else Killed)"
proof -
  define k1 where "k1 = set_mask M SIG_UNBLOCK [SIGABRT] k"
  have k1: "blocked k1 = blocked k - {SIGABRT}" "disp k1 = disp k"
    using set_mask_kernel[OF assms(1), of SIG_UNBLOCK "[SIGABRT]" k] by (simp_all add: k1_def)
  have "SIG_DFL \<noteq> SIG_IGN" by (simp add: SIG_DFL_def SIG_IGN_def)
  then have "abort M all_signals raise k =
      (if sa_handler (disp k SIGABRT) \<notin> {SIG_DFL, SIG_IGN} \<and> handler (sa_handler (disp k SIGABRT)) k1 = None
       then Left else Killed)"
    using assms(2)[unfolded raises_abort_def, rule_format, of k1] abort_second_raise[OF assms, of k]
    by (cases "raise SIGABRT k1") (auto simp: k1 abort_def k1_def[symmetric] split: option.splits if_splits)
  with k1 show ?thesis by blast
qed

text \<open>A process whose handler of SIGABRT is at 500; the signal was blocked. The handler comes back and has blocked it again,
  or it jumps away.\<close>

definition demo_raise :: "(int \<Rightarrow> sig_state \<Rightarrow> sig_state option) \<Rightarrow> int \<Rightarrow> sig_state \<Rightarrow> sig_state raised" where
  "demo_raise handler sig k =
     (let f = sa_handler (acts k sig)
      in if sig \<in> set (blk k) then Comes_back 0 k
         else if f = SIG_DFL then Dies
         else if f = SIG_IGN then Comes_back 0 k
         else (case handler f k of None \<Rightarrow> Leaves | Some k' \<Rightarrow> Comes_back 0 k'))"

lemma demo_raises_abort: "raises_abort acts (\<lambda>k. set (blk k)) handler (demo_raise handler)"
  by (auto simp: raises_abort_def demo_raise_def)

theorem abort_kills_witness:
  "abort sig_machine [1, 2, 3, 6] (demo_raise (\<lambda>f k. Some (k\<lparr>blk := [6]\<rparr>)))
     \<lparr>acts = (\<lambda>sig. \<lparr>sa_handler = 500, sa_flags = 0, sa_restorer = 0, sa_mask = []\<rparr>), blk = [6]\<rparr> = Killed \<and>
   abort sig_machine [1, 2, 3, 6] (demo_raise (\<lambda>f k. None))
     \<lparr>acts = (\<lambda>sig. \<lparr>sa_handler = 500, sa_flags = 0, sa_restorer = 0, sa_mask = []\<rparr>), blk = [6]\<rparr> = Left"
proof -
  let ?k = "\<lparr>acts = (\<lambda>sig. \<lparr>sa_handler = 500, sa_flags = 0, sa_restorer = 0, sa_mask = []\<rparr>), blk = [6]\<rparr>"
  note A = abort_kills[OF sig_machine_kernel demo_raises_abort, where k = ?k and all_signals = "[1, 2, 3, 6]"]
  show ?thesis using A[of "\<lambda>f k. Some (k\<lparr>blk := [6]\<rparr>)"] A[of "\<lambda>f k. None"] by (auto simp: SIG_DFL_def SIG_IGN_def)
qed

text \<open>A jump gives back the mask of the \<open>sigsetjmp\<close>, if it was to be saved, and keeps the current one if not.\<close>

lemma siglongjmp_mask:
  assumes "signal_kernel M disp blocked"
    and "\<And>k. case kern M (SYS ''SIGPROCMASK'') [A_num 0, A_null, A_out] k of (r, k') \<Rightarrow> serrno r = 0 \<and> set (sdata r) = blocked k \<and> k' = k"
    and "sigsetjmp M buf saves k = (buf', k1)"
  shows "k1 = k" "blocked (snd (siglongjmp M buf' v k2)) = (if saves \<noteq> 0 then blocked k else blocked k2)"
    "disp (snd (siglongjmp M buf' v k2)) = disp k2"
proof -
  obtain r k' where r: "kern M (SYS ''SIGPROCMASK'') [A_num 0, A_null, A_out] k = (r, k')" by fastforce
  with assms(2)[of k] have p: "serrno r = 0" "set (sdata r) = blocked k" "k' = k" by auto
  with assms(3) r show "k1 = k"
    by (auto simp: sigsetjmp_def sys_sigprocmask_def sys_result_def Let_def split: if_splits)
  show "blocked (snd (siglongjmp M buf' v k2)) = (if saves \<noteq> 0 then blocked k else blocked k2)"
    "disp (snd (siglongjmp M buf' v k2)) = disp k2"
    using p assms(3) r set_mask_kernel[OF assms(1), of SIG_SETMASK]
    by (auto simp: sigsetjmp_def siglongjmp_def sys_sigprocmask_def sys_result_def SIG_SETMASK_def SIG_UNBLOCK_def split: if_splits)
qed

subsection \<open>The integers\<close>

lemma abs_w_value:
  "0 < w \<Longrightarrow> in_range w x \<Longrightarrow> abs_w w x = (if x = - (2 ^ (w - 1)) then None else Some \<bar>x\<bar>)"
  by (auto simp: abs_w_def in_range_def)

text \<open>\<open>div\<close>, \<open>ldiv\<close> and \<open>lldiv\<close>. For arguments of the type the result is defined unless the denominator
  is 0 or the quotient of the least number by -1 is asked for. Then the remainder is smaller than the
  denominator, has the sign of the numerator, both are numbers of the type, and they make up the numerator.\<close>

lemma div_laws:
  assumes "in_range w a" "in_range w b" "0 < w"
  shows "case div_w w a b of
      None \<Rightarrow> b = 0 \<or> (a = - (2 ^ (w - 1)) \<and> b = - 1)
    | Some r \<Rightarrow> b \<noteq> 0 \<and> quot r * b + rem r = a \<and> \<bar>rem r\<bar> < \<bar>b\<bar> \<and> (rem r = 0 \<or> sgn (rem r) = sgn a) \<and>
        in_range w (quot r) \<and> in_range w (rem r)"
proof -
  define B where "B = (2 :: int) ^ (w - 1)"
  define q r where "q = \<bar>a\<bar> div \<bar>b\<bar>" and "r = \<bar>a\<bar> mod \<bar>b\<bar>"
  have ir: "in_range w x \<longleftrightarrow> - B \<le> x \<and> x < B" for x by (simp add: in_range_def B_def)
  have B: "- B \<le> a" "a < B" "- B \<le> b" "b < B" using assms by (simp_all add: in_range_def B_def)
  have s: "a sdiv b = sgn a * sgn b * q" by (simp add: signed_divide_int_def q_def)
  have m: "a smod b = sgn a * r" by (simp add: signed_modulo_int_def r_def)
  show ?thesis
  proof (cases "b = 0")
    case False
    have r: "0 \<le> r" "r < \<bar>b\<bar>" using False by (simp_all add: r_def)
    have q: "0 \<le> q" using False by (simp add: q_def pos_imp_zdiv_nonneg_iff)
    have qr: "\<bar>a\<bar> = \<bar>b\<bar> * q + r" by (simp add: q_def r_def)
    have "1 \<le> \<bar>b\<bar>" using False by linarith
    then have "q \<le> \<bar>b\<bar> * q" using q by (simp add: mult_le_cancel_right1)
    then have qa: "q \<le> \<bar>a\<bar>" using qr r(1) by simp
    have rem: "\<bar>a smod b\<bar> < \<bar>b\<bar>" using r False by (auto simp: m abs_mult sgn_if)
    then have rng: "in_range w (a smod b)" using B(3,4) by (auto simp: ir)
    have sg: "a smod b = 0 \<or> sgn (a smod b) = sgn a" using r(1) by (auto simp: m sgn_mult)
    have eq: "a sdiv b * b + a smod b = a" by (rule sdiv_mult_smod_eq)
    have undefd: "a = - B \<and> b = - 1" if "\<not> in_range w (a sdiv b)"
    proof -
      have "\<bar>a sdiv b\<bar> \<le> \<bar>a\<bar>" using qa q by (auto simp: s abs_mult sgn_if)
      with that B have "a sdiv b = B" "\<bar>a\<bar> = B" by (auto simp: ir)
      then have a: "a = - B" "0 < B" using B by auto
      have sb: "sgn a * sgn b * q = B" using \<open>a sdiv b = B\<close> by (simp only: s)
      then have "q = B" using a(2) q by (auto simp: sgn_if split: if_splits)
      then have "\<bar>b\<bar> * B \<le> B" using qr r(1) \<open>\<bar>a\<bar> = B\<close> by simp
      then have "\<bar>b\<bar> = 1" using a(2) False by (simp add: mult_le_cancel_right2)
      with sb a \<open>q = B\<close> show ?thesis by (auto simp: abs_if split: if_splits)
    qed
    show ?thesis using False undefd rem rng sg eq by (auto simp: div_w_def B_def)
  qed (simp add: div_w_def)
qed

end
