(* ===== verification/Entry.thy ===== *)
theory Entry
  imports Thread Stdlib_Process
begin

text \<open>
  The entry of a program (\<open>mlibc-salernos/sysdeps/generic/entry.cpp\<close>) and the assembly around it: \<open>crt0.S\<close>,
  the frames of the sections \<open>.init\<close> and \<open>.fini\<close> in \<open>crti.S\<close> and \<open>crtn.S\<close>, and \<open>sigrestorer.S\<close>. The
  instructions these files use run on a register file and a stack of 64-bit cells; a called function is
  a parameter. The stub \<open>__syscall\<close> (\<open>salernos/syscall.h\<close>) is the last part.
\<close>

subsection \<open>Instructions\<close>

datatype reg = RAX | RDI | RSI | RDX | R10 | R8 | R9 | RSP

datatype asm =
    Push reg | Pop reg | Mov reg reg | Mov_imm reg u64 | Lea reg string | Call string | Ret | Intr nat

record cpu =
  rf :: "reg \<Rightarrow> u64"
  mem :: cells

text \<open>How a run ends: after the last instruction, with \<open>ret\<close> to an address, in a function that does not
  return (with the state at its entry), or in an interrupt.\<close>

datatype cpu_end = At_end cpu | Returned u64 cpu | Inside string cpu | Interrupt nat cpu

definition set_reg :: "reg \<Rightarrow> u64 \<Rightarrow> cpu \<Rightarrow> cpu" where
  "set_reg r v c = c\<lparr>rf := (rf c)(r := v)\<rparr>"

definition push :: "u64 \<Rightarrow> cpu \<Rightarrow> cpu" where
  "push v c = c\<lparr>rf := (rf c)(RSP := rf c RSP - 8), mem := (mem c)(rf c RSP - 8 := v)\<rparr>"

text \<open>\<open>adr\<close> are the addresses of the symbols, \<open>call f c\<close> what the function \<open>f\<close> makes of the state at its
  entry (nothing, if it does not return) and \<open>after\<close> the address after the instruction with a number.\<close>

fun run :: "(string \<Rightarrow> u64) \<Rightarrow> (string \<Rightarrow> cpu \<Rightarrow> cpu option) \<Rightarrow> (nat \<Rightarrow> u64) \<Rightarrow> nat \<Rightarrow> asm list \<Rightarrow> cpu \<Rightarrow> cpu_end" where
  "run adr call after n [] c = At_end c"
| "run adr call after n (Push r # is) c = run adr call after (Suc n) is (push (rf c r) c)"
| "run adr call after n (Pop r # is) c =
     run adr call after (Suc n) is (set_reg r (mem c (rf c RSP)) (set_reg RSP (rf c RSP + 8) c))"
| "run adr call after n (Mov d s # is) c = run adr call after (Suc n) is (set_reg d (rf c s) c)"
| "run adr call after n (Mov_imm d v # is) c = run adr call after (Suc n) is (set_reg d v c)"
| "run adr call after n (Lea d x # is) c = run adr call after (Suc n) is (set_reg d (adr x) c)"
| "run adr call after n (Call f # is) c =
     (case call f (push (after n) c) of
        None \<Rightarrow> Inside f (push (after n) c)
      | Some c' \<Rightarrow> run adr call after (Suc n) is c')"
| "run adr call after n (Ret # is) c = Returned (mem c (rf c RSP)) (set_reg RSP (rf c RSP + 8) c)"
| "run adr call after n (Intr i # is) c = Interrupt i c"

subsection \<open>The assembly files\<close>

definition crt0_start :: "asm list" where
  "crt0_start = [Mov RDI RSP, Lea RSI ''main'', Call ''__mlibc_entry'']"

definition mlibc_restorer :: "asm list" where "mlibc_restorer = [Mov_imm RAX 32, Intr 0x80]"

definition crti_init :: "asm list" where "crti_init = [Push RAX]"
definition crti_fini :: "asm list" where "crti_fini = [Push RAX]"
definition crtn_init :: "asm list" where "crtn_init = [Pop RAX, Ret]"
definition crtn_fini :: "asm list" where "crtn_fini = [Pop RAX, Ret]"

text \<open>The linker puts the fragments of the objects of a program, each a call, between the two parts.\<close>

definition init_section :: "string list \<Rightarrow> asm list" where
  "init_section fs = crti_init @ map Call fs @ crtn_init"

definition fini_section :: "string list \<Rightarrow> asm list" where
  "fini_section fs = crti_fini @ map Call fs @ crtn_fini"

subsection \<open>The entry in C++\<close>

record exec_stack_data =
  argc :: i32
  argv :: u64
  envp :: u64

record 'k program =
  stack_data :: exec_stack_data
  environ :: u64
  kst :: 'k

text \<open>The functions of mlibc: the stack that the dynamic linker has kept, what \<open>parse_exec_stack\<close> reads from
  it, \<open>set_startup_data\<close>, and \<open>__dlapi_enter\<close>, which runs the constructors it is given here.\<close>

record 'k libc =
  dlapi_entrystack :: "'k program \<Rightarrow> u64"
  parse_exec_stack :: "u64 \<Rightarrow> 'k program \<Rightarrow> exec_stack_data"
  set_startup_data :: "i32 \<Rightarrow> u64 \<Rightarrow> u64 \<Rightarrow> 'k program \<Rightarrow> 'k program"
  dlapi_enter :: "('k program \<Rightarrow> 'k program) \<Rightarrow> u64 \<Rightarrow> 'k program \<Rightarrow> 'k program"

definition LibraryGuard :: "'k libc \<Rightarrow> 'k program \<Rightarrow> 'k program" where
  "LibraryGuard L p =
     (let p = p\<lparr>stack_data := parse_exec_stack L (dlapi_entrystack L p) p\<rparr>
      in set_startup_data L (argc (stack_data p)) (argv (stack_data p)) (envp (stack_data p)) p)"

type_synonym 'k main_fn = "i32 \<Rightarrow> u64 \<Rightarrow> u64 \<Rightarrow> 'k program \<Rightarrow> (i32 \<times> 'k program) option"

text \<open>The kernel's state at the end, if \<open>main\<close> returns.\<close>

definition mlibc_entry ::
    "'k libc \<Rightarrow> 'k kernel \<Rightarrow> ('k \<Rightarrow> 'k) \<Rightarrow> u64 \<Rightarrow> 'k main_fn \<Rightarrow> 'k program \<Rightarrow> 'k option" where
  "mlibc_entry L K do_finalize entry_stack main p =
     (let p = dlapi_enter L (LibraryGuard L) entry_stack p
      in case main (argc (stack_data p)) (argv (stack_data p)) (environ p) p of
           None \<Rightarrow> None
         | Some (result, p') \<Rightarrow> Some (exit K do_finalize (sint result) (kst p')))"

text \<open>A program from its first instruction: \<open>fn\<close> is the function at an address.\<close>

definition start_program ::
    "'k libc \<Rightarrow> 'k kernel \<Rightarrow> ('k \<Rightarrow> 'k) \<Rightarrow> (string \<Rightarrow> u64) \<Rightarrow> (u64 \<Rightarrow> 'k main_fn) \<Rightarrow> (nat \<Rightarrow> u64) \<Rightarrow> cpu \<Rightarrow> 'k program \<Rightarrow>
     'k option" where
  "start_program L K do_finalize adr fn after c p =
     (case run adr (\<lambda>_ _. None) after 0 crt0_start c of
        Inside f c' \<Rightarrow> mlibc_entry L K do_finalize (rf c' RDI) (fn (rf c' RSI)) p
      | _ \<Rightarrow> None)"

subsection \<open>The stub of the system calls\<close>

text \<open>\<open>__syscall\<close> takes six values off its variable arguments whether they were passed or not; \<open>junk\<close> is what
  it finds beyond the last. Only the lower half of \<open>rax\<close> is the number's; the upper half, too, is junk.\<close>

definition syscall_args :: "(nat \<Rightarrow> u64) \<Rightarrow> u64 list \<Rightarrow> nat \<Rightarrow> u64" where
  "syscall_args junk args i = (if i < length args then args ! i else junk i)"

definition syscall_regs :: "u32 \<Rightarrow> (nat \<Rightarrow> u64) \<Rightarrow> i32 \<Rightarrow> u64 list \<Rightarrow> (reg \<Rightarrow> u64) \<Rightarrow> reg \<Rightarrow> u64" where
  "syscall_regs high junk number args r =
     r(RDI := syscall_args junk args 0, RSI := syscall_args junk args 1, RDX := syscall_args junk args 2,
       R10 := syscall_args junk args 3, R8 := syscall_args junk args 4, R9 := syscall_args junk args 5,
       RAX := push_bit 32 (ucast high) OR ucast number)"

text \<open>The two results are those of \<open>rax\<close> and \<open>rdx\<close> after the instruction, which is the kernel's.\<close>

definition syscall_stub ::
    "u32 \<Rightarrow> (nat \<Rightarrow> u64) \<Rightarrow> ((reg \<Rightarrow> u64) \<Rightarrow> 'k \<Rightarrow> (reg \<Rightarrow> u64) \<times> 'k) \<Rightarrow> i32 \<Rightarrow> u64 list \<Rightarrow> (reg \<Rightarrow> u64) \<Rightarrow> 'k \<Rightarrow>
     (u64 \<times> u64) \<times> 'k" where
  "syscall_stub high junk syscall number args r k =
     (case syscall (syscall_regs high junk number args r) k of (r', k') \<Rightarrow> ((r' RAX, r' RDX), k'))"

subsection \<open>Properties\<close>

text \<open>What the calling convention promises of a function that is entered with an aligned stack: it returns,
  with the return address taken off, and it has changed nothing at or above the place the caller's
  stack pointer was at.\<close>

definition abi_function :: "(cpu \<Rightarrow> cpu option) \<Rightarrow> bool" where
  "abi_function f \<longleftrightarrow>
     (\<forall>c. 16 dvd unat (rf c RSP + 8) \<longrightarrow>
       (\<exists>c'. f c = Some c' \<and> rf c' RSP = rf c RSP + 8 \<and>
         (\<forall>a. unat (rf c RSP) + 8 \<le> unat a \<longrightarrow> mem c' a = mem c a)))"

lemma unat_plus8: "unat (a - 8 :: u64) + 8 = unat a" if "8 \<le> unat a"
  using that by (simp add: unat_sub word_le_nat_alt)

lemma run_aligned_calls:
  assumes "\<forall>f\<in>set fs. abi_function (call f)" "16 dvd unat (rf c RSP)" "8 \<le> unat (rf c RSP)"
  shows "\<exists>c' n'. run adr call after n (map Call fs @ is) c = run adr call after n' is c' \<and> rf c' RSP = rf c RSP \<and>
    (\<forall>a. unat (rf c RSP) \<le> unat a \<longrightarrow> mem c' a = mem c a)"
  using assms
proof (induction fs arbitrary: c n)
  case (Cons f fs)
  let ?e = "push (after n) c"
  have e: "rf ?e RSP = rf c RSP - 8" "\<And>a. unat (rf c RSP) \<le> unat a \<Longrightarrow> mem ?e a = mem c a"
    using unat_plus8[OF Cons.prems(3)] by (auto simp: push_def)
  have "abi_function (call f)" "16 dvd unat (rf ?e RSP + 8)" using Cons.prems(1,2) by (simp_all add: e(1))
  then obtain c1 where c1': "call f ?e = Some c1" "rf c1 RSP = rf ?e RSP + 8"
      "\<forall>a. unat (rf ?e RSP) + 8 \<le> unat a \<longrightarrow> mem c1 a = mem ?e a" unfolding abi_function_def by blast
  then have c1: "call f ?e = Some c1" "rf c1 RSP = rf c RSP" "\<And>a. unat (rf c RSP) \<le> unat a \<Longrightarrow> mem c1 a = mem ?e a"
    using unat_plus8[OF Cons.prems(3)] by (simp_all add: e(1))
  from Cons.IH[of c1 "Suc n"] Cons.prems c1(2) obtain c' n' where
    "run adr call after (Suc n) (map Call fs @ is) c1 = run adr call after n' is c'" "rf c' RSP = rf c RSP"
    "\<forall>a. unat (rf c RSP) \<le> unat a \<longrightarrow> mem c' a = mem c1 a" by auto
  then show ?case using c1 e(2) by (intro exI[of _ c'] exI[of _ n']) simp
qed auto

text \<open>Both sections are a frame around their calls.\<close>

lemma framed_calls:
  assumes "\<forall>f\<in>set fs. abi_function (call f)"
    and "16 dvd unat (rf c RSP + 8)" and "16 \<le> unat (rf c RSP)"
  shows "\<exists>c'. run adr call after 0 ([Push RAX] @ map Call fs @ [Pop RAX, Ret]) c = Returned (mem c (rf c RSP)) c' \<and>
    rf c' RSP = rf c RSP + 8 \<and> rf c' RAX = rf c RAX"
proof -
  let ?c = "push (rf c RAX) c"
  have sp_c: "rf ?c RSP = rf c RSP - 8" by (simp add: push_def)
  have u: "unat (rf c RSP - 8) + 8 = unat (rf c RSP)" using assms(3) by (intro unat_plus8) simp
  have "16 dvd unat (- 16 :: u64)" by simp
  from dvd_word_add[OF assms(2) this] have al: "16 dvd unat (rf ?c RSP)" by (simp add: sp_c)
  from run_aligned_calls[of fs call ?c adr after "Suc 0" "[Pop RAX, Ret]", OF assms(1) al] obtain c1 n1 where
    r: "run adr call after (Suc 0) (map Call fs @ [Pop RAX, Ret]) ?c = run adr call after n1 [Pop RAX, Ret] c1"
    "rf c1 RSP = rf c RSP - 8" "\<And>a. unat (rf c RSP - 8) \<le> unat a \<Longrightarrow> mem c1 a = mem ?c a"
    using sp_c u assms(3) by auto
  have m: "mem c1 (rf c RSP - 8) = rf c RAX" "mem c1 (rf c RSP) = mem c (rf c RSP)"
    using r(3)[of "rf c RSP - 8"] r(3)[of "rf c RSP"] u by (auto simp: push_def)
  show ?thesis using r(1,2) m by (simp add: set_reg_def)
qed

text \<open>C30: \<open>_init\<close> and \<open>_fini\<close>, put together from \<open>crti.S\<close>, the calls of the objects of a program and
  \<open>crtn.S\<close>. Entered with the alignment that a call gives, they call every function with an aligned
  stack, and they return to their caller with the stack and \<open>rax\<close> as a return has to leave them,
  whatever and however many the functions are.\<close>

theorem init_fini_sections:
  assumes "\<forall>f\<in>set fs. abi_function (call f)"
    and "16 dvd unat (rf c RSP + 8)" and "16 \<le> unat (rf c RSP)"
  shows "(\<exists>c'. run adr call after 0 (init_section fs) c = Returned (mem c (rf c RSP)) c' \<and>
      rf c' RSP = rf c RSP + 8 \<and> rf c' RAX = rf c RAX) \<and>
    (\<exists>c'. run adr call after 0 (fini_section fs) c = Returned (mem c (rf c RSP)) c' \<and>
      rf c' RSP = rf c RSP + 8 \<and> rf c' RAX = rf c RAX)"
  using framed_calls[OF assms]
  by (simp add: init_section_def fini_section_def crti_init_def crtn_init_def crti_fini_def crtn_fini_def)

text \<open>A function that moves a value and returns.\<close>

definition demo_call :: "cpu \<Rightarrow> cpu option" where
  "demo_call c = Some (set_reg RAX 7 (set_reg RSP (rf c RSP + 8) c))"

theorem init_fini_sections_witness:
  "\<exists>c'. run (\<lambda>_. 0) (\<lambda>_. demo_call) (\<lambda>_. 1) 0 (init_section [''f'', ''g'']) \<lparr>rf = (\<lambda>r. if r = RSP then 0x7ff8 else 3), mem = (\<lambda>a. a + 5)\<rparr> =
     Returned 0x7ffd c' \<and> rf c' RSP = 0x8000 \<and> rf c' RAX = 3"
proof -
  let ?c = "\<lparr>rf = (\<lambda>r. if r = RSP then 0x7ff8 else 3), mem = (\<lambda>a. a + 5)\<rparr>"
  have "abi_function demo_call" by (simp add: abi_function_def demo_call_def set_reg_def)
  then show ?thesis
    using conjunct1[OF init_fini_sections[of "[''f'', ''g'']" "\<lambda>_. demo_call" ?c "\<lambda>_. 0" "\<lambda>_. 1"]] by simp
qed

text \<open>A handler returns to the restorer, which makes the call with the number of \<open>sigreturn\<close> on the stack
  the handler has left.\<close>

lemma restorer_sigreturn:
  assumes "mem c (rf c RSP) = adr ''__mlibc_restorer''"
  shows "\<exists>c1. run adr call after 0 [Ret] c = Returned (adr ''__mlibc_restorer'') c1 \<and>
    (\<exists>c2. run adr call after 0 mlibc_restorer c1 = Interrupt 0x80 c2 \<and> rf c2 RAX = word_of_int (SYS ''SIGRETURN'') \<and>
      rf c2 RSP = rf c RSP + 8 \<and> mem c2 = mem c)"
proof -
  have "SYS ''SIGRETURN'' = 32" by (simp add: SYS_def syscall_numbers_def)
  with assms show ?thesis by (simp add: mlibc_restorer_def set_reg_def)
qed

text \<open>A program from \<open>_start\<close> to its end, whatever the functions of mlibc do: \<open>_start\<close> calls the entry with an aligned stack if
  it was itself started on one; the dynamic linker gets the stack the program was started with; \<open>main\<close> is called once,
  after it, with the arguments that the guard has stored by then and the environment that is there by then. If it returns, the
  destructors run and then the kernel is told to end the process, with its result as the status.\<close>

lemma start_enters_aligned:
  "\<exists>c'. run adr (\<lambda>_ _. None) after 0 crt0_start c = Inside ''__mlibc_entry'' c' \<and>
     rf c' RDI = rf c RSP \<and> rf c' RSI = adr ''main'' \<and> (16 dvd unat (rf c RSP) \<longrightarrow> 16 dvd unat (rf c' RSP + 8))"
  by (simp add: crt0_start_def set_reg_def push_def)

lemma start_program_run:
  "start_program L K do_finalize adr fn after c p =
     (let q = dlapi_enter L (LibraryGuard L) (rf c RSP) p
      in case fn (adr ''main'') (argc (stack_data q)) (argv (stack_data q)) (environ q) q of
           None \<Rightarrow> None
         | Some (result, p') \<Rightarrow> Some (snd (K (SYS ''EXIT'') [A_num (sint result)] (do_finalize (kst p')))))"
  using start_enters_aligned[of adr after c]
  by (auto simp: start_program_def mlibc_entry_def Let_def Stdlib_Process.exit_def sys_exit_def split: option.splits prod.splits)

end
