(* ===== verification/Stubs.thy ===== *)
theory Stubs
  imports Sysdeps
begin

text \<open>
  The stubs of the system layer (\<open>mlibc-salernos/sysdeps/generic/stubs.cpp\<close>): calls that the kernel does not
  have. None of them calls the kernel; a result is the error number and what is stored through pointers, and
  \<open>None\<close> where the code panics. Log lines are not modelled.
\<close>

subsection \<open>The macros\<close>

definition STUB_OK :: i32 where "STUB_OK = 0"
definition STUB_ENOSYS :: i32 where "STUB_ENOSYS = errno_of ''ENOSYS''"

subsection \<open>Files\<close>

definition sys_link :: "string \<Rightarrow> string \<Rightarrow> i32" where "sys_link old_path new_path = STUB_OK"
definition sys_linkat :: "int \<Rightarrow> string \<Rightarrow> int \<Rightarrow> string \<Rightarrow> int \<Rightarrow> i32" where
  "sys_linkat olddirfd old_path newdirfd new_path flags = STUB_OK"
definition sys_fchmodat :: "int \<Rightarrow> string \<Rightarrow> int \<Rightarrow> int \<Rightarrow> i32" where "sys_fchmodat fd pathname mode flags = STUB_OK"
definition sys_fchmod :: "int \<Rightarrow> int \<Rightarrow> i32" where "sys_fchmod fd mode = STUB_OK"
definition sys_chmod :: "string \<Rightarrow> int \<Rightarrow> i32" where "sys_chmod pathname mode = sys_fchmodat AT_FDCWD pathname mode 0"
definition sys_fsync :: "int \<Rightarrow> i32" where "sys_fsync fd = STUB_OK"
definition sys_fchownat :: "int \<Rightarrow> string \<Rightarrow> int \<Rightarrow> int \<Rightarrow> int \<Rightarrow> i32" where
  "sys_fchownat dirfd pathname owner grp flags = STUB_OK"
definition sys_ttyname :: "int \<Rightarrow> string \<Rightarrow> int \<Rightarrow> i32" where "sys_ttyname fd buf sz = STUB_ENOSYS"
definition sys_mount :: "string \<Rightarrow> string \<Rightarrow> string \<Rightarrow> u64 \<Rightarrow> i32" where "sys_mount source target fstype flags = STUB_ENOSYS"
definition sys_umount2 :: "string \<Rightarrow> int \<Rightarrow> i32" where "sys_umount2 target flags = STUB_ENOSYS"
definition sys_inotify_create :: "int \<Rightarrow> i32" where "sys_inotify_create flags = STUB_ENOSYS"

text \<open>The inline \<open>statfs\<close> of \<open>sys/statfs.h\<close> fails without setting \<open>errno\<close>: the result, and the error number set.\<close>

definition statfs :: "string \<Rightarrow> int \<times> i32 option" where "statfs path = (- 1, None)"

text \<open>The protection of memory is never changed.\<close>

definition sys_vm_protect :: "int \<Rightarrow> int \<Rightarrow> int \<Rightarrow> i32" where "sys_vm_protect pointer sz prot = STUB_OK"

text \<open>\<open>old\<close> is what the caller's variable holds; nothing is stored in it.\<close>

definition sys_umask :: "int \<Rightarrow> int \<Rightarrow> i32 \<times> int" where "sys_umask mode old = (STUB_OK, old)"

subsection \<open>Users and times\<close>

definition sys_getuid :: i32 where "sys_getuid = STUB_OK"
definition sys_geteuid :: i32 where "sys_geteuid = STUB_OK"
definition sys_getgid :: i32 where "sys_getgid = STUB_OK"
definition sys_getegid :: i32 where "sys_getegid = STUB_OK"
definition sys_setgid :: "int \<Rightarrow> i32" where "sys_setgid gid = STUB_OK"
definition sys_getgroups :: "int \<Rightarrow> i32" where "sys_getgroups sz = STUB_ENOSYS"
definition sys_signalfd_create :: "int list \<Rightarrow> int \<Rightarrow> i32" where "sys_signalfd_create sigs flags = STUB_ENOSYS"
definition sys_getitimer :: "int \<Rightarrow> i32" where "sys_getitimer which = STUB_ENOSYS"
definition sys_clock_getres :: "int \<Rightarrow> i32 \<times> int \<times> int" where "sys_clock_getres clock = (STUB_OK, 0, 1)"

subsection \<open>Sockets\<close>

definition sys_socketpair :: "int \<Rightarrow> int \<Rightarrow> int \<Rightarrow> i32" where "sys_socketpair domain type_and_flags proto = STUB_ENOSYS"

definition sockopt :: "string \<Rightarrow> int" where
  "sockopt name = (case map_of socket_options name of Some n \<Rightarrow> n | None \<Rightarrow> - 1)"

definition SOL_SOCKET :: int where "SOL_SOCKET = 1"
definition SO_ATTACH_FILTER :: int where "SO_ATTACH_FILTER = 26"
definition SOCK_STREAM :: int where "SOCK_STREAM = 1"
definition AF_NETLINK :: int where "AF_NETLINK = 16"

text \<open>The number stored through \<open>buffer\<close>. The size is not used.\<close>

definition sys_getsockopt :: "int \<Rightarrow> int \<Rightarrow> int \<Rightarrow> (i32 \<times> int) option" where
  "sys_getsockopt fd layer number =
     (if layer = SOL_SOCKET \<and> number = sockopt ''SO_PEERCRED'' then Some (0, 0)
      else if layer = SOL_SOCKET \<and> number = sockopt ''SO_SNDBUF'' then Some (0, 4096)
      else if layer = SOL_SOCKET \<and> number = sockopt ''SO_TYPE'' then Some (0, SOCK_STREAM)
      else if layer = SOL_SOCKET \<and> number = sockopt ''SO_ERROR'' then Some (0, 0)
      else if layer = SOL_SOCKET \<and> number = sockopt ''SO_KEEPALIVE'' then Some (0, 0)
      else None)"

definition sys_setsockopt :: "int \<Rightarrow> int \<Rightarrow> int \<Rightarrow> i32 option" where
  "sys_setsockopt fd layer number =
     (if layer = SOL_SOCKET \<and> number = sockopt ''SO_PASSCRED'' then Some 0
      else if layer = SOL_SOCKET \<and> number = SO_ATTACH_FILTER then Some 0
      else if layer = SOL_SOCKET \<and> number = sockopt ''SO_RCVBUFFORCE'' then Some 0
      else if layer = SOL_SOCKET \<and> number = sockopt ''SO_SNDBUF'' then Some 0
      else if layer = SOL_SOCKET \<and> number = sockopt ''SO_KEEPALIVE'' then Some 0
      else if layer = SOL_SOCKET \<and> number = sockopt ''SO_REUSEADDR'' then Some 0
      else if layer = AF_NETLINK \<and> number = sockopt ''SO_ACCEPTCONN'' then Some 0
      else None)"

subsection \<open>Names of the system\<close>

text \<open>\<open>strncpy\<close> and \<open>strcpy\<close> into a buffer that is long enough.\<close>

definition strncpy :: "string \<Rightarrow> string \<Rightarrow> nat \<Rightarrow> string" where
  "strncpy buf s n = take n (s @ replicate n nul) @ drop n buf"

definition strcpy :: "string \<Rightarrow> string \<Rightarrow> string" where
  "strcpy buf s = s @ [nul] @ drop (Suc (length s)) buf"

definition sys_gethostname :: "string \<Rightarrow> nat \<Rightarrow> i32 \<times> string" where
  "sys_gethostname buffer bufsize = (STUB_OK, strncpy buffer ''salernos'' bufsize)"

definition sys_sethostname :: "string \<Rightarrow> nat \<Rightarrow> i32" where "sys_sethostname buffer bufsize = STUB_ENOSYS"

record utsname =
  sysname :: string
  nodename :: string
  release :: string
  version :: string
  machine :: string
  domainname :: string

definition sys_uname :: "utsname option \<Rightarrow> i32 \<times> utsname option" where
  "sys_uname buf =
     (case buf of None \<Rightarrow> (errno_of ''EFAULT'', None)
      | Some b \<Rightarrow>
          (0, Some (b\<lparr>sysname := strcpy (sysname b) ''salernos'', nodename := strcpy (nodename b) ''salernos'',
                      release := strcpy (release b) ''0.2.4'', version := strcpy (version b) ''amd64''\<rparr>)))"

subsection \<open>Properties\<close>

text \<open>The string in a buffer, if there is a NUL.\<close>

definition c_string :: "string \<Rightarrow> string option" where
  "c_string b = (if nul \<in> set b then Some (takeWhile (\<lambda>c. c \<noteq> nul) b) else None)"

lemma c_string_append: "nul \<notin> set s \<Longrightarrow> c_string (s @ nul # t) = Some s"
  by (auto simp: c_string_def takeWhile_append)

lemma take_padded: "length s < n \<Longrightarrow> take n (s @ replicate n c) = s @ c # replicate (n - length s - 1) c"
  by (cases "n - length s") auto

lemma strcpy_string: "nul \<notin> set s \<Longrightarrow> Suc (length s) \<le> length b \<Longrightarrow> c_string (strcpy b s) = Some s \<and> length (strcpy b s) = length b"
  by (simp add: strcpy_def c_string_append)

text \<open>\<open>sys_gethostname\<close> stays in its buffer, and what it stores is a string exactly if the buffer has
  more bytes than the name: with 8 or fewer there is no NUL, and the code still reports success.\<close>

lemma gethostname_terminated:
  assumes "bufsize \<le> length buffer"
  shows "fst (sys_gethostname buffer bufsize) = 0 \<and>
    length (snd (sys_gethostname buffer bufsize)) = length buffer \<and>
    drop bufsize (snd (sys_gethostname buffer bufsize)) = drop bufsize buffer \<and>
    c_string (take bufsize (snd (sys_gethostname buffer bufsize))) = (if 8 < bufsize then Some ''salernos'' else None)"
proof -
  let ?s = "''salernos''"
  have n: "nul \<notin> set ?s" by code_simp
  have t: "take bufsize (strncpy buffer ?s bufsize) = take bufsize (?s @ replicate bufsize nul)"
    by (simp add: strncpy_def)
  have "c_string (take bufsize (strncpy buffer ?s bufsize)) = (if 8 < bufsize then Some ?s else None)"
  proof (cases "8 < bufsize")
    case True
    then show ?thesis using c_string_append[OF n] take_padded[of ?s bufsize] by (simp only: t if_True) simp
  next
    case False
    then have "bufsize - length ?s = 0" by simp
    then have "take bufsize (?s @ replicate bufsize nul) = take bufsize ?s" by (simp only: take_append take_0 append_Nil2)
    then have "nul \<notin> set (take bufsize (?s @ replicate bufsize nul))" using n by (metis in_set_takeD)
    then show ?thesis using False by (simp add: t c_string_def)
  qed
  then show ?thesis using assms by (simp add: sys_gethostname_def STUB_OK_def strncpy_def)
qed

text \<open>\<open>sys_uname\<close> stores four strings and leaves the name of the machine and of the domain as they were.\<close>

lemma uname_fields:
  assumes "length (sysname b) = 65" "length (nodename b) = 65" "length (release b) = 65" "length (version b) = 65"
  shows "\<exists>b'. sys_uname (Some b) = (0, Some b') \<and>
    c_string (sysname b') = Some ''salernos'' \<and> c_string (nodename b') = Some ''salernos'' \<and>
    c_string (release b') = Some ''0.2.4'' \<and> c_string (version b') = Some ''amd64'' \<and>
    machine b' = machine b \<and> domainname b' = domainname b"
proof -
  have n: "nul \<notin> set ''salernos''" "nul \<notin> set ''0.2.4''" "nul \<notin> set ''amd64''" by code_simp+
  show ?thesis using assms strcpy_string[OF n(1)] strcpy_string[OF n(2)] strcpy_string[OF n(3)]
    by (simp add: sys_uname_def)
qed

text \<open>\<open>getsockopt\<close> knows five options and \<open>setsockopt\<close> seven; any other ends the process.\<close>

lemma sockopt_panics:
  "sys_getsockopt fd layer number \<noteq> None \<longleftrightarrow> layer = 1 \<and> number \<in> {17, 7, 3, 4, 9}"
  "sys_setsockopt fd layer number \<noteq> None \<longleftrightarrow> layer = 1 \<and> number \<in> {16, 26, 33, 7, 9, 2} \<or> layer = 16 \<and> number = 30"
proof -
  have o: "sockopt ''SO_PEERCRED'' = 17" "sockopt ''SO_SNDBUF'' = 7" "sockopt ''SO_TYPE'' = 3" "sockopt ''SO_ERROR'' = 4"
    "sockopt ''SO_KEEPALIVE'' = 9" "sockopt ''SO_PASSCRED'' = 16" "sockopt ''SO_RCVBUFFORCE'' = 33"
    "sockopt ''SO_REUSEADDR'' = 2" "sockopt ''SO_ACCEPTCONN'' = 30" by code_simp+
  show "sys_getsockopt fd layer number \<noteq> None \<longleftrightarrow> layer = 1 \<and> number \<in> {17, 7, 3, 4, 9}"
    by (simp add: sys_getsockopt_def o SOL_SOCKET_def)
  show "sys_setsockopt fd layer number \<noteq> None \<longleftrightarrow> layer = 1 \<and> number \<in> {16, 26, 33, 7, 9, 2} \<or> layer = 16 \<and> number = 30"
    by (simp add: sys_setsockopt_def o SOL_SOCKET_def SO_ATTACH_FILTER_def AF_NETLINK_def)
qed

end
