(* ===== verification/Stdlib_Random.thy ===== *)
theory Stdlib_Random
  imports Prelude
begin

text \<open>
  The pseudo-random numbers of \<open>rand_r\<close> (\<open>mlibc-salernos/stdlib.patched.cpp\<close>): a linear
  congruential step on 32 bits, the tempering of the Mersenne twister on its result, and a
  division by 2. Injectivity is proved for the two shapes of tempering steps once, for every
  shift and every mask.
\<close>

subsection \<open>The code\<close>

definition temper :: "u32 \<Rightarrow> u32" where
  "temper x0 =
     (let x1 = x0 XOR drop_bit 11 x0;
          x2 = x1 XOR (push_bit 7 x1 AND 0x9D2C5680);
          x3 = x2 XOR (push_bit 15 x2 AND 0xEFC60000);
          x4 = x3 XOR drop_bit 18 x3
      in x4)"

text \<open>The result and the new seed.\<close>

definition rand_r :: "u32 \<Rightarrow> u32 \<times> u32" where
  "rand_r seed = (let seed' = seed * 1103515245 + 12345 in (temper seed' div 2, seed'))"

text \<open>\<open>rand\<close> and \<open>srand\<close> on the generator of frigg, a parameter: the next number and state, and the state for a
  seed.\<close>

definition rand :: "('g \<Rightarrow> u32 \<times> 'g) \<Rightarrow> 'g \<Rightarrow> i32 \<times> 'g" where
  "rand next g = (case next g of (x, g') \<Rightarrow> (x AND 0x7FFFFFFF, g'))"

definition srand :: "(u32 \<Rightarrow> 'g) \<Rightarrow> u32 \<Rightarrow> 'g" where
  "srand seed_engine s = seed_engine s"

lemma rand_nonneg: "0 \<le> sint (fst (rand next g))"
proof -
  have "\<not> bit ((x :: u32) AND 0x7FFFFFFF) 31" for x by (simp add: bit_simps)
  then show ?thesis by (simp add: rand_def split: prod.splits) (simp add: sint_uint bit_uint_iff)
qed

subsection \<open>Tempering steps are injective\<close>

lemma xor_eq_0_iff: "x XOR y = 0 \<longleftrightarrow> x = (y :: 'l::len word)"
  by (metis xor.assoc xor.right_neutral xor_self_eq)

text \<open>A bit of the argument of a step depends on lower bits only, or on higher bits only.\<close>

lemma shl_fixpoint_0:
  assumes "x = push_bit k x AND m" "0 < k"
  shows "(x :: 'l::len word) = 0"
proof -
  have "\<not> bit x n" for n
  proof (induction n rule: less_induct)
    case (less n)
    have "bit x n = bit (push_bit k x AND m) n" using assms(1) by simp
    then show ?case using less[of "n - k"] assms(2)
      by (auto simp: bit_simps)
  qed
  then show ?thesis by (auto intro: bit_eqI)
qed

lemma shr_fixpoint_0:
  assumes "x = drop_bit k x" "0 < k"
  shows "(x :: 'l::len word) = 0"
proof -
  have "\<not> bit x n" for n
  proof (induction "LENGTH('l) - n" arbitrary: n rule: less_induct)
    case less
    have "bit x n = bit x (k + n)" using assms(1) by (metis bit_drop_bit_eq comp_apply)
    moreover have "LENGTH('l) - (k + n) < LENGTH('l) - n" if "bit x n"
      using bit_imp_le_length[OF that] assms(2) by linarith
    ultimately show ?case using less by blast
  qed
  then show ?thesis by (auto intro: bit_eqI)
qed

lemma shl_step_inj:
  assumes "0 < k"
  shows "inj (\<lambda>x :: 'l::len word. x XOR (push_bit k x AND m))"
proof (rule injI)
  fix x y :: "'l word"
  assume e: "x XOR (push_bit k x AND m) = y XOR (push_bit k y AND m)"
  have "x XOR y = push_bit k (x XOR y) AND m"
    using e by (auto simp: bit_eq_iff bit_simps)
  then show "x = y" using shl_fixpoint_0 assms xor_eq_0_iff by blast
qed

lemma shr_step_inj:
  assumes "0 < k"
  shows "inj (\<lambda>x :: 'l::len word. x XOR drop_bit k x)"
proof (rule injI)
  fix x y :: "'l word"
  assume e: "x XOR drop_bit k x = y XOR drop_bit k y"
  have "x XOR y = drop_bit k (x XOR y)"
    using e by (auto simp: bit_eq_iff bit_simps)
  then show "x = y" using shr_fixpoint_0 assms xor_eq_0_iff by blast
qed

lemma temper_inj: "inj temper"
proof -
  have eq: "temper = (\<lambda>x. x XOR drop_bit 18 x) \<circ> (\<lambda>x. x XOR (push_bit 15 x AND 0xEFC60000)) \<circ>
      (\<lambda>x. x XOR (push_bit 7 x AND 0x9D2C5680)) \<circ> (\<lambda>x. x XOR drop_bit 11 x)"
    by (rule ext) (simp add: temper_def Let_def)
  show ?thesis unfolding eq by (intro inj_compose shl_step_inj shr_step_inj) simp_all
qed

text \<open>The multiplier is odd; this is its inverse.\<close>

lemma seed_step_inj: "inj (\<lambda>s :: u32. s * 1103515245 + 12345)"
proof (rule injI)
  fix s t :: u32
  assume "s * 1103515245 + 12345 = t * 1103515245 + 12345"
  then have "s * 1103515245 * 4005161829 = t * 1103515245 * 4005161829" by simp
  moreover have "(1103515245 :: u32) * 4005161829 = 1" by code_simp
  ultimately show "s = t" by (simp only: mult.assoc mult_1_right)
qed

lemma inj_word_bij: "inj (f :: 'l::len word \<Rightarrow> 'l word) \<Longrightarrow> bij f"
  by (simp add: bij_def finite_UNIV_inj_surj)

lemma rand_r_fst: "fst (rand_r s) = temper (s * 1103515245 + 12345) div 2"
  by (simp add: rand_r_def Let_def)

text \<open>C37: \<open>rand_r\<close> is fair. The step on the seed is a bijection on the 32-bit words, so no seed is
  lost; every result fits a non-negative \<open>int\<close>; and every value from 0 to \<open>2 ^ 31 - 1\<close> is the result
  of exactly two seeds.\<close>

theorem rand_r_uniform:
  "bij (\<lambda>s. snd (rand_r s)) \<and> unat (fst (rand_r s)) < 2 ^ 31 \<and>
   (\<forall>v. unat v < 2 ^ 31 \<longrightarrow> card {s. fst (rand_r s) = v} = 2)"
proof (intro conjI allI impI)
  show "bij (\<lambda>s. snd (rand_r s))"
    using inj_word_bij[OF seed_step_inj] by (simp add: rand_r_def Let_def)
  show "unat (fst (rand_r s)) < 2 ^ 31"
    using unsigned_less[where 'a = nat, of "temper (s * 1103515245 + 12345)"] by (simp add: rand_r_fst unat_div)
  fix v :: u32
  assume v: "unat v < 2 ^ 31"
  define g where "g s = temper (s * 1103515245 + 12345)" for s
  have "bij g" unfolding g_def
    using inj_compose[OF temper_inj seed_step_inj] by (intro inj_word_bij) (simp add: comp_def)
  have half: "w div 2 = v \<longleftrightarrow> w = 2 * v \<or> w = 2 * v + 1" for w :: u32
  proof -
    have "unat (2 * v) = 2 * unat v" "unat (2 * v + 1) = 2 * unat v + 1"
      using v by (simp_all add: unat_word_ariths)
    then show ?thesis by (auto simp: word_unat_eq_iff unat_div)
  qed
  have "{s. fst (rand_r s) = v} = g -` {2 * v, 2 * v + 1}"
    by (rule set_eqI) (simp only: mem_Collect_eq vimage_eq insert_iff empty_iff rand_r_fst g_def half simp_thms)
  moreover have "card (g -` {2 * v, 2 * v + 1}) = card {2 * v, 2 * v + 1}"
    using \<open>bij g\<close> by (intro card_vimage_inj) (auto simp: bij_def)
  ultimately show "card {s. fst (rand_r s) = v} = 2" by simp
qed

theorem rand_r_uniform_witness: "card {s. fst (rand_r s) = 5} = 2"
proof -
  have "unat (5 :: u32) < 2 ^ 31" by simp
  then show ?thesis by (rule rand_r_uniform[of 0, THEN conjunct2, THEN conjunct2, rule_format])
qed

end
