(* ===== verification/Stdlib_Chars.thy ===== *)
theory Stdlib_Chars
  imports Abi_Bits
begin

text \<open>
  Wide characters to UTF-8: \<open>wcrtomb\<close> and \<open>wctomb\<close>
  (\<open>mlibc-salernos/stdlib.patched.cpp\<close>), with a decoder of UTF-8 as the reference. \<open>MB_CUR_MAX\<close>
  is a parameter: it belongs to the character set of the C library.
\<close>

subsection \<open>The code\<close>

text \<open>The result: the bytes stored, or \<open>EILSEQ\<close> in \<open>errno\<close> and the result \<open>- 1\<close>.\<close>

datatype wc_error = E_ilseq

definition is_codeunit :: "u32 \<Rightarrow> bool" where
  "is_codeunit c \<longleftrightarrow> c - 0xdf80 < 0x80"

text \<open>The conversion of an \<open>int\<close> to a \<open>char\<close>.\<close>

definition to_char :: "i32 \<Rightarrow> byte" where
  "to_char x = ucast x"

definition wcrtomb :: "nat \<Rightarrow> bool \<Rightarrow> i32 \<Rightarrow> wc_error + byte list \<times> u64" where
  "wcrtomb mb_cur_max null wc =
     (if null then Inr ([], 1)
      else if wc < 0x80 then Inr ([to_char wc], 1)
      else if mb_cur_max = 1 then
        (if \<not> is_codeunit wc then Inl E_ilseq else Inr ([to_char wc], 1))
      else if wc < 0x800 then
        Inr ([to_char (0xc0 OR signed_drop_bit 6 wc), to_char (0x80 OR (wc AND 0x3f))], 2)
      else if wc < 0xd800 \<or> wc - 0xe000 < 0x2000 then
        Inr ([to_char (0xe0 OR signed_drop_bit 12 wc), to_char (0x80 OR (signed_drop_bit 6 wc AND 0x3f)),
              to_char (0x80 OR (wc AND 0x3f))], 3)
      else if wc - 0x10000 < 0x100000 then
        Inr ([to_char (0xf0 OR signed_drop_bit 18 wc), to_char (0x80 OR (signed_drop_bit 12 wc AND 0x3f)),
              to_char (0x80 OR (signed_drop_bit 6 wc AND 0x3f)), to_char (0x80 OR (wc AND 0x3f))], 4)
      else Inl E_ilseq)"

text \<open>The result of \<open>wcrtomb\<close> becomes an \<open>int\<close>, \<open>- 1\<close> for the error.\<close>

definition wctomb :: "nat \<Rightarrow> bool \<Rightarrow> i32 \<Rightarrow> byte list \<times> i32" where
  "wctomb mb_cur_max null wc =
     (if null then ([], 0)
      else case wcrtomb mb_cur_max False wc of Inl _ \<Rightarrow> ([], - 1) | Inr (bs, n) \<Rightarrow> (bs, ucast n))"

subsection \<open>The reference decoder\<close>

definition utf8_tail :: "byte \<Rightarrow> u32 option" where
  "utf8_tail b = (if b AND 0xc0 = 0x80 then Some (ucast b AND 0x3f) else None)"

fun utf8_tails :: "nat \<Rightarrow> u32 \<Rightarrow> byte list \<Rightarrow> (u32 \<times> byte list) option" where
  "utf8_tails 0 acc bs = Some (acc, bs)"
| "utf8_tails (Suc n) acc [] = None"
| "utf8_tails (Suc n) acc (b # bs) =
     (case utf8_tail b of None \<Rightarrow> None | Some x \<Rightarrow> utf8_tails n (push_bit 6 acc OR x) bs)"

text \<open>The lead byte tells how many bytes follow; each gives six bits.\<close>

fun utf8_next :: "byte list \<Rightarrow> (u32 \<times> byte list) option" where
  "utf8_next [] = None"
| "utf8_next (b # bs) =
     (if b AND 0x80 = 0 then Some (ucast b, bs)
      else if b AND 0xe0 = 0xc0 then utf8_tails 1 (ucast b AND 0x1f) bs
      else if b AND 0xf0 = 0xe0 then utf8_tails 2 (ucast b AND 0x0f) bs
      else if b AND 0xf8 = 0xf0 then utf8_tails 3 (ucast b AND 0x07) bs
      else None)"

subsection \<open>Encoding and decoding\<close>

text \<open>The characters of Unicode: no surrogates, at most \<open>0x10ffff\<close>.\<close>

definition scalar :: "u32 \<Rightarrow> bool" where
  "scalar c \<longleftrightarrow> c < 0xd800 \<or> 0xe000 \<le> c \<and> c < 0x110000"

definition utf8_bytes :: "u32 \<Rightarrow> byte list" where
  "utf8_bytes c = (case wcrtomb 4 False c of Inl _ \<Rightarrow> [] | Inr (bs, _) \<Rightarrow> bs)"

lemma sdrop_small: "(c :: u32) < 0x110000 \<Longrightarrow> signed_drop_bit n c = drop_bit n c"
proof (rule bit_eqI)
  fix k assume "c < 0x110000"
  then have "c < 2 ^ 21" by (rule less_trans) simp
  from high_bits_clear[OF this] have "\<not> bit c 31" by fastforce
  then show "bit (signed_drop_bit n c) k = bit (drop_bit n c) k"
    by (auto simp: bit_simps dest: bit_imp_le_length)
qed

text \<open>The constants as runs of ones.\<close>

lemma ones:
  "(0x80 :: 'l::len word) = push_bit 7 (mask 1)" "(0xc0 :: 'l word) = push_bit 6 (mask 2)"
  "(0xe0 :: 'l word) = push_bit 5 (mask 3)" "(0xf0 :: 'l word) = push_bit 4 (mask 4)"
  "(0xf8 :: 'l word) = push_bit 3 (mask 5)" "(0x3f :: 'l word) = mask 6" "(0x1f :: 'l word) = mask 5"
  "(0x0f :: 'l word) = mask 4" "(0x07 :: 'l word) = mask 3"
  by (simp_all add: mask_eq_exp_minus_1 push_bit_eq_mult)

lemma bit_ones:
  "bit (0x80 :: 'l::len word) n \<longleftrightarrow> n < LENGTH('l) \<and> n = 7"
  "bit (0xc0 :: 'l word) n \<longleftrightarrow> n < LENGTH('l) \<and> 6 \<le> n \<and> n < 8"
  "bit (0xe0 :: 'l word) n \<longleftrightarrow> n < LENGTH('l) \<and> 5 \<le> n \<and> n < 8"
  "bit (0xf0 :: 'l word) n \<longleftrightarrow> n < LENGTH('l) \<and> 4 \<le> n \<and> n < 8"
  "bit (0xf8 :: 'l word) n \<longleftrightarrow> n < LENGTH('l) \<and> 3 \<le> n \<and> n < 8"
  "bit (0x3f :: 'l word) n \<longleftrightarrow> n < LENGTH('l) \<and> n < 6"
  "bit (0x1f :: 'l word) n \<longleftrightarrow> n < LENGTH('l) \<and> n < 5"
  "bit (0x0f :: 'l word) n \<longleftrightarrow> n < LENGTH('l) \<and> n < 4"
  "bit (0x07 :: 'l word) n \<longleftrightarrow> n < LENGTH('l) \<and> n < 3"
  by (auto simp only: ones bit_simps possible_bit_word)

text \<open>A continuation byte of six bits, and the lead bytes.\<close>

lemma tail_byte: "utf8_tail (to_char (0x80 OR (x AND 0x3f))) = Some (x AND 0x3f)"
proof -
  have "to_char (0x80 OR (x AND 0x3f)) AND 0xc0 = 0x80"
    by (rule bit_eqI) (auto simp: to_char_def bit_simps bit_ones simp del: bit_numeral_word_iff)
  moreover have "ucast (to_char (0x80 OR (x AND 0x3f))) AND 0x3f = x AND 0x3f"
    by (rule bit_eqI) (auto simp: to_char_def bit_simps bit_ones simp del: bit_numeral_word_iff)
  ultimately show ?thesis by (simp add: utf8_tail_def)
qed

lemmas byte_bits = to_char_def bit_simps bit_ones

lemma lead_bytes:
  "(\<And>n. bit x n \<Longrightarrow> n < 7) \<Longrightarrow> utf8_next (to_char x # bs) = Some (x, bs)"
  "(\<And>n. bit x n \<Longrightarrow> n < 5) \<Longrightarrow> utf8_next (to_char (0xc0 OR x) # bs) = utf8_tails 1 x bs"
  "(\<And>n. bit x n \<Longrightarrow> n < 4) \<Longrightarrow> utf8_next (to_char (0xe0 OR x) # bs) = utf8_tails 2 x bs"
  "(\<And>n. bit x n \<Longrightarrow> n < 3) \<Longrightarrow> utf8_next (to_char (0xf0 OR x) # bs) = utf8_tails 3 x bs"
proof -
  assume x: "\<And>n. bit x n \<Longrightarrow> n < 7"
  have "to_char x AND 0x80 = 0"
    by (rule bit_eqI) (auto simp: byte_bits simp del: bit_numeral_word_iff dest: x)
  moreover have "ucast (to_char x) = x"
    by (rule bit_eqI) (auto simp: byte_bits dest: x)
  ultimately show "utf8_next (to_char x # bs) = Some (x, bs)" by simp
next
  assume x: "\<And>n. bit x n \<Longrightarrow> n < 5"
  have "to_char (0xc0 OR x) AND 0xe0 = 0xc0" "ucast (to_char (0xc0 OR x)) AND 0x1f = x"
    "bit (to_char (0xc0 OR x) AND 0x80) 7"
    by (auto simp: byte_bits bit_eq_iff simp del: bit_numeral_word_iff dest: x)
  then show "utf8_next (to_char (0xc0 OR x) # bs) = utf8_tails 1 x bs" by (auto simp: bit_0_eq)
next
  assume x: "\<And>n. bit x n \<Longrightarrow> n < 4"
  have "to_char (0xe0 OR x) AND 0xf0 = 0xe0" "ucast (to_char (0xe0 OR x)) AND 0x0f = x"
    "bit (to_char (0xe0 OR x) AND 0x80) 7" "bit (to_char (0xe0 OR x) AND 0xe0) 5" "\<not> bit (0xc0 :: byte) 5"
    by (auto simp: byte_bits bit_eq_iff simp del: bit_numeral_word_iff dest: x)
  then show "utf8_next (to_char (0xe0 OR x) # bs) = utf8_tails 2 x bs" by (auto simp: bit_0_eq)
next
  assume x: "\<And>n. bit x n \<Longrightarrow> n < 3"
  have "to_char (0xf0 OR x) AND 0xf8 = 0xf0" "ucast (to_char (0xf0 OR x)) AND 0x07 = x"
    "bit (to_char (0xf0 OR x) AND 0x80) 7" "bit (to_char (0xf0 OR x) AND 0xe0) 5" "\<not> bit (0xc0 :: byte) 5"
    "bit (to_char (0xf0 OR x) AND 0xf0) 4" "\<not> bit (0xe0 :: byte) 4"
    by (auto simp: byte_bits bit_eq_iff simp del: bit_numeral_word_iff dest: x)
  then show "utf8_next (to_char (0xf0 OR x) # bs) = utf8_tails 3 x bs" by (auto simp: bit_0_eq)
qed

lemma join_bits: "push_bit 6 (drop_bit 6 x) OR (x AND 0x3f) = (x :: u32)"
  by (auto simp: byte_bits bit_eq_iff simp del: bit_numeral_word_iff)

lemma small_bits:
  fixes c :: u32
  shows "c < 0x80 \<Longrightarrow> bit c n \<Longrightarrow> n < 7" "c < 0x800 \<Longrightarrow> bit c n \<Longrightarrow> n < 11"
    "c < 0x10000 \<Longrightarrow> bit c n \<Longrightarrow> n < 16" "c < 0x110000 \<Longrightarrow> bit c n \<Longrightarrow> n < 21"
  using high_bits_clear[of c 7] high_bits_clear[of c 11] high_bits_clear[of c 16] high_bits_clear[of c 21]
    less_trans[of c "0x110000" "0x200000"] by auto

lemma utf8_next_bytes:
  assumes "scalar c"
  shows "utf8_next (utf8_bytes c @ bs) = Some (c, bs) \<and>
    length (utf8_bytes c) = (if c < 0x80 then 1 else if c < 0x800 then 2 else if c < 0x10000 then 3 else 4)"
proof -
  have lt: "c < 0x110000" using assms by (auto simp: scalar_def elim: less_trans)
  note sd = sdrop_small[OF lt]
  have dd: "drop_bit 12 c = drop_bit 6 (drop_bit 6 c)" "drop_bit 18 c = drop_bit 6 (drop_bit 6 (drop_bit 6 c))"
    by simp_all
  have db: "bit (drop_bit n c) k \<longleftrightarrow> bit c (n + k)" for n k by (simp add: bit_drop_bit_eq)
  consider "c < 0x80" | "\<not> c < 0x80" "c < 0x800" | "\<not> c < 0x80" "\<not> c < 0x800" "c < 0x10000"
    | "\<not> c < 0x80" "\<not> c < 0x800" "\<not> c < 0x10000" by blast
  then show ?thesis
  proof cases
    case 1
    then show ?thesis using lead_bytes(1)[OF small_bits(1)[OF 1]] by (simp add: utf8_bytes_def wcrtomb_def)
  next
    case 2
    have "utf8_next (to_char (0xc0 OR drop_bit 6 c) # rest) = utf8_tails 1 (drop_bit 6 c) rest" for rest
      using small_bits(2)[OF 2(2)] by (intro lead_bytes(2)) (force simp: db)
    then show ?thesis using 2
      by (simp add: utf8_bytes_def wcrtomb_def sd tail_byte join_bits)
  next
    case 3
    have "c < 0xd800 \<or> c - 0xe000 < 0x2000"
      using assms 3(3) by (auto simp: scalar_def word_less_nat_alt word_le_nat_alt unat_sub)
    moreover have "utf8_next (to_char (0xe0 OR drop_bit 12 c) # rest) = utf8_tails 2 (drop_bit 12 c) rest" for rest
      using small_bits(3)[OF 3(3)] by (intro lead_bytes(3)) (force simp: db)
    ultimately show ?thesis using 3
      by (simp add: utf8_bytes_def wcrtomb_def sd tail_byte dd join_bits numeral_2_eq_2 del: drop_bit_drop_bit)
  next
    case 4
    have "\<not> c < 0xd800" "\<not> c - 0xe000 < 0x2000" "c - 0x10000 < 0x100000"
      using assms 4(3) lt by (auto simp: scalar_def word_less_nat_alt word_le_nat_alt unat_sub)
    moreover have "utf8_next (to_char (0xf0 OR drop_bit 18 c) # rest) = utf8_tails 3 (drop_bit 18 c) rest" for rest
      using small_bits(4)[OF lt] by (intro lead_bytes(4)) (force simp: db)
    ultimately show ?thesis using 4
      by (simp add: utf8_bytes_def wcrtomb_def sd tail_byte dd join_bits numeral_3_eq_3 del: drop_bit_drop_bit)
  qed
qed

interpretation utf8: codec utf8_bytes "\<lambda>bs. fst (the (utf8_next bs))" scalar
  by unfold_locales (use utf8_next_bytes[of _ "[]"] in simp)

text \<open>Decoding a whole text.\<close>

lemma utf8_tails_shrink: "utf8_tails n acc bs = Some (c, rest) \<Longrightarrow> length rest \<le> length bs"
  by (induction n acc bs rule: utf8_tails.induct) (fastforce split: option.splits)+

lemma utf8_next_shrink: "utf8_next bs = Some (c, rest) \<Longrightarrow> length rest < length bs"
  by (cases bs) (fastforce split: if_splits dest: utf8_tails_shrink)+

function utf8_text :: "byte list \<Rightarrow> u32 list option" where
  "utf8_text bs =
     (if bs = [] then Some []
      else case utf8_next bs of None \<Rightarrow> None | Some (c, rest) \<Rightarrow> map_option ((#) c) (utf8_text rest))"
  by pat_completeness auto
termination by (relation "measure length") (auto dest: utf8_next_shrink)

declare utf8_text.simps [simp del]

lemma utf8_text_concat:
  "\<forall>c\<in>set cs. scalar c \<Longrightarrow> utf8_text (concat (map utf8_bytes cs)) = Some cs"
proof (induction cs)
  case (Cons c cs)
  then have "utf8_bytes c \<noteq> []" "utf8_next (utf8_bytes c @ concat (map utf8_bytes cs)) = Some (c, concat (map utf8_bytes cs))"
    using utf8_next_bytes[of c "[]"] utf8_next_bytes[of c "concat (map utf8_bytes cs)"] by (auto split: if_splits)
  with Cons show ?case by (simp add: utf8_text.simps[of "utf8_bytes c @ _"])
qed (simp add: utf8_text.simps)

lemma wcrtomb_scalar: "scalar c \<Longrightarrow> wcrtomb 4 False c = Inr (utf8_bytes c, of_nat (length (utf8_bytes c)))"
  by (auto simp: utf8_bytes_def wcrtomb_def scalar_def word_less_nat_alt word_le_nat_alt unat_sub)

lemma wcrtomb_not_scalar: "\<not> scalar c \<Longrightarrow> wcrtomb 4 False c = Inl E_ilseq"
proof -
  assume "\<not> scalar c"
  then have c: "unat c \<ge> 0xd800" "unat c < 0xe000 \<or> unat c \<ge> 0x110000"
    by (auto simp: scalar_def word_less_nat_alt word_le_nat_alt)
  have "\<not> c - 0xe000 < 0x2000" "\<not> c - 0x10000 < 0x100000"
    using c unsigned_less[where 'a = nat, of c]
    by (auto simp: word_less_nat_alt unat_sub_if')
  then show ?thesis using c by (simp add: wcrtomb_def word_less_nat_alt)
qed

text \<open>C38: UTF-8. For every list of Unicode characters the bytes that \<open>wcrtomb\<close> stores, one after the
  other, decode to that list, each result is the number of bytes stored, and there are one to four of
  them by the size of the character. Everything else, the surrogates included, is \<open>EILSEQ\<close>.\<close>

theorem utf8_round_trip:
  "((\<forall>c\<in>set cs. scalar c) \<longrightarrow>
     (\<exists>bss. map (wcrtomb 4 False) cs = map (\<lambda>bs. Inr (bs, of_nat (length bs))) bss \<and>
       utf8_text (concat bss) = Some cs \<and>
       map length bss = map (\<lambda>c. if c < 0x80 then 1 else if c < 0x800 then 2 else if c < 0x10000 then 3 else 4) cs)) \<and>
   (\<not> scalar c \<longrightarrow> wcrtomb 4 False c = Inl E_ilseq \<and> wctomb 4 False c = ([], - 1))"
proof (intro conjI[rotated])
  show "(\<forall>c\<in>set cs. scalar c) \<longrightarrow>
     (\<exists>bss. map (wcrtomb 4 False) cs = map (\<lambda>bs. Inr (bs, of_nat (length bs))) bss \<and>
       utf8_text (concat bss) = Some cs \<and>
       map length bss = map (\<lambda>c. if c < 0x80 then 1 else if c < 0x800 then 2 else if c < 0x10000 then 3 else 4) cs)"
    using utf8_text_concat[of cs] utf8_next_bytes[of _ "[]"]
    by (intro impI exI[of _ "map utf8_bytes cs"]) (simp add: wcrtomb_scalar)
qed (simp add: wctomb_def wcrtomb_not_scalar)

theorem utf8_round_trip_witness:
  "wcrtomb 4 False 0xd800 = Inl E_ilseq \<and> utf8_text [0xe2, 0x82, 0xac, 0x41] = Some [0x20ac, 0x41]"
proof -
  have b: "map (wcrtomb 4 False) [0x20ac, 0x41] = [Inr ([0xe2, 0x82, 0xac], 3), Inr ([0x41], 1)]"
    by code_simp
  have "\<forall>c\<in>set [0x20ac, 0x41]. scalar c" "\<not> scalar 0xd800" by code_simp+
  with utf8_round_trip[of "[0x20ac, 0x41]" "0xd800"] b show ?thesis
    by (auto simp: map_eq_Cons_conv Cons_eq_map_conv)
qed

end
