(* ===== verification/Stdlib_Multibyte.thy ===== *)
theory Stdlib_Multibyte
  imports Stdlib_Chars Sysdeps
begin

text \<open>
  Multibyte characters: \<open>mblen\<close>, \<open>mbtowc\<close> and \<open>mbstowcs\<close> (\<open>mlibc-salernos/stdlib.patched.cpp\<close>). The character set
  of mlibc is a parameter: what it decodes, and the states between calls. \<open>None\<close> is a failed assertion or a
  panic. A pointer to bytes is the list of the bytes from there on.
\<close>

subsection \<open>The interface to the character set\<close>

datatype charcode_error = C_null | C_dirty | C_illegal_input | C_input_underflow | C_output_overflow

text \<open>\<open>decode_wtranscode\<close>: from the bytes, the room for wide characters and the state to the error, the number of
  bytes read, the wide characters stored and the new state; \<open>decode_wtranscode_length\<close>: the number only.\<close>

record 's charcode =
  decode_wtranscode :: "byte list \<Rightarrow> nat \<Rightarrow> 's \<Rightarrow> charcode_error \<times> nat \<times> i32 list \<times> 's"
  decode_wtranscode_length :: "byte list \<Rightarrow> 's \<Rightarrow> charcode_error \<times> nat"
  has_shift_states :: bool
  mb_initial :: 's

record 's mbstates =
  mblen_state :: 's
  mbtowc_state :: 's

subsection \<open>The code\<close>

definition mblen :: "'s charcode \<Rightarrow> byte list option \<Rightarrow> nat \<Rightarrow> 's mbstates \<Rightarrow> (int \<times> 's mbstates) option" where
  "mblen cc mbs mb_limit st =
     (case mbs of
        None \<Rightarrow> Some (of_bool (has_shift_states cc), st\<lparr>mblen_state := mb_initial cc\<rparr>)
      | Some bytes \<Rightarrow>
          (case decode_wtranscode cc (take mb_limit bytes) 1 (mblen_state st) of
             (e, consumed, ws, s') \<Rightarrow>
               if e \<noteq> C_null then None else Some (int consumed, st\<lparr>mblen_state := s'\<rparr>)))"

text \<open>The result, the value of \<open>errno\<close> if it is set, the wide characters stored, and the states.\<close>

type_synonym 's mbtowc_result = "int \<times> i32 option \<times> i32 list \<times> 's mbstates"

definition mbtowc :: "'s charcode \<Rightarrow> nat \<Rightarrow> byte list option \<Rightarrow> nat \<Rightarrow> 's mbstates \<Rightarrow> 's mbtowc_result option" where
  "mbtowc cc mb_cur_max mb max_size st =
     (if max_size = 0 then Some (- 1, Some (- errno_of ''EILSEQ''), [], st)
      else case mb of
        None \<Rightarrow> Some (of_bool (has_shift_states cc), None, [], st\<lparr>mblen_state := mb_initial cc\<rparr>)
      | Some bytes \<Rightarrow>
          (if hd bytes \<noteq> 0 then
             (case decode_wtranscode cc (take (min max_size mb_cur_max) bytes) 1 (mbtowc_state st) of
                (e, consumed, ws, s') \<Rightarrow>
                  (let st' = st\<lparr>mbtowc_state := s'\<rparr>
                   in if e = C_input_underflow \<or> e = C_null then Some (int consumed, None, ws, st')
                      else if e = C_illegal_input then Some (- 1, Some (- errno_of ''EILSEQ''), ws, st')
                      else None))
           else Some (0, None, [0], st)))"

text \<open>The number and the buffer after the call, if there is one.\<close>

definition mbstowcs :: "'s charcode \<Rightarrow> i32 list option \<Rightarrow> byte list \<Rightarrow> nat \<Rightarrow> (nat \<times> i32 list) option" where
  "mbstowcs cc wcs mbs wc_limit =
     (case wcs of
        None \<Rightarrow>
          (case decode_wtranscode_length cc mbs (mb_initial cc) of
             (e, sz) \<Rightarrow> if e \<noteq> C_null then None else Some (sz, []))
      | Some buf \<Rightarrow>
          (case decode_wtranscode cc mbs wc_limit (mb_initial cc) of
             (e, consumed, ws, s') \<Rightarrow>
               if e \<noteq> C_null then None
               else (let n = length ws; buf' = ws @ drop n buf
                     in Some (n, if n < wc_limit then buf'[n := 0] else buf'))))"

text \<open>\<open>wcsrtombs\<close> is mlibc's: from the wide characters, the number of bytes at most and the state (null here,
  for the one of the function) to the result and the position it stores back.\<close>

definition wcstombs :: "(i32 list \<Rightarrow> nat \<Rightarrow> 's option \<Rightarrow> 'r \<times> i32 list option) \<Rightarrow> i32 list \<Rightarrow> nat \<Rightarrow> 'r" where
  "wcstombs wcsrtombs wc_string max_size = fst (wcsrtombs wc_string max_size None)"

subsection \<open>Properties\<close>

text \<open>\<open>mbtowc\<close> with a null pointer resets the state of \<open>mblen\<close> and not its own: the next character is read as
  if there had been no reset.\<close>

lemma mbtowc_reset:
  assumes "0 < max_size" "mbtowc cc m None max_size st = Some (r, e, ws, st')"
  shows "mbtowc_state st' = mbtowc_state st" "mblen_state st' = mb_initial cc"
    "map_option (\<lambda>(r, e, ws, s). (r, e, ws, mbtowc_state s)) (mbtowc cc m (Some b) n st') =
     map_option (\<lambda>(r, e, ws, s). (r, e, ws, mbtowc_state s)) (mbtowc cc m (Some b) n st)"
  using assms by (auto simp: mbtowc_def Let_def split: prod.splits)

text \<open>The error number of \<open>mbtowc\<close> is the negative of EILSEQ.\<close>

lemma mbtowc_errno:
  "mbtowc cc m mb n st = Some (r, Some e, ws, st') \<Longrightarrow> r = - 1 \<and> e = - 84"
proof -
  have "errno_of ''EILSEQ'' = 84" by code_simp
  then show "mbtowc cc m mb n st = Some (r, Some e, ws, st') \<Longrightarrow> r = - 1 \<and> e = - 84"
    by (auto simp: mbtowc_def Let_def split: if_splits option.splits prod.splits)
qed

text \<open>\<open>mbstowcs\<close> stays in its buffer, when the decoder keeps to the room it is given: the characters are the
  decoded ones, a terminator follows if there is room for it, and nothing else of the buffer changes.\<close>

lemma mbstowcs_bounds:
  assumes "mbstowcs cc (Some buf) mbs wc_limit = Some (n, buf')" "wc_limit \<le> length buf"
    and "\<And>bs room s e k ws s'. decode_wtranscode cc bs room s = (e, k, ws, s') \<Longrightarrow> length ws \<le> room"
  shows "n \<le> wc_limit \<and> length buf' = length buf \<and>
    take n buf' = fst (snd (snd (decode_wtranscode cc mbs wc_limit (mb_initial cc)))) \<and>
    (n < wc_limit \<longrightarrow> buf' ! n = 0) \<and>
    drop (if n < wc_limit then Suc n else n) buf' = drop (if n < wc_limit then Suc n else n) buf"
proof -
  obtain e k ws s' where d: "decode_wtranscode cc mbs wc_limit (mb_initial cc) = (e, k, ws, s')"
    by (metis prod_cases4)
  with assms(1) have "n = length ws" "buf' = (if n < wc_limit then (ws @ drop n buf)[n := 0] else ws @ drop n buf)"
    by (auto simp: mbstowcs_def Let_def split: if_splits)
  moreover have "length ws \<le> wc_limit" using assms(3)[OF d] .
  ultimately show ?thesis using assms(2) d by (auto simp: drop_update_cancel drop_Cons' list_update_append nth_append split: nat.splits)
qed

end
