(* ===== verification/Stdlib_Alloc.thy ===== *)
theory Stdlib_Alloc
  imports Prelude
begin

text \<open>
  The allocation functions of \<open>mlibc-salernos/stdlib.patched.cpp\<close>: \<open>malloc\<close>, \<open>free\<close> and \<open>realloc\<close>, which
  pass their arguments on and can log them, and \<open>calloc\<close>, \<open>posix_memalign\<close> and \<open>aligned_alloc\<close>, which check
  theirs. The allocator of the C library is a parameter, from the number of bytes to an address, 0 for
  none. Memory is the byte at every address.
\<close>

subsection \<open>The code\<close>

datatype alloc_error = E_inval | E_nomem

text \<open>A null pointer with or without \<open>errno\<close> set, an address, or a failed assertion.\<close>

datatype alloc_result = Null "alloc_error option" | Ptr u64 | Panic

type_synonym memory = "u64 \<Rightarrow> byte"

definition SIZE_MAX :: u64 where "SIZE_MAX = - 1"

definition memset :: "u64 \<Rightarrow> byte \<Rightarrow> u64 \<Rightarrow> memory \<Rightarrow> memory" where
  "memset p b n m = (\<lambda>a. if a - p < n then b else m a)"

definition calloc :: "(u64 \<Rightarrow> u64) \<Rightarrow> u64 \<Rightarrow> u64 \<Rightarrow> memory \<Rightarrow> alloc_result \<times> memory" where
  "calloc malloc cnt sz m =
     (if sz \<noteq> 0 \<and> SIZE_MAX div sz < cnt then (Null (Some E_inval), m)
      else
        (let ptr = malloc (cnt * sz)
         in if ptr = 0 then (Null None, m) else (Ptr ptr, memset ptr 0 (cnt * sz) m)))"

text \<open>The allocator with its state, and the lines of the log. A \<open>free\<close> of an odd address is logged with the
  address of the caller.\<close>

record 'a allocator =
  allocate :: "u64 \<Rightarrow> 'a \<Rightarrow> u64 \<times> 'a"
  deallocate :: "u64 \<Rightarrow> 'a \<Rightarrow> 'a"
  reallocate :: "u64 \<Rightarrow> u64 \<Rightarrow> 'a \<Rightarrow> u64 \<times> 'a"

datatype malloc_log = Log_free u64 | Log_caller u64 | Log_malloc u64 | Log_realloc u64 u64

definition free :: "'a allocator \<Rightarrow> bool \<Rightarrow> u64 \<Rightarrow> u64 \<Rightarrow> 'a \<times> malloc_log list \<Rightarrow> 'a \<times> malloc_log list" where
  "free A debug_malloc caller ptr st =
     (case st of (a, l) \<Rightarrow>
        (let l = (if debug_malloc then l @ [Log_free ptr] @ (if ptr AND 1 \<noteq> 0 then [Log_caller caller] else []) else l)
         in (deallocate A ptr a, l)))"

definition malloc :: "'a allocator \<Rightarrow> bool \<Rightarrow> u64 \<Rightarrow> 'a \<times> malloc_log list \<Rightarrow> u64 \<times> 'a \<times> malloc_log list" where
  "malloc A debug_malloc sz st =
     (case st of (a, l) \<Rightarrow>
        (let (nptr, a) = allocate A sz a in (nptr, a, if debug_malloc then l @ [Log_malloc nptr] else l)))"

definition realloc :: "'a allocator \<Rightarrow> bool \<Rightarrow> u64 \<Rightarrow> u64 \<Rightarrow> 'a \<times> malloc_log list \<Rightarrow> u64 \<times> 'a \<times> malloc_log list" where
  "realloc A debug_malloc ptr sz st =
     (case st of (a, l) \<Rightarrow>
        (let (nptr, a) = reallocate A ptr sz a in (nptr, a, if debug_malloc then l @ [Log_realloc ptr nptr] else l)))"

text \<open>A run of these calls: the addresses returned, and the state.\<close>

datatype heap_call = H_malloc u64 | H_free u64 u64 | H_realloc u64 u64

fun heap_calls :: "'a allocator \<Rightarrow> bool \<Rightarrow> heap_call list \<Rightarrow> 'a \<times> malloc_log list \<Rightarrow> u64 list \<times> 'a \<times> malloc_log list" where
  "heap_calls A d [] st = ([], st)"
| "heap_calls A d (H_malloc n # cs) st = (case malloc A d n st of (p, st') \<Rightarrow> case heap_calls A d cs st' of (ps, r) \<Rightarrow> (p # ps, r))"
| "heap_calls A d (H_free c p # cs) st = heap_calls A d cs (free A d c p st)"
| "heap_calls A d (H_realloc p n # cs) st =
     (case realloc A d p n st of (q, st') \<Rightarrow> case heap_calls A d cs st' of (ps, r) \<Rightarrow> (q # ps, r))"

text \<open>The log makes no difference to the program, and without it nothing is logged.\<close>

lemma heap_calls_log:
  "fst (heap_calls A True cs (a, l)) = fst (heap_calls A False cs (a, l')) \<and>
   fst (snd (heap_calls A True cs (a, l))) = fst (snd (heap_calls A False cs (a, l'))) \<and>
   snd (snd (heap_calls A False cs (a, l'))) = l'"
proof (induction cs arbitrary: a l l')
  case (Cons c cs)
  show ?case
  proof (cases c)
    case (H_malloc n)
    obtain p b where "allocate A n a = (p, b)" by fastforce
    then show ?thesis using Cons.IH[of b "l @ [Log_malloc p]" l'] by (simp add: H_malloc malloc_def case_prod_beta)
  next
    case (H_free ca p)
    then show ?thesis
      using Cons.IH[of "deallocate A p a" "l @ [Log_free p] @ (if p AND 1 \<noteq> 0 then [Log_caller ca] else [])" l']
      by (simp add: H_free free_def)
  next
    case (H_realloc p n)
    obtain q b where "reallocate A p n a = (q, b)" by fastforce
    then show ?thesis using Cons.IH[of b "l @ [Log_realloc p q]" l'] by (simp add: H_realloc realloc_def case_prod_beta)
  qed
qed simp

text \<open>Here \<open>Null (Some e)\<close> is the returned error code \<open>e\<close>.\<close>

definition posix_memalign :: "(u64 \<Rightarrow> u64) \<Rightarrow> u64 \<Rightarrow> u64 \<Rightarrow> alloc_result" where
  "posix_memalign alloc align sz =
     (if align < 8 then Null (Some E_inval)
      else if align AND (align - 1) \<noteq> 0 then Null (Some E_inval)
      else
        (let p = alloc (max align sz)
         in if p = 0 then Null (Some E_nomem)
            else if p AND (align - 1) \<noteq> 0 then Panic
            else Ptr p))"

definition aligned_alloc :: "(u64 \<Rightarrow> u64) \<Rightarrow> u64 \<Rightarrow> u64 \<Rightarrow> alloc_result" where
  "aligned_alloc alloc alignment sz =
     (if alignment AND (alignment - 1) \<noteq> 0 \<or> sz AND (alignment - 1) \<noteq> 0 then Null (Some E_inval)
      else
        (let alignment' = (if alignment < 8 then 8 else alignment)
         in posix_memalign alloc alignment' sz))"

subsection \<open>Powers of two\<close>

lemma nat_and_pred_0: "0 < n \<Longrightarrow> n AND (n - 1) = (0 :: nat) \<Longrightarrow> \<exists>k. n = 2 ^ k"
proof (induction n rule: less_induct)
  case (less n)
  show ?case
  proof (cases "even n")
    case True
    then obtain m where m: "n = 2 * m" by blast
    then have "(n - 1) div 2 = m - 1" "0 < m" "m < n" using less.prems by auto
    moreover have "(n AND (n - 1)) div 2 = (n div 2) AND ((n - 1) div 2)" by (simp add: and_rec[of n])
    ultimately obtain k where "m = 2 ^ k" using less.IH[of m] less.prems m by auto
    then show ?thesis using m by (intro exI[of _ "Suc k"]) simp
  next
    case False
    then obtain m where "n = 2 * m + 1" by (auto elim: oddE)
    then have "n AND (n - 1) = n - 1" by (simp, subst and_rec, simp)
    then show ?thesis using less.prems by (intro exI[of _ 0]) simp
  qed
qed

lemma pow2_mask:
  assumes "a AND (a - 1) = 0" "a \<noteq> (0 :: u64)"
  obtains k where "unat a = 2 ^ k" "\<And>x. x AND (a - 1) = 0 \<longleftrightarrow> unat a dvd unat (x :: u64)"
proof -
  have u1: "unat (a - 1) = unat a - 1"
    using assms(2) by (simp add: unat_sub word_le_nat_alt Suc_le_eq unat_gt_0)
  have "0 < unat a" using assms(2) by (simp add: unat_gt_0)
  moreover have "unat a AND (unat a - 1) = 0"
    using arg_cong[OF assms(1), of unat] by (simp only: unsigned_and_eq u1) simp
  ultimately obtain k where k: "unat a = 2 ^ k" using nat_and_pred_0 by blast
  have "x AND (a - 1) = 0 \<longleftrightarrow> unat a dvd unat x" for x
  proof -
    have "unat (x AND (a - 1)) = unat x mod 2 ^ k"
      by (simp only: unsigned_and_eq u1 k mask_eq_exp_minus_1[symmetric] take_bit_eq_mask[symmetric] take_bit_eq_mod)
    then show ?thesis by (simp add: k unat_eq_0[symmetric] dvd_eq_mod_eq_0 del: unsigned_and_eq)
  qed
  with k that show thesis by blast
qed

text \<open>C39: \<open>calloc\<close> never hands out less than it was asked for. It refuses, with \<open>EINVAL\<close>, exactly the
  requests whose number of bytes does not fit a \<open>size_t\<close>; else the allocator is asked for exactly the
  product, and of the memory exactly the bytes of the block become zero.\<close>

theorem calloc_exact:
  "(unat cnt * unat sz \<ge> 2 ^ 64 \<longrightarrow> calloc alloc cnt sz m = (Null (Some E_inval), m)) \<and>
   (unat cnt * unat sz < 2 ^ 64 \<longrightarrow>
      (\<exists>n. unat n = unat cnt * unat sz \<and>
        (if alloc n = 0 then calloc alloc cnt sz m = (Null None, m)
         else \<exists>m'. calloc alloc cnt sz m = (Ptr (alloc n), m') \<and>
           (\<forall>i. unat i < unat cnt * unat sz \<longrightarrow> m' (alloc n + i) = 0) \<and>
           (\<forall>i. unat cnt * unat sz \<le> unat i \<longrightarrow> m' (alloc n + i) = m (alloc n + i)))))"
proof -
  have over: "sz \<noteq> 0 \<and> SIZE_MAX div sz < cnt \<longleftrightarrow> 2 ^ 64 \<le> unat cnt * unat sz"
  proof (cases "sz = 0")
    case False
    then have "0 < unat sz" by (simp add: unat_gt_0)
    then have "(2 ^ 64 - 1) div unat sz < unat cnt \<longleftrightarrow> 2 ^ 64 - 1 < unat cnt * unat sz"
      by (simp only: div_less_iff_less_mult)
    moreover have "unat SIZE_MAX = 2 ^ 64 - 1" by (simp add: SIZE_MAX_def unsigned_minus_1_eq_mask mask_eq_exp_minus_1)
    ultimately show ?thesis using False by (simp only: word_less_nat_alt unat_div) auto
  qed simp
  show ?thesis
  proof (intro conjI impI)
    assume "2 ^ 64 \<le> unat cnt * unat sz"
    with over show "calloc alloc cnt sz m = (Null (Some E_inval), m)" by (simp add: calloc_def)
  next
    assume fits: "unat cnt * unat sz < 2 ^ 64"
    then have n: "unat (cnt * sz) = unat cnt * unat sz" by (simp add: unat_word_ariths)
    with fits over show "\<exists>n. unat n = unat cnt * unat sz \<and>
        (if alloc n = 0 then calloc alloc cnt sz m = (Null None, m)
         else \<exists>m'. calloc alloc cnt sz m = (Ptr (alloc n), m') \<and>
           (\<forall>i. unat i < unat cnt * unat sz \<longrightarrow> m' (alloc n + i) = 0) \<and>
           (\<forall>i. unat cnt * unat sz \<le> unat i \<longrightarrow> m' (alloc n + i) = m (alloc n + i)))"
      by (intro exI[of _ "cnt * sz"]) (auto simp: calloc_def memset_def Let_def word_less_nat_alt)
  qed
qed

theorem calloc_exact_witness:
  "calloc (\<lambda>_. 0x1000) (2 ^ 33) (2 ^ 31) (\<lambda>_. 7) = (Null (Some E_inval), \<lambda>_. 7) \<and>
   snd (calloc (\<lambda>_. 0x1000) 3 4 (\<lambda>_. 7)) 0x100b = 0 \<and> snd (calloc (\<lambda>_. 0x1000) 3 4 (\<lambda>_. 7)) 0x100c = 7"
proof -
  have "unat (2 ^ 33 :: u64) * unat (2 ^ 31 :: u64) \<ge> 2 ^ 64" by simp
  moreover have "snd (calloc (\<lambda>_. 0x1000) 3 4 (\<lambda>_. 7)) (0x1000 + i) = (if unat i < 12 then 0 else 7)" for i
    using calloc_exact[of 3 4 "\<lambda>_. 0x1000" "\<lambda>_. 7"] by (auto simp: not_less)
  from this[of 11] this[of 12]
  have "snd (calloc (\<lambda>_. 0x1000) 3 4 (\<lambda>_. 7)) 0x100b = 0" "snd (calloc (\<lambda>_. 0x1000) 3 4 (\<lambda>_. 7)) 0x100c = 7"
    by simp_all
  ultimately show ?thesis using calloc_exact[of "2 ^ 33" "2 ^ 31" "\<lambda>_. 0x1000" "\<lambda>_. 7"] by simp
qed

lemma posix_memalign_Ptr:
  assumes "posix_memalign alloc align sz = Ptr p"
  obtains k where "unat align = 2 ^ k" "8 \<le> unat align" "unat align dvd unat p" "p \<noteq> 0" "p = alloc (max align sz)"
proof -
  have a: "\<not> align < 8" "align AND (align - 1) = 0" "p \<noteq> 0" "p AND (align - 1) = 0" "p = alloc (max align sz)"
    using assms by (auto simp: posix_memalign_def Let_def split: if_splits)
  have "align \<noteq> 0" using a(1) by auto
  with pow2_mask[OF a(2)] a that show thesis by (auto simp: word_less_nat_alt)
qed

text \<open>What \<open>aligned_alloc\<close> returns is aligned. When it returns an address, the alignment is a power
  of two (or 0, with size 0) that divides the size; the address is a multiple of it and of the size of
  a pointer, and the block has at least the size asked for. An alignment that is not a power of two,
  and a size it does not divide, are refused before the allocator is called.\<close>

theorem aligned_alloc_aligned:
  assumes "aligned_alloc alloc alignment sz = r"
  shows "(\<forall>p. r = Ptr p \<longrightarrow>
      ((\<exists>k. unat alignment = 2 ^ k) \<or> alignment = 0) \<and> unat alignment dvd unat sz \<and>
      (alignment \<noteq> 0 \<longrightarrow> unat alignment dvd unat p) \<and> 8 dvd unat p \<and>
      (\<exists>n\<ge>sz. p = alloc n) \<and> p \<noteq> 0) \<and>
    (alignment \<noteq> 0 \<and> ((\<nexists>k. unat alignment = 2 ^ k) \<or> \<not> unat alignment dvd unat sz) \<longrightarrow> r = Null (Some E_inval))"
proof (intro conjI allI impI)
  fix p assume p: "r = Ptr p"
  let ?a = "if alignment < 8 then 8 else alignment"
  from p assms have a: "alignment AND (alignment - 1) = 0" "sz AND (alignment - 1) = 0"
    and m: "posix_memalign alloc ?a sz = Ptr p"
    by (auto simp: aligned_alloc_def Let_def split: if_splits)
  obtain k where k: "unat ?a = 2 ^ k" "8 \<le> unat ?a" "unat ?a dvd unat p" "p \<noteq> 0" "p = alloc (max ?a sz)"
    using m by (rule posix_memalign_Ptr)
  have "2 ^ 3 dvd (2 :: nat) ^ k"
  proof (rule le_imp_power_dvd, rule ccontr)
    assume "\<not> 3 \<le> k"
    then have "(2 :: nat) ^ k < 2 ^ 3" by (intro power_strict_increasing) auto
    then show False using k(1,2) by simp
  qed
  then have 8: "8 dvd unat ?a" using k(1) by simp
  from 8 k(3) show "8 dvd unat p" by (rule dvd_trans)
  show "\<exists>n\<ge>sz. p = alloc n" using k(5) by (intro exI[of _ "max ?a sz"]) simp
  show "p \<noteq> 0" by fact
  show "(\<exists>k. unat alignment = 2 ^ k) \<or> alignment = 0" using pow2_mask[OF a(1)] by blast
  show "unat alignment dvd unat sz"
  proof (cases "alignment = 0")
    case False
    with pow2_mask[OF a(1)] a(2) show ?thesis by blast
  qed (use a(2) in simp)
  show "unat alignment dvd unat p" if nz: "alignment \<noteq> 0"
  proof (cases "alignment < 8")
    case True
    obtain j where j: "unat alignment = 2 ^ j" using pow2_mask[OF a(1) nz] by blast
    have "(2 :: nat) ^ j < 2 ^ 3" using True j by (simp add: word_less_nat_alt)
    then have "j < 3" by (rule power_less_imp_less_exp[rotated]) simp
    then have "(2 :: nat) ^ j dvd 2 ^ 3" by (intro le_imp_power_dvd) simp
    then have "unat alignment dvd 8" using j by simp
    then show ?thesis using \<open>8 dvd unat p\<close> by (rule dvd_trans)
  qed (use k(3) in simp)
next
  assume bad: "alignment \<noteq> 0 \<and> ((\<nexists>k. unat alignment = 2 ^ k) \<or> \<not> unat alignment dvd unat sz)"
  then have "alignment AND (alignment - 1) \<noteq> 0 \<or> sz AND (alignment - 1) \<noteq> 0"
    by (metis pow2_mask)
  then show "r = Null (Some E_inval)" using assms by (auto simp: aligned_alloc_def)
qed

theorem aligned_alloc_aligned_witness:
  "aligned_alloc (\<lambda>_. 0x2000) 64 128 = Ptr 0x2000 \<and> (64 :: nat) dvd unat (0x2000 :: u64) \<and>
   aligned_alloc (\<lambda>_. 0x2000) 48 96 = Null (Some E_inval)"
proof -
  have "aligned_alloc (\<lambda>_. 0x2000) 64 128 = Ptr 0x2000" "aligned_alloc (\<lambda>_. 0x2000) 48 96 = Null (Some E_inval)"
    by code_simp+
  with aligned_alloc_aligned[OF this(1)] show ?thesis by simp
qed

end
