(* ===== verification/Stdlib_Convert.thy ===== *)
theory Stdlib_Convert
  imports Stdlib_Process
begin

text \<open>
  The functions of \<open>mlibc-salernos/stdlib.patched.cpp\<close> that hand their arguments on: the conversions of
  text to numbers, whose templates are mlibc's and parameters, and \<open>atexit\<close>, whose list is the C++
  runtime's; and the functions that are not implemented and end in a failed assertion (\<open>None\<close>).
\<close>

subsection \<open>Conversions\<close>

text \<open>The value and the number of characters read.\<close>

type_synonym 'd fp_parser = "string \<Rightarrow> 'd \<times> nat"

definition strtod :: "'d fp_parser \<Rightarrow> string \<Rightarrow> 'd \<times> nat" where "strtod strtofp s = strtofp s"
definition strtof :: "'f fp_parser \<Rightarrow> string \<Rightarrow> 'f \<times> nat" where "strtof strtofp s = strtofp s"
definition strtold :: "'l fp_parser \<Rightarrow> string \<Rightarrow> 'l \<times> nat" where "strtold strtofp s = strtofp s"
definition atof :: "'d fp_parser \<Rightarrow> string \<Rightarrow> 'd" where "atof strtofp s = fst (strtod strtofp s)"

text \<open>The template for integers takes the width of the type and whether it is signed.\<close>

type_synonym int_parser = "nat \<Rightarrow> bool \<Rightarrow> string \<Rightarrow> int \<Rightarrow> u64 \<times> nat"

definition strtol :: "int_parser \<Rightarrow> string \<Rightarrow> int \<Rightarrow> u64 \<times> nat" where "strtol P s b = P 64 True s b"
definition strtoll :: "int_parser \<Rightarrow> string \<Rightarrow> int \<Rightarrow> u64 \<times> nat" where "strtoll P s b = P 64 True s b"
definition strtoul :: "int_parser \<Rightarrow> string \<Rightarrow> int \<Rightarrow> u64 \<times> nat" where "strtoul P s b = P 64 False s b"
definition strtoull :: "int_parser \<Rightarrow> string \<Rightarrow> int \<Rightarrow> u64 \<times> nat" where "strtoull P s b = P 64 False s b"

text \<open>\<open>atoi\<close> keeps the lower half of a value that \<open>strtol\<close> has read to the last digit: no range is checked.\<close>

lemma atoi_wraps:
  assumes "P 64 True s 10 = (v, n)"
  shows "sint (atoi (\<lambda>s b. fst (strtol P s (int b))) s) = signed_take_bit 31 (sint v)"
  using assms by (simp add: atoi_def strtol_def sint_uint unsigned_ucast_eq signed_take_bit_take_bit)

subsection \<open>The end of the process\<close>

text \<open>\<open>__cxa_atexit\<close> takes a function, its argument and a handle, and reports a failure, which \<open>atexit\<close> drops.\<close>

definition atexit :: "('f \<Rightarrow> u64 \<Rightarrow> u64 \<Rightarrow> 'k \<Rightarrow> int \<times> 'k) \<Rightarrow> 'f \<Rightarrow> 'k \<Rightarrow> int \<times> 'k" where
  "atexit cxa_atexit func k = (0, snd (cxa_atexit func 0 0 k))"

definition at_quick_exit :: "'f \<Rightarrow> int option" where "at_quick_exit func = None"
definition quick_exit :: "int \<Rightarrow> 'k option" where "quick_exit status = None"
definition mktemp :: "string \<Rightarrow> string option" where "mktemp template = None"

lemma atexit_drops_error: "fst (atexit cxa_atexit func k) = 0"
  by (simp add: atexit_def)

end
