(* ===== verification/Init_Boot.thy ===== *)
theory Init_Boot
  imports Init_Main
begin

text \<open>
  The start of the system as a whole: from the text of the configuration file, through \<open>main\<close>, the
  parser, the interpreter and the start signal, to the programs that run. A configuration is valid when
  its directives have the right words; what it starts is a list of programs, read off the words alone.
\<close>

subsection \<open>What a configuration asks for\<close>

text \<open>A program: its terminal, the mode of the terminal, its command line, environment and options.\<close>

type_synonym booted = "string \<times> i32 \<times> string list \<times> (string \<Rightarrow> string option) \<times> i32"

definition program_of :: "child \<Rightarrow> booted" where
  "program_of c = (ctty c, cmode c, cargv c, cenv c, copts c)"

fun boot_programs :: "(string \<Rightarrow> string option) \<Rightarrow> i32 \<Rightarrow> string list list \<Rightarrow> booted list" where
  "boot_programs e n [] = []"
| "boot_programs e n (ws # dss) =
     (if is_tty ws then [(ws ! 1, the (int_word (ws ! 2)), drop 3 ws, e, n)] else []) @
     boot_programs (env_effect ws e) (opt_effect ws n) dss"

text \<open>A valid directive: its name is a prefix of a name of the table, it has the number of arguments of
  that directive, and they are strings and names of numbers where it needs them.\<close>

definition valid_directive :: "string list \<Rightarrow> bool" where
  "valid_directive ws \<longleftrightarrow> ws \<noteq> [] \<and>
     (case dispatch (hd ws) of
        None \<Rightarrow> False
      | Some cb_env \<Rightarrow> length ws = 3 \<and> list_all (\<lambda>w. chd w \<noteq> dollar) (tl ws)
      | Some cb_enable \<Rightarrow> length ws = 2 \<and> int_word (ws ! 1) \<noteq> None
      | Some cb_tty \<Rightarrow>
          4 \<le> length ws \<and> chd (ws ! 1) \<noteq> dollar \<and> int_word (ws ! 2) \<noteq> None \<and>
          list_all (\<lambda>w. chd w \<noteq> dollar) (drop 3 ws))"

definition valid_config :: "string list list \<Rightarrow> bool" where
  "valid_config dss \<longleftrightarrow>
     list_all valid_directive dss \<and> list_all (list_all plain_word) dss \<and> length (filter is_tty dss) \<le> MAX_CHILDREN"

subsection \<open>A valid configuration succeeds\<close>

lemma str_words_plain: "list_all (\<lambda>w. chd w \<noteq> dollar) ws \<Longrightarrow> str_words ws = Some ws"
  by (induction ws) (simp_all add: str_word_def)

lemma valid_directive_runs:
  assumes "valid_directive ws" "is_tty ws \<longrightarrow> length (children st) < MAX_CHILDREN" "\<And>n. 0 \<le> fork n"
  shows "\<exists>st'. sem_directive fork ws st = (None, st')"
proof -
  obtain name rest where ws: "ws = name # rest" using assms(1) by (cases ws) (auto simp: valid_directive_def)
  show ?thesis
  proof (cases "dispatch name")
    case None
    then show ?thesis using assms(1) ws by (simp add: valid_directive_def)
  next
    case (Some cb)
    show ?thesis
    proof (cases cb)
      case cb_env
      with assms(1) Some ws obtain n v where "rest = [n, v]" "chd n \<noteq> dollar" "chd v \<noteq> dollar"
        by (auto simp: valid_directive_def length_Suc_conv numeral_eq_Suc)
      with cb_env Some ws show ?thesis by (simp add: str_word_def)
    next
      case cb_enable
      with assms(1) Some ws obtain o1 k where "rest = [o1]" "int_word o1 = Some k"
        by (auto simp: valid_directive_def length_Suc_conv numeral_eq_Suc)
      with cb_enable Some ws show ?thesis by simp
    next
      case cb_tty
      with assms(1) Some ws obtain p m a as k where "rest = p # m # a # as" "chd p \<noteq> dollar" "int_word m = Some k"
        "list_all (\<lambda>w. chd w \<noteq> dollar) (a # as)"
        by (auto simp: valid_directive_def Suc_le_length_iff numeral_eq_Suc)
      moreover have "length (children st) < MAX_CHILDREN" using assms(2) cb_tty Some ws by (simp add: is_tty_def)
      ultimately show ?thesis
        using cb_tty Some ws assms(3) str_words_plain[of "a # as"]
        by (simp add: str_word_def fork_child_def Let_def not_less)
    qed
  qed
qed

lemma valid_config_runs:
  assumes "list_all valid_directive dss" "length (children st) + length (filter is_tty dss) \<le> MAX_CHILDREN"
    and "\<And>n. 0 \<le> fork n"
  shows "\<exists>st'. sem_config fork dss st = (None, st')"
  using assms(1,2)
proof (induction dss arbitrary: st)
  case (Cons ws dss)
  have "is_tty ws \<longrightarrow> length (children st) < MAX_CHILDREN" using Cons.prems(2) by auto
  with valid_directive_runs[where fork = fork, OF _ this assms(3)] Cons.prems(1) obtain st1 where
    st1: "sem_directive fork ws st = (None, st1)" by auto
  with sem_config_counts[of fork "[ws]" st st1] have
    "length (children st1) = length (children st) + (if is_tty ws then 1 else 0)" by simp
  with Cons.prems have "length (children st1) + length (filter is_tty dss) \<le> MAX_CHILDREN"
    by (simp split: if_splits)
  with Cons.IH[of st1] Cons.prems(1) st1 show ?case by simp
qed simp

lemma spawned_programs:
  "sem_config fork dss st = (None, st') \<Longrightarrow>
     map program_of (spawned st') = map program_of (spawned st) @ boot_programs (environ st) (active_options st) dss"
proof (induction dss arbitrary: st)
  case (Cons ws dss)
  then obtain st1 where 1: "sem_directive fork ws st = (None, st1)" "sem_config fork dss st1 = (None, st')"
    by (auto simp: sem_config_Cons_ok simp del: sem_config.simps(2))
  have ne: "ws \<noteq> []" using 1(1) by auto
  from 1(1) ne have "map program_of (spawned st1) = map program_of (spawned st) @
      (if is_tty ws then [(ws ! 1, the (int_word (ws ! 2)), drop 3 ws, environ st, active_options st)] else [])"
    by (cases rule: sem_directive_cases) (auto simp: is_tty_def program_of_def)
  with Cons.IH[OF 1(2)] sem_directive_effects[OF 1(1)] show ?case by simp
qed simp

subsection \<open>The boot\<close>

text \<open>The buffer of \<open>main\<close> holds the file and a NUL that happens to follow it.\<close>

lemma render_parses:
  assumes "valid_config dss"
  obtains q ds where "fst (parse_config (\<lambda>_. True) (render dss @ nul # rest) h) = Inr (q, ds)"
    "map (directive_texts (render dss @ nul # rest)) ds = dss"
proof -
  have pw: "\<forall>ws\<in>set dss. ws \<noteq> [] \<and> (\<forall>w\<in>set ws. plain_word w)"
    using assms by (auto simp: valid_config_def valid_directive_def list_all_iff)
  then have nf: "nul \<notin> set (render dss)" by (intro nul_free_render) blast
  then have c: "c_string (render dss @ nul # rest) = render dss" by (simp add: c_string_def takeWhile_append)
  have "directives_of (render dss) = Some dss"
    using parse_config_texts[OF nf, of h] parse_render_texts[OF pw, of h] by simp
  then have "directives_of (c_string (render dss @ nul # rest)) = Some dss" by (simp only: c)
  then show ?thesis using that by (rule texts_result)
qed

lemma finished_boot:
  assumes p: "fst (parse_config ok s h) = Inr (q, ds)" and w: "map (directive_texts s) ds = dss"
    and r: "boot_reach fork s opn exe (boot_start ds e) b" and stuck: "\<forall>b'. \<not> boot_step fork s opn exe b b'"
    and ok: "sem_config fork dss (interp_init e) = (None, st)"
  shows "ppc b = Finished \<and> map program_of (map prog (procs b)) = boot_programs e 0 dss \<and>
    (\<forall>p\<in>set (procs b). pc p = (if opn (prog p) \<noteq> - 1 \<and> exe (prog p) then Running else Gone (- 1)))"
proof -
  note inv = reach_start(1)[OF p r] and fin = finished_config[OF p r]
  have run: "interpret_config True fork s ds (interp_init e) = (Returned None, st\<lparr>signalled := signalled st @ children st\<rparr>)"
    using ok by (simp add: interpret_config_sem[OF parse_config_directives_ok[OF p]] w)
  have f: "ppc b = Finished" using stuck_shape[OF inv stuck] fin(2,3) run by auto
  with fin(1) run have "parent b = st\<lparr>signalled := signalled st @ children st\<rparr>" by simp
  then have "spawned (parent b) = spawned st" by simp
  moreover have "map prog (procs b) = spawned (parent b)" using inv by (simp add: boot_inv_def)
  ultimately have "map program_of (map prog (procs b)) = boot_programs e 0 dss"
    using spawned_programs[OF ok] by (simp add: interp_init_def)
  with f stuck_shape[OF inv stuck] show ?thesis by simp
qed

text \<open>C14: a valid configuration boots. Let the file hold a printed configuration with at most 20 terminals and
  only valid directives, and let every \<open>fork\<close> succeed. Then \<open>main\<close> returns 0, the parser succeeds, and
  however init and its children interleave, the start comes to an end, and there init has finished and its children are,
  in the order of the file, the programs that the words of the configuration ask for. Each is running, unless its terminal
  or its program could not be opened.\<close>

theorem valid_config_boots:
  assumes "valid_config dss" "\<forall>n. 0 \<le> fork n"
  shows "fst (init_main (Some (render dss)) True (nul # rest) (\<lambda>_. True) h True fork (interp_init e)) = Some 0 \<and>
    (\<exists>q ds. fst (parse_config (\<lambda>_. True) (render dss @ nul # rest) h) = Inr (q, ds) \<and>
      (\<exists>b. boot_reach fork (render dss @ nul # rest) opn exe (boot_start ds e) b \<and>
        (\<forall>b'. \<not> boot_step fork (render dss @ nul # rest) opn exe b b')) \<and>
      (\<forall>b. boot_reach fork (render dss @ nul # rest) opn exe (boot_start ds e) b \<and>
           (\<forall>b'. \<not> boot_step fork (render dss @ nul # rest) opn exe b b') \<longrightarrow>
        ppc b = Finished \<and> map program_of (map prog (procs b)) = boot_programs e 0 dss \<and>
        (\<forall>p\<in>set (procs b). pc p = (if opn (prog p) \<noteq> - 1 \<and> exe (prog p) then Running else Gone (- 1)))))"
proof -
  let ?s = "render dss @ nul # rest"
  obtain q ds where p: "fst (parse_config (\<lambda>_. True) ?s h) = Inr (q, ds)" and w: "map (directive_texts ?s) ds = dss"
    using assms(1) by (rule render_parses)
  have "length (children (interp_init e)) + length (filter is_tty dss) \<le> MAX_CHILDREN"
    using assms(1) by (simp add: valid_config_def interp_init_def)
  with valid_config_runs[of dss "interp_init e" fork] assms obtain st where
    ok: "sem_config fork dss (interp_init e) = (None, st)" by (auto simp: valid_config_def)
  have "fst (init_main (Some (render dss)) True (nul # rest) (\<lambda>_. True) h True fork (interp_init e)) = Some 0"
    by (simp add: init_main_def p interpret_config_sem[OF parse_config_directives_ok[OF p]] w ok)
  moreover note boot_ends[of fork ?s opn exe "boot_start ds e"] p finished_boot[OF p w _ _ ok]
  ultimately show ?thesis by blast
qed

lemma demo_valid: "valid_config demo"
  by (simp add: valid_config_def valid_directive_def demo_def is_tty_def dispatch_def int_word_def named_const_def
      plain_word_def nul_def quote_def newline_def dollar_def MAX_CHILDREN_def)

theorem valid_config_boots_witness:
  "\<exists>(b :: boot) p. ppc b = Finished \<and> procs b = [p] \<and> pc p = Running \<and>
     program_of (prog p) = (''/t'', 2, [''/x'', ''y''], [''A'' \<mapsto> ''b''], 1)"
proof -
  from valid_config_boots[OF demo_valid, of "\<lambda>_. 7" "[]" heap0 "\<lambda>_. None" "\<lambda>_. 3" "\<lambda>_. True"] obtain b :: boot where
    b: "ppc b = Finished" "map program_of (map prog (procs b)) = boot_programs (\<lambda>_. None) 0 demo"
    "\<forall>p\<in>set (procs b). pc p = Running" by auto
  have "boot_programs (\<lambda>_. None) 0 demo = [(''/t'', 2, [''/x'', ''y''], [''A'' \<mapsto> ''b''], 1)]"
    by (simp add: demo_def is_tty_def dispatch_def env_effect_def opt_effect_def setenv_def int_word_def named_const_def
        dollar_def TTY_GFX_def OPT_CLEAR_def)
  with b show ?thesis by (auto simp: map_eq_Cons_conv)
qed

end
