(* ===== verification/Sockets.thy ===== *)
theory Sockets
  imports Sysdeps
begin

text \<open>
  \<open>sys_accept\<close> of \<open>mlibc-salernos/sysdeps/generic/generic.cpp\<close> sets the flags of the new descriptor by itself,
  with two calls of \<open>fcntl\<close> for each. Here: what the descriptors' flags are afterwards, over a kernel that
  keeps them, and what becomes of them when the kernel refuses to tell them.
\<close>

text \<open>A kernel that keeps the status flags \<open>fl\<close> and the descriptor flags \<open>fdf\<close> of every descriptor: a
  request to read gives them and changes nothing, a request to write an \<open>int\<close> replaces those of its
  descriptor.\<close>

definition reads :: "'k kernel \<Rightarrow> int \<Rightarrow> ('k \<Rightarrow> int \<Rightarrow> int) \<Rightarrow> bool" where
  "reads K request f \<longleftrightarrow>
     (\<forall>k fd x. \<exists>r. K (SYS ''FCNTL'') [A_num fd, A_num request, A_num x] k = (r, k) \<and> serrno r = 0 \<and> ret_int r = f k fd)"

definition writes :: "'k kernel \<Rightarrow> int \<Rightarrow> ('k \<Rightarrow> int \<Rightarrow> int) \<Rightarrow> ('k \<Rightarrow> int \<Rightarrow> int) \<Rightarrow> bool" where
  "writes K request f g \<longleftrightarrow>
     (\<forall>k fd (x :: i32). \<exists>r k'. K (SYS ''FCNTL'') [A_num fd, A_num request, A_num (sint x)] k = (r, k') \<and> serrno r = 0 \<and>
        f k' = (f k)(fd := sint x) \<and> g k' = g k)"

definition flag_kernel :: "'k kernel \<Rightarrow> ('k \<Rightarrow> int \<Rightarrow> int) \<Rightarrow> ('k \<Rightarrow> int \<Rightarrow> int) \<Rightarrow> bool" where
  "flag_kernel K fl fdf \<longleftrightarrow>
     reads K F_GETFL fl \<and> writes K F_SETFL fl fdf \<and> reads K F_GETFD fdf \<and> writes K F_SETFD fdf fl"

lemma flag_ints: "O_NONBLOCK = sint (0x800 :: i32)" "FD_CLOEXEC = sint (1 :: i32)"
  by (simp_all add: O_NONBLOCK_def FD_CLOEXEC_def)

lemma add_flag_adds:
  assumes "reads K get_req f" "writes K set_req f g" "flag = sint (w :: i32)"
  shows "f (add_flag K junk fd get_req set_req flag k) = (f k)(fd := f k fd OR flag) \<and>
    g (add_flag K junk fd get_req set_req flag k) = g k"
proof -
  obtain r where r: "K (SYS ''FCNTL'') [A_num fd, A_num get_req, A_num junk] k = (r, k)" "serrno r = 0" "ret_int r = f k fd"
    using assms(1) unfolding reads_def by blast
  have "f k fd OR flag = sint ((ucast (sret r) :: i32) OR w)" using r(3) by (simp add: assms(3) ret_int_def signed_or_eq)
  then obtain r' k' where "K (SYS ''FCNTL'') [A_num fd, A_num set_req, A_num (f k fd OR flag)] k = (r', k')"
    "f k' = (f k)(fd := f k fd OR flag)" "g k' = g k"
    using assms(2) unfolding writes_def by metis
  with r show ?thesis by (simp add: add_flag_def sys_fcntl_def sys_result_def)
qed

text \<open>A refused read counts as no flags at all: the flag replaces the others.\<close>

lemma add_flag_refused:
  assumes "K (SYS ''FCNTL'') [A_num fd, A_num get_req, A_num junk] k = (r, k)" "serrno r \<noteq> 0" "writes K set_req f g"
    and "flag = sint (w :: i32)"
  shows "f (add_flag K junk fd get_req set_req flag k) = (f k)(fd := flag)"
proof -
  obtain r' k' where "K (SYS ''FCNTL'') [A_num fd, A_num set_req, A_num flag] k = (r', k')" "f k' = (f k)(fd := flag)"
    using assms(3,4) unfolding writes_def by metis
  with assms(1,2) show ?thesis by (simp add: add_flag_def sys_fcntl_def sys_result_def)
qed

text \<open>C36: the flags of an accepted connection. If the kernel accepts, \<open>sys_accept\<close> returns its descriptor and the
  address it stored; of all flags it has changed just those of the new descriptor: \<open>O_NONBLOCK\<close> is added if
  \<open>SOCK_NONBLOCK\<close> was asked for, \<open>FD_CLOEXEC\<close> if \<open>SOCK_CLOEXEC\<close> was, and the others stay. If the kernel does
  not accept, the error is returned and no flag is touched.\<close>

theorem accept_flags:
  assumes "flag_kernel K fl fdf" "K (SYS ''ACCEPT'') [A_num fd, A_out, A_out] k = (r, k1)"
  shows "\<exists>k2. sys_accept K junk fd flags k =
      (if serrno r \<noteq> 0 then (Inl (ucast (serrno r)), k1) else (Inr (ret_int r, sdata r), k2)) \<and>
    fl k2 = (fl k1)(ret_int r := fl k1 (ret_int r) OR (if flags AND SOCK_NONBLOCK \<noteq> 0 then O_NONBLOCK else 0)) \<and>
    fdf k2 = (fdf k1)(ret_int r := fdf k1 (ret_int r) OR (if flags AND SOCK_CLOEXEC \<noteq> 0 then FD_CLOEXEC else 0))"
proof -
  define n where "n = ret_int r"
  define ka where "ka = (if flags AND SOCK_NONBLOCK \<noteq> 0 then add_flag K junk n F_GETFL F_SETFL O_NONBLOCK k1 else k1)"
  define kb where "kb = (if flags AND SOCK_CLOEXEC \<noteq> 0 then add_flag K junk n F_GETFD F_SETFD FD_CLOEXEC ka else ka)"
  have fl: "reads K F_GETFL fl" "writes K F_SETFL fl fdf" and fdf: "reads K F_GETFD fdf" "writes K F_SETFD fdf fl"
    using assms(1) by (simp_all add: flag_kernel_def)
  have "fl ka = (fl k1)(n := fl k1 n OR (if flags AND SOCK_NONBLOCK \<noteq> 0 then O_NONBLOCK else 0))" "fdf ka = fdf k1"
    using add_flag_adds[OF fl flag_ints(1)] by (simp_all add: ka_def)
  moreover have "fdf kb = (fdf ka)(n := fdf ka n OR (if flags AND SOCK_CLOEXEC \<noteq> 0 then FD_CLOEXEC else 0))" "fl kb = fl ka"
    using add_flag_adds[OF fdf flag_ints(2)] by (simp_all add: kb_def)
  moreover have "sys_accept K junk fd flags k =
      (if serrno r \<noteq> 0 then (Inl (ucast (serrno r)), k1) else (Inr (n, sdata r), kb))"
    by (simp add: sys_accept_def assms(2) sys_result_def with_data_def Let_def n_def[symmetric] ka_def kb_def)
  ultimately show ?thesis unfolding n_def by (intro exI[of _ kb]) simp
qed

text \<open>A kernel with the flags as its state, whose connections get the descriptor 5.\<close>

type_synonym flags_state = "(int \<Rightarrow> i32) \<times> (int \<Rightarrow> i32)"

definition answer :: "i32 \<Rightarrow> sysret" where "answer n = \<lparr>sret = ucast n, serrno = 0, sdata = []\<rparr>"

definition demo_fcntl :: "int \<Rightarrow> int \<Rightarrow> int \<Rightarrow> flags_state \<Rightarrow> sysret \<times> flags_state" where
  "demo_fcntl fd req x k =
     (if req = F_GETFL then (answer (fst k fd), k)
      else if req = F_GETFD then (answer (snd k fd), k)
      else if req = F_SETFL then (answer 0, ((fst k)(fd := word_of_int x), snd k))
      else (answer 0, (fst k, (snd k)(fd := word_of_int x))))"

definition demo_flags :: "flags_state kernel" where
  "demo_flags n as k =
     (case as of [A_num fd, A_num req, A_num x] \<Rightarrow> demo_fcntl fd req x k | _ \<Rightarrow> (answer 5, k))"

lemma word_round_trip: "ucast (ucast (a :: i32) :: u64) = a"
  by (rule bit_word_eqI) (auto simp: bit_simps)

lemma demo_flag_kernel: "flag_kernel demo_flags (\<lambda>k fd. sint (fst k fd)) (\<lambda>k fd. sint (snd k fd))"
  by (auto simp: flag_kernel_def reads_def writes_def demo_flags_def demo_fcntl_def answer_def ret_int_def
      F_GETFL_def F_GETFD_def F_SETFL_def F_SETFD_def fun_eq_iff word_round_trip)

theorem accept_flags_witness:
  "\<exists>k2. sys_accept demo_flags 77 3 (SOCK_NONBLOCK OR SOCK_CLOEXEC) (\<lambda>_. 2, \<lambda>_. 0) = (Inr (5, []), k2) \<and>
     sint (fst k2 5) = 0x802 \<and> sint (fst k2 3) = 2 \<and> sint (snd k2 5) = 1 \<and> sint (snd k2 3) = 0"
proof -
  have a: "demo_flags (SYS ''ACCEPT'') [A_num 3, A_out, A_out] k = (answer 5, k)" for k by (simp add: demo_flags_def)
  have b: "(SOCK_NONBLOCK OR SOCK_CLOEXEC) AND SOCK_NONBLOCK \<noteq> 0" "(SOCK_NONBLOCK OR SOCK_CLOEXEC) AND SOCK_CLOEXEC \<noteq> 0"
    by (simp_all add: SOCK_NONBLOCK_def SOCK_CLOEXEC_def)
  from accept_flags[OF demo_flag_kernel a, of 77 "SOCK_NONBLOCK OR SOCK_CLOEXEC" "(\<lambda>_. 2, \<lambda>_. 0)"] obtain k2 where
    "sys_accept demo_flags 77 3 (SOCK_NONBLOCK OR SOCK_CLOEXEC) (\<lambda>_. 2, \<lambda>_. 0) = (Inr (5, []), k2)"
    "(\<lambda>fd. sint (fst k2 fd)) = (\<lambda>_. 2)(5 := 0x802)" "(\<lambda>fd. sint (snd k2 fd)) = (\<lambda>_. 0)(5 := 1)"
    by (auto simp: b answer_def ret_int_def O_NONBLOCK_def FD_CLOEXEC_def)
  note k2 = this
  show ?thesis
    using k2(1) fun_cong[OF k2(2), of 5] fun_cong[OF k2(2), of 3] fun_cong[OF k2(3), of 5] fun_cong[OF k2(3), of 3]
    by auto
qed

end
