(* ===== verification/Abi_Layout.thy ===== *)
theory Abi_Layout
  imports Main
begin

text \<open>
  The layout of the structures that programs and the kernel exchange: the types of C with
  their sizes and alignments on x86-64, the placement of the fields, and the structures of
  \<open>mlibc-salernos/abi\<close> and of \<open>mlibc-salernos/sysdeps/include\<close> as values of these types.
  Arrays of unknown length at the end of a structure take no room and are left out.
  \<open>struct timespec\<close> and \<open>struct timeval\<close> are two words each, as POSIX has them.
  \<open>Abi_Contexts\<close> has the parts of these headers for other processors.
\<close>

subsection \<open>Types and their layout\<close>

text \<open>A scalar has its size as its alignment; a pointer is a scalar of 8 bytes. \<open>Aligned a t\<close> is a member
  of type \<open>t\<close> with the attribute that makes its alignment at least \<open>a\<close>.\<close>

datatype cty =
    Scalar nat
  | Array nat cty
  | Struct "(string \<times> cty) list"
  | Union "(string \<times> cty) list"
  | Aligned nat cty

definition round_up :: "nat \<Rightarrow> nat \<Rightarrow> nat" where
  "round_up n a = (n + a - 1) div a * a"

fun alignof :: "cty \<Rightarrow> nat" and fields_align :: "(string \<times> cty) list \<Rightarrow> nat" where
  "alignof (Scalar n) = n"
| "alignof (Array k t) = alignof t"
| "alignof (Struct fs) = fields_align fs"
| "alignof (Union fs) = fields_align fs"
| "alignof (Aligned a t) = max a (alignof t)"
| "fields_align [] = 1"
| "fields_align ((x, t) # fs) = max (alignof t) (fields_align fs)"

text \<open>\<open>fields_end fs p\<close> is the end of the last field when the first one is placed from \<open>p\<close> on.\<close>

fun sizeof :: "cty \<Rightarrow> nat" and fields_end :: "(string \<times> cty) list \<Rightarrow> nat \<Rightarrow> nat"
    and fields_max :: "(string \<times> cty) list \<Rightarrow> nat" where
  "sizeof (Scalar n) = n"
| "sizeof (Array k t) = k * sizeof t"
| "sizeof (Struct fs) = round_up (fields_end fs 0) (fields_align fs)"
| "sizeof (Union fs) = round_up (fields_max fs) (fields_align fs)"
| "sizeof (Aligned a t) = sizeof t"
| "fields_end [] p = p"
| "fields_end ((x, t) # fs) p = fields_end fs (round_up p (alignof t) + sizeof t)"
| "fields_max [] = 0"
| "fields_max ((x, t) # fs) = max (sizeof t) (fields_max fs)"

text \<open>Where the fields of a structure are.\<close>

fun offsets :: "(string \<times> cty) list \<Rightarrow> nat \<Rightarrow> (string \<times> nat \<times> cty) list" where
  "offsets [] p = []"
| "offsets ((x, t) # fs) p = (x, round_up p (alignof t), t) # offsets fs (round_up p (alignof t) + sizeof t)"

text \<open>The elements of an array follow one another, so each ends where the next may begin.\<close>

definition alignments :: "nat set" where "alignments = {1, 2, 4, 8, 16}"

fun wf_type :: "cty \<Rightarrow> bool" where
  "wf_type (Scalar n) \<longleftrightarrow> n \<in> alignments"
| "wf_type (Array k t) \<longleftrightarrow> wf_type t \<and> alignof t dvd sizeof t"
| "wf_type (Struct fs) \<longleftrightarrow> (\<forall>f\<in>set fs. wf_type (snd f))"
| "wf_type (Union fs) \<longleftrightarrow> (\<forall>f\<in>set fs. wf_type (snd f))"
| "wf_type (Aligned a t) \<longleftrightarrow> a \<in> alignments \<and> wf_type t"

subsection \<open>Fields are aligned, apart and inside\<close>

lemma round_up:
  assumes "0 < a"
  shows "a dvd round_up n a" "n \<le> round_up n a" "round_up n a < n + a"
proof -
  show "a dvd round_up n a" by (simp add: round_up_def)
  have d: "(n + a - 1) div a * a + (n + a - 1) mod a = n + a - 1" by simp
  have "(n + a - 1) mod a < a" using assms by simp
  with d show "n \<le> round_up n a" unfolding round_up_def by linarith
  show "round_up n a < n + a" using d assms unfolding round_up_def by linarith
qed

text \<open>The alignments form a chain of powers of two.\<close>

lemma alignments_chain: "a \<in> alignments \<Longrightarrow> b \<in> alignments \<Longrightarrow> max a b \<in> alignments \<and> a dvd max a b \<and> b dvd max a b"
  by (auto simp: alignments_def max_def)

lemma alignments_pos: "a \<in> alignments \<Longrightarrow> 0 < a"
  by (auto simp: alignments_def)

lemma alignof_wf:
  "wf_type t \<Longrightarrow> alignof t \<in> alignments"
  "\<forall>f\<in>set fs. wf_type (snd f) \<Longrightarrow> fields_align fs \<in> alignments \<and> (\<forall>f\<in>set fs. alignof (snd f) dvd fields_align fs)"
proof (induction t and fs rule: alignof_fields_align.induct)
  case (7 x t fs)
  then show ?case using alignments_chain[of "alignof t" "fields_align fs"] by (auto intro: dvd_trans)
qed (simp_all add: alignments_chain, simp add: alignments_def)

text \<open>Only the attribute can make an alignment that does not divide the size.\<close>

lemma alignof_dvd_sizeof: "wf_type t \<Longrightarrow> (\<forall>a u. t \<noteq> Aligned a u) \<Longrightarrow> alignof t dvd sizeof t"
proof (induction t)
  case (Struct fs)
  then show ?case using alignof_wf(2)[of fs] by (simp add: round_up(1) alignments_pos)
next
  case (Union fs)
  then show ?case using alignof_wf(2)[of fs] by (simp add: round_up(1) alignments_pos)
qed auto

text \<open>Arrays of scalars, structures and unions need no computation of sizes.\<close>

lemma wf_array:
  "wf_type (Array k (Scalar n)) \<longleftrightarrow> n \<in> alignments"
  "wf_type (Array k (Struct fs)) \<longleftrightarrow> wf_type (Struct fs)"
  "wf_type (Array k (Union fs)) \<longleftrightarrow> wf_type (Union fs)"
  using alignof_dvd_sizeof[of "Struct fs"] alignof_dvd_sizeof[of "Union fs"] by auto

lemma in_alignments: "1 \<in> alignments" "Suc 0 \<in> alignments" "2 \<in> alignments" "4 \<in> alignments"
    "8 \<in> alignments" "16 \<in> alignments"
  by (simp_all add: alignments_def)

lemmas wf_type_simps = wf_array wf_type.simps(1,3,4,5) in_alignments

lemma offsets_placed:
  "\<forall>f\<in>set fs. wf_type (snd f) \<Longrightarrow>
     p \<le> fields_end fs p \<and>
     (\<forall>(x, off, t)\<in>set (offsets fs p). p \<le> off \<and> alignof t dvd off \<and> off + sizeof t \<le> fields_end fs p) \<and>
     sorted_wrt (\<lambda>(x, off, t) (y, off', t'). off + sizeof t \<le> off') (offsets fs p)"
proof (induction fs p rule: offsets.induct)
  case (2 x t fs p)
  then have "0 < alignof t" using alignof_wf(1)[of t] by (simp add: alignments_pos)
  with 2 round_up[of "alignof t" p] show ?case by (fastforce split: prod.splits)
qed simp

lemma struct_placed:
  assumes "wf_type (Struct fs)"
  shows "(\<forall>(x, off, t)\<in>set (offsets fs 0). alignof t dvd off \<and> off + sizeof t \<le> sizeof (Struct fs)) \<and>
    sorted_wrt (\<lambda>(x, off, t) (y, off', t'). off + sizeof t \<le> off') (offsets fs 0) \<and>
    alignof (Struct fs) dvd sizeof (Struct fs) \<and> sizeof (Struct fs) < fields_end fs 0 + alignof (Struct fs)"
proof -
  have a: "0 < fields_align fs" using assms alignof_wf(2)[of fs] by (simp add: alignments_pos)
  show ?thesis
    using offsets_placed[of fs 0] assms round_up[OF a, of "fields_end fs 0"] by fastforce
qed

subsection \<open>The structures\<close>

definition struct_timespec :: cty where
  "struct_timespec = Struct [(''tv_sec'', Scalar 8), (''tv_nsec'', Scalar 8)]"

definition struct_timeval :: cty where
  "struct_timeval = Struct [(''tv_sec'', Scalar 8), (''tv_usec'', Scalar 8)]"

definition struct_stat :: cty where
  "struct_stat = Struct [
    (''st_dev'', Scalar 8), (''st_ino'', Scalar 8), (''st_nlink'', Scalar 8),
    (''st_mode'', Scalar 4), (''st_uid'', Scalar 4), (''st_gid'', Scalar 4),
    (''__pad0'', Scalar 4), (''st_rdev'', Scalar 8), (''st_size'', Scalar 8),
    (''st_blksize'', Scalar 8), (''st_blocks'', Scalar 8), (''st_atim'', struct_timespec),
    (''st_mtim'', struct_timespec), (''st_ctim'', struct_timespec),
    (''__unused'', Array 3 (Scalar 8))]"

definition struct_in_addr :: cty where
  "struct_in_addr = Struct [
    (''s_addr'', Scalar 4)]"

definition struct_sockaddr_in :: cty where
  "struct_sockaddr_in = Struct [
    (''sin_family'', Scalar 2), (''sin_port'', Scalar 2), (''sin_addr'', struct_in_addr),
    (''sin_zero'', Array 8 (Scalar 1))]"

definition struct_in6_addr :: cty where
  "struct_in6_addr = Struct [
    (''__in6_union'', Union [(''__s6_addr'', Array 16 (Scalar 1)), (''__s6_addr16'', Array 8 (Scalar 2)), (''__s6_addr32'', Array 4 (Scalar 4))])]"

definition struct_sockaddr_in6 :: cty where
  "struct_sockaddr_in6 = Struct [
    (''sin6_family'', Scalar 2), (''sin6_port'', Scalar 2), (''sin6_flowinfo'', Scalar 4),
    (''sin6_addr'', struct_in6_addr), (''sin6_scope_id'', Scalar 4)]"

definition struct_ipv6_mreq :: cty where
  "struct_ipv6_mreq = Struct [
    (''ipv6mr_multiaddr'', struct_in6_addr), (''ipv6mr_interface'', Scalar 4)]"

definition struct_in6_pktinfo :: cty where
  "struct_in6_pktinfo = Struct [
    (''ipi6_addr'', struct_in6_addr), (''ipi6_ifindex'', Scalar 4)]"

definition struct_ip_mreq :: cty where
  "struct_ip_mreq = Struct [
    (''imr_multiaddr'', struct_in_addr), (''imr_interface'', struct_in_addr)]"

definition struct_ip_mreq_source :: cty where
  "struct_ip_mreq_source = Struct [
    (''imr_multiaddr'', struct_in_addr), (''imr_interface'', struct_in_addr),
    (''imr_sourceaddr'', struct_in_addr)]"

definition struct_ip_mreqn :: cty where
  "struct_ip_mreqn = Struct [
    (''imr_multiaddr'', struct_in_addr), (''imr_address'', struct_in_addr),
    (''imr_ifindex'', Scalar 4)]"

definition struct_in_pktinfo :: cty where
  "struct_in_pktinfo = Struct [
    (''ipi_ifindex'', Scalar 4), (''ipi_spec_dst'', struct_in_addr),
    (''ipi_addr'', struct_in_addr)]"

definition struct_msghdr :: cty where
  "struct_msghdr = Struct [
    (''msg_name'', Scalar 8), (''msg_namelen'', Scalar 4), (''msg_iov'', Scalar 8),
    (''msg_iovlen'', Scalar 8), (''msg_control'', Scalar 8), (''msg_controllen'', Scalar 8),
    (''msg_flags'', Scalar 4)]"

definition struct_sockaddr_storage :: cty where
  "struct_sockaddr_storage = Struct [
    (''ss_family'', Scalar 2), (''__padding'', Array 118 (Scalar 1)),
    (''__force_alignment'', Scalar 8)]"

definition struct_mmsghdr :: cty where
  "struct_mmsghdr = Struct [
    (''msg_hdr'', struct_msghdr), (''msg_len'', Scalar 4)]"

definition struct_cmsghdr :: cty where
  "struct_cmsghdr = Struct [
    (''cmsg_len'', Scalar 8), (''cmsg_level'', Scalar 4), (''cmsg_type'', Scalar 4)]"

definition struct_group_req :: cty where
  "struct_group_req = Struct [
    (''gr_interface'', Scalar 4), (''gr_group'', struct_sockaddr_storage)]"

definition struct_group_source_req :: cty where
  "struct_group_source_req = Struct [
    (''gsr_interface'', Scalar 4), (''gsr_group'', struct_sockaddr_storage),
    (''gsr_source'', struct_sockaddr_storage)]"

definition struct_termios :: cty where
  "struct_termios = Struct [
    (''c_iflag'', Scalar 4), (''c_oflag'', Scalar 4), (''c_cflag'', Scalar 4),
    (''c_lflag'', Scalar 4), (''c_line'', Scalar 1), (''c_cc'', Array 32 (Scalar 1)),
    (''ibaud'', Scalar 4), (''obaud'', Scalar 4)]"

definition struct_termio :: cty where
  "struct_termio = Struct [
    (''c_iflag'', Scalar 2), (''c_oflag'', Scalar 2), (''c_cflag'', Scalar 2),
    (''c_lflag'', Scalar 2), (''c_line'', Scalar 1), (''c_cc'', Array 8 (Scalar 1))]"

definition union_sigval :: cty where
  "union_sigval = Union [
    (''sival_int'', Scalar 4), (''sival_ptr'', Scalar 8)]"

definition struct_sigevent :: cty where
  "struct_sigevent = Struct [
    (''sigev_value'', union_sigval), (''sigev_notify'', Scalar 4), (''sigev_signo'', Scalar 4),
    (''sigev_notify_function'', Scalar 8), (''sigev_notify_attributes'', Scalar 8),
    (''sigev_notify_thread_id'', Scalar 4)]"

definition struct_siginfo :: cty where
  "struct_siginfo = Struct [
    (''si_signo'', Scalar 4), (''si_errno'', Scalar 4), (''si_code'', Scalar 4),
    (''__si_fields'', Union [(''__pad'', Array 112 (Scalar 1)), (''__si_common'', Struct [(''__first'', Union [(''__piduid'', Struct [(''si_pid'', Scalar 4), (''si_uid'', Scalar 4)]), (''__timer'', Struct [(''si_timerid'', Scalar 4), (''si_overrun'', Scalar 4)])]), (''__second'', Union [(''si_value'', union_sigval), (''__sigchld'', Struct [(''si_status'', Scalar 4), (''si_utime'', Scalar 8), (''si_stime'', Scalar 8)])])]), (''__sigfault'', Struct [(''si_addr'', Scalar 8), (''si_addr_lsb'', Scalar 2), (''__first'', Union [(''__addr_bnd'', Struct [(''si_lower'', Scalar 8), (''si_upper'', Scalar 8)]), (''si_pkey'', Scalar 4)])]), (''__sigpoll'', Struct [(''si_band'', Scalar 8), (''si_fd'', Scalar 4)]), (''__sigsys'', Struct [(''si_call_addr'', Scalar 8), (''si_syscall'', Scalar 4), (''si_arch'', Scalar 4)])])]"

definition struct_stack :: cty where
  "struct_stack = Struct [
    (''ss_sp'', Scalar 8), (''ss_flags'', Scalar 4), (''ss_size'', Scalar 8)]"

definition struct_sigset :: cty where
  "struct_sigset = Struct [
    (''sig'', Array 16 (Scalar 8))]"

definition struct_sigaction :: cty where
  "struct_sigaction = Struct [
    (''__sa_handler'', Union [(''sa_handler'', Scalar 8), (''sa_sigaction'', Scalar 8)]),
    (''sa_flags'', Scalar 8), (''sa_restorer'', Scalar 8), (''sa_mask'', struct_sigset)]"

definition struct_fpreg :: cty where
  "struct_fpreg = Struct [
    (''significand'', Array 4 (Scalar 2)), (''exponent'', Scalar 2)]"

definition struct_fpxreg :: cty where
  "struct_fpxreg = Struct [
    (''significand'', Array 4 (Scalar 2)), (''exponent'', Scalar 2),
    (''padding'', Array 3 (Scalar 2))]"

definition struct_xmmreg :: cty where
  "struct_xmmreg = Struct [
    (''element'', Array 4 (Scalar 4))]"

definition struct_fpstate :: cty where
  "struct_fpstate = Struct [
    (''cwd'', Scalar 2), (''swd'', Scalar 2), (''ftw'', Scalar 2), (''fop'', Scalar 2),
    (''rip'', Scalar 8), (''rdp'', Scalar 8), (''mxcsr'', Scalar 4), (''mxcr_mask'', Scalar 4),
    (''_st'', Array 8 struct_fpxreg), (''_xmm'', Array 16 struct_xmmreg),
    (''padding'', Array 24 (Scalar 4))]"

definition struct_sigcontext :: cty where
  "struct_sigcontext = Struct [
    (''r8'', Scalar 8), (''r9'', Scalar 8), (''r10'', Scalar 8), (''r11'', Scalar 8),
    (''r12'', Scalar 8), (''r13'', Scalar 8), (''r14'', Scalar 8), (''r15'', Scalar 8),
    (''rdi'', Scalar 8), (''rsi'', Scalar 8), (''rbp'', Scalar 8), (''rbx'', Scalar 8),
    (''rdx'', Scalar 8), (''rax'', Scalar 8), (''rcx'', Scalar 8), (''rsp'', Scalar 8),
    (''rip'', Scalar 8), (''eflags'', Scalar 8), (''cs'', Scalar 2), (''gs'', Scalar 2),
    (''fs'', Scalar 2), (''__pad0'', Scalar 2), (''err'', Scalar 8), (''trapno'', Scalar 8),
    (''oldmask'', Scalar 8), (''cr2'', Scalar 8), (''fpstate'', Scalar 8),
    (''__reserved1'', Array 8 (Scalar 8))]"

definition struct_mcontext :: cty where
  "struct_mcontext = Struct [
    (''gregs'', Array 23 (Scalar 8)), (''fpregs'', Scalar 8),
    (''__reserved1'', Array 8 (Scalar 8))]"

definition struct_ucontext :: cty where
  "struct_ucontext = Struct [
    (''uc_flags'', Scalar 8), (''uc_link'', Scalar 8), (''uc_stack'', struct_stack),
    (''uc_mcontext'', struct_mcontext), (''uc_sigmask'', struct_sigset)]"

definition struct_f_owner_ex :: cty where
  "struct_f_owner_ex = Struct [
    (''type'', Scalar 4), (''pid'', Scalar 4)]"

definition struct_dent :: cty where
  "struct_dent = Struct [
    (''d_ino'', Scalar 8), (''d_off'', Scalar 8), (''d_reclen'', Scalar 2),
    (''d_type'', Scalar 1), (''d_name'', Array 1024 (Scalar 1))]"

definition struct_syscall_ret :: cty where
  "struct_syscall_ret = Struct [
    (''ret'', Scalar 8), (''errno'', Scalar 8)]"

definition struct_itimerval :: cty where
  "struct_itimerval = Struct [
    (''it_interval'', struct_timeval), (''it_value'', struct_timeval)]"

definition struct_rusage :: cty where
  "struct_rusage = Struct [
    (''ru_utime'', struct_timeval), (''ru_stime'', struct_timeval), (''ru_maxrss'', Scalar 8),
    (''ru_ixrss'', Scalar 8), (''ru_idrss'', Scalar 8), (''ru_isrss'', Scalar 8),
    (''ru_minflt'', Scalar 8), (''ru_majflt'', Scalar 8), (''ru_nswap'', Scalar 8),
    (''ru_inblock'', Scalar 8), (''ru_oublock'', Scalar 8), (''ru_msgsnd'', Scalar 8),
    (''ru_msgrcv'', Scalar 8), (''ru_nsignals'', Scalar 8), (''ru_nvcsw'', Scalar 8),
    (''ru_nivcsw'', Scalar 8)]"

definition struct_fsid :: cty where
  "struct_fsid = Struct [
    (''__val'', Array 2 (Scalar 4))]"

definition struct_statfs :: cty where
  "struct_statfs = Struct [
    (''f_type'', Scalar 8), (''f_bsize'', Scalar 8), (''f_blocks'', Scalar 8),
    (''f_bfree'', Scalar 8), (''f_bavail'', Scalar 8), (''f_files'', Scalar 8),
    (''f_ffree'', Scalar 8), (''f_fsid'', struct_fsid), (''f_namelen'', Scalar 8),
    (''f_frsize'', Scalar 8), (''f_flags'', Scalar 8), (''__f_spare'', Array 4 (Scalar 8))]"

definition struct_statfs64 :: cty where
  "struct_statfs64 = Struct [
    (''f_type'', Scalar 8), (''f_bsize'', Scalar 8), (''f_blocks'', Scalar 8),
    (''f_bfree'', Scalar 8), (''f_bavail'', Scalar 8), (''f_files'', Scalar 8),
    (''f_ffree'', Scalar 8), (''f_fsid'', struct_fsid), (''f_namelen'', Scalar 8),
    (''f_frsize'', Scalar 8), (''f_flags'', Scalar 8), (''__f_spare'', Array 4 (Scalar 8))]"

definition struct_statvfs :: cty where
  "struct_statvfs = Struct [
    (''f_bsize'', Scalar 8), (''f_frsize'', Scalar 8), (''f_blocks'', Scalar 8),
    (''f_bfree'', Scalar 8), (''f_bavail'', Scalar 8), (''f_files'', Scalar 8),
    (''f_ffree'', Scalar 8), (''f_favail'', Scalar 8), (''f_fsid'', Scalar 8),
    (''f_flag'', Scalar 8), (''f_namemax'', Scalar 8)]"

definition struct_statvfs64 :: cty where
  "struct_statvfs64 = Struct [
    (''f_bsize'', Scalar 8), (''f_frsize'', Scalar 8), (''f_blocks'', Scalar 8),
    (''f_bfree'', Scalar 8), (''f_bavail'', Scalar 8), (''f_files'', Scalar 8),
    (''f_ffree'', Scalar 8), (''f_favail'', Scalar 8), (''f_fsid'', Scalar 8),
    (''f_flag'', Scalar 8), (''f_namemax'', Scalar 8)]"

definition struct_statx_timestamp :: cty where
  "struct_statx_timestamp = Struct [
    (''tv_sec'', Scalar 8), (''tv_nsec'', Scalar 4), (''__padding'', Scalar 4)]"

definition struct_statx :: cty where
  "struct_statx = Struct [
    (''stx_mask'', Scalar 4), (''stx_blksize'', Scalar 4), (''stx_attributes'', Scalar 8),
    (''stx_nlink'', Scalar 4), (''stx_uid'', Scalar 4), (''stx_gid'', Scalar 4),
    (''stx_mode'', Scalar 2), (''__padding'', Scalar 2), (''stx_ino'', Scalar 8),
    (''stx_size'', Scalar 8), (''stx_blocks'', Scalar 8), (''stx_attributes_mask'', Scalar 8),
    (''stx_atime'', struct_statx_timestamp), (''stx_btime'', struct_statx_timestamp),
    (''stx_ctime'', struct_statx_timestamp), (''stx_mtime'', struct_statx_timestamp),
    (''stx_rdev_major'', Scalar 4), (''stx_rdev_minor'', Scalar 4),
    (''stx_dev_major'', Scalar 4), (''stx_dev_minor'', Scalar 4), (''stx_mnt_id'', Scalar 8),
    (''stx_dio_mem_align'', Scalar 4), (''stx_dio_offset_align'', Scalar 4),
    (''__padding1'', Array 12 (Scalar 8))]"

definition struct_ipc64_perm :: cty where
  "struct_ipc64_perm = Struct [
    (''__ipc_perm_key'', Scalar 4), (''uid'', Scalar 4), (''gid'', Scalar 4),
    (''cuid'', Scalar 4), (''cgid'', Scalar 4), (''mode'', Scalar 4),
    (''__ipc_perm_seq'', Scalar 4), (''__unused'', Array 2 (Scalar 8))]"

definition struct_shmid_ds :: cty where
  "struct_shmid_ds = Struct [
    (''shm_perm'', struct_ipc64_perm), (''shm_segsz'', Scalar 8), (''shm_atime'', Scalar 8),
    (''shm_dtime'', Scalar 8), (''shm_ctime'', Scalar 8), (''shm_cpid'', Scalar 4),
    (''shm_lpid'', Scalar 4), (''shm_nattch'', Scalar 8), (''__unused'', Array 2 (Scalar 8))]"

definition struct_shminfo :: cty where
  "struct_shminfo = Struct [
    (''shmmax'', Scalar 8), (''shmmin'', Scalar 8), (''shmmni'', Scalar 8),
    (''shmseg'', Scalar 8), (''shmall'', Scalar 8), (''__unused'', Array 4 (Scalar 8))]"

definition struct_shm_info :: cty where
  "struct_shm_info = Struct [
    (''used_ids'', Scalar 4), (''shm_tot'', Scalar 8), (''shm_rss'', Scalar 8),
    (''shm_swp'', Scalar 8), (''swap_attempts'', Scalar 8), (''swap_successes'', Scalar 8)]"

definition struct_msqid64_ds :: cty where
  "struct_msqid64_ds = Struct [
    (''msg_perm'', struct_ipc64_perm), (''msg_stime'', Scalar 8), (''msg_rtime'', Scalar 8),
    (''msg_ctime'', Scalar 8), (''msg_cbytes'', Scalar 8), (''msg_qnum'', Scalar 8),
    (''msg_qbytes'', Scalar 8), (''msg_lspid'', Scalar 4), (''msg_lrpid'', Scalar 4),
    (''__unused'', Array 2 (Scalar 8))]"

definition struct_mq_attr :: cty where
  "struct_mq_attr = Struct [
    (''mq_flags'', Scalar 8), (''mq_maxmsg'', Scalar 8), (''mq_msgsize'', Scalar 8),
    (''mq_curmsgs'', Scalar 8), (''__pad'', Array 4 (Scalar 8))]"

definition struct_utsname :: cty where
  "struct_utsname = Struct [
    (''sysname'', Array 65 (Scalar 1)), (''nodename'', Array 65 (Scalar 1)),
    (''release'', Array 65 (Scalar 1)), (''version'', Array 65 (Scalar 1)),
    (''machine'', Array 65 (Scalar 1)), (''domainname'', Array 65 (Scalar 1))]"

definition struct_vt_mode :: cty where
  "struct_vt_mode = Struct [
    (''mode'', Scalar 1), (''waitv'', Scalar 1), (''relsig'', Scalar 2), (''acqsig'', Scalar 2),
    (''frsig'', Scalar 2)]"

definition struct_vt_stat :: cty where
  "struct_vt_stat = Struct [
    (''v_active'', Scalar 2), (''v_signal'', Scalar 2), (''v_state'', Scalar 2)]"

definition struct_vt_sizes :: cty where
  "struct_vt_sizes = Struct [
    (''v_rows'', Scalar 2), (''v_cols'', Scalar 2), (''v_scrollsize'', Scalar 2)]"

definition struct_vt_consize :: cty where
  "struct_vt_consize = Struct [
    (''v_rows'', Scalar 2), (''v_cols'', Scalar 2), (''v_vlin'', Scalar 2),
    (''v_clin'', Scalar 2), (''v_vcol'', Scalar 2), (''v_ccol'', Scalar 2)]"

definition struct_vt_event :: cty where
  "struct_vt_event = Struct [
    (''event'', Scalar 4), (''oldev'', Scalar 4), (''newev'', Scalar 4),
    (''pad'', Array 4 (Scalar 4))]"

definition struct_vt_setactivate :: cty where
  "struct_vt_setactivate = Struct [
    (''console'', Scalar 4), (''mode'', struct_vt_mode)]"

definition struct_fb_fix_screeninfo :: cty where
  "struct_fb_fix_screeninfo = Struct [
    (''id'', Array 16 (Scalar 1)), (''smem_start'', Scalar 8), (''smem_len'', Scalar 4),
    (''type'', Scalar 4), (''type_aux'', Scalar 4), (''visual'', Scalar 4),
    (''xpanstep'', Scalar 2), (''ypanstep'', Scalar 2), (''ywrapstep'', Scalar 2),
    (''line_length'', Scalar 4), (''mmio_start'', Scalar 8), (''mmio_len'', Scalar 4),
    (''accel'', Scalar 4), (''capabilities'', Scalar 2), (''reserved'', Array 2 (Scalar 2))]"

definition struct_fb_bitfield :: cty where
  "struct_fb_bitfield = Struct [
    (''offset'', Scalar 4), (''length'', Scalar 4), (''msb_right'', Scalar 4)]"

definition struct_fb_var_screeninfo :: cty where
  "struct_fb_var_screeninfo = Struct [
    (''xres'', Scalar 4), (''yres'', Scalar 4), (''xres_virtual'', Scalar 4),
    (''yres_virtual'', Scalar 4), (''xoffset'', Scalar 4), (''yoffset'', Scalar 4),
    (''bits_per_pixel'', Scalar 4), (''grayscale'', Scalar 4), (''red'', struct_fb_bitfield),
    (''green'', struct_fb_bitfield), (''blue'', struct_fb_bitfield),
    (''transp'', struct_fb_bitfield), (''nonstd'', Scalar 4), (''activate'', Scalar 4),
    (''height'', Scalar 4), (''width'', Scalar 4), (''accel_flags'', Scalar 4),
    (''pixclock'', Scalar 4), (''left_margin'', Scalar 4), (''right_margin'', Scalar 4),
    (''upper_margin'', Scalar 4), (''lower_margin'', Scalar 4), (''hsync_len'', Scalar 4),
    (''vsync_len'', Scalar 4), (''sync'', Scalar 4), (''vmode'', Scalar 4),
    (''rotate'', Scalar 4), (''colorspace'', Scalar 4), (''reserved'', Array 4 (Scalar 4))]"

definition struct_fb_cmap :: cty where
  "struct_fb_cmap = Struct [
    (''start'', Scalar 4), (''len'', Scalar 4), (''red'', Scalar 8), (''green'', Scalar 8),
    (''blue'', Scalar 8), (''transp'', Scalar 8)]"

definition struct_fb_con2fbmap :: cty where
  "struct_fb_con2fbmap = Struct [
    (''console'', Scalar 4), (''framebuffer'', Scalar 4)]"

definition struct_fb_vblank :: cty where
  "struct_fb_vblank = Struct [
    (''flags'', Scalar 4), (''count'', Scalar 4), (''vcount'', Scalar 4),
    (''hcount'', Scalar 4), (''reserved'', Array 4 (Scalar 4))]"

definition struct_fb_copyarea :: cty where
  "struct_fb_copyarea = Struct [
    (''dx'', Scalar 4), (''dy'', Scalar 4), (''width'', Scalar 4), (''height'', Scalar 4),
    (''sx'', Scalar 4), (''sy'', Scalar 4)]"

definition struct_fb_fillrect :: cty where
  "struct_fb_fillrect = Struct [
    (''dx'', Scalar 4), (''dy'', Scalar 4), (''width'', Scalar 4), (''height'', Scalar 4),
    (''color'', Scalar 4), (''rop'', Scalar 4)]"

definition struct_fb_image :: cty where
  "struct_fb_image = Struct [
    (''dx'', Scalar 4), (''dy'', Scalar 4), (''width'', Scalar 4), (''height'', Scalar 4),
    (''fg_color'', Scalar 4), (''bg_color'', Scalar 4), (''depth'', Scalar 1),
    (''data'', Scalar 8), (''cmap'', struct_fb_cmap)]"

definition struct_fbcurpos :: cty where
  "struct_fbcurpos = Struct [
    (''x'', Scalar 2), (''y'', Scalar 2)]"

definition struct_fb_cursor :: cty where
  "struct_fb_cursor = Struct [
    (''set'', Scalar 2), (''enable'', Scalar 2), (''rop'', Scalar 2), (''mask'', Scalar 8),
    (''hot'', struct_fbcurpos), (''image'', struct_fb_image)]"

definition struct_kbd_packet :: cty where
  "struct_kbd_packet = Struct [
    (''rsvd1'', Scalar 8), (''keycode'', Scalar 4), (''keystate'', Scalar 4),
    (''rsvd2'', Scalar 1)]"

definition struct_mouse_packet :: cty where
  "struct_mouse_packet = Struct [
    (''rsvd'', Scalar 8), (''buttons'', Scalar 4), (''dx'', Scalar 4), (''dy'', Scalar 4),
    (''dz'', Scalar 4)]"

definition struct_mntent :: cty where
  "struct_mntent = Struct [
    (''mnt_fsname'', Scalar 8), (''mnt_dir'', Scalar 8), (''mnt_type'', Scalar 8),
    (''mnt_opts'', Scalar 8), (''mnt_freq'', Scalar 4), (''mnt_passno'', Scalar 4)]"

definition struct_utmpx :: cty where
  "struct_utmpx = Struct [
    (''ut_type'', Scalar 2), (''__ut_pad1'', Scalar 2), (''ut_pid'', Scalar 4),
    (''ut_line'', Array 32 (Scalar 1)), (''ut_id'', Array 4 (Scalar 1)),
    (''ut_user'', Array 32 (Scalar 1)), (''ut_host'', Array 256 (Scalar 1)),
    (''ut_exit'', Struct [(''__e_termination'', Scalar 2), (''__e_exit'', Scalar 2)]),
    (''ut_session'', Scalar 4), (''__ut_pad2'', Scalar 4), (''ut_tv'', struct_timeval),
    (''ut_addr_v6'', Array 4 (Scalar 4)), (''__unused'', Array 20 (Scalar 1))]"

definition struct_fn_data :: cty where
  "struct_fn_data = Struct [
    (''name'', Array 64 (Scalar 1)), (''real_time_ns'', Scalar 8), (''cpu_time_ns'', Scalar 8),
    (''num_calls'', Scalar 8)]"

definition struct_fn_res :: cty where
  "struct_fn_res = Struct [
    (''_rsvd'', Array 16 (Scalar 8))]"

text \<open>All of them.\<close>

definition abi_structs :: "cty list" where
  "abi_structs =
    [
     struct_stat, struct_in_addr, struct_sockaddr_in, struct_in6_addr, struct_sockaddr_in6,
     struct_ipv6_mreq, struct_in6_pktinfo, struct_ip_mreq, struct_ip_mreq_source, struct_ip_mreqn,
     struct_in_pktinfo, struct_msghdr, struct_sockaddr_storage, struct_mmsghdr, struct_cmsghdr,
     struct_group_req, struct_group_source_req, struct_termios, struct_termio, union_sigval,
     struct_sigevent, struct_siginfo, struct_stack, struct_sigset, struct_sigaction, struct_fpreg,
     struct_fpxreg, struct_xmmreg, struct_fpstate, struct_sigcontext, struct_mcontext,
     struct_ucontext, struct_f_owner_ex, struct_dent, struct_syscall_ret, struct_itimerval,
     struct_rusage, struct_fsid, struct_statfs, struct_statfs64, struct_statvfs, struct_statvfs64,
     struct_statx_timestamp, struct_statx, struct_ipc64_perm, struct_shmid_ds, struct_shminfo,
     struct_shm_info, struct_msqid64_ds, struct_mq_attr, struct_utsname, struct_vt_mode,
     struct_vt_stat, struct_vt_sizes, struct_vt_consize, struct_vt_event, struct_vt_setactivate,
     struct_fb_fix_screeninfo, struct_fb_bitfield, struct_fb_var_screeninfo, struct_fb_cmap,
     struct_fb_con2fbmap, struct_fb_vblank, struct_fb_copyarea, struct_fb_fillrect,
     struct_fb_image, struct_fbcurpos, struct_fb_cursor, struct_kbd_packet, struct_mouse_packet,
     struct_mntent, struct_utmpx, struct_fn_data, struct_fn_res]"

lemmas struct_defs =
  struct_timespec_def struct_timeval_def struct_stat_def struct_in_addr_def struct_sockaddr_in_def
  struct_in6_addr_def struct_sockaddr_in6_def struct_ipv6_mreq_def struct_in6_pktinfo_def
  struct_ip_mreq_def struct_ip_mreq_source_def struct_ip_mreqn_def struct_in_pktinfo_def
  struct_msghdr_def struct_sockaddr_storage_def struct_mmsghdr_def struct_cmsghdr_def
  struct_group_req_def struct_group_source_req_def struct_termios_def struct_termio_def
  union_sigval_def struct_sigevent_def struct_siginfo_def struct_stack_def struct_sigset_def
  struct_sigaction_def struct_fpreg_def struct_fpxreg_def struct_xmmreg_def struct_fpstate_def
  struct_sigcontext_def struct_mcontext_def struct_ucontext_def struct_f_owner_ex_def
  struct_dent_def struct_syscall_ret_def struct_itimerval_def struct_rusage_def struct_fsid_def
  struct_statfs_def struct_statfs64_def struct_statvfs_def struct_statvfs64_def
  struct_statx_timestamp_def struct_statx_def struct_ipc64_perm_def struct_shmid_ds_def
  struct_shminfo_def struct_shm_info_def struct_msqid64_ds_def struct_mq_attr_def
  struct_utsname_def struct_vt_mode_def struct_vt_stat_def struct_vt_sizes_def
  struct_vt_consize_def struct_vt_event_def struct_vt_setactivate_def struct_fb_fix_screeninfo_def
  struct_fb_bitfield_def struct_fb_var_screeninfo_def struct_fb_cmap_def struct_fb_con2fbmap_def
  struct_fb_vblank_def struct_fb_copyarea_def struct_fb_fillrect_def struct_fb_image_def
  struct_fbcurpos_def struct_fb_cursor_def struct_kbd_packet_def struct_mouse_packet_def
  struct_mntent_def struct_utmpx_def struct_fn_data_def struct_fn_res_def

lemma abi_sizes:
  "map sizeof abi_structs = [
     144, 4, 16, 16, 28, 20, 20, 8, 12, 12, 12, 56, 128, 64, 16, 136, 264, 60, 18, 8, 40, 128, 24,
     128, 152, 10, 16, 16, 512, 256, 256, 424, 8, 1048, 16, 32, 144, 8, 120, 120, 88, 88, 16, 256,
     48, 112, 72, 48, 120, 64, 390, 8, 6, 6, 12, 28, 12, 80, 12, 160, 40, 8, 32, 24, 24, 80, 4,
     104, 24, 24, 40, 400, 88, 128]"
  by code_simp

lemma abi_structs_wf: "list_all wf_type abi_structs"
  by (simp add: abi_structs_def struct_defs wf_type_simps del: wf_type.simps(2))

end
