(* ===== verification/Abi_Contexts.thy ===== *)
theory Abi_Contexts
  imports Abi_Layout Abi_Tables "HOL-Library.Word"
begin

text \<open>
  The state of a thread that a signal saves (\<open>mlibc-salernos/abi/signal.h\<close>). On x86-64 the header
  gives the saved registers twice, as the fields of \<open>struct sigcontext\<close> and as the numbered array of
  \<open>mcontext_t\<close>; the two views are related here. The branches of the header for RISC-V, AArch64 and
  LoongArch, and the branch of \<open>abi/stat.h\<close> they share, are further structures; on AArch64 the header
  also computes where the vector registers of SVE are in the frame of a signal.
\<close>

subsection \<open>Two views of the registers\<close>

definition offset_of :: "cty \<Rightarrow> string \<Rightarrow> nat option" where
  "offset_of t x =
     (case t of Struct fs \<Rightarrow> map_of (map (\<lambda>(y, off, u). (y, off)) (offsets fs 0)) x | _ \<Rightarrow> None)"

text \<open>The field of \<open>struct sigcontext\<close> for each of \<open>REG_R8\<close> to \<open>REG_CR2\<close>.\<close>

definition context_fields :: "string list" where
  "context_fields =
    [''r8'', ''r9'', ''r10'', ''r11'', ''r12'', ''r13'', ''r14'', ''r15'', ''rdi'', ''rsi'', ''rbp'', ''rbx'',
     ''rdx'', ''rax'', ''rcx'', ''rsp'', ''rip'', ''eflags'', ''cs'', ''err'', ''trapno'', ''oldmask'', ''cr2'']"

text \<open>A signal handler reads the same registers through both views. Where \<open>mcontext_t\<close> has the
  element of \<open>gregs\<close> with the index of a \<open>REG_\<close> constant, \<open>struct sigcontext\<close> has the field of that
  register; the three selectors are inside the element of \<open>REG_CSGSFS\<close>; the pointer to the floating
  point state and the reserved words are at the same places, and the sizes are equal.\<close>

theorem signal_context_views:
  "list_all2 (\<lambda>(r, i) x. offset_of struct_sigcontext x = Some (8 * nat i)) registers context_fields \<and>
   offset_of struct_mcontext ''gregs'' = Some 0 \<and> length registers = 23 \<and>
   map (offset_of struct_sigcontext) [''cs'', ''gs'', ''fs''] = [Some 144, Some 146, Some 148] \<and>
   offset_of struct_mcontext ''fpregs'' = offset_of struct_sigcontext ''fpstate'' \<and>
   offset_of struct_mcontext ''__reserved1'' = offset_of struct_sigcontext ''__reserved1'' \<and>
   sizeof struct_mcontext = sizeof struct_sigcontext"
  by (simp add: registers_def context_fields_def offset_of_def struct_defs round_up_def)

text \<open>What the bytes of a context are as numbers, the least significant byte first, and the value of a field of a structure
  at an address.\<close>

fun read_le :: "(nat \<Rightarrow> 8 word) \<Rightarrow> nat \<Rightarrow> nat \<Rightarrow> nat" where
  "read_le m a 0 = 0"
| "read_le m a (Suc n) = unat (m a) + 256 * read_le m (Suc a) n"

definition field_place :: "cty \<Rightarrow> string \<Rightarrow> (nat \<times> nat) option" where
  "field_place t x =
     (case t of Struct fs \<Rightarrow> map_option (\<lambda>(off, u). (off, sizeof u)) (map_of (offsets fs 0) x) | _ \<Rightarrow> None)"

definition field_value :: "cty \<Rightarrow> (nat \<Rightarrow> 8 word) \<Rightarrow> nat \<Rightarrow> string \<Rightarrow> nat option" where
  "field_value t m a x = map_option (\<lambda>(off, n). read_le m (a + off) n) (field_place t x)"

definition greg :: "(nat \<Rightarrow> 8 word) \<Rightarrow> nat \<Rightarrow> int \<Rightarrow> nat option" where
  "greg m a i = map_option (\<lambda>(off, n). read_le m (a + off + 8 * nat i) 8) (field_place struct_mcontext ''gregs'')"

lemma read_le_less: "read_le m a n < 256 ^ n"
proof (induction n arbitrary: a)
  case (Suc n)
  have "unat (m a) < 256" using unsigned_less[of "m a"] by simp
  with Suc[of "Suc a"] show ?case by (simp add: Suc_le_eq[symmetric])
qed simp

lemma read_le_add: "read_le m a (j + k) = read_le m a j + 256 ^ j * read_le m (a + j) k"
  by (induction j arbitrary: a) (simp_all add: algebra_simps)

lemma read_le_split:
  "read_le m a (j + k) mod 256 ^ j = read_le m a j" "read_le m a (j + k) div 256 ^ j = read_le m (a + j) k"
  using read_le_less[of m a j] by (simp_all add: read_le_add)

lemma context_places:
  "map (field_place struct_sigcontext) context_fields =
     map (\<lambda>i. Some (8 * i, if i = 18 then 2 else 8)) [0..<23]"
  "map (field_place struct_sigcontext) [''gs'', ''fs'', ''__pad0'', ''fpstate''] = [Some (146, 2), Some (148, 2), Some (150, 2), Some (184, 8)]"
  "field_place struct_mcontext ''gregs'' = Some (0, 184)" "field_place struct_mcontext ''fpregs'' = Some (184, 8)"
  by code_simp+

text \<open>The element of the three selectors, taken apart.\<close>

lemma selectors:
  "read_le m (a + 144) 8 mod 2 ^ 16 = read_le m (a + 144) 2"
  "read_le m (a + 144) 8 div 2 ^ 16 mod 2 ^ 16 = read_le m (a + 146) 2"
  "read_le m (a + 144) 8 div 2 ^ 32 mod 2 ^ 16 = read_le m (a + 148) 2"
proof -
  have p: "(2 :: nat) ^ 16 = 256 ^ 2" "(2 :: nat) ^ 32 = 256 ^ 4" by simp_all
  have s: "(8 :: nat) = 2 + 6" "(8 :: nat) = 4 + 4" "(6 :: nat) = 2 + 4" "(4 :: nat) = 2 + 2" by simp_all
  show "read_le m (a + 144) 8 mod 2 ^ 16 = read_le m (a + 144) 2"
    unfolding p by (subst s(1)) (rule read_le_split)
  have "read_le m (a + 144) 8 div 256 ^ 2 = read_le m (a + 146) 6"
    using read_le_split(2)[of m "a + 144" 2 6] by (simp add: add.commute add.left_commute)
  moreover have "read_le m (a + 146) 6 mod 256 ^ 2 = read_le m (a + 146) 2"
    using read_le_split(1)[of m "a + 146" 2 4] by simp
  ultimately show "read_le m (a + 144) 8 div 2 ^ 16 mod 2 ^ 16 = read_le m (a + 146) 2" unfolding p by simp
  have "read_le m (a + 144) 8 div 256 ^ 4 = read_le m (a + 148) 4"
    using read_le_split(2)[of m "a + 144" 4 4] by (simp add: add.commute add.left_commute)
  moreover have "read_le m (a + 148) 4 mod 256 ^ 2 = read_le m (a + 148) 2"
    using read_le_split(1)[of m "a + 148" 2 2] by simp
  ultimately show "read_le m (a + 144) 8 div 2 ^ 32 mod 2 ^ 16 = read_le m (a + 148) 2" unfolding p by simp
qed

text \<open>C40: a signal handler finds the same registers through both declarations of the saved context. Whatever the bytes at
  an address are, every \<open>REG_\<close> constant but one is the index of the element of \<open>gregs\<close> that has the value of the field of
  \<open>struct sigcontext\<close> for that register. The element of \<open>REG_CSGSFS\<close> has the three selectors in its lower 16 bits, and in
  the two times 16 bits above. The pointer to the floating point state is the same, and the two declarations have one size.\<close>

theorem handler_registers:
  "list_all2 (\<lambda>(r, i) x. r = ''REG_CSGSFS'' \<or> greg m a i = field_value struct_sigcontext m a x) registers context_fields \<and>
   (\<exists>w. greg m a 18 = Some w \<and>
     map (field_value struct_sigcontext m a) [''cs'', ''gs'', ''fs''] =
       [Some (w mod 2 ^ 16), Some (w div 2 ^ 16 mod 2 ^ 16), Some (w div 2 ^ 32 mod 2 ^ 16)]) \<and>
   field_value struct_mcontext m a ''fpregs'' = field_value struct_sigcontext m a ''fpstate'' \<and>
   sizeof struct_mcontext = sizeof struct_sigcontext"
proof (intro conjI)
  note P = context_places
  have n: "[0..<23] = [0, 1, 2, 3, 4, 5, 6, 7, 8, 9, 10, 11, 12, 13, 14, 15, 16, 17, 18, 19, 20, 21, 22 :: nat]"
    by (simp add: upt_rec)
  note F = P(1)[unfolded context_fields_def n list.map list.inject] P(2)[unfolded list.map list.inject]
  show "list_all2 (\<lambda>(r, i) x. r = ''REG_CSGSFS'' \<or> greg m a i = field_value struct_sigcontext m a x) registers context_fields"
    unfolding registers_def context_fields_def
    by (simp add: greg_def field_value_def F P(3))
  have "field_value struct_sigcontext m a ''cs'' = Some (read_le m (a + 144) 2)"
    "field_value struct_sigcontext m a ''gs'' = Some (read_le m (a + 146) 2)"
    "field_value struct_sigcontext m a ''fs'' = Some (read_le m (a + 148) 2)"
    by (simp_all add: field_value_def F)
  then show "\<exists>w. greg m a 18 = Some w \<and>
     map (field_value struct_sigcontext m a) [''cs'', ''gs'', ''fs''] =
       [Some (w mod 2 ^ 16), Some (w div 2 ^ 16 mod 2 ^ 16), Some (w div 2 ^ 32 mod 2 ^ 16)]"
    by (intro exI[of _ "read_le m (a + 144) 8"]) (simp only: list.map selectors, simp add: greg_def P(3))
  show "field_value struct_mcontext m a ''fpregs'' = field_value struct_sigcontext m a ''fpstate''"
    by (simp add: field_value_def F P(4))
  show "sizeof struct_mcontext = sizeof struct_sigcontext" by code_simp
qed

subsection \<open>Other processors\<close>

definition riscv_mc_gp_state :: cty where "riscv_mc_gp_state = Array 32 (Scalar 8)"

definition generic_stat :: cty where
  "generic_stat = Struct [
    (''st_dev'', Scalar 8), (''st_ino'', Scalar 8), (''st_mode'', Scalar 4),
    (''st_nlink'', Scalar 8), (''st_uid'', Scalar 4), (''st_gid'', Scalar 4),
    (''st_rdev'', Scalar 8), (''__pad1'', Scalar 8), (''st_size'', Scalar 8),
    (''st_blksize'', Scalar 8), (''__pad2'', Scalar 4), (''st_blocks'', Scalar 8),
    (''st_atim'', struct_timespec), (''st_mtim'', struct_timespec),
    (''st_ctim'', struct_timespec), (''__pad3'', Array 2 (Scalar 4))]"

definition riscv_f_ext_state :: cty where
  "riscv_f_ext_state = Struct [
    (''f'', Array 32 (Scalar 4)), (''fcsr'', Scalar 4)]"

definition riscv_d_ext_state :: cty where
  "riscv_d_ext_state = Struct [
    (''f'', Array 32 (Scalar 8)), (''fcsr'', Scalar 4)]"

definition riscv_q_ext_state :: cty where
  "riscv_q_ext_state = Struct [
    (''f'', Aligned 16 (Array 64 (Scalar 8))), (''fcsr'', Scalar 4),
    (''reserved'', Array 3 (Scalar 4))]"

definition riscv_fp_state :: cty where
  "riscv_fp_state = Union [
    (''f'', riscv_f_ext_state), (''d'', riscv_d_ext_state), (''q'', riscv_q_ext_state)]"

definition riscv_mcontext :: cty where
  "riscv_mcontext = Struct [
    (''gregs'', riscv_mc_gp_state), (''fpregs'', riscv_fp_state)]"

definition riscv_ucontext :: cty where
  "riscv_ucontext = Struct [
    (''uc_flags'', Scalar 8), (''uc_link'', Scalar 8), (''uc_stack'', struct_stack),
    (''uc_sigmask'', struct_sigset), (''__unused'', Array 0 (Scalar 1)),
    (''uc_mcontext'', riscv_mcontext)]"

definition aarch64_mcontext :: cty where
  "aarch64_mcontext = Struct [
    (''fault_address'', Scalar 8), (''regs'', Array 31 (Scalar 8)), (''sp'', Scalar 8),
    (''pc'', Scalar 8), (''pstate'', Scalar 8), (''__reserved'', Array 4096 (Scalar 1))]"

definition aarch64_ctx :: cty where
  "aarch64_ctx = Struct [
    (''magic'', Scalar 4), (''size'', Scalar 4)]"

definition fpsimd_context :: cty where
  "fpsimd_context = Struct [
    (''head'', aarch64_ctx), (''fpsr'', Scalar 4), (''fpcr'', Scalar 4),
    (''vregs'', Array 32 (Scalar 16))]"

definition esr_context :: cty where
  "esr_context = Struct [
    (''head'', aarch64_ctx), (''esr'', Scalar 8)]"

definition extra_context :: cty where
  "extra_context = Struct [
    (''head'', aarch64_ctx), (''datap'', Scalar 8), (''size'', Scalar 4),
    (''__reserved'', Array 3 (Scalar 4))]"

definition sve_context :: cty where
  "sve_context = Struct [
    (''head'', aarch64_ctx), (''vl'', Scalar 2), (''__reserved'', Array 3 (Scalar 2))]"

definition aarch64_ucontext :: cty where
  "aarch64_ucontext = Struct [
    (''uc_flags'', Scalar 8), (''uc_link'', Scalar 8), (''uc_stack'', struct_stack),
    (''uc_sigmask'', struct_sigset), (''uc_mcontext'', aarch64_mcontext)]"

definition loongarch_sigcontext :: cty where
  "loongarch_sigcontext = Struct [
    (''sc_pc'', Scalar 8), (''sc_regs'', Array 32 (Scalar 8)), (''sc_flags'', Scalar 4),
    (''sc_extcontext'', Aligned 16 (Array 1 (Scalar 8)))]"

definition loongarch_mcontext :: cty where
  "loongarch_mcontext = Struct [
    (''pc'', Scalar 8), (''gregs'', Array 32 (Scalar 8)), (''flags'', Scalar 4),
    (''extcontext'', Aligned 16 (Array 1 (Scalar 8)))]"

definition loongarch_sigaltstack :: cty where
  "loongarch_sigaltstack = Struct [
    (''ss_sp'', Scalar 8), (''ss_flags'', Scalar 4), (''ss_size'', Scalar 8)]"

definition loongarch_ucontext :: cty where
  "loongarch_ucontext = Struct [
    (''uc_flags'', Scalar 8), (''uc_link'', Scalar 8), (''uc_stack'', struct_stack),
    (''uc_sigmask'', struct_sigset), (''__uc_pad'', Scalar 8),
    (''uc_mcontext'', loongarch_mcontext)]"

definition arch_structs :: "cty list" where
  "arch_structs =
    [
     generic_stat, riscv_f_ext_state, riscv_d_ext_state, riscv_q_ext_state, riscv_fp_state,
     riscv_mcontext, riscv_ucontext, aarch64_mcontext, aarch64_ctx, fpsimd_context, esr_context,
     extra_context, sve_context, aarch64_ucontext, loongarch_sigcontext, loongarch_mcontext,
     loongarch_sigaltstack, loongarch_ucontext]"

lemmas arch_defs = riscv_mc_gp_state_def
  generic_stat_def riscv_f_ext_state_def riscv_d_ext_state_def riscv_q_ext_state_def
  riscv_fp_state_def riscv_mcontext_def riscv_ucontext_def aarch64_mcontext_def aarch64_ctx_def
  fpsimd_context_def esr_context_def extra_context_def sve_context_def aarch64_ucontext_def
  loongarch_sigcontext_def loongarch_mcontext_def loongarch_sigaltstack_def loongarch_ucontext_def

lemma arch_sizes:
  "map sizeof arch_structs = [
     144, 132, 264, 528, 528, 784, 960, 4376, 8, 528, 16, 32, 16, 4544, 288, 288, 24, 464]"
  by (simp add: arch_structs_def arch_defs struct_defs round_up_def)

lemma arch_structs_wf: "list_all wf_type arch_structs"
  by (simp add: arch_structs_def arch_defs struct_defs wf_type_simps del: wf_type.simps(2))

text \<open>The area for the vector registers of AArch64 is at a multiple of 8 of the context and not, as
  \<open>fpsimd_context\<close> would need, of 16.\<close>

lemma aarch64_reserved:
  "offset_of aarch64_mcontext ''__reserved'' = Some 280 \<and> alignof aarch64_mcontext = 8 \<and> alignof fpsimd_context = 16"
  by (simp add: offset_of_def arch_defs round_up_def)

subsection \<open>The frame of the scalable vectors\<close>

text \<open>The macros compute with 32-bit sizes of one register and with offsets of type \<open>size_t\<close>.\<close>

definition SVE_VQ_BYTES :: u32 where "SVE_VQ_BYTES = 16"
definition SVE_VQ_MIN :: u32 where "SVE_VQ_MIN = 1"
definition SVE_VQ_MAX :: u32 where "SVE_VQ_MAX = 512"
definition SVE_VL_MIN :: u32 where "SVE_VL_MIN = SVE_VQ_MIN * SVE_VQ_BYTES"
definition SVE_VL_MAX :: u32 where "SVE_VL_MAX = SVE_VQ_MAX * SVE_VQ_BYTES"
definition SVE_NUM_ZREGS :: u32 where "SVE_NUM_ZREGS = 32"
definition SVE_NUM_PREGS :: u32 where "SVE_NUM_PREGS = 16"

definition sve_vl_valid :: "u32 \<Rightarrow> bool" where
  "sve_vl_valid vl \<longleftrightarrow> vl mod SVE_VQ_BYTES = 0 \<and> SVE_VL_MIN \<le> vl \<and> vl \<le> SVE_VL_MAX"

definition sve_vq_from_vl :: "u32 \<Rightarrow> u32" where "sve_vq_from_vl vl = vl div SVE_VQ_BYTES"
definition sve_vl_from_vq :: "u32 \<Rightarrow> u32" where "sve_vl_from_vq vq = vq * SVE_VQ_BYTES"

definition SVE_SIG_ZREG_SIZE :: "u32 \<Rightarrow> u32" where "SVE_SIG_ZREG_SIZE vq = vq * SVE_VQ_BYTES"
definition SVE_SIG_PREG_SIZE :: "u32 \<Rightarrow> u32" where "SVE_SIG_PREG_SIZE vq = vq * (SVE_VQ_BYTES div 8)"
definition SVE_SIG_FFR_SIZE :: "u32 \<Rightarrow> u32" where "SVE_SIG_FFR_SIZE vq = SVE_SIG_PREG_SIZE vq"

definition SVE_SIG_REGS_OFFSET :: u64 where
  "SVE_SIG_REGS_OFFSET =
     (of_nat (sizeof sve_context) + (ucast SVE_VQ_BYTES - 1)) div ucast SVE_VQ_BYTES * ucast SVE_VQ_BYTES"

definition SVE_SIG_ZREGS_OFFSET :: u64 where "SVE_SIG_ZREGS_OFFSET = SVE_SIG_REGS_OFFSET"

definition SVE_SIG_ZREG_OFFSET :: "u32 \<Rightarrow> u32 \<Rightarrow> u64" where
  "SVE_SIG_ZREG_OFFSET vq n = SVE_SIG_ZREGS_OFFSET + ucast (SVE_SIG_ZREG_SIZE vq * n)"

definition SVE_SIG_ZREGS_SIZE :: "u32 \<Rightarrow> u64" where
  "SVE_SIG_ZREGS_SIZE vq = SVE_SIG_ZREG_OFFSET vq SVE_NUM_ZREGS - SVE_SIG_ZREGS_OFFSET"

definition SVE_SIG_PREGS_OFFSET :: "u32 \<Rightarrow> u64" where
  "SVE_SIG_PREGS_OFFSET vq = SVE_SIG_ZREGS_OFFSET + SVE_SIG_ZREGS_SIZE vq"

definition SVE_SIG_PREG_OFFSET :: "u32 \<Rightarrow> u32 \<Rightarrow> u64" where
  "SVE_SIG_PREG_OFFSET vq n = SVE_SIG_PREGS_OFFSET vq + ucast (SVE_SIG_PREG_SIZE vq * n)"

definition SVE_SIG_PREGS_SIZE :: "u32 \<Rightarrow> u64" where
  "SVE_SIG_PREGS_SIZE vq = SVE_SIG_PREG_OFFSET vq SVE_NUM_PREGS - SVE_SIG_PREGS_OFFSET vq"

definition SVE_SIG_FFR_OFFSET :: "u32 \<Rightarrow> u64" where
  "SVE_SIG_FFR_OFFSET vq = SVE_SIG_PREGS_OFFSET vq + SVE_SIG_PREGS_SIZE vq"

definition SVE_SIG_REGS_SIZE :: "u32 \<Rightarrow> u64" where
  "SVE_SIG_REGS_SIZE vq = SVE_SIG_FFR_OFFSET vq + ucast (SVE_SIG_FFR_SIZE vq) - SVE_SIG_REGS_OFFSET"

definition SVE_SIG_CONTEXT_SIZE :: "u32 \<Rightarrow> u64" where
  "SVE_SIG_CONTEXT_SIZE vq = SVE_SIG_REGS_OFFSET + SVE_SIG_REGS_SIZE vq"

text \<open>The regions of the registers with their offsets and sizes, in the order of the header.\<close>

definition sve_regions :: "u32 \<Rightarrow> (nat \<times> nat) list" where
  "sve_regions vq =
     map (\<lambda>n. (unat (SVE_SIG_ZREG_OFFSET vq (of_nat n)), unat (SVE_SIG_ZREG_SIZE vq))) [0..<unat SVE_NUM_ZREGS] @
     map (\<lambda>n. (unat (SVE_SIG_PREG_OFFSET vq (of_nat n)), unat (SVE_SIG_PREG_SIZE vq))) [0..<unat SVE_NUM_PREGS] @
     [(unat (SVE_SIG_FFR_OFFSET vq), unat (SVE_SIG_FFR_SIZE vq))]"

text \<open>\<open>tiles a rs b\<close>: the regions follow one another without gaps from \<open>a\<close> to \<open>b\<close>.\<close>

fun tiles :: "nat \<Rightarrow> (nat \<times> nat) list \<Rightarrow> nat \<Rightarrow> bool" where
  "tiles a [] b \<longleftrightarrow> a = b"
| "tiles a ((off, k) # rs) b \<longleftrightarrow> off = a \<and> tiles (a + k) rs b"

lemma tiles_append: "tiles a (map (\<lambda>n. (a + k * n, k)) [0..<m] @ rs) b \<longleftrightarrow> tiles (a + k * m) rs b"
  by (induction m arbitrary: rs) (simp_all add: algebra_simps)

lemmas sve_sizes = SVE_VQ_BYTES_def SVE_VQ_MIN_def SVE_VQ_MAX_def SVE_VL_MIN_def SVE_VL_MAX_def
  SVE_NUM_ZREGS_def SVE_NUM_PREGS_def

lemma unat_mult_small: "unat a * unat b < 2 ^ LENGTH('l) \<Longrightarrow> unat ((a :: 'l::len word) * b) = unat a * unat b"
  by (simp add: unat_word_ariths)

lemma unat_add_small: "unat a + unat b < 2 ^ LENGTH('l) \<Longrightarrow> unat ((a :: 'l::len word) + b) = unat a + unat b"
  by (simp add: unat_word_ariths)

lemma unat_ucast_up: "unat (ucast (x :: u32) :: u64) = unat x"
proof -
  have "unat x < 2 ^ 32" using unsigned_less[of x, where 'a=nat] by simp
  then show ?thesis by (simp add: unsigned_ucast_eq take_bit_nat_eq_self)
qed

lemma sve_sums:
  "SVE_SIG_REGS_OFFSET = 16"
  "SVE_SIG_ZREG_OFFSET vq n = 16 + ucast (SVE_SIG_ZREG_SIZE vq * n)"
  "SVE_SIG_PREG_OFFSET vq n = 16 + ucast (SVE_SIG_ZREG_SIZE vq * 32) + ucast (SVE_SIG_PREG_SIZE vq * n)"
  "SVE_SIG_FFR_OFFSET vq = 16 + ucast (SVE_SIG_ZREG_SIZE vq * 32) + ucast (SVE_SIG_PREG_SIZE vq * 16)"
  "SVE_SIG_CONTEXT_SIZE vq =
     16 + ucast (SVE_SIG_ZREG_SIZE vq * 32) + ucast (SVE_SIG_PREG_SIZE vq * 16) + ucast (SVE_SIG_PREG_SIZE vq)"
proof -
  show z: "SVE_SIG_REGS_OFFSET = 16"
    by (simp add: SVE_SIG_REGS_OFFSET_def SVE_VQ_BYTES_def sve_context_def aarch64_ctx_def round_up_def)
  note defs = SVE_SIG_ZREG_OFFSET_def SVE_SIG_ZREGS_OFFSET_def SVE_SIG_PREG_OFFSET_def SVE_SIG_PREGS_OFFSET_def
    SVE_SIG_ZREGS_SIZE_def SVE_SIG_PREGS_SIZE_def SVE_SIG_FFR_OFFSET_def SVE_SIG_FFR_SIZE_def
    SVE_NUM_ZREGS_def SVE_NUM_PREGS_def z
  show "SVE_SIG_ZREG_OFFSET vq n = 16 + ucast (SVE_SIG_ZREG_SIZE vq * n)" by (simp add: defs)
  show "SVE_SIG_PREG_OFFSET vq n = 16 + ucast (SVE_SIG_ZREG_SIZE vq * 32) + ucast (SVE_SIG_PREG_SIZE vq * n)"
    by (simp add: defs)
  show f: "SVE_SIG_FFR_OFFSET vq = 16 + ucast (SVE_SIG_ZREG_SIZE vq * 32) + ucast (SVE_SIG_PREG_SIZE vq * 16)"
    by (simp add: defs)
  show "SVE_SIG_CONTEXT_SIZE vq =
     16 + ucast (SVE_SIG_ZREG_SIZE vq * 32) + ucast (SVE_SIG_PREG_SIZE vq * 16) + ucast (SVE_SIG_PREG_SIZE vq)"
    by (simp add: SVE_SIG_CONTEXT_SIZE_def SVE_SIG_REGS_SIZE_def SVE_SIG_FFR_SIZE_def f z)
qed

lemma sve_sizes_unat:
  assumes "unat vq \<le> 512"
  shows "unat (SVE_SIG_ZREG_SIZE vq) = 16 * unat vq" "unat (SVE_SIG_PREG_SIZE vq) = 2 * unat vq"
  using assms by (simp_all add: SVE_SIG_ZREG_SIZE_def SVE_SIG_PREG_SIZE_def SVE_VQ_BYTES_def unat_word_ariths)

lemma small_products:
  "x \<le> 16384 \<Longrightarrow> 16 * x mod 4294967296 = (16 * x :: nat)" "x \<le> 16384 \<Longrightarrow> 2 * x mod 4294967296 = (2 * x :: nat)"
  "x \<le> 16384 \<Longrightarrow> (16 + 16 * x) mod 18446744073709551616 = (16 + 16 * x :: nat)"
  by simp_all

lemma sve_area:
  assumes "unat vq \<le> 512" "n \<le> 32"
  shows "unat (SVE_SIG_ZREG_SIZE vq * of_nat n) = 16 * unat vq * n"
    "unat (SVE_SIG_PREG_SIZE vq * of_nat n) = 2 * unat vq * n"
proof -
  have "unat vq * n \<le> 512 * 32" using assms by (intro mult_mono) simp_all
  moreover have "unat (of_nat n :: u32) = n" using assms(2) by (simp add: unat_of_nat)
  ultimately show "unat (SVE_SIG_ZREG_SIZE vq * of_nat n) = 16 * unat vq * n"
      "unat (SVE_SIG_PREG_SIZE vq * of_nat n) = 2 * unat vq * n"
    using sve_sizes_unat[OF assms(1)] by (simp_all add: unat_word_ariths mult.assoc small_products)
qed

lemma sve_offsets:
  assumes "unat vq \<le> 512"
  shows "n \<le> 32 \<Longrightarrow> unat (SVE_SIG_ZREG_OFFSET vq (of_nat n)) = 16 + 16 * unat vq * n"
    "n \<le> 32 \<Longrightarrow> unat (SVE_SIG_PREG_OFFSET vq (of_nat n)) = 16 + 512 * unat vq + 2 * unat vq * n"
    "unat (SVE_SIG_FFR_OFFSET vq) = 16 + 544 * unat vq"
    "unat (SVE_SIG_CONTEXT_SIZE vq) = 16 + 546 * unat vq"
proof -
  note a = sve_area[OF assms] sve_area[OF assms, of 32, simplified] sve_area[OF assms, of 16, simplified]
    sve_sizes_unat[OF assms] unat_ucast_up
  have le: "unat vq * n \<le> 512 * 32" if "n \<le> 32" for n using assms that by (intro mult_mono) simp_all
  show "n \<le> 32 \<Longrightarrow> unat (SVE_SIG_ZREG_OFFSET vq (of_nat n)) = 16 + 16 * unat vq * n"
    using le[of n] by (simp add: sve_sums a unat_word_ariths(1) mult.assoc small_products)
  show "n \<le> 32 \<Longrightarrow> unat (SVE_SIG_PREG_OFFSET vq (of_nat n)) = 16 + 512 * unat vq + 2 * unat vq * n"
    using le[of n] assms by (simp add: sve_sums a unat_word_ariths(1) mult.assoc small_products)
  show "unat (SVE_SIG_FFR_OFFSET vq) = 16 + 544 * unat vq" "unat (SVE_SIG_CONTEXT_SIZE vq) = 16 + 546 * unat vq"
    using assms by (simp_all add: sve_sums a unat_word_ariths(1))
qed

lemma valid_vl:
  assumes "sve_vl_valid vl"
  shows "unat vl = 16 * unat (sve_vq_from_vl vl)" "0 < unat (sve_vq_from_vl vl)" "unat (sve_vq_from_vl vl) \<le> 512"
proof -
  have v: "unat vl mod 16 = 0" "16 \<le> unat vl" "unat vl \<le> 8192"
    using assms by (simp_all add: sve_vl_valid_def sve_sizes word_le_nat_alt word_unat_eq_iff unat_mod_distrib)
  have q: "unat (sve_vq_from_vl vl) = unat vl div 16"
    by (simp add: sve_vq_from_vl_def SVE_VQ_BYTES_def unat_div_distrib)
  show "unat vl = 16 * unat (sve_vq_from_vl vl)" using mult_div_mod_eq[of 16 "unat vl"] v(1) q by linarith
  show "0 < unat (sve_vq_from_vl vl)" using v(2) q by (simp add: div_greater_zero_iff)
  show "unat (sve_vq_from_vl vl) \<le> 512" using div_le_mono[OF v(3), of 16] q by simp
qed

text \<open>The frame of the vector registers of AArch64, for every vector length that
  \<open>sve_vl_valid\<close> accepts. None of the macros wraps around. From the end of \<open>struct sve_context\<close> on, the
  32 vector registers of \<open>vl\<close> bytes each, the 16 predicate registers of \<open>vl / 8\<close> bytes each and the
  first-fault register follow one another without gaps and without overlap, and the last ends where
  \<open>SVE_SIG_CONTEXT_SIZE\<close> says the context ends.\<close>

theorem sve_frame:
  assumes "sve_vl_valid vl" and "vq = sve_vq_from_vl vl"
  shows "sve_vl_from_vq vq = vl \<and>
    map snd (sve_regions vq) = replicate 32 (unat vl) @ replicate 16 (unat vl div 8) @ [unat vl div 8] \<and>
    tiles (sizeof sve_context) (sve_regions vq) (unat (SVE_SIG_CONTEXT_SIZE vq)) \<and>
    unat (SVE_SIG_CONTEXT_SIZE vq) = 16 + 546 * (unat vl div 16)"
proof -
  note q = valid_vl[OF assms(1), folded assms(2)]
  note o = sve_offsets[OF q(3)] sve_sizes_unat[OF q(3)]
  have z: "map (\<lambda>n. (unat (SVE_SIG_ZREG_OFFSET vq (of_nat n)), unat (SVE_SIG_ZREG_SIZE vq))) [0..<32] =
      map (\<lambda>n. (16 + 16 * unat vq * n, 16 * unat vq)) [0..<32]"
    by (rule map_cong) (simp_all add: o)
  have p: "map (\<lambda>n. (unat (SVE_SIG_PREG_OFFSET vq (of_nat n)), unat (SVE_SIG_PREG_SIZE vq))) [0..<16] =
      map (\<lambda>n. (16 + 512 * unat vq + 2 * unat vq * n, 2 * unat vq)) [0..<16]"
    by (rule map_cong) (simp_all add: o)
  have r: "sve_regions vq = map (\<lambda>n. (16 + 16 * unat vq * n, 16 * unat vq)) [0..<32] @
      map (\<lambda>n. (16 + 512 * unat vq + 2 * unat vq * n, 2 * unat vq)) [0..<16] @ [(16 + 544 * unat vq, 2 * unat vq)]"
    using z p o by (simp only: sve_regions_def sve_sizes SVE_SIG_FFR_SIZE_def) simp
  have "tiles 16 (sve_regions vq) (unat (SVE_SIG_CONTEXT_SIZE vq))"
    unfolding r tiles_append
    using tiles_append[of "16 + 512 * unat vq" "2 * unat vq" 16] by (simp add: o algebra_simps)
  moreover have "map snd (sve_regions vq) = replicate 32 (unat vl) @ replicate 16 (unat vl div 8) @ [unat vl div 8]"
    unfolding r by (simp add: q(1) map_replicate_const comp_def)
  moreover have "sve_vl_from_vq vq = vl"
    using q by (simp add: word_unat_eq_iff sve_vl_from_vq_def SVE_VQ_BYTES_def unat_word_ariths)
  moreover have "sizeof sve_context = 16" by (simp add: sve_context_def aarch64_ctx_def round_up_def)
  ultimately show ?thesis using q by (simp add: o)
qed

theorem sve_frame_witness:
  "unat (SVE_SIG_CONTEXT_SIZE (sve_vq_from_vl 256)) = 8752 \<and> tiles 16 (sve_regions (sve_vq_from_vl 256)) 8752"
proof -
  have "sve_vl_valid 256" by (simp add: sve_vl_valid_def sve_sizes)
  from sve_frame[OF this refl] show ?thesis by (auto simp: sve_context_def aarch64_ctx_def round_up_def)
qed

end
