(* ===== verification/Abi_Access.thy ===== *)
theory Abi_Access
  imports Abi_Contexts
begin

text \<open>
  The accessor macros of \<open>abi/signal.h\<close> and \<open>abi/in.h\<close>, which name fields inside nested unions
  (\<open>si_pid\<close>, \<open>sa_handler\<close>, \<open>s6_addr\<close>). An accessor is its expansion, a path of names; following the path gives a place
  and a type. Accessors of one kind of signal have places apart from each other, those of different kinds share storage.
\<close>

subsection \<open>Following a path\<close>

definition member_of :: "cty \<Rightarrow> string \<Rightarrow> (nat \<times> cty) option" where
  "member_of t x =
     (case t of
        Struct fs \<Rightarrow> map_of (offsets fs 0) x
      | Union fs \<Rightarrow> map_option (Pair 0) (map_of fs x)
      | _ \<Rightarrow> None)"

fun field_at :: "cty \<Rightarrow> string list \<Rightarrow> (nat \<times> cty) option" where
  "field_at t [] = Some (0, t)"
| "field_at t (x # xs) =
     (case member_of t x of None \<Rightarrow> None
      | Some (off, u) \<Rightarrow> map_option (\<lambda>(o2, v). (off + o2, v)) (field_at u xs))"

text \<open>Macros of macros: the first name of a body is replaced once more, if it is another macro.\<close>

definition expand :: "(string \<times> string list) list \<Rightarrow> string \<Rightarrow> string list" where
  "expand ms x =
     (case map_of ms x of
        None \<Rightarrow> [x]
      | Some body \<Rightarrow>
          (case map_of ms (hd body) of Some outer \<Rightarrow> (if hd body = x then body else outer @ tl body) | None \<Rightarrow> body))"

definition accessed :: "(string \<times> string list) list \<Rightarrow> cty \<Rightarrow> string \<Rightarrow> (nat \<times> cty) option" where
  "accessed ms t x = field_at t (expand ms x)"

text \<open>What a path leads to is inside the structure and aligned in it, whatever the structure is.\<close>

lemma member_placed:
  assumes "wf_type t" "member_of t x = Some (off, u)"
  shows "wf_type u \<and> alignof u dvd off \<and> off + sizeof u \<le> sizeof t \<and> alignof u dvd alignof t"
proof (cases t)
  case (Struct fs)
  have sub: "(y, o', v) \<in> set (offsets fs p) \<Longrightarrow> (y, v) \<in> set fs" for y o' v p
    by (induction fs p rule: offsets.induct) auto
  from assms(2) Struct have m: "(x, off, u) \<in> set (offsets fs 0)" by (auto simp: member_of_def dest: map_of_SomeD)
  with sub[OF m] struct_placed[of fs] alignof_wf(2)[of fs] assms(1) Struct show ?thesis by fastforce
next
  case (Union fs)
  have mx: "(y, v) \<in> set fs \<Longrightarrow> sizeof v \<le> fields_max fs" for y v by (induction fs) auto
  from assms(2) Union have m: "(x, u) \<in> set fs" and o: "off = 0" by (auto simp: member_of_def dest: map_of_SomeD)
  have "fields_max fs \<le> sizeof t"
    using Union assms(1) alignof_wf(2)[of fs] by (simp add: round_up(2) alignments_pos)
  with mx[OF m] m o alignof_wf(2)[of fs] assms(1) Union show ?thesis by fastforce
qed (use assms(2) in \<open>simp_all add: member_of_def\<close>)

lemma field_placed:
  "wf_type t \<Longrightarrow> field_at t xs = Some (off, u) \<Longrightarrow>
     wf_type u \<and> alignof u dvd off \<and> off + sizeof u \<le> sizeof t \<and> alignof u dvd alignof t"
proof (induction t xs arbitrary: off u rule: field_at.induct)
  case (2 t x xs)
  from "2.prems"(2) obtain o1 v o2 where m: "member_of t x = Some (o1, v)" "field_at v xs = Some (o2, u)" "off = o1 + o2"
    by (auto split: option.splits)
  note P = member_placed[OF "2.prems"(1) m(1)]
  from "2.IH"[OF m(1) refl _ m(2)] P have Q: "wf_type u \<and> alignof u dvd o2 \<and> o2 + sizeof u \<le> sizeof v \<and> alignof u dvd alignof v"
    by blast
  with P have "alignof u dvd o1 + o2" by (meson dvd_add dvd_trans)
  with P Q m(3) show ?case by (auto intro: dvd_trans)
qed simp

subsection \<open>The macros\<close>

definition siginfo_macros :: "(string \<times> string list) list" where
  "siginfo_macros =
    [(''si_pid'', [''__si_fields'', ''__si_common'', ''__first'', ''__piduid'', ''si_pid'']),
     (''si_uid'', [''__si_fields'', ''__si_common'', ''__first'', ''__piduid'', ''si_uid'']),
     (''si_status'', [''__si_fields'', ''__si_common'', ''__second'', ''__sigchld'', ''si_status'']),
     (''si_utime'', [''__si_fields'', ''__si_common'', ''__second'', ''__sigchld'', ''si_utime'']),
     (''si_stime'', [''__si_fields'', ''__si_common'', ''__second'', ''__sigchld'', ''si_stime'']),
     (''si_value'', [''__si_fields'', ''__si_common'', ''__second'', ''si_value'']),
     (''si_addr'', [''__si_fields'', ''__sigfault'', ''si_addr'']),
     (''si_addr_lsb'', [''__si_fields'', ''__sigfault'', ''si_addr_lsb'']),
     (''si_lower'', [''__si_fields'', ''__sigfault'', ''__first'', ''__addr_bnd'', ''si_lower'']),
     (''si_upper'', [''__si_fields'', ''__sigfault'', ''__first'', ''__addr_bnd'', ''si_upper'']),
     (''si_pkey'', [''__si_fields'', ''__sigfault'', ''__first'', ''si_pkey'']),
     (''si_band'', [''__si_fields'', ''__sigpoll'', ''si_band'']),
     (''si_fd'', [''__si_fields'', ''__sigpoll'', ''si_fd'']),
     (''si_timerid'', [''__si_fields'', ''__si_common'', ''__first'', ''__timer'', ''si_timerid'']),
     (''si_overrun'', [''__si_fields'', ''__si_common'', ''__first'', ''__timer'', ''si_overrun'']),
     (''si_ptr'', [''si_value'', ''sival_ptr'']),
     (''si_int'', [''si_value'', ''sival_int'']),
     (''si_call_addr'', [''__si_fields'', ''__sigsys'', ''si_call_addr'']),
     (''si_syscall'', [''__si_fields'', ''__sigsys'', ''si_syscall'']),
     (''si_arch'', [''__si_fields'', ''__sigsys'', ''si_arch''])]"

definition sigaction_macros :: "(string \<times> string list) list" where
  "sigaction_macros =
    [(''sa_handler'', [''__sa_handler'', ''sa_handler'']), (''sa_sigaction'', [''__sa_handler'', ''sa_sigaction''])]"

definition in6_macros :: "(string \<times> string list) list" where
  "in6_macros =
    [(''s6_addr'', [''__in6_union'', ''__s6_addr'']), (''s6_addr16'', [''__in6_union'', ''__s6_addr16'']),
     (''s6_addr32'', [''__in6_union'', ''__s6_addr32''])]"

text \<open>The accessors that POSIX and Linux give a meaning to at the same time: after \<open>kill\<close>, after \<open>sigqueue\<close>, for a
  child, a timer, a fault and a fault of a protection key, for an event of a descriptor, and a forbidden system call.\<close>

definition siginfo_kinds :: "string list list" where
  "siginfo_kinds =
    [[''si_pid'', ''si_uid''], [''si_pid'', ''si_uid'', ''si_ptr''], [''si_pid'', ''si_uid'', ''si_int''],
     [''si_pid'', ''si_uid'', ''si_status'', ''si_utime'', ''si_stime''], [''si_timerid'', ''si_overrun'', ''si_value''],
     [''si_addr'', ''si_addr_lsb'', ''si_lower'', ''si_upper''], [''si_addr'', ''si_addr_lsb'', ''si_pkey''],
     [''si_band'', ''si_fd''], [''si_call_addr'', ''si_syscall'', ''si_arch'']]"

fun apart :: "nat \<Rightarrow> (nat \<times> cty) option list \<Rightarrow> bool" where
  "apart p [] \<longleftrightarrow> True"
| "apart p (None # rs) \<longleftrightarrow> False"
| "apart p (Some (off, t) # rs) \<longleftrightarrow> p \<le> off \<and> apart (off + sizeof t) rs"

subsection \<open>Where they lead\<close>

lemmas access_defs = accessed_def expand_def member_of_def siginfo_macros_def sigaction_macros_def in6_macros_def
  siginfo_kinds_def struct_siginfo_def union_sigval_def struct_sigaction_def struct_sigset_def struct_in6_addr_def

lemma siginfo_wf: "wf_type struct_siginfo"
  by (simp add: struct_siginfo_def union_sigval_def wf_type_simps del: wf_type.simps(2))

text \<open>The accessors of a signal's information. Each of the 20 macros leads to a field: the offsets are the ones listed, in the
  order of the header, each field is aligned and inside the 128 bytes of the structure, and behind its three common numbers.
  Fields that have a meaning at the same time do not overlap. A handler has one place under both its names, and an address of
  IPv6 has one, of 16 bytes, under its three.\<close>

theorem accessors_lead_to_fields:
  "map (\<lambda>(x, body). map_option fst (accessed siginfo_macros struct_siginfo x)) siginfo_macros =
     map Some [16, 20, 24, 32, 40, 24, 16, 24, 32, 40, 32, 16, 24, 16, 20, 24, 24, 16, 24, 28] \<and>
   (\<forall>x off t. accessed siginfo_macros struct_siginfo x = Some (off, t) \<longrightarrow> alignof t dvd off \<and> off + sizeof t \<le> 128) \<and>
   list_all (\<lambda>xs. apart 12 (map (accessed siginfo_macros struct_siginfo) xs)) siginfo_kinds \<and>
   accessed sigaction_macros struct_sigaction ''sa_handler'' = accessed sigaction_macros struct_sigaction ''sa_sigaction'' \<and>
   map (\<lambda>x. map_option (\<lambda>(off, t). (off, sizeof t)) (accessed in6_macros struct_in6_addr x)) [''s6_addr'', ''s6_addr16'', ''s6_addr32''] =
     [Some (0, 16), Some (0, 16), Some (0, 16)]"
proof (intro conjI allI impI)
  have s: "sizeof struct_siginfo = 128" by code_simp
  fix x off t
  assume a: "accessed siginfo_macros struct_siginfo x = Some (off, t)"
  show "alignof t dvd off" using field_placed[OF siginfo_wf a[unfolded accessed_def]] by blast
  show "off + sizeof t \<le> 128" using field_placed[OF siginfo_wf a[unfolded accessed_def]] s by simp
qed code_simp+

theorem accessors_lead_to_fields_witness:
  "accessed siginfo_macros struct_siginfo ''si_arch'' = Some (28, Scalar 4) \<and> alignof (Scalar 4) dvd 28 \<and> 28 + sizeof (Scalar 4) \<le> 128"
proof -
  have a: "accessed siginfo_macros struct_siginfo ''si_arch'' = Some (28, Scalar 4)" by code_simp
  with accessors_lead_to_fields show ?thesis by blast
qed

end
