(* ===== verification/Abi_Fields.thy ===== *)
theory Abi_Fields
  imports Abi_Tables
begin

text \<open>
  More tables of the kernel interface: options and requests of sockets, \<open>ptrace\<close>, resource limits, System V IPC,
  mounts, \<open>statx\<close> and the framebuffer, each with the value of its macros, and the fields of the
  words that hold more than flags (\<open>st_mode\<close>, the output and control modes of a terminal, the video
  mode): a mask, and the values that go under it.
\<close>

subsection \<open>Numbers\<close>

definition ip_options :: table where
  "ip_options =
   [(''IP_TOS'', 1), (''IP_TTL'', 2), (''IP_HDRINCL'', 3), (''IP_OPTIONS'', 4),
    (''IP_RECVOPTS'', 6), (''IP_RETOPTS'', 7), (''IP_PKTINFO'', 8), (''IP_PKTOPTIONS'', 9),
    (''IP_MTU_DISCOVER'', 10), (''IP_RECVERR'', 11), (''IP_RECVTTL'', 12), (''IP_MTU'', 14),
    (''IP_MULTICAST_IF'', 32), (''IP_MULTICAST_TTL'', 33), (''IP_MULTICAST_LOOP'', 34),
    (''IP_ADD_MEMBERSHIP'', 35), (''IP_DROP_MEMBERSHIP'', 36), (''IP_UNBLOCK_SOURCE'', 37),
    (''IP_BLOCK_SOURCE'', 38), (''IP_ADD_SOURCE_MEMBERSHIP'', 39),
    (''IP_DROP_SOURCE_MEMBERSHIP'', 40), (''IP_UNICAST_IF'', 50)]"

definition ipv6_options :: table where
  "ipv6_options =
   [(''IPV6_2292PKTOPTIONS'', 6), (''IPV6_2292HOPLIMIT'', 8), (''IPV6_UNICAST_HOPS'', 16),
    (''IPV6_MULTICAST_IF'', 17), (''IPV6_MULTICAST_HOPS'', 18), (''IPV6_MULTICAST_LOOP'', 19),
    (''IPV6_JOIN_GROUP'', 20), (''IPV6_LEAVE_GROUP'', 21), (''IPV6_MTU_DISCOVER'', 23),
    (''IPV6_MTU'', 24), (''IPV6_RECVERR'', 25), (''IPV6_V6ONLY'', 26), (''IPV6_RECVPKTINFO'', 49),
    (''IPV6_PKTINFO'', 50), (''IPV6_RECVHOPLIMIT'', 51), (''IPV6_HOPLIMIT'', 52),
    (''IPV6_RECVTCLASS'', 66), (''IPV6_TCLASS'', 67), (''IPV6_ADD_MEMBERSHIP'', 20),
    (''IPV6_DROP_MEMBERSHIP'', 21)]"

definition ipv6_pmtudisc :: table where
  "ipv6_pmtudisc =
   [(''IPV6_PMTUDISC_DONT'', 0), (''IPV6_PMTUDISC_WANT'', 1), (''IPV6_PMTUDISC_DO'', 2),
    (''IPV6_PMTUDISC_PROBE'', 3), (''IPV6_PMTUDISC_INTERFACE'', 4), (''IPV6_PMTUDISC_OMIT'', 5)]"

definition ip_pmtudisc :: table where
  "ip_pmtudisc =
   [(''IP_PMTUDISC_DONT'', 0), (''IP_PMTUDISC_WANT'', 1), (''IP_PMTUDISC_DO'', 2),
    (''IP_PMTUDISC_PROBE'', 3), (''IP_PMTUDISC_INTERFACE'', 4), (''IP_PMTUDISC_OMIT'', 5)]"

definition mcast_requests :: table where
  "mcast_requests =
   [(''MCAST_JOIN_GROUP'', 42), (''MCAST_BLOCK_SOURCE'', 43), (''MCAST_UNBLOCK_SOURCE'', 44),
    (''MCAST_JOIN_SOURCE_GROUP'', 46), (''MCAST_LEAVE_SOURCE_GROUP'', 47)]"

definition socket_levels :: table where
  "socket_levels =
   [(''SOL_SOCKET'', 1), (''SOL_IP'', 0), (''SOL_IPV6'', 41), (''SOL_ICMPV6'', 58),
    (''SOL_RAW'', 255), (''SOL_DECNET'', 261), (''SOL_X25'', 262), (''SOL_PACKET'', 263),
    (''SOL_ATM'', 264), (''SOL_AAL'', 265), (''SOL_IRDA'', 266), (''SOL_NETBEUI'', 267),
    (''SOL_LLC'', 268), (''SOL_DCCP'', 269), (''SOL_NETLINK'', 270), (''SOL_TIPC'', 271),
    (''SOL_RXRPC'', 272), (''SOL_PPPOL2TP'', 273), (''SOL_BLUETOOTH'', 274), (''SOL_PNPIPE'', 275),
    (''SOL_RDS'', 276), (''SOL_IUCV'', 277), (''SOL_CAIF'', 278), (''SOL_ALG'', 279),
    (''SOL_NFC'', 280), (''SOL_KCM'', 281), (''SOL_TLS'', 282), (''SOL_XDP'', 283)]"

definition ptrace_requests :: table where
  "ptrace_requests =
   [(''PTRACE_PEEKTEXT'', 1), (''PTRACE_PEEKDATA'', 2), (''PTRACE_PEEKUSER'', 3),
    (''PTRACE_POKETEXT'', 4), (''PTRACE_POKEDATA'', 5), (''PTRACE_POKEUSER'', 6),
    (''PTRACE_CONT'', 7), (''PTRACE_KILL'', 8), (''PTRACE_SINGLESTEP'', 9),
    (''PTRACE_GETREGS'', 12), (''PTRACE_SETREGS'', 13), (''PTRACE_GETFPREGS'', 14),
    (''PTRACE_SETFPREGS'', 15), (''PTRACE_ATTACH'', 16), (''PTRACE_DETACH'', 17),
    (''PTRACE_GETFPXREGS'', 18), (''PTRACE_SETFPXREGS'', 19), (''PTRACE_SYSCALL'', 24),
    (''PTRACE_SETOPTIONS'', 16896), (''PTRACE_GETEVENTMSG'', 16897),
    (''PTRACE_GETSIGINFO'', 16898), (''PTRACE_SETSIGINFO'', 16899), (''PTRACE_GETREGSET'', 16900),
    (''PTRACE_SETREGSET'', 16901), (''PTRACE_SEIZE'', 16902), (''PTRACE_INTERRUPT'', 16903),
    (''PTRACE_LISTEN'', 16904), (''PTRACE_PEEKSIGINFO'', 16905), (''PTRACE_GETSIGMASK'', 16906),
    (''PTRACE_SETSIGMASK'', 16907), (''PTRACE_SECCOMP_GET_FILTER'', 16908)]"

definition ptrace_events :: table where
  "ptrace_events =
   [(''PTRACE_EVENT_FORK'', 1), (''PTRACE_EVENT_VFORK'', 2), (''PTRACE_EVENT_CLONE'', 3),
    (''PTRACE_EVENT_EXEC'', 4), (''PTRACE_EVENT_VFORK_DONE'', 5), (''PTRACE_EVENT_EXIT'', 6),
    (''PTRACE_EVENT_SECCOMP'', 7), (''PTRACE_EVENT_STOP'', 128)]"

definition resource_limits :: table where
  "resource_limits =
   [(''RLIMIT_CPU'', 0), (''RLIMIT_FSIZE'', 1), (''RLIMIT_DATA'', 2), (''RLIMIT_STACK'', 3),
    (''RLIMIT_CORE'', 4), (''RLIMIT_RSS'', 5), (''RLIMIT_NPROC'', 6), (''RLIMIT_NOFILE'', 7),
    (''RLIMIT_MEMLOCK'', 8), (''RLIMIT_AS'', 9), (''RLIMIT_LOCKS'', 10),
    (''RLIMIT_SIGPENDING'', 11), (''RLIMIT_MSGQUEUE'', 12), (''RLIMIT_NICE'', 13),
    (''RLIMIT_RTPRIO'', 14), (''RLIMIT_RTTIME'', 15), (''RLIMIT_NLIMITS'', 16)]"

definition notify_values :: table where
  "notify_values =
   [(''SIGEV_SIGNAL'', 0), (''SIGEV_NONE'', 1), (''SIGEV_THREAD'', 2), (''SIGEV_THREAD_ID'', 4)]"

definition bus_codes :: table where
  "bus_codes =
   [(''BUS_ADRALN'', 1), (''BUS_ADRERR'', 2), (''BUS_OBJERR'', 3), (''BUS_MCEERR_AR'', 4),
    (''BUS_MCEERR_AO'', 5)]"

definition ill_codes :: table where
  "ill_codes =
   [(''ILL_ILLOPC'', 1), (''ILL_ILLOPN'', 2), (''ILL_ILLADR'', 3), (''ILL_ILLTRP'', 4),
    (''ILL_PRVOPC'', 5), (''ILL_PRVREG'', 6), (''ILL_COPROC'', 7), (''ILL_BADSTK'', 8),
    (''ILL_BADIADDR'', 9)]"

definition si_codes :: table where
  "si_codes =
   [(''SI_ASYNCNL'', (- 60)), (''SI_TKILL'', (- 6)), (''SI_SIGIO'', (- 5)),
    (''SI_ASYNCIO'', (- 4)), (''SI_MESGQ'', (- 3)), (''SI_TIMER'', (- 2)), (''SI_QUEUE'', (- 1)),
    (''SI_USER'', 0), (''SI_KERNEL'', 128)]"

definition ipc_commands :: table where
  "ipc_commands =
   [(''IPC_RMID'', 0), (''IPC_SET'', 1), (''IPC_STAT'', 2), (''IPC_INFO'', 3)]"

definition shm_commands :: table where
  "shm_commands =
   [(''SHM_LOCK'', 11), (''SHM_UNLOCK'', 12), (''SHM_STAT'', 13), (''SHM_INFO'', 14),
    (''SHM_STAT_ANY'', 15)]"

definition shm_huge_sizes :: table where
  "shm_huge_sizes =
   [(''SHM_HUGE_64KB'', 1073741824), (''SHM_HUGE_512KB'', 1275068416),
    (''SHM_HUGE_1MB'', 1342177280), (''SHM_HUGE_2MB'', 1409286144), (''SHM_HUGE_8MB'', 1543503872),
    (''SHM_HUGE_16MB'', 1610612736), (''SHM_HUGE_32MB'', 1677721600),
    (''SHM_HUGE_256MB'', 1879048192), (''SHM_HUGE_512MB'', 1946157056),
    (''SHM_HUGE_1GB'', 2013265920), (''SHM_HUGE_2GB'', 2080374784),
    (''SHM_HUGE_16GB'', 2281701376)]"

definition login_record_types :: table where
  "login_record_types =
   [(''EMPTY'', 0), (''RUN_LVL'', 1), (''BOOT_TIME'', 2), (''NEW_TIME'', 3), (''OLD_TIME'', 4),
    (''INIT_PROCESS'', 5), (''LOGIN_PROCESS'', 6), (''USER_PROCESS'', 7), (''DEAD_PROCESS'', 8),
    (''ACCOUNTING'', 9)]"

definition auxv_types :: table where
  "auxv_types =
   [(''AT_PLATFORM'', 15), (''AT_HWCAP'', 16), (''AT_CLKTCK'', 17), (''AT_FPUCW'', 18),
    (''AT_SECURE'', 23), (''AT_RANDOM'', 25), (''AT_EXECFN'', 31), (''AT_SYSINFO_EHDR'', 33)]"

definition reboot_commands :: table where
  "reboot_commands =
   [(''RB_AUTOBOOT'', 19088743), (''RB_HALT_SYSTEM'', 3454992675), (''RB_ENABLE_CAD'', 2309737967),
    (''RB_DISABLE_CAD'', 0), (''RB_POWER_OFF'', 1126301404), (''RB_SW_SUSPEND'', 3489725666),
    (''RB_KEXEC'', 1163412803)]"

definition whence_values :: table where
  "whence_values =
   [(''SEEK_SET'', 0), (''SEEK_CUR'', 1), (''SEEK_END'', 2), (''SEEK_DATA'', 3),
    (''SEEK_HOLE'', 4)]"

definition timer_values :: table where
  "timer_values =
   [(''ITIMER_REAL'', 0), (''ITIMER_VIRTUAL'', 1), (''ITIMER_PROF'', 2)]"

definition interface_requests :: table where
  "interface_requests =
   [(''SIOCPROTOPRIVATE'', 35296), (''SIOCGSTAMP'', 35078), (''SIOCGIFNAME'', 35088),
    (''SIOCGIFCONF'', 35090), (''SIOCGIFFLAGS'', 35091), (''SIOCSIFFLAGS'', 35092),
    (''SIOCGIFADDR'', 35093), (''SIOCGIFINDEX'', 35123), (''SIOCATMARK'', 35077),
    (''SIOCGIFHWADDR'', 35111), (''SIOCGIFBRDADDR'', 35097), (''SIOCGIFNETMASK'', 35099)]"

definition vesa_values :: table where
  "vesa_values =
   [(''VESA_NO_BLANKING'', 0), (''VESA_VSYNC_SUSPEND'', 1), (''VESA_HSYNC_SUSPEND'', 2),
    (''VESA_POWERDOWN'', 3)]"

definition rotations :: table where
  "rotations =
   [(''FB_ROTATE_UR'', 0), (''FB_ROTATE_CW'', 1), (''FB_ROTATE_UD'', 2), (''FB_ROTATE_CCW'', 3)]"

subsection \<open>Flags\<close>

definition access_modes :: table where
  "access_modes =
   [(''X_OK'', 1), (''W_OK'', 2), (''R_OK'', 4)]"

definition random_flags :: table where
  "random_flags =
   [(''GRND_NONBLOCK'', 1), (''GRND_RANDOM'', 2), (''GRND_INSECURE'', 4)]"

definition mount_flags :: table where
  "mount_flags =
   [(''MS_RDONLY'', 1), (''MS_NOSUID'', 2), (''MS_NODEV'', 4), (''MS_NOEXEC'', 8),
    (''MS_SYNCHRONOUS'', 16), (''MS_REMOUNT'', 32), (''MS_MANDLOCK'', 64), (''MS_DIRSYNC'', 128),
    (''MS_NOSYMFOLLOW'', 256), (''MS_NOATIME'', 1024), (''MS_NODIRATIME'', 2048),
    (''MS_BIND'', 4096), (''MS_MOVE'', 8192), (''MS_REC'', 16384), (''MS_SILENT'', 32768),
    (''MS_POSIXACL'', 65536), (''MS_UNBINDABLE'', 131072), (''MS_PRIVATE'', 262144),
    (''MS_SLAVE'', 524288), (''MS_SHARED'', 1048576), (''MS_RELATIME'', 2097152),
    (''MS_KERNMOUNT'', 4194304), (''MS_I_VERSION'', 8388608), (''MS_STRICTATIME'', 16777216),
    (''MS_LAZYTIME'', 33554432), (''MS_NOREMOTELOCK'', 134217728), (''MS_NOSEC'', 268435456),
    (''MS_BORN'', 536870912), (''MS_ACTIVE'', 1073741824), (''MS_NOUSER'', (- 2147483648))]"

definition statvfs_flags :: table where
  "statvfs_flags =
   [(''ST_RDONLY'', 1), (''ST_NOSUID'', 2), (''ST_NODEV'', 4), (''ST_NOEXEC'', 8),
    (''ST_SYNCHRONOUS'', 16), (''ST_MANDLOCK'', 64), (''ST_WRITE'', 128), (''ST_APPEND'', 256),
    (''ST_IMMUTABLE'', 512), (''ST_NOATIME'', 1024), (''ST_NODIRATIME'', 2048)]"

definition statx_basic :: table where
  "statx_basic =
   [(''STATX_TYPE'', 1), (''STATX_MODE'', 2), (''STATX_NLINK'', 4), (''STATX_UID'', 8),
    (''STATX_GID'', 16), (''STATX_ATIME'', 32), (''STATX_MTIME'', 64), (''STATX_CTIME'', 128),
    (''STATX_INO'', 256), (''STATX_SIZE'', 512), (''STATX_BLOCKS'', 1024)]"

definition statx_more :: table where
  "statx_more =
   [(''STATX_BTIME'', 2048), (''STATX_MNT_ID'', 4096), (''STATX_DIOALIGN'', 8192)]"

definition statx_attributes :: table where
  "statx_attributes =
   [(''STATX_ATTR_COMPRESSED'', 4), (''STATX_ATTR_IMMUTABLE'', 16), (''STATX_ATTR_APPEND'', 32),
    (''STATX_ATTR_NODUMP'', 64), (''STATX_ATTR_ENCRYPTED'', 2048),
    (''STATX_ATTR_AUTOMOUNT'', 4096), (''STATX_ATTR_MOUNT_ROOT'', 8192),
    (''STATX_ATTR_VERITY'', 1048576), (''STATX_ATTR_DAX'', 2097152)]"

definition ptrace_options :: table where
  "ptrace_options =
   [(''PTRACE_O_TRACESYSGOOD'', 1), (''PTRACE_O_TRACEFORK'', 2), (''PTRACE_O_TRACEVFORK'', 4),
    (''PTRACE_O_TRACECLONE'', 8), (''PTRACE_O_TRACEEXEC'', 16), (''PTRACE_O_TRACEVFORKDONE'', 32),
    (''PTRACE_O_TRACEEXIT'', 64), (''PTRACE_O_TRACESECCOMP'', 128),
    (''PTRACE_O_EXITKILL'', 1048576), (''PTRACE_O_SUSPEND_SECCOMP'', 2097152)]"

definition msync_flags :: table where
  "msync_flags =
   [(''MS_ASYNC'', 1), (''MS_INVALIDATE'', 2), (''MS_SYNC'', 4)]"

definition ipc_flags :: table where
  "ipc_flags =
   [(''IPC_CREAT'', 512), (''IPC_EXCL'', 1024), (''IPC_NOWAIT'', 2048)]"

definition shm_flags :: table where
  "shm_flags =
   [(''SHM_RDONLY'', 4096), (''SHM_RND'', 8192), (''SHM_REMAP'', 16384), (''SHM_EXEC'', 32768)]"

definition sync_flags :: table where
  "sync_flags =
   [(''FB_SYNC_HOR_HIGH_ACT'', 1), (''FB_SYNC_VERT_HIGH_ACT'', 2), (''FB_SYNC_EXT'', 4),
    (''FB_SYNC_COMP_HIGH_ACT'', 8), (''FB_SYNC_BROADCAST'', 16), (''FB_SYNC_ON_GREEN'', 32)]"

definition vblank_flags :: table where
  "vblank_flags =
   [(''FB_VBLANK_VBLANKING'', 1), (''FB_VBLANK_HBLANKING'', 2), (''FB_VBLANK_HAVE_VBLANK'', 4),
    (''FB_VBLANK_HAVE_HBLANK'', 8), (''FB_VBLANK_HAVE_COUNT'', 16),
    (''FB_VBLANK_HAVE_VCOUNT'', 32), (''FB_VBLANK_HAVE_HCOUNT'', 64),
    (''FB_VBLANK_VSYNCING'', 128), (''FB_VBLANK_HAVE_VSYNC'', 256)]"

definition cursor_flags :: table where
  "cursor_flags =
   [(''FB_CUR_SETIMAGE'', 1), (''FB_CUR_SETPOS'', 2), (''FB_CUR_SETHOT'', 4),
    (''FB_CUR_SETCMAP'', 8), (''FB_CUR_SETSHAPE'', 16), (''FB_CUR_SETSIZE'', 32)]"

definition activate_flags :: table where
  "activate_flags =
   [(''FB_ACTIVATE_VBL'', 16), (''FB_CHANGE_CMAP_VBL'', 32), (''FB_ACTIVATE_ALL'', 64),
    (''FB_ACTIVATE_FORCE'', 128), (''FB_ACTIVATE_INV_MODE'', 256), (''FB_ACTIVATE_KD_TEXT'', 512)]"

definition extra_lflags :: table where
  "extra_lflags =
   [(''XCASE'', 4), (''ECHOCTL'', 512), (''ECHOPRT'', 1024), (''ECHOKE'', 2048),
    (''FLUSHO'', 4096), (''PENDIN'', 16384), (''EXTPROC'', 65536)]"

subsection \<open>Fields\<close>

definition file_types :: table where
  "file_types =
   [(''S_IFBLK'', 24576), (''S_IFCHR'', 8192), (''S_IFIFO'', 4096), (''S_IFREG'', 32768),
    (''S_IFDIR'', 16384), (''S_IFLNK'', 40960), (''S_IFSOCK'', 49152)]"

definition newline_delays :: table where
  "newline_delays =
   [(''NL0'', 0), (''NL1'', 256)]"

definition return_delays :: table where
  "return_delays =
   [(''CR0'', 0), (''CR1'', 512), (''CR2'', 1024), (''CR3'', 1536)]"

definition tab_delays :: table where
  "tab_delays =
   [(''TAB0'', 0), (''TAB1'', 2048), (''TAB2'', 4096), (''TAB3'', 6144)]"

definition backspace_delays :: table where
  "backspace_delays =
   [(''BS0'', 0), (''BS1'', 8192)]"

definition feed_delays :: table where
  "feed_delays =
   [(''FF0'', 0), (''FF1'', 32768)]"

definition vtab_delays :: table where
  "vtab_delays =
   [(''VT0'', 0), (''VT1'', 16384)]"

definition char_sizes :: table where
  "char_sizes =
   [(''CS5'', 0), (''CS6'', 16), (''CS7'', 32), (''CS8'', 48)]"

definition activate_values :: table where
  "activate_values =
   [(''FB_ACTIVATE_NOW'', 0), (''FB_ACTIVATE_NXTOPEN'', 1), (''FB_ACTIVATE_TEST'', 2)]"

definition video_modes :: table where
  "video_modes =
   [(''FB_VMODE_NONINTERLACED'', 0), (''FB_VMODE_INTERLACED'', 1), (''FB_VMODE_DOUBLE'', 2),
    (''FB_VMODE_ODD_FLD_FIRST'', 4)]"

subsection \<open>Masks\<close>

definition S_IFMT :: int where "S_IFMT = 0xf000"
definition S_IRWXU :: int where "S_IRWXU = 0x1c0"
definition S_IRWXG :: int where "S_IRWXG = 0x38"
definition S_IRWXO :: int where "S_IRWXO = 0x7"
definition NLDLY :: int where "NLDLY = 0x100"
definition CRDLY :: int where "CRDLY = 0x600"
definition TABDLY :: int where "TABDLY = 0x1800"
definition BSDLY :: int where "BSDLY = 0x2000"
definition FFDLY :: int where "FFDLY = 0x8000"
definition VTDLY :: int where "VTDLY = 0x4000"
definition CSIZE :: int where "CSIZE = 0x30"
definition CBAUD :: int where "CBAUD = 0x100f"
definition CIBAUD :: int where "CIBAUD = 0x100f0000"
definition CMSPAR :: int where "CMSPAR = 0x40000000"
definition CRTSCTS :: int where "CRTSCTS = 0x80000000"
definition STATX_BASIC_STATS :: int where "STATX_BASIC_STATS = 0x7ff"
definition STATX_ALL :: int where "STATX_ALL = 0xfff"
definition PTRACE_O_MASK :: int where "PTRACE_O_MASK = 0x3000ff"
definition FB_ACTIVATE_MASK :: int where "FB_ACTIVATE_MASK = 0xf"
definition FB_VMODE_MASK :: int where "FB_VMODE_MASK = 0xff"
definition FB_CUR_SETALL :: int where "FB_CUR_SETALL = 0xff"
definition SHM_HUGE_SHIFT :: int where "SHM_HUGE_SHIFT = 0x1a"
definition SHM_HUGE_MASK :: int where "SHM_HUGE_MASK = 0x3f"

subsection \<open>Ambiguities\<close>

lemma number_tables_distinct:
  "clashes ip_options = []" "clashes ipv6_pmtudisc = []" "clashes ip_pmtudisc = []"
  "clashes mcast_requests = []" "clashes socket_levels = []" "clashes ptrace_requests = []"
  "clashes ptrace_events = []" "clashes resource_limits = []" "clashes notify_values = []"
  "clashes bus_codes = []" "clashes ill_codes = []" "clashes si_codes = []"
  "clashes ipc_commands = []" "clashes shm_commands = []" "clashes shm_huge_sizes = []"
  "clashes login_record_types = []" "clashes auxv_types = []" "clashes reboot_commands = []"
  "clashes whence_values = []" "clashes timer_values = []" "clashes interface_requests = []"
  "clashes vesa_values = []" "clashes rotations = []"
  by code_simp+

lemma option_aliases: "clashes ipv6_options =
    [(''IPV6_JOIN_GROUP'', ''IPV6_ADD_MEMBERSHIP''), (''IPV6_LEAVE_GROUP'', ''IPV6_DROP_MEMBERSHIP'')]"
  by code_simp

lemma more_flags_disjoint:
  "overlaps access_modes = []" "overlaps random_flags = []" "overlaps mount_flags = []"
  "overlaps statvfs_flags = []" "overlaps statx_basic = []" "overlaps statx_more = []"
  "overlaps statx_attributes = []" "overlaps ptrace_options = []" "overlaps msync_flags = []"
  "overlaps ipc_flags = []" "overlaps shm_flags = []" "overlaps sync_flags = []"
  "overlaps vblank_flags = []" "overlaps cursor_flags = []" "overlaps activate_flags = []"
  "overlaps extra_lflags = []"
  by code_simp+

text \<open>The masks for all of them are the union of the flags.\<close>

lemma flag_masks:
  "foldr (OR) (map snd statx_basic) 0 = STATX_BASIC_STATS"
  "foldr (OR) (map snd ptrace_options) 0 = PTRACE_O_MASK"
  "STATX_ALL = STATX_BASIC_STATS OR snd (hd statx_more)"
  "foldr (OR) (map snd (take 3 permission_bits)) 0 = S_IRWXU"
  by code_simp+

text \<open>The sizes of huge pages: the field is the binary logarithm of the size in the name.\<close>

lemma huge_page_sizes:
  "map (\<lambda>e. drop_bit (nat SHM_HUGE_SHIFT) (snd e) AND SHM_HUGE_MASK) shm_huge_sizes =
     [16, 19, 20, 21, 23, 24, 25, 28, 29, 30, 31, 34]"
  by code_simp

text \<open>The flags that \<open>statvfs\<close> reports are those that \<open>mount\<close> takes, as far as both have them.\<close>

lemma statvfs_mount_flags:
  "\<forall>(name, m) \<in> set [(''NOSUID'', 2), (''NODEV'', 4), (''NOEXEC'', 8), (''MANDLOCK'', 64), (''NOATIME'', 1024), (''NODIRATIME'', 2048)].
     map_of statvfs_flags (''ST_'' @ name) = Some m \<and> map_of mount_flags (''MS_'' @ name) = Some m"
  by code_simp

subsection \<open>Words with fields\<close>

type_synonym fields = "(int \<times> table) list"

definition file_mode :: fields where "file_mode = [(S_IFMT, file_types)]"
definition output_mode :: fields where
  "output_mode = [(NLDLY, newline_delays), (CRDLY, return_delays), (TABDLY, tab_delays), (BSDLY, backspace_delays),
     (VTDLY, vtab_delays), (FFDLY, feed_delays)]"
definition control_mode :: fields where "control_mode = [(CSIZE, char_sizes)]"
definition video_mode :: fields where "video_mode = [(FB_VMODE_MASK, video_modes)]"
definition activate_mode :: fields where "activate_mode = [(FB_ACTIVATE_MASK, activate_values)]"

text \<open>The flags of a word, and its fields: no flag is under a mask, no two masks share a bit, the values are under
  their mask and differ.\<close>

definition word_layout :: "table \<Rightarrow> fields \<Rightarrow> bool" where
  "word_layout flags fs \<longleftrightarrow>
     (\<forall>(m, t)\<in>set fs. (\<forall>(n, f)\<in>set flags. f AND m = 0) \<and> (\<forall>(n, v)\<in>set t. v AND m = v) \<and> distinct (map snd t)) \<and>
     sorted_wrt (\<lambda>f g. fst f AND fst g = 0) fs"

lemma word_layouts:
  "word_layout permission_bits file_mode" "word_layout oflags output_mode" "word_layout cflags control_mode"
  "word_layout activate_flags activate_mode" "word_layout [] video_mode"
  by code_simp+

definition compose :: "int list \<Rightarrow> int list \<Rightarrow> int" where
  "compose flags vals = foldr (OR) (flags @ vals) 0"

lemma foldr_or_zero: "\<forall>x\<in>set xs. x AND m = 0 \<Longrightarrow> foldr (OR) xs a AND (m :: int) = a AND m"
  by (induction xs) (simp_all add: bit.conj_disj_distrib2)

lemma foldr_or_single:
  "i < length vs \<Longrightarrow> \<forall>j<length vs. j \<noteq> i \<longrightarrow> vs ! j AND m = 0 \<Longrightarrow> foldr (OR) vs 0 AND (m :: int) = vs ! i AND m"
proof (induction vs arbitrary: i)
  case (Cons v vs)
  show ?case
  proof (cases i)
    case 0
    have "vs ! j AND m = 0" if "j < length vs" for j using Cons.prems(2)[rule_format, of "Suc j"] that 0 by simp
    then have "\<forall>x\<in>set vs. x AND m = 0" by (auto simp: in_set_conv_nth)
    with 0 show ?thesis by (simp add: bit.conj_disj_distrib2 foldr_or_zero)
  next
    case (Suc k)
    have "v AND m = 0" using Cons.prems(2) Suc by force
    moreover have "foldr (OR) vs 0 AND m = vs ! k AND m"
    proof (rule Cons.IH)
      show "k < length vs" using Cons.prems(1) Suc by simp
      show "\<forall>j<length vs. j \<noteq> k \<longrightarrow> vs ! j AND m = 0"
        using Cons.prems(2) Suc by (metis Suc_less_eq length_Cons nat.inject nth_Cons_Suc)
    qed
    ultimately show ?thesis by (simp add: Suc bit.conj_disj_distrib2)
  qed
qed simp

lemma masked_other: "(v :: int) AND m = v \<Longrightarrow> m AND m' = 0 \<Longrightarrow> v AND m' = 0"
  by (metis and.assoc and_zero_eq)

text \<open>Reading a field: whatever flags are set and whatever values the other fields have, the word under the mask is
  the value that was put there.\<close>

lemma read_field:
  assumes "word_layout flags fs" "set xs \<subseteq> snd ` set flags"
    and "list_all2 (\<lambda>(m, t) v. v \<in> snd ` set t) fs vs" "i < length fs"
  shows "compose xs vs AND fst (fs ! i) = vs ! i"
proof -
  let ?m = "fst (fs ! i)"
  have len: "length vs = length fs" using assms(3) by (simp add: list_all2_lengthD)
  have val: "vs ! j AND fst (fs ! j) = vs ! j" if "j < length fs" for j
  proof -
    obtain m t where f: "fs ! j = (m, t)" by fastforce
    then have "vs ! j \<in> snd ` set t" using list_all2_nthD[OF assms(3) that] by simp
    moreover have "\<forall>(n, v)\<in>set t. v AND m = v" using assms(1) nth_mem[OF that] f by (fastforce simp: word_layout_def)
    ultimately show ?thesis by (auto simp: f)
  qed
  have sw: "sorted_wrt (\<lambda>f g. fst f AND fst g = 0) fs" using assms(1) by (simp add: word_layout_def)
  have dis: "fst (fs ! j) AND ?m = 0" if "j < length fs" "j \<noteq> i" for j
  proof (cases "j < i")
    case True
    then show ?thesis using sorted_wrt_nth_less[OF sw True assms(4)] by simp
  next
    case False
    with that have "i < j" by simp
    then show ?thesis using sorted_wrt_nth_less[OF sw _ that(1)] by (simp add: and.commute)
  qed
  have "\<forall>x\<in>set xs. x AND ?m = 0"
  proof
    fix x assume "x \<in> set xs"
    then obtain n where "(n, x) \<in> set flags" using assms(2) by auto
    moreover obtain m t where "fs ! i = (m, t)" by fastforce
    ultimately show "x AND ?m = 0" using assms(1) nth_mem[OF assms(4)] by (fastforce simp: word_layout_def)
  qed
  then have "compose xs vs AND ?m = foldr (OR) vs 0 AND ?m" by (simp add: compose_def foldr_or_zero)
  also have "\<dots> = vs ! i AND ?m"
    using masked_other[OF val dis] assms(4) len by (intro foldr_or_single) auto
  also have "\<dots> = vs ! i" by (rule val[OF assms(4)])
  finally show ?thesis .
qed

text \<open>The six delays of the output mode, with any of the other output flags.\<close>

lemma output_mode_delays:
  assumes "set xs \<subseteq> snd ` set oflags" "list_all2 (\<lambda>(m, t) v. v \<in> snd ` set t) output_mode [nl, cr, tb, bs, vt, ff]"
  shows "compose xs [nl, cr, tb, bs, vt, ff] AND CRDLY = cr" "compose xs [nl, cr, tb, bs, vt, ff] AND FFDLY = ff"
  using read_field[OF word_layouts(2) assms, of 1] read_field[OF word_layouts(2) assms, of 5]
  by (simp_all add: output_mode_def)

text \<open>The type of a file, with any permissions.\<close>

lemma file_type_read:
  assumes "set xs \<subseteq> snd ` set permission_bits" "ft \<in> snd ` set file_types"
  shows "compose xs [ft] AND S_IFMT = ft"
  using read_field[OF word_layouts(1) assms(1), of "[ft]" 0] assms(2) by (simp add: file_mode_def)

subsection \<open>Pixel clocks\<close>

text \<open>The two macros are the same division; from kilohertz to picoseconds and back a frequency does not get
  smaller, and up to 31622 kHz it comes back.\<close>

definition PICOS2KHZ :: "u64 \<Rightarrow> u64" where "PICOS2KHZ a = 1000000000 div a"
definition KHZ2PICOS :: "u64 \<Rightarrow> u64" where "KHZ2PICOS a = 1000000000 div a"

lemma div_div_back:
  fixes f n :: nat
  assumes "0 < f" "f * f \<le> n"
  shows "n div (n div f) = f"
proof -
  define q where "q = n div f"
  have q: "q * f \<le> n" "n < Suc q * f" using assms(1) dividend_less_div_times[of f n] by (simp_all add: q_def)
  have "f \<le> q" using assms by (simp add: q_def less_eq_div_iff_mult_less_eq)
  then have "n < q * Suc f" using q(2) by (simp add: mult.commute)
  then show ?thesis using q(1) by (intro div_nat_eqI) (simp_all add: mult.commute flip: q_def)
qed

lemma pixel_clock_back:
  assumes "0 < f" "f \<le> 31622"
  shows "PICOS2KHZ (KHZ2PICOS f) = f"
proof -
  have f: "0 < unat f" "unat f \<le> 31622" using assms by (simp_all add: word_less_nat_alt word_le_nat_alt)
  then have "unat f * unat f \<le> 31622 * 31622" by (intro mult_mono) simp_all
  then have "1000000000 div (1000000000 div unat f) = unat f" using f by (intro div_div_back) simp_all
  then have "unat (PICOS2KHZ (KHZ2PICOS f)) = unat f" by (simp add: PICOS2KHZ_def KHZ2PICOS_def unat_div_distrib)
  then show ?thesis by (simp only: word_unat_eq_iff)
qed

end
