(* ===== verification/Abi_Rest.thy ===== *)
theory Abi_Rest
  imports Abi_Fields Abi_Layout
begin

text \<open>
  The shorter tables of the kernel interface: addresses and options of the Internet, locks and advice on
  files and memory, terminals, codes and masks of signals, the numbers of the registers on other processors,
  and the framebuffer; and the masks of \<open>ioctl\<close> codes for sound drivers. Some of them are in parts of
  the headers that the build leaves out.
\<close>

subsection \<open>Internet\<close>

definition internet_addresses :: table where
  "internet_addresses =
   [(''INADDR_ANY'', 0), (''INADDR_BROADCAST'', 4294967295), (''INADDR_NONE'', 4294967295),
    (''INADDR_LOOPBACK'', 2130706433), (''INADDR_UNSPEC_GROUP'', 3758096384),
    (''INADDR_ALLHOSTS_GROUP'', 3758096385), (''INADDR_ALLRTRS_GROUP'', 3758096386),
    (''INADDR_ALLSNOOPERS_GROUP'', 3758096490), (''INADDR_MAX_LOCAL_GROUP'', 3758096639)]"

definition address_lengths :: table where
  "address_lengths =
   [(''INET_ADDRSTRLEN'', 16), (''INET6_ADDRSTRLEN'', 46)]"

definition more_socket_options :: table where
  "more_socket_options =
   [(''SCM_TIMESTAMP'', 29), (''SO_PASSSEC'', 34), (''SCM_TIMESTAMPNS'', 35), (''SO_MARK'', 36),
    (''SCM_TIMESTAMPING'', 37), (''SO_RXQ_OVFL'', 40), (''SO_WIFI_STATUS'', 41),
    (''SCM_WIFI_STATUS'', 41), (''SO_PEEK_OFF'', 42), (''SO_NOFCS'', 43), (''SO_LOCK_FILTER'', 44),
    (''SO_SELECT_ERR_QUEUE'', 45), (''SO_BUSY_POLL'', 46), (''SO_MAX_PACING_RATE'', 47),
    (''SO_BPF_EXTENSIONS'', 48), (''SO_INCOMING_CPU'', 49), (''SO_ATTACH_BPF'', 50),
    (''SO_DETACH_BPF'', 27), (''SO_ATTACH_REUSEPORT_CBPF'', 51),
    (''SO_ATTACH_REUSEPORT_EBPF'', 52), (''SO_CNX_ADVICE'', 53),
    (''SCM_TIMESTAMPING_OPT_STATS'', 54), (''SO_MEMINFO'', 55), (''SO_INCOMING_NAPI_ID'', 56),
    (''SO_COOKIE'', 57), (''SCM_TIMESTAMPING_PKTINFO'', 58), (''SO_PEERGROUPS'', 59),
    (''SO_ZEROCOPY'', 60), (''SO_TXTIME'', 61), (''SCM_TXTIME'', 61), (''SO_BINDTOIFINDEX'', 62),
    (''SO_DETACH_REUSEPORT_BPF'', 68)]"

definition control_message_types :: table where
  "control_message_types =
   [(''SCM_RIGHTS'', 1), (''SCM_CREDENTIALS'', 2)]"

subsection \<open>Files\<close>

definition lock_requests :: table where
  "lock_requests =
   [(''F_OFD_GETLK'', 36), (''F_OFD_SETLK'', 37), (''F_OFD_SETLKW'', 38)]"

definition lock_types :: table where
  "lock_types =
   [(''F_RDLCK'', 0), (''F_WRLCK'', 1), (''F_UNLCK'', 2)]"

definition access_values :: table where
  "access_values =
   [(''O_PATH'', 2097152), (''O_ACCMODE'', 2097155), (''O_RDONLY'', 0), (''O_WRONLY'', 1),
    (''O_RDWR'', 2)]"

definition path_only_modes :: table where
  "path_only_modes =
   [(''O_EXEC'', 2097152), (''O_SEARCH'', 2097152)]"

definition statx_sync :: table where
  "statx_sync =
   [(''AT_STATX_SYNC_AS_STAT'', 0), (''AT_STATX_FORCE_SYNC'', 8192),
    (''AT_STATX_DONT_SYNC'', 16384), (''AT_STATX_SYNC_TYPE'', 24576)]"

definition fadvise_values :: table where
  "fadvise_values =
   [(''POSIX_FADV_NORMAL'', 0), (''POSIX_FADV_RANDOM'', 1), (''POSIX_FADV_SEQUENTIAL'', 2),
    (''POSIX_FADV_WILLNEED'', 3), (''POSIX_FADV_DONTNEED'', 4), (''POSIX_FADV_NOREUSE'', 5)]"

definition xattr_flags :: table where
  "xattr_flags =
   [(''XATTR_CREATE'', 1), (''XATTR_REPLACE'', 2)]"

subsection \<open>Memory\<close>

definition lock_all_flags :: table where
  "lock_all_flags =
   [(''MCL_CURRENT'', 1), (''MCL_FUTURE'', 2)]"

definition posix_madvise :: table where
  "posix_madvise =
   [(''POSIX_MADV_NORMAL'', 0), (''POSIX_MADV_RANDOM'', 1), (''POSIX_MADV_SEQUENTIAL'', 2),
    (''POSIX_MADV_WILLNEED'', 3), (''POSIX_MADV_DONTNEED'', 4)]"

definition mremap_flags :: table where
  "mremap_flags =
   [(''MREMAP_MAYMOVE'', 1), (''MREMAP_FIXED'', 2)]"

definition memfd_flags :: table where
  "memfd_flags =
   [(''MFD_CLOEXEC'', 1), (''MFD_ALLOW_SEALING'', 2), (''MFD_HUGETLB'', 4)]"

definition shm_access :: table where
  "shm_access =
   [(''SHM_R'', 256), (''SHM_W'', 128)]"

definition shm_mode_flags :: table where
  "shm_mode_flags =
   [(''SHM_DEST'', 512), (''SHM_LOCKED'', 1024), (''SHM_HUGETLB'', 2048),
    (''SHM_NORESERVE'', 4096)]"

subsection \<open>Terminals\<close>

definition vt_limits :: table where
  "vt_limits =
   [(''MIN_NR_CONSOLES'', 1), (''MAX_NR_CONSOLES'', 63)]"

definition vt_switching :: table where
  "vt_switching =
   [(''VT_AUTO'', 0), (''VT_PROCESS'', 1), (''VT_ACKACQ'', 2)]"

definition vt_events :: table where
  "vt_events =
   [(''VT_EVENT_SWITCH'', 1), (''VT_EVENT_BLANK'', 2), (''VT_EVENT_UNBLANK'', 4),
    (''VT_EVENT_RESIZE'', 8)]"

definition extra_speeds :: table where
  "extra_speeds =
   [(''EXTA'', 14), (''EXTB'', 15)]"

definition utmpx_types :: table where
  "utmpx_types =
   [(''EMPTY'', 0), (''RUN_LVL'', 1), (''BOOT_TIME'', 2), (''NEW_TIME'', 3), (''OLD_TIME'', 4),
    (''INIT_PROCESS'', 5), (''LOGIN_PROCESS'', 6), (''USER_PROCESS'', 7), (''DEAD_PROCESS'', 8)]"

definition utmpx_sizes :: table where
  "utmpx_sizes =
   [(''__UT_HOSTSIZE'', 256), (''__UT_NAMESIZE'', 32), (''__UT_LINESIZE'', 32)]"

subsection \<open>Signals\<close>

definition poll_codes :: table where
  "poll_codes =
   [(''POLL_IN'', 1), (''POLL_OUT'', 2), (''POLL_MSG'', 3), (''POLL_ERR'', 4), (''POLL_PRI'', 5),
    (''POLL_HUP'', 6)]"

definition segv_codes :: table where
  "segv_codes =
   [(''SEGV_MAPERR'', 1), (''SEGV_ACCERR'', 2)]"

definition mask_operations :: table where
  "mask_operations =
   [(''SIG_BLOCK'', 0), (''SIG_UNBLOCK'', 1), (''SIG_SETMASK'', 2)]"

definition stack_flags :: table where
  "stack_flags =
   [(''SS_ONSTACK'', 1), (''SS_DISABLE'', 2)]"

definition stack_sizes :: table where
  "stack_sizes =
   [(''MINSIGSTKSZ'', 2048), (''SIGSTKSZ'', 8192)]"

definition i386_registers :: table where
  "i386_registers =
   [(''REG_GS'', 0), (''REG_FS'', 1), (''REG_ES'', 2), (''REG_DS'', 3), (''REG_EDI'', 4),
    (''REG_ESI'', 5), (''REG_EBP'', 6), (''REG_ESP'', 7), (''REG_EBX'', 8), (''REG_EDX'', 9),
    (''REG_ECX'', 10), (''REG_EAX'', 11), (''REG_TRAPNO'', 12), (''REG_ERR'', 13),
    (''REG_EIP'', 14), (''REG_CS'', 15), (''REG_EFL'', 16), (''REG_UESP'', 17), (''REG_SS'', 18),
    (''NGREG'', 19)]"

definition riscv_registers :: table where
  "riscv_registers =
   [(''REG_PC'', 0), (''REG_RA'', 1), (''REG_SP'', 2), (''REG_TP'', 4), (''REG_S0'', 8),
    (''REG_A0'', 10)]"

definition m68k_registers :: table where
  "m68k_registers =
   [(''R_D0'', 0), (''R_D1'', 1), (''R_D2'', 2), (''R_D3'', 3), (''R_D4'', 4), (''R_D5'', 5),
    (''R_D6'', 6), (''R_D7'', 7), (''R_A0'', 8), (''R_A1'', 9), (''R_A2'', 10), (''R_A3'', 11),
    (''R_A4'', 12), (''R_A5'', 13), (''R_A6'', 14), (''R_A7'', 15), (''R_SP'', 15), (''R_PC'', 16),
    (''R_PS'', 17)]"

definition loongarch_registers :: table where
  "loongarch_registers =
   [(''NGREG'', 32), (''REG_RA'', 1), (''REG_SP'', 3), (''REG_S0'', 23), (''REG_S1'', 24),
    (''REG_A0'', 4), (''REG_S2'', 25), (''REG_NARGS'', 8)]"

definition aarch64_magics :: table where
  "aarch64_magics =
   [(''FPSIMD_MAGIC'', 1179680769), (''ESR_MAGIC'', 1163088385), (''EXTRA_MAGIC'', 1163416577),
    (''SVE_MAGIC'', 1398162689)]"

subsection \<open>Framebuffer\<close>

definition text_modes :: table where
  "text_modes =
   [(''FB_AUX_TEXT_MDA'', 0), (''FB_AUX_TEXT_CGA'', 1), (''FB_AUX_TEXT_S3_MMIO'', 2),
    (''FB_AUX_TEXT_MGA_STEP16'', 3), (''FB_AUX_TEXT_MGA_STEP8'', 4),
    (''FB_AUX_TEXT_SVGA_GROUP'', 8), (''FB_AUX_TEXT_SVGA_MASK'', 7),
    (''FB_AUX_TEXT_SVGA_STEP2'', 8), (''FB_AUX_TEXT_SVGA_STEP4'', 9),
    (''FB_AUX_TEXT_SVGA_STEP8'', 10), (''FB_AUX_TEXT_SVGA_STEP16'', 11),
    (''FB_AUX_TEXT_SVGA_LAST'', 15)]"

definition plane_modes :: table where
  "plane_modes =
   [(''FB_AUX_VGA_PLANES_VGA4'', 0), (''FB_AUX_VGA_PLANES_CFB4'', 1),
    (''FB_AUX_VGA_PLANES_CFB8'', 2)]"

definition nonstd_values :: table where
  "nonstd_values =
   [(''FB_NONSTD_HAM'', 1), (''FB_NONSTD_REV_PIX_IN_B'', 2)]"

definition vmode_flags :: table where
  "vmode_flags =
   [(''FB_VMODE_YWRAP'', 256), (''FB_VMODE_SMOOTH_XPAN'', 512), (''FB_VMODE_CONUPDATE'', 512)]"

definition blank_levels :: table where
  "blank_levels =
   [(''FB_BLANK_UNBLANK'', 0), (''FB_BLANK_NORMAL'', 1), (''FB_BLANK_VSYNC_SUSPEND'', 2),
    (''FB_BLANK_HSYNC_SUSPEND'', 3), (''FB_BLANK_POWERDOWN'', 4)]"

definition raster_operations :: table where
  "raster_operations =
   [(''ROP_COPY'', 0), (''ROP_XOR'', 1)]"

definition backlight_values :: table where
  "backlight_values =
   [(''FB_BACKLIGHT_LEVELS'', 128), (''FB_BACKLIGHT_MAX'', 255)]"

subsection \<open>Ambiguities\<close>

lemma rest_distinct:
  "clashes address_lengths = []" "clashes control_message_types = []" "clashes lock_requests = []"
  "clashes lock_types = []" "clashes access_values = []" "clashes statx_sync = []"
  "clashes fadvise_values = []" "clashes lock_all_flags = []" "clashes posix_madvise = []"
  "clashes mremap_flags = []" "clashes memfd_flags = []" "clashes shm_access = []"
  "clashes shm_mode_flags = []" "clashes vt_limits = []" "clashes vt_switching = []"
  "clashes vt_events = []" "clashes extra_speeds = []" "clashes poll_codes = []"
  "clashes segv_codes = []" "clashes mask_operations = []" "clashes stack_flags = []"
  "clashes stack_sizes = []" "clashes i386_registers = []" "clashes riscv_registers = []"
  "clashes loongarch_registers = []" "clashes aarch64_magics = []" "clashes plane_modes = []"
  "clashes nonstd_values = []" "clashes blank_levels = []" "clashes raster_operations = []"
  "clashes backlight_values = []" "clashes utmpx_types = []" "clashes xattr_flags = []"
  by code_simp+

lemma rest_aliases:
  "clashes internet_addresses = [(''INADDR_BROADCAST'', ''INADDR_NONE'')]"
  "clashes more_socket_options = [(''SO_WIFI_STATUS'', ''SCM_WIFI_STATUS''), (''SO_TXTIME'', ''SCM_TXTIME'')]"
  "clashes path_only_modes = [(''O_EXEC'', ''O_SEARCH'')]"
  "clashes m68k_registers = [(''R_A7'', ''R_SP'')]"
  "clashes text_modes = [(''FB_AUX_TEXT_SVGA_GROUP'', ''FB_AUX_TEXT_SVGA_STEP2'')]"
  "clashes vmode_flags = [(''FB_VMODE_SMOOTH_XPAN'', ''FB_VMODE_CONUPDATE'')]"
  "clashes utmpx_sizes = [(''__UT_NAMESIZE'', ''__UT_LINESIZE'')]"
  by code_simp+

lemma rest_flags_disjoint:
  "overlaps mremap_flags = []" "overlaps memfd_flags = []" "overlaps shm_mode_flags = []"
  "overlaps vt_events = []" "overlaps lock_all_flags = []" "overlaps stack_flags = []"
  "overlaps shm_access = []"
  by code_simp+

text \<open>The groups of multicast are all in the block \<open>224.0.0.0/24\<close>, which is of class D.\<close>

lemma multicast_groups:
  "list_all (\<lambda>(n, a). drop_bit 8 a = 0xe00000 \<and> drop_bit 28 a = 14) (drop 4 internet_addresses)"
  by code_simp

text \<open>The second half of the socket options goes on after the first; only the names for control messages share
  numbers with options, besides four second names for options.\<close>

lemma socket_option_aliases:
  "list_all (\<lambda>(a, b). take 4 b = ''SCM_'' \<or> b \<in> {''SO_DETACH_BPF'', ''SO_GET_FILTER'', ''SO_RCVTIMEO_OLD'', ''SO_SNDTIMEO_OLD''})
     (clashes (socket_options @ more_socket_options))"
  by code_simp

text \<open>The access modes with the one for paths are under \<open>O_ACCMODE\<close>; the advice constants of POSIX are the first
  of Linux; and the permissions of a segment are those of its owner.\<close>

lemma rest_relations:
  "\<forall>(n, v)\<in>set access_values. v AND 0x200003 = v"
  "map snd posix_madvise = map snd (take 5 madvise_values)"
  "map snd shm_access = [0x100, 0x80]"
  "foldr (OR) (map snd vt_events) 0 = 0xf"
  by code_simp+

text \<open>The types of login records are given a second time, without the last, and the sizes are those of the arrays.\<close>

lemma utmpx_again:
  "map snd utmpx_types = map snd (take 9 login_record_types)"
  "\<forall>(x, n)\<in>set [(''ut_host'', 256), (''ut_user'', 32), (''ut_line'', 32)].
     (case struct_utmpx of Struct fs \<Rightarrow> map_of fs x = Some (Array n (Scalar 1)) | _ \<Rightarrow> False) \<and> int n \<in> snd ` set utmpx_sizes"
  by (code_simp, simp add: struct_utmpx_def utmpx_sizes_def)

text \<open>A level of the blanking of the framebuffer is one more than the level of VESA for it.\<close>

lemma blank_levels_vesa:
  "\<forall>(b, v)\<in>set [(''FB_BLANK_NORMAL'', ''VESA_NO_BLANKING''), (''FB_BLANK_VSYNC_SUSPEND'', ''VESA_VSYNC_SUSPEND''),
       (''FB_BLANK_HSYNC_SUSPEND'', ''VESA_HSYNC_SUSPEND''), (''FB_BLANK_POWERDOWN'', ''VESA_POWERDOWN'')].
     map_of blank_levels b = map_option (\<lambda>v. v + 1) (map_of vesa_values v)"
  by code_simp

subsection \<open>Masks of request codes\<close>

definition IOR_BAD :: "u32 \<Rightarrow> u32 \<Rightarrow> u64 \<Rightarrow> u64" where "IOR_BAD type nr sz = IOC IOC_READ type nr sz"
definition IOW_BAD :: "u32 \<Rightarrow> u32 \<Rightarrow> u64 \<Rightarrow> u64" where "IOW_BAD type nr sz = IOC IOC_WRITE type nr sz"
definition IOWR_BAD :: "u32 \<Rightarrow> u32 \<Rightarrow> u64 \<Rightarrow> u64" where
  "IOWR_BAD type nr sz = IOC (IOC_READ OR IOC_WRITE) type nr sz"

definition IOC_IN :: u32 where "IOC_IN = push_bit IOC_DIRSHIFT IOC_WRITE"
definition IOC_OUT :: u32 where "IOC_OUT = push_bit IOC_DIRSHIFT IOC_READ"
definition IOC_INOUT :: u32 where "IOC_INOUT = push_bit IOC_DIRSHIFT (IOC_WRITE OR IOC_READ)"
definition IOCSIZE_MASK :: u64 where "IOCSIZE_MASK = push_bit IOC_SIZESHIFT IOC_SIZEMASK"
definition IOCSIZE_SHIFT :: nat where "IOCSIZE_SHIFT = IOC_SIZESHIFT"

lemma ioc_masks:
  "IOC_INOUT = IOC_IN OR IOC_OUT" "IOC_IN AND IOC_OUT = 0" "ucast IOC_INOUT AND IOCSIZE_MASK = 0"
  "drop_bit IOCSIZE_SHIFT (w AND IOCSIZE_MASK) = IOC_SIZE w"
proof -
  show "IOC_INOUT = IOC_IN OR IOC_OUT" "IOC_IN AND IOC_OUT = 0" "ucast IOC_INOUT AND IOCSIZE_MASK = 0"
    by (simp_all add: IOC_INOUT_def IOC_IN_def IOC_OUT_def IOCSIZE_MASK_def ioc_defs)
  show "drop_bit IOCSIZE_SHIFT (w AND IOCSIZE_MASK) = IOC_SIZE w"
  proof -
    have m: "IOC_SIZEMASK = mask 14" by (simp add: IOC_SIZEMASK_def IOC_SIZEBITS_def mask_eq_exp_minus_1)
    show ?thesis
      by (rule bit_word_eqI)
        (auto simp: IOCSIZE_MASK_def IOCSIZE_SHIFT_def IOC_SIZE_def m IOC_SIZESHIFT_def IOC_TYPESHIFT_def IOC_NRSHIFT_def
          IOC_NRBITS_def IOC_TYPEBITS_def bit_simps)
  qed
qed

subsection \<open>Addresses of IPv6\<close>

definition in6addr_any :: "byte list" where "in6addr_any = [0,0,0,0,0,0,0,0,0,0,0,0,0,0,0,0]"
definition in6addr_loopback :: "byte list" where "in6addr_loopback = [0,0,0,0,0,0,0,0,0,0,0,0,0,0,0,1]"

end
