(* ===== verification/Abi_Contexts32.thy ===== *)
theory Abi_Contexts32
  imports Abi_Contexts Abi_Rest
begin

text \<open>
  The saved contexts of \<open>abi/signal.h\<close> for the two processors with 32 bits it has branches for, i386 and m68k: the same
  calculus of layouts with \<open>long\<close> and pointers of 4 bytes. Both branches declare the registers twice, as \<open>signal_context_views\<close>
  has it for x86-64; here the views are compared again, and on i386 they differ behind the registers.
\<close>

subsection \<open>i386\<close>

definition i386_fpstate :: cty where
  "i386_fpstate = Struct [
    (''cw'', Scalar 4), (''sw'', Scalar 4), (''tag'', Scalar 4), (''ipoff'', Scalar 4), (''cssel'', Scalar 4),
    (''dataoff'', Scalar 4), (''datasel'', Scalar 4), (''_st'', Array 8 struct_fpreg), (''status'', Scalar 2),
    (''magic'', Scalar 2), (''_fxsr_env'', Array 6 (Scalar 4)), (''mxscr'', Scalar 4), (''reserved'', Scalar 4),
    (''_fxsr_st'', Array 8 struct_fpxreg), (''_xmm'', Array 8 struct_xmmreg), (''padding2'', Array 56 (Scalar 4))]"

definition i386_sigcontext :: cty where
  "i386_sigcontext = Struct [
    (''gs'', Scalar 2), (''__gsh'', Scalar 2), (''fs'', Scalar 2), (''__fsh'', Scalar 2), (''es'', Scalar 2),
    (''__esh'', Scalar 2), (''ds'', Scalar 2), (''__dsh'', Scalar 2), (''edi'', Scalar 4), (''esi'', Scalar 4),
    (''ebp'', Scalar 4), (''esp'', Scalar 4), (''ebx'', Scalar 4), (''edx'', Scalar 4), (''ecx'', Scalar 4),
    (''eax'', Scalar 4), (''trapno'', Scalar 4), (''err'', Scalar 4), (''eip'', Scalar 4), (''cs'', Scalar 2),
    (''__csh'', Scalar 2), (''eflags'', Scalar 4), (''esp_at_signal'', Scalar 4), (''ss'', Scalar 2), (''__ssh'', Scalar 2),
    (''fpstate'', Scalar 4), (''oldmask'', Scalar 4), (''cr2'', Scalar 4)]"

definition i386_mcontext :: cty where
  "i386_mcontext = Struct [
    (''gregs'', Array 19 (Scalar 4)), (''fpregs'', Scalar 4), (''__reserved1'', Array 8 (Scalar 4))]"

definition i386_stack :: cty where
  "i386_stack = Struct [(''ss_sp'', Scalar 4), (''ss_flags'', Scalar 4), (''ss_size'', Scalar 4)]"

definition i386_sigset :: cty where
  "i386_sigset = Struct [(''sig'', Array (1024 div (8 * 4)) (Scalar 4))]"

definition i386_ucontext :: cty where
  "i386_ucontext = Struct [
    (''uc_flags'', Scalar 4), (''uc_link'', Scalar 4), (''uc_stack'', i386_stack), (''uc_mcontext'', i386_mcontext),
    (''uc_sigmask'', i386_sigset)]"

lemmas i386_defs = i386_fpstate_def i386_sigcontext_def i386_mcontext_def i386_stack_def i386_sigset_def i386_ucontext_def
  struct_fpreg_def struct_fpxreg_def struct_xmmreg_def

text \<open>The field of the context for each \<open>REG_\<close> constant of the branch, in their order.\<close>

definition i386_fields :: "string list" where
  "i386_fields =
    [''gs'', ''fs'', ''es'', ''ds'', ''edi'', ''esi'', ''ebp'', ''esp'', ''ebx'', ''edx'', ''ecx'', ''eax'', ''trapno'',
     ''err'', ''eip'', ''cs'', ''eflags'', ''esp_at_signal'', ''ss'']"

text \<open>The registers and the pointer to the floating point state are at the same places in both views. The array of
  reserved words, which on x86-64 covers the rest of \<open>struct sigcontext\<close>, is the same here, although only \<open>oldmask\<close> and
  \<open>cr2\<close> are left: \<open>mcontext_t\<close> is 24 bytes longer than what it describes, and moves \<open>uc_sigmask\<close> by as much.\<close>

lemma i386_context_views:
  "list_all2 (\<lambda>(r, i) x. offset_of i386_sigcontext x = Some (4 * nat i)) (butlast i386_registers) i386_fields"
  "last i386_registers = (''NGREG'', 19)" "offset_of i386_mcontext ''gregs'' = Some 0"
  "offset_of i386_mcontext ''fpregs'' = offset_of i386_sigcontext ''fpstate''"
  "offset_of i386_mcontext ''__reserved1'' = offset_of i386_sigcontext ''oldmask''"
  "sizeof i386_mcontext = sizeof i386_sigcontext + 24"
  "offset_of i386_ucontext ''uc_sigmask'' = Some (20 + sizeof i386_sigcontext + 24)"
  by (simp_all add: i386_registers_def i386_fields_def offset_of_def i386_defs round_up_def)

subsection \<open>m68k\<close>

text \<open>On m68k an \<open>int\<close>, a \<open>long\<close> and a pointer have 4 bytes and the alignment 2: the layout of two halves.\<close>

definition m68k_word :: cty where "m68k_word = Struct [(''high'', Scalar 2), (''low'', Scalar 2)]"

definition m68k_sigcontext :: cty where
  "m68k_sigcontext = Struct [
    (''sc_mask'', m68k_word), (''sc_usp'', m68k_word), (''sc_d0'', m68k_word), (''sc_d1'', m68k_word),
    (''sc_a0'', m68k_word), (''sc_a1'', m68k_word), (''sc_sr'', Scalar 2), (''sc_pc'', m68k_word),
    (''sc_formatvec'', Scalar 2), (''sc_fpregs'', Array 6 m68k_word), (''sc_fpcntl'', Array 3 m68k_word),
    (''sc_fpstate'', Array 216 (Scalar 1))]"

definition m68k_gregset :: cty where "m68k_gregset = Array 18 m68k_word"

definition m68k_fpregset :: cty where
  "m68k_fpregset = Struct [
    (''f_pcr'', m68k_word), (''f_psr'', m68k_word), (''f_fpiaddr'', m68k_word), (''f_fpregs'', Array 8 (Array 3 m68k_word))]"

definition m68k_mcontext :: cty where
  "m68k_mcontext = Struct [(''version'', m68k_word), (''gregs'', m68k_gregset), (''fpregs'', m68k_fpregset)]"

definition m68k_public_mcontext :: cty where
  "m68k_public_mcontext = Struct [
    (''__version'', m68k_word), (''__gregs'', Array 18 m68k_word), (''__fpregs'', Array 27 m68k_word)]"

definition m68k_sigaltstack :: cty where
  "m68k_sigaltstack = Struct [(''ss_sp'', m68k_word), (''ss_flags'', m68k_word), (''ss_size'', m68k_word)]"

definition m68k_sigset :: cty where
  "m68k_sigset = Struct [(''sig'', Array (1024 div (8 * 4)) m68k_word)]"

definition m68k_ucontext :: cty where
  "m68k_ucontext = Struct [
    (''uc_flags'', m68k_word), (''uc_link'', m68k_word), (''uc_stack'', m68k_sigaltstack), (''uc_mcontext'', m68k_mcontext),
    (''__reserved'', Array 80 m68k_word), (''uc_sigmask'', m68k_sigset)]"

lemmas m68k_defs = m68k_word_def m68k_sigcontext_def m68k_gregset_def m68k_fpregset_def m68k_mcontext_def
  m68k_public_mcontext_def m68k_sigaltstack_def m68k_sigset_def m68k_ucontext_def

text \<open>The declaration of \<open>mcontext_t\<close> for programs without the extensions, which has no names for the registers, agrees with
  the full one, field by field; every \<open>R_\<close> constant is an index of the registers. The program counter of
  \<open>struct sigcontext\<close> is at an address that is no multiple of 4.\<close>

lemma m68k_context_views:
  "map (offset_of m68k_mcontext) [''version'', ''gregs'', ''fpregs''] =
     map (offset_of m68k_public_mcontext) [''__version'', ''__gregs'', ''__fpregs'']"
  "sizeof m68k_mcontext = sizeof m68k_public_mcontext"
  "\<forall>(r, i)\<in>set m68k_registers. 0 \<le> i \<and> 4 * nat i + 4 \<le> sizeof m68k_gregset"
  "offset_of m68k_sigcontext ''sc_pc'' = Some 26"
  by code_simp+

end
