(* ===== verification/Check_Programs.thy ===== *)
theory Check_Programs
  imports Sysdeps "HOL-Library.State_Monad"
begin

text \<open>
  The programs in \<open>sysroot/root\<close> that check libraries of the system, in the state monad: the state they
  share, and the two for FreeType, \<open>ftmetrics.c\<close> and \<open>ftcachemetrics.c\<close>. A library is a parameter: a
  record with the result of every call. The state has the lines a program has printed and the objects
  it holds; an operation on an object that is not held any more is a fault.
\<close>

subsection \<open>Lines and objects\<close>

datatype obj = O_library | O_face | O_manager | O_pattern | O_match | O_font | O_display | O_screen

record world =
  lines :: "string list"
  screen :: "(nat \<times> nat \<times> string) list"
  live :: "(nat \<times> obj) list"
  serial :: nat
  fault :: bool

type_synonym 'a prog = "(world, 'a) state"

definition world_start :: world where
  "world_start = \<lparr>lines = [], screen = [], live = [], serial = 0, fault = False\<rparr>"

text \<open>Every call of \<open>printf\<close> in these programs prints one line.\<close>

definition print_line :: "string \<Rightarrow> unit prog" where
  "print_line s = State (\<lambda>w. ((), w\<lparr>lines := lines w @ [s]\<rparr>))"

definition print_lines :: "string list \<Rightarrow> unit prog" where
  "print_lines ls = State (\<lambda>w. ((), w\<lparr>lines := lines w @ ls\<rparr>))"

definition acquire :: "obj \<Rightarrow> nat prog" where
  "acquire k = State (\<lambda>w. (serial w, w\<lparr>live := (serial w, k) # live w, serial := Suc (serial w)\<rparr>))"

definition touch :: "nat \<Rightarrow> unit prog" where
  "touch h = State (\<lambda>w. ((), w\<lparr>fault := fault w \<or> h \<notin> fst ` set (live w)\<rparr>))"

definition release :: "nat \<Rightarrow> unit prog" where
  "release h = do { touch h; State (\<lambda>w. ((), w\<lparr>live := filter (\<lambda>(i, k). i \<noteq> h) (live w)\<rparr>)) }"

text \<open>An object with the objects that go with it.\<close>

definition release_all :: "nat \<Rightarrow> obj \<Rightarrow> unit prog" where
  "release_all h child =
     do { release h; State (\<lambda>w. ((), w\<lparr>live := filter (\<lambda>(i, k). k \<noteq> child) (live w)\<rparr>)) }"

text \<open>The lines, the exit status and the objects that are still held, if there was no fault.\<close>

definition outcome :: "int prog \<Rightarrow> (string list \<times> int \<times> obj list) option" where
  "outcome p =
     (case run_state p world_start of
        (status, w) \<Rightarrow> if fault w then None else Some (lines w, status, map snd (live w)))"

definition show32 :: "i32 \<Rightarrow> string" where "show32 w = print_int (sint w)"
definition show64 :: "u64 \<Rightarrow> string" where "show64 w = print_int (sint w)"
definition show16 :: "16 word \<Rightarrow> string" where "show16 w = print_int (uint w)"
definition show_bool :: "bool \<Rightarrow> string" where "show_bool b = (if b then ''1'' else ''0'')"

text \<open>\<open>x >> 6\<close> on a signed \<open>long\<close>: from 26.6 fixed point to pixels.\<close>

definition pixels :: "u64 \<Rightarrow> string" where "pixels w = show64 (signed_drop_bit 6 w)"

definition failed :: "string \<Rightarrow> i32 \<Rightarrow> int prog" where
  "failed name err = do { print_line (name @ '' failed: '' @ show32 err); State_Monad.return 1 }"

definition failed_plain :: "string \<Rightarrow> int prog" where
  "failed_plain name = do { print_line (name @ '' failed''); State_Monad.return 1 }"

subsection \<open>FreeType\<close>

record ft_face =
  family_name :: string
  num_glyphs :: u64
  num_fixed_sizes :: i32
  face_flags :: u64
  units_per_EM :: "16 word"
  num_charmaps :: i32

record ft_metrics =
  height :: u64
  ascender :: u64
  descender :: u64
  x_ppem :: "16 word"
  y_ppem :: "16 word"

record ft_glyph =
  bitmap_width :: i32
  bitmap_rows :: i32
  advance_x :: u64

text \<open>The result of every call, the constants of the headers, and for the cache the face and the size of
  its lookups.\<close>

record freetype =
  init_freetype :: i32
  new_face :: "string \<Rightarrow> i32 \<times> ft_face"
  set_pixel_sizes :: "ft_face \<Rightarrow> nat \<Rightarrow> nat \<Rightarrow> i32 \<times> ft_metrics"
  load_char :: "ft_face \<Rightarrow> char \<Rightarrow> u32 \<Rightarrow> i32 \<times> ft_glyph"
  FT_LOAD_RENDER :: u32
  FT_FACE_FLAG_SCALABLE :: u64
  manager_new :: i32
  lookup_face :: "(string \<Rightarrow> i32 \<times> ft_face) \<Rightarrow> string \<Rightarrow> i32 \<times> ft_face"
  lookup_size :: "string \<Rightarrow> nat \<Rightarrow> nat \<Rightarrow> i32 \<times> ft_metrics"

definition FT_Init_FreeType :: "freetype \<Rightarrow> (i32 \<times> nat) prog" where
  "FT_Init_FreeType E =
     (if init_freetype E \<noteq> 0 then State_Monad.return (init_freetype E, 0)
      else do { lib \<leftarrow> acquire O_library; State_Monad.return (0, lib) })"

definition FT_New_Face :: "freetype \<Rightarrow> nat \<Rightarrow> string \<Rightarrow> (i32 \<times> nat \<times> ft_face) prog" where
  "FT_New_Face E lib path = do {
     touch lib;
     case new_face E path of (err, info) \<Rightarrow>
       if err \<noteq> 0 then State_Monad.return (err, 0, info)
       else do { face \<leftarrow> acquire O_face; State_Monad.return (0, face, info) } }"

definition FT_Set_Pixel_Sizes :: "freetype \<Rightarrow> nat \<times> ft_face \<Rightarrow> nat \<Rightarrow> nat \<Rightarrow> (i32 \<times> ft_metrics) prog" where
  "FT_Set_Pixel_Sizes E face w h = do { touch (fst face); State_Monad.return (set_pixel_sizes E (snd face) w h) }"

definition FT_Load_Char :: "freetype \<Rightarrow> nat \<times> ft_face \<Rightarrow> char \<Rightarrow> u32 \<Rightarrow> (i32 \<times> ft_glyph) prog" where
  "FT_Load_Char E face c flags = do { touch (fst face); State_Monad.return (load_char E (snd face) c flags) }"

definition FT_Done_Face :: "nat \<times> ft_face \<Rightarrow> unit prog" where "FT_Done_Face face = release (fst face)"
definition FT_Done_FreeType :: "nat \<Rightarrow> unit prog" where "FT_Done_FreeType lib = release_all lib O_face"

definition FTM_FONT_PATH :: string where "FTM_FONT_PATH = ''/usr/share/fonts/dejavu/DejaVuSans.ttf''"
definition FTM_PIXEL_SIZE :: nat where "FTM_PIXEL_SIZE = 22"

definition face_lines :: "freetype \<Rightarrow> ft_face \<Rightarrow> string list" where
  "face_lines E f =
     [''family     = '' @ family_name f, ''num_glyphs = '' @ show64 (num_glyphs f),
      ''num_fixed  = '' @ show32 (num_fixed_sizes f),
      ''scalable   = '' @ show_bool (0 \<noteq> (FT_FACE_FLAG_SCALABLE E AND face_flags f)),
      ''units_em   = '' @ show16 (units_per_EM f), ''num_cmaps  = '' @ show32 (num_charmaps f)]"

definition metric_lines :: "ft_metrics \<Rightarrow> string list" where
  "metric_lines m =
     [''height     = '' @ pixels (height m), ''ascender   = '' @ pixels (ascender m),
      ''descender  = '' @ pixels (descender m), ''x_ppem     = '' @ show16 (x_ppem m),
      ''y_ppem     = '' @ show16 (y_ppem m)]"

definition glyph_lines :: "ft_glyph \<Rightarrow> string list" where
  "glyph_lines g =
     [''glyph_w    = '' @ show32 (bitmap_width g), ''glyph_h    = '' @ show32 (bitmap_rows g),
      ''advance_x  = '' @ pixels (advance_x g)]"

definition ftmetrics :: "freetype \<Rightarrow> int prog" where
  "ftmetrics E = do {
     (err, lib) \<leftarrow> FT_Init_FreeType E;
     if 0 \<noteq> err then failed ''FT_Init_FreeType'' err else do {
     (err, face) \<leftarrow> FT_New_Face E lib FTM_FONT_PATH;
     if 0 \<noteq> err then failed ''FT_New_Face'' err else do {
     touch (fst face);
     print_lines (face_lines E (snd face));
     (err, size) \<leftarrow> FT_Set_Pixel_Sizes E face 0 FTM_PIXEL_SIZE;
     if 0 \<noteq> err then failed ''FT_Set_Pixel_Sizes'' err else do {
     touch (fst face);
     print_lines (metric_lines size);
     (err, glyph) \<leftarrow> FT_Load_Char E face (CHR ''A'') (FT_LOAD_RENDER E);
     if 0 \<noteq> err then failed ''FT_Load_Char'' err else do {
     touch (fst face);
     print_lines (glyph_lines glyph);
     FT_Done_Face face;
     FT_Done_FreeType lib;
     State_Monad.return 0 }}}}}"

subsection \<open>The cache of FreeType\<close>

definition FTC_FONT_PATH :: string where "FTC_FONT_PATH = ''/usr/share/fonts/dejavu/DejaVuSans.ttf''"
definition FTC_PIXEL_SIZE :: nat where "FTC_PIXEL_SIZE = 22"

text \<open>The requester that the manager calls for a face it does not have: the id of a face is its path.\<close>

definition ftc_face_requester :: "freetype \<Rightarrow> string \<Rightarrow> i32 \<times> ft_face" where
  "ftc_face_requester E face_id = new_face E face_id"

definition FTC_Manager_New :: "freetype \<Rightarrow> nat \<Rightarrow> (i32 \<times> nat) prog" where
  "FTC_Manager_New E lib = do {
     touch lib;
     if manager_new E \<noteq> 0 then State_Monad.return (manager_new E, 0)
     else do { mgr \<leftarrow> acquire O_manager; State_Monad.return (0, mgr) } }"

text \<open>A face of the cache belongs to the manager.\<close>

definition FTC_Manager_LookupFace :: "freetype \<Rightarrow> nat \<Rightarrow> string \<Rightarrow> (i32 \<times> nat \<times> ft_face) prog" where
  "FTC_Manager_LookupFace E mgr face_id = do {
     touch mgr;
     case lookup_face E (ftc_face_requester E) face_id of (err, info) \<Rightarrow>
       if err \<noteq> 0 then State_Monad.return (err, 0, info)
       else do { face \<leftarrow> acquire O_face; State_Monad.return (0, face, info) } }"

definition FTC_Manager_LookupSize :: "freetype \<Rightarrow> nat \<Rightarrow> string \<Rightarrow> nat \<Rightarrow> nat \<Rightarrow> (i32 \<times> ft_metrics) prog" where
  "FTC_Manager_LookupSize E mgr face_id w h = do { touch mgr; State_Monad.return (lookup_size E face_id w h) }"

definition FTC_Manager_Done :: "nat \<Rightarrow> unit prog" where "FTC_Manager_Done mgr = release_all mgr O_face"

definition ftcachemetrics :: "freetype \<Rightarrow> int prog" where
  "ftcachemetrics E = do {
     (err, lib) \<leftarrow> FT_Init_FreeType E;
     if 0 \<noteq> err then failed ''FT_Init_FreeType'' err else do {
     (err, mgr) \<leftarrow> FTC_Manager_New E lib;
     if 0 \<noteq> err then failed ''FTC_Manager_New'' err else do {
     (err, face) \<leftarrow> FTC_Manager_LookupFace E mgr FTC_FONT_PATH;
     if 0 \<noteq> err then failed ''FTC_Manager_LookupFace'' err else do {
     touch (fst face);
     print_lines [''family     = '' @ family_name (snd face), ''num_glyphs = '' @ show64 (num_glyphs (snd face))];
     (err, size) \<leftarrow> FTC_Manager_LookupSize E mgr FTC_FONT_PATH 0 FTC_PIXEL_SIZE;
     if 0 \<noteq> err then failed ''FTC_Manager_LookupSize'' err else do {
     touch mgr;
     print_lines (metric_lines size);
     FTC_Manager_Done mgr;
     FT_Done_FreeType lib;
     State_Monad.return 0 }}}}}"

subsection \<open>What a program has to print\<close>

text \<open>The reference for the programs that stop at the first call that fails: the stages in order, each with
  the line for its failure, if it fails, the lines printed after it and the objects it has made. A failure
  is the last line, with status 1 and with the objects so far still held; a program that comes through
  ends with status 0 and holds what is left.\<close>

type_synonym stage = "string option \<times> string list \<times> obj list"

fun report :: "obj list \<Rightarrow> obj list \<Rightarrow> stage list \<Rightarrow> string list \<times> int \<times> obj list" where
  "report left held [] = ([], 0, left)"
| "report left held ((Some f, ls, os) # r) = ([f], 1, held)"
| "report left held ((None, ls, os) # r) = (case report left (os @ held) r of (xs, st, h) \<Rightarrow> (ls @ xs, st, h))"

definition fails :: "string \<Rightarrow> i32 \<Rightarrow> string option" where
  "fails name err = (if err = 0 then None else Some (name @ '' failed: '' @ show32 err))"

definition fails_plain :: "string \<Rightarrow> bool \<Rightarrow> string option" where
  "fails_plain name ok = (if ok then None else Some (name @ '' failed''))"

text \<open>The runs of the operations; with these a program is run from its first call on.\<close>

definition is_live :: "nat \<Rightarrow> world \<Rightarrow> bool" where
  "is_live h w \<longleftrightarrow> list_ex (\<lambda>p. fst p = h) (live w)"

lemma is_live_iff: "is_live h w \<longleftrightarrow> h \<in> fst ` set (live w)"
  by (force simp: is_live_def list_ex_iff)

lemma run_world:
  "run_state (print_line s) w = ((), w\<lparr>lines := lines w @ [s]\<rparr>)"
  "run_state (print_lines ls) w = ((), w\<lparr>lines := lines w @ ls\<rparr>)"
  "run_state (acquire k) w = (serial w, w\<lparr>live := (serial w, k) # live w, serial := Suc (serial w)\<rparr>)"
  "run_state (touch h) w = ((), w\<lparr>fault := fault w \<or> \<not> is_live h w\<rparr>)"
  "run_state (release h) w =
     ((), w\<lparr>fault := fault w \<or> \<not> is_live h w, live := filter (\<lambda>(i, k). i \<noteq> h) (live w)\<rparr>)"
  "run_state (release_all h child) w =
     ((), w\<lparr>fault := fault w \<or> \<not> is_live h w,
        live := filter (\<lambda>(i, k). k \<noteq> child) (filter (\<lambda>(i, k). i \<noteq> h) (live w))\<rparr>)"
  by (simp_all add: is_live_iff print_line_def print_lines_def acquire_def touch_def release_def release_all_def)

lemma run_failed:
  "run_state (failed name err) w = (1, w\<lparr>lines := lines w @ [name @ '' failed: '' @ show32 err]\<rparr>)"
  "run_state (failed_plain name) w = (1, w\<lparr>lines := lines w @ [name @ '' failed'']\<rparr>)"
  by (simp_all add: failed_def failed_plain_def run_world)

lemmas monad_defs = run_world run_failed is_live_def outcome_def world_start_def fails_def fails_plain_def

lemma outcome_parts:
  "outcome p =
     (if fault (snd (run_state p world_start)) then None
      else Some (lines (snd (run_state p world_start)), fst (run_state p world_start), map snd (live (snd (run_state p world_start)))))"
  by (simp add: outcome_def split: prod.splits)

lemmas freetype_defs = FT_Init_FreeType_def FT_New_Face_def FT_Set_Pixel_Sizes_def FT_Load_Char_def
  FT_Done_Face_def FT_Done_FreeType_def FTC_Manager_New_def FTC_Manager_LookupFace_def
  FTC_Manager_LookupSize_def FTC_Manager_Done_def

lemma status_report: "report left held sts = (ls, st, h) \<Longrightarrow> st \<in> {0, 1} \<and> (st = 0 \<longrightarrow> h = left)"
  by (induction left held sts arbitrary: ls h rule: report.induct) (auto split: prod.splits)

text \<open>The two FreeType checks against the reference. Each stops with status 1 and one line that names
  the call and its error at the first call that fails, prints exactly the lines of the calls before it,
  and prints them all and ends with status 0 if none fails. No call uses an object that has been released
  or releases one twice; a run that comes through holds nothing at its end, and one that fails still
  holds what it has made. Lengths in 26.6 fixed point come out as the pixels below them.\<close>

theorem freetype_checks_report:
  "outcome (ftmetrics E) = Some (report [] []
     [(fails ''FT_Init_FreeType'' (init_freetype E), [], [O_library]),
      (fails ''FT_New_Face'' (fst (new_face E FTM_FONT_PATH)), face_lines E (snd (new_face E FTM_FONT_PATH)), [O_face]),
      (let size = set_pixel_sizes E (snd (new_face E FTM_FONT_PATH)) 0 22
       in (fails ''FT_Set_Pixel_Sizes'' (fst size), metric_lines (snd size), [])),
      (let glyph = load_char E (snd (new_face E FTM_FONT_PATH)) (CHR ''A'') (FT_LOAD_RENDER E)
       in (fails ''FT_Load_Char'' (fst glyph), glyph_lines (snd glyph), []))]) \<and>
   outcome (ftcachemetrics E) = Some (report [] []
     [(fails ''FT_Init_FreeType'' (init_freetype E), [], [O_library]),
      (fails ''FTC_Manager_New'' (manager_new E), [], [O_manager]),
      (let face = lookup_face E (new_face E) FTC_FONT_PATH
       in (fails ''FTC_Manager_LookupFace'' (fst face),
           [''family     = '' @ family_name (snd face), ''num_glyphs = '' @ show64 (num_glyphs (snd face))], [O_face])),
      (let size = lookup_size E FTC_FONT_PATH 0 22
       in (fails ''FTC_Manager_LookupSize'' (fst size), metric_lines (snd size), []))]) \<and>
   pixels (height (snd (lookup_size E FTC_FONT_PATH 0 22))) =
     print_int (sint (height (snd (lookup_size E FTC_FONT_PATH 0 22))) div 64)"
proof (intro conjI)
  have req: "ftc_face_requester E = new_face E" by (rule ext) (simp add: ftc_face_requester_def)
  show "outcome (ftmetrics E) = Some (report [] []
     [(fails ''FT_Init_FreeType'' (init_freetype E), [], [O_library]),
      (fails ''FT_New_Face'' (fst (new_face E FTM_FONT_PATH)), face_lines E (snd (new_face E FTM_FONT_PATH)), [O_face]),
      (let size = set_pixel_sizes E (snd (new_face E FTM_FONT_PATH)) 0 22
       in (fails ''FT_Set_Pixel_Sizes'' (fst size), metric_lines (snd size), [])),
      (let glyph = load_char E (snd (new_face E FTM_FONT_PATH)) (CHR ''A'') (FT_LOAD_RENDER E)
       in (fails ''FT_Load_Char'' (fst glyph), glyph_lines (snd glyph), []))])"
    by (auto simp: ftmetrics_def freetype_defs monad_defs FTM_PIXEL_SIZE_def Let_def split: prod.splits simp del: set_filter)
  show "outcome (ftcachemetrics E) = Some (report [] []
     [(fails ''FT_Init_FreeType'' (init_freetype E), [], [O_library]),
      (fails ''FTC_Manager_New'' (manager_new E), [], [O_manager]),
      (let face = lookup_face E (new_face E) FTC_FONT_PATH
       in (fails ''FTC_Manager_LookupFace'' (fst face),
           [''family     = '' @ family_name (snd face), ''num_glyphs = '' @ show64 (num_glyphs (snd face))], [O_face])),
      (let size = lookup_size E FTC_FONT_PATH 0 22
       in (fails ''FTC_Manager_LookupSize'' (fst size), metric_lines (snd size), []))])"
    by (auto simp: ftcachemetrics_def freetype_defs monad_defs FTC_PIXEL_SIZE_def req Let_def split: prod.splits simp del: set_filter)
qed (simp add: pixels_def show64_def sint_signed_drop_bit_eq drop_bit_eq_div)

end
