(* ===== verification/Check_Numbers.thy ===== *)
theory Check_Numbers
  imports F32 Check_Programs
begin

text \<open>
  The two programs of \<open>sysroot/root\<close> that check the arithmetic of the system, \<open>strtodcheck.c\<close> and
  \<open>ldcheck.c\<close>. A \<open>double\<close> is the rational number it stands for and every operation rounds; all values of
  the programs are finite. \<open>strtod\<close>, \<open>atof\<close>, \<open>strtold\<close> and the formats of \<open>printf\<close> for floating point
  numbers are templates of mlibc and parameters.
\<close>

subsection \<open>Doubles\<close>

definition dmul :: "rat \<Rightarrow> rat \<Rightarrow> rat" where
  "dmul x y = (if x * y < 0 then - rnd64 (- (x * y)) else rnd64 (x * y))"

definition ddiv :: "rat \<Rightarrow> rat \<Rightarrow> rat" where
  "ddiv x y = (if x / y < 0 then - rnd64 (- (x / y)) else rnd64 (x / y))"

text \<open>\<open>(long)\<close> cuts off the fraction.\<close>

definition dlong :: "rat \<Rightarrow> int" where
  "dlong x = (if x < 0 then - \<lfloor>- x\<rfloor> else \<lfloor>x\<rfloor>)"

definition thousandths :: "rat \<Rightarrow> string" where
  "thousandths x = print_int (dlong (dmul x 1000))"

subsection \<open>strtodcheck\<close>

text \<open>\<open>strtod\<close> returns a value and how far it has read, or nothing where it leaves \<open>end\<close> null.\<close>

record number_lib =
  strtod :: "string \<Rightarrow> rat \<times> nat option"
  atof :: "string \<Rightarrow> rat"
  strtold :: "string \<Rightarrow> rat"
  format_f :: "rat \<Rightarrow> string"
  format_g :: "rat \<Rightarrow> string"

definition check_text :: "number_lib \<Rightarrow> string \<Rightarrow> unit prog" where
  "check_text L text =
     (case strtod L text of (val, stop) \<Rightarrow>
        print_line (''strtod('' @ [quote] @ text @ [quote] @ '') = '' @ thousandths val @ ''/1000, consumed '' @
          print_int (case stop of None \<Rightarrow> - 1 | Some n \<Rightarrow> int n) @ '' chars''))"

text \<open>The formatted text is cut to the 63 characters that fit into the buffer.\<close>

definition strtodcheck :: "number_lib \<Rightarrow> int prog" where
  "strtodcheck L = do {
     check_text L ''22'';
     check_text L ''22.0'';
     check_text L ''22.5'';
     check_text L ''0.5'';
     check_text L ''96.0'';
     check_text L ''1.0'';
     check_text L ''12.0'';
     print_line (''literal    = '' @ thousandths (rnd64 (225 / 10)) @ ''/1000'');
     print_line (''atof(22.5) = '' @ thousandths (atof L ''22.5'') @ ''/1000'');
     print_line (''snprintf %f = '' @ [quote] @ take 63 (format_f L (rnd64 (225 / 10))) @ [quote]);
     print_line (''snprintf %g = '' @ [quote] @ take 63 (format_g L (rnd64 (225 / 10))) @ [quote]);
     State_Monad.return 0 }"

subsection \<open>ldcheck\<close>

text \<open>A \<open>long double\<close> has 64 significant bits.\<close>

definition rnd_ld :: "rat \<Rightarrow> rat" where "rnd_ld = rnd 63"

definition from_long_double_literal :: rat where
  "from_long_double_literal = rnd64 (rnd_ld 12)"

definition ldcheck :: "number_lib \<Rightarrow> int prog" where
  "ldcheck L =
     (let dpi = rnd64 (95916 / 1000); scale = rnd64 1
      in do {
        print_line (''sizeof long double = '' @ print_int 16);
        print_line (''sizeof double      = '' @ print_int 8);
        print_line (''size_from_12.0L    = '' @ thousandths from_long_double_literal @ ''/1000'');
        print_line (''direct 12.0L       = '' @ thousandths (rnd64 (rnd_ld 12)) @ ''/1000'');
        print_line (''direct 12.0        = '' @ thousandths (rnd64 12) @ ''/1000'');
        print_line (''via long double    = '' @ thousandths (rnd64 (rnd_ld 12)) @ ''/1000'');
        print_line (''22.5L to double    = '' @ thousandths (rnd64 (rnd_ld (225 / 10))) @ ''/1000'');
        (let pixelsize = dmul (dmul (rnd64 (rnd_ld 12)) scale) (ddiv dpi (rnd64 72))
         in print_line (''pixelsize          = '' @ thousandths pixelsize @ ''/1000''));
        print_line (''strtold('' @ [quote] @ ''12.0'' @ [quote] @ '')    = '' @ thousandths (rnd64 (strtold L ''12.0'')) @ ''/1000'');
        State_Monad.return 0 })"

subsection \<open>The values\<close>

text \<open>The quotient in \<open>ldcheck\<close> is rounded, and so are the products with it.\<close>

lemma pixel_doubles:
  "rnd64 (23979 / 250) = 1687372116636205 / 17592186044416"
  "rnd64 (1687372116636205 / 1266637395197952) = 1499886325898849 / 1125899906842624"
  "rnd64 (4499658977696547 / 281474976710656) = 4499658977696547 / 281474976710656"
  "rnd64 (562457372212068375 / 35184372088832) = 15986"
  unfolding rnd64_def
  subgoal by (subst rnd_eval[where p = 23979 and q = 250 and e = 6 and t = 46]) (simp_all add: round_div_def)
  subgoal by (subst rnd_eval[where p = 1687372116636205 and q = 1266637395197952 and e = 0 and t = 52]) (simp_all add: round_div_def)
  subgoal by (subst rnd_eval[where p = 4499658977696547 and q = 281474976710656 and e = 3 and t = 49]) (simp_all add: round_div_def)
  subgoal by (subst rnd_eval[where p = 562457372212068375 and q = 35184372088832 and e = 13 and t = 39]) (simp_all add: round_div_def)
  done

subsection \<open>What the checks print\<close>

text \<open>The number that a decimal text stands for.\<close>

definition digit_value :: "char \<Rightarrow> nat" where "digit_value c = of_char c - 48"

definition decimal :: "string \<Rightarrow> rat" where
  "decimal s =
     (let whole = takeWhile (\<lambda>c. c \<noteq> CHR ''.'') s; fraction = drop (Suc (length whole)) s
      in of_nat (foldl (\<lambda>n c. 10 * n + digit_value c) 0 (whole @ fraction)) / 10 ^ length fraction)"

definition plain_decimal :: "string \<Rightarrow> bool" where
  "plain_decimal s \<longleftrightarrow> s \<noteq> [] \<and> list_all (\<lambda>c. c \<in> set ''0123456789.'') s \<and> length (filter (\<lambda>c. c = CHR ''.'') s) \<le> 1"

text \<open>What C says of the functions: the nearest value, and the whole text is read.\<close>

definition correct_numbers :: "number_lib \<Rightarrow> bool" where
  "correct_numbers L \<longleftrightarrow>
     (\<forall>s. plain_decimal s \<longrightarrow>
       strtod L s = (rnd64 (decimal s), Some (length s)) \<and> atof L s = rnd64 (decimal s) \<and> strtold L s = rnd_ld (decimal s)) \<and>
     format_f L (45 / 2) = ''22.500000'' \<and> format_g L (45 / 2) = ''22.5''"

lemma decimals:
  "decimal ''22'' = 22" "decimal ''22.0'' = 22" "decimal ''22.5'' = 45 / 2" "decimal ''0.5'' = 1 / 2"
  "decimal ''96.0'' = 96" "decimal ''1.0'' = 1" "decimal ''12.0'' = 12"
  by (simp_all add: decimal_def digit_value_def)

lemma plain_decimals:
  "plain_decimal ''22''" "plain_decimal ''22.0''" "plain_decimal ''22.5''" "plain_decimal ''0.5''"
  "plain_decimal ''96.0''" "plain_decimal ''1.0''" "plain_decimal ''12.0''"
  by (simp_all add: plain_decimal_def)

lemma dmul_exact:
  "dmul x y = rnd64 (x * y)" if "0 \<le> x" "0 \<le> y"
proof -
  have "\<not> x * y < 0" using mult_nonneg_nonneg[OF that] by (simp add: not_less)
  then show ?thesis by (simp add: dmul_def)
qed

lemma decimal_digit_chars:
  "char_of (48 :: nat) = CHR ''0''" "char_of (49 :: nat) = CHR ''1''" "char_of (50 :: nat) = CHR ''2''"
  "char_of (51 :: nat) = CHR ''3''" "char_of (52 :: nat) = CHR ''4''" "char_of (53 :: nat) = CHR ''5''"
  "char_of (54 :: nat) = CHR ''6''" "char_of (55 :: nat) = CHR ''7''" "char_of (56 :: nat) = CHR ''8''"
  "char_of (57 :: nat) = CHR ''9''"
  by code_simp+

lemma print_numbers:
  "print_int 22000 = ''22000''" "print_int 22500 = ''22500''" "print_int 500 = ''500''" "print_int 96000 = ''96000''"
  "print_int 1000 = ''1000''" "print_int 12000 = ''12000''" "print_int 15986 = ''15986''" "print_int 16 = ''16''"
  "print_int 8 = ''8''" "print_int 2 = ''2''" "print_int 3 = ''3''" "print_int 4 = ''4''"
  by (simp_all add: print_int_def print_nat.simps digit_def decimal_digit_chars)

lemma show_thousandths:
  "thousandths 22 = ''22000''" "thousandths (45 / 2) = ''22500''" "thousandths (1 / 2) = ''500''"
  "thousandths 96 = ''96000''" "thousandths 1 = ''1000''" "thousandths 12 = ''12000''"
  "thousandths (4499658977696547 / 281474976710656) = ''15986''"
  using pixel_doubles(4)
  by (simp_all add: thousandths_def dmul_exact dlong_def rnd64_def rnd_numeral print_numbers)

text \<open>What the two programs print when the functions of the library are as C has them: the values to
  the thousandth, all characters consumed, and status 0. In particular the product of the quotient in
  \<open>ldcheck\<close>, which is not a short binary fraction, is printed as 15986 thousandths: the roundings do not
  make it fall below.\<close>

theorem number_checks_report:
  assumes "correct_numbers L"
  shows "outcome (strtodcheck L) = Some
     ([''strtod('' @ [quote] @ ''22'' @ [quote] @ '') = 22000/1000, consumed 2 chars'',
       ''strtod('' @ [quote] @ ''22.0'' @ [quote] @ '') = 22000/1000, consumed 4 chars'',
       ''strtod('' @ [quote] @ ''22.5'' @ [quote] @ '') = 22500/1000, consumed 4 chars'',
       ''strtod('' @ [quote] @ ''0.5'' @ [quote] @ '') = 500/1000, consumed 3 chars'',
       ''strtod('' @ [quote] @ ''96.0'' @ [quote] @ '') = 96000/1000, consumed 4 chars'',
       ''strtod('' @ [quote] @ ''1.0'' @ [quote] @ '') = 1000/1000, consumed 3 chars'',
       ''strtod('' @ [quote] @ ''12.0'' @ [quote] @ '') = 12000/1000, consumed 4 chars'',
       ''literal    = 22500/1000'', ''atof(22.5) = 22500/1000'',
       ''snprintf %f = '' @ [quote] @ ''22.500000'' @ [quote], ''snprintf %g = '' @ [quote] @ ''22.5'' @ [quote]], 0, []) \<and>
   outcome (ldcheck L) = Some
     ([''sizeof long double = 16'', ''sizeof double      = 8'', ''size_from_12.0L    = 12000/1000'',
       ''direct 12.0L       = 12000/1000'', ''direct 12.0        = 12000/1000'', ''via long double    = 12000/1000'',
       ''22.5L to double    = 22500/1000'', ''pixelsize          = 15986/1000'',
       ''strtold('' @ [quote] @ ''12.0'' @ [quote] @ '')    = 12000/1000''], 0, [])"
proof
  have lib: "strtod L s = (rnd64 (decimal s), Some (length s))" "atof L s = rnd64 (decimal s)"
      "strtold L s = rnd_ld (decimal s)" if "plain_decimal s" for s
    using assms that by (simp_all add: correct_numbers_def)
  have fmt: "format_f L (45 / 2) = ''22.500000''" "format_g L (45 / 2) = ''22.5''"
    using assms by (simp_all add: correct_numbers_def)
  have r: "rnd64 22 = 22" "rnd64 (45 / 2) = 45 / 2" "rnd64 (1 / 2) = 1 / 2" "rnd64 96 = 96" "rnd64 1 = 1" "rnd64 12 = 12"
      "rnd64 72 = 72" "rnd_ld 12 = 12" "rnd_ld (45 / 2) = 45 / 2"
    by (simp_all add: rnd64_def rnd_ld_def rnd_numeral)
  show "outcome (strtodcheck L) = Some
     ([''strtod('' @ [quote] @ ''22'' @ [quote] @ '') = 22000/1000, consumed 2 chars'',
       ''strtod('' @ [quote] @ ''22.0'' @ [quote] @ '') = 22000/1000, consumed 4 chars'',
       ''strtod('' @ [quote] @ ''22.5'' @ [quote] @ '') = 22500/1000, consumed 4 chars'',
       ''strtod('' @ [quote] @ ''0.5'' @ [quote] @ '') = 500/1000, consumed 3 chars'',
       ''strtod('' @ [quote] @ ''96.0'' @ [quote] @ '') = 96000/1000, consumed 4 chars'',
       ''strtod('' @ [quote] @ ''1.0'' @ [quote] @ '') = 1000/1000, consumed 3 chars'',
       ''strtod('' @ [quote] @ ''12.0'' @ [quote] @ '') = 12000/1000, consumed 4 chars'',
       ''literal    = 22500/1000'', ''atof(22.5) = 22500/1000'',
       ''snprintf %f = '' @ [quote] @ ''22.500000'' @ [quote], ''snprintf %g = '' @ [quote] @ ''22.5'' @ [quote]], 0, [])"
    by (simp add: strtodcheck_def check_text_def lib plain_decimals decimals r fmt show_thousandths print_numbers monad_defs)
  have pixelsize: "dmul (dmul 12 1) (ddiv (rnd64 (23979 / 250)) 72) = 4499658977696547 / 281474976710656"
    by (simp add: r dmul_exact ddiv_def pixel_doubles)
  show "outcome (ldcheck L) = Some
     ([''sizeof long double = 16'', ''sizeof double      = 8'', ''size_from_12.0L    = 12000/1000'',
       ''direct 12.0L       = 12000/1000'', ''direct 12.0        = 12000/1000'', ''via long double    = 12000/1000'',
       ''22.5L to double    = 22500/1000'', ''pixelsize          = 15986/1000'',
       ''strtold('' @ [quote] @ ''12.0'' @ [quote] @ '')    = 12000/1000''], 0, [])"
    by (simp add: ldcheck_def from_long_double_literal_def Let_def lib plain_decimals decimals r pixelsize show_thousandths
        print_numbers monad_defs)
qed

theorem number_checks_report_witness:
  "\<exists>L. correct_numbers L \<and> fst (snd (the (outcome (strtodcheck L)))) = 0"
proof -
  let ?L = "\<lparr>strtod = (\<lambda>s. (rnd64 (decimal s), Some (length s))), atof = (\<lambda>s. rnd64 (decimal s)),
    strtold = (\<lambda>s. rnd_ld (decimal s)), format_f = (\<lambda>_. ''22.500000''), format_g = (\<lambda>_. ''22.5'')\<rparr>"
  have "correct_numbers ?L" by (simp add: correct_numbers_def)
  with number_checks_report[OF this] show ?thesis by (intro exI[of _ ?L]) simp
qed

end
