(* ===== verification/Check_Fonts.thy ===== *)
theory Check_Fonts
  imports Check_Numbers
begin

text \<open>
  The programs of \<open>sysroot/root\<close> that check fontconfig, the X libraries and curses: \<open>fcmatchcheck.c\<close>,
  \<open>fcdouble.c\<close>, \<open>xrendercheck.c\<close>, \<open>xftmetrics.c\<close> and \<open>ncursescheck.c\<close>. The type \<open>'p\<close> of the contents of
  a pattern is the library's; a pattern of a program is a handle with its contents.
\<close>

subsection \<open>fontconfig\<close>

record 'p fontconfig =
  fc_init :: i32
  fc_version :: i32
  pattern_create :: "'p option"
  add_double :: "'p \<Rightarrow> string \<Rightarrow> rat \<Rightarrow> 'p"
  get_double :: "'p \<Rightarrow> string \<Rightarrow> i32 \<times> rat option"
  name_parse :: "string \<Rightarrow> 'p option"
  config_substitute :: "'p \<Rightarrow> i32 \<times> 'p"
  default_substitute :: "'p \<Rightarrow> 'p"
  font_match :: "'p \<Rightarrow> 'p option \<times> i32"
  pattern_text :: "'p \<Rightarrow> string list"
  FcTrue :: i32
  FC_PIXEL_SIZE :: string
  FC_SIZE :: string
  FC_SCALE :: string
  FC_DPI :: string

text \<open>A call that makes a pattern: a new object, or nothing.\<close>

definition new_pattern :: "obj \<Rightarrow> 'p option \<Rightarrow> (nat \<times> 'p) option prog" where
  "new_pattern k r =
     (case r of None \<Rightarrow> State_Monad.return None
      | Some p \<Rightarrow> do { h \<leftarrow> acquire k; State_Monad.return (Some (h, p)) })"

definition FcPatternGetDouble :: "'p fontconfig \<Rightarrow> nat \<times> 'p \<Rightarrow> string \<Rightarrow> rat \<Rightarrow> (i32 \<times> rat) prog" where
  "FcPatternGetDouble E pat object value = do {
     touch (fst pat);
     State_Monad.return
       (case get_double E (snd pat) object of (res, v) \<Rightarrow> (res, case v of None \<Rightarrow> value | Some x \<Rightarrow> x)) }"

definition FcPatternDestroy :: "nat \<times> 'p \<Rightarrow> unit prog" where "FcPatternDestroy pat = release (fst pat)"

definition FcFontMatch :: "'p fontconfig \<Rightarrow> nat \<times> 'p \<Rightarrow> ((nat \<times> 'p) option \<times> i32) prog" where
  "FcFontMatch E pat = do {
     touch (fst pat);
     m \<leftarrow> new_pattern O_match (fst (font_match E (snd pat)));
     State_Monad.return (m, snd (font_match E (snd pat))) }"

definition FcPatternPrint :: "'p fontconfig \<Rightarrow> nat \<times> 'p \<Rightarrow> unit prog" where
  "FcPatternPrint E pat = do { touch (fst pat); print_lines (pattern_text E (snd pat)) }"

subsection \<open>fcmatchcheck\<close>

definition FCM_FONT_NAME :: string where "FCM_FONT_NAME = ''DejaVu Sans:pixelsize=22''"

definition show_double :: "'p fontconfig \<Rightarrow> string \<Rightarrow> nat \<times> 'p \<Rightarrow> string \<Rightarrow> string \<Rightarrow> unit prog" where
  "show_double E label pat object title = do {
     (res, val) \<leftarrow> FcPatternGetDouble E pat object (- 1);
     print_line (label @ title @ thousandths val @ ''/1000 (res '' @ show32 res @ '')'') }"

definition show_pattern :: "'p fontconfig \<Rightarrow> string \<Rightarrow> nat \<times> 'p \<Rightarrow> unit prog" where
  "show_pattern E label pat = do {
     show_double E label pat (FC_PIXEL_SIZE E) '' pixelsize = '';
     show_double E label pat (FC_SIZE E) '' size      = '';
     show_double E label pat (FC_SCALE E) '' scale     = '';
     show_double E label pat (FC_DPI E) '' dpi       = '' }"

definition fcmatchcheck :: "'p fontconfig \<Rightarrow> int prog" where
  "fcmatchcheck E = do {
     if FcTrue E \<noteq> fc_init E then failed_plain ''FcInit'' else do {
     r \<leftarrow> new_pattern O_pattern (name_parse E FCM_FONT_NAME);
     case r of None \<Rightarrow> failed_plain ''FcNameParse'' | Some pat \<Rightarrow> do {
     show_pattern E ''parsed   '' pat;
     touch (fst pat);
     (let (ok, p) = config_substitute E (snd pat); pat = (fst pat, p) in
     if FcTrue E \<noteq> ok then failed_plain ''FcConfigSubstitute'' else do {
     show_pattern E ''substd   '' pat;
     touch (fst pat);
     (let pat = (fst pat, default_substitute E (snd pat)) in do {
     show_pattern E ''defaulted'' pat;
     (m, res) \<leftarrow> FcFontMatch E pat;
     case m of None \<Rightarrow> failed ''FcFontMatch'' res | Some match \<Rightarrow> do {
     show_pattern E ''matched  '' match;
     FcPatternDestroy match;
     FcPatternDestroy pat;
     State_Monad.return 0 }})})}}}"

subsection \<open>fcdouble\<close>

definition FCD_FONT_NAME :: string where "FCD_FONT_NAME = ''DejaVu Sans:pixelsize=22''"

definition get_line :: "'p fontconfig \<Rightarrow> (rat \<Rightarrow> string) \<Rightarrow> string \<Rightarrow> nat \<times> 'p \<Rightarrow> string \<Rightarrow> unit prog" where
  "get_line E fmt title pat object = do {
     (res, value) \<leftarrow> FcPatternGetDouble E pat object (- 1);
     print_line (title @ fmt value @ '' (res '' @ show32 res @ '')'') }"

definition fcdouble :: "'p fontconfig \<Rightarrow> (rat \<Rightarrow> string) \<Rightarrow> int prog" where
  "fcdouble E fmt = do {
     if FcTrue E \<noteq> fc_init E then failed_plain ''FcInit'' else do {
     print_line (''fc_version = '' @ show32 (fc_version E));
     r \<leftarrow> new_pattern O_pattern (pattern_create E);
     case r of None \<Rightarrow> failed_plain ''FcPatternCreate'' | Some pat \<Rightarrow> do {
     touch (fst pat);
     (let pat = (fst pat, add_double E (add_double E (snd pat) (FC_PIXEL_SIZE E) 22) (FC_DPI E) 96) in do {
     get_line E fmt ''add_pixelsize = '' pat (FC_PIXEL_SIZE E);
     get_line E fmt ''add_dpi       = '' pat (FC_DPI E);
     FcPatternDestroy pat;
     r \<leftarrow> new_pattern O_pattern (name_parse E FCD_FONT_NAME);
     case r of None \<Rightarrow> failed_plain ''FcNameParse'' | Some pat \<Rightarrow> do {
     get_line E fmt ''parsed_pixelsize = '' pat (FC_PIXEL_SIZE E);
     FcPatternPrint E pat;
     FcPatternDestroy pat;
     State_Monad.return 0 }})}}}"

subsection \<open>The X libraries\<close>

record xlib =
  open_display :: bool
  query_extension :: i32
  query_version :: "i32 \<times> i32 \<times> i32"

definition XOpenDisplay :: "xlib \<Rightarrow> nat option prog" where
  "XOpenDisplay X =
     (if open_display X then do { dpy \<leftarrow> acquire O_display; State_Monad.return (Some dpy) }
      else State_Monad.return None)"

definition XRenderQueryExtension :: "xlib \<Rightarrow> nat \<Rightarrow> i32 prog" where
  "XRenderQueryExtension X dpy = do { touch dpy; State_Monad.return (query_extension X) }"

definition XRenderQueryVersion :: "xlib \<Rightarrow> nat \<Rightarrow> (i32 \<times> i32 \<times> i32) prog" where
  "XRenderQueryVersion X dpy = do { touch dpy; State_Monad.return (query_version X) }"

definition XCloseDisplay :: "nat \<Rightarrow> unit prog" where "XCloseDisplay dpy = release dpy"

definition xrendercheck :: "xlib \<Rightarrow> int prog" where
  "xrendercheck X = do {
     r \<leftarrow> XOpenDisplay X;
     case r of None \<Rightarrow> failed_plain ''XOpenDisplay'' | Some dpy \<Rightarrow> do {
     ext \<leftarrow> XRenderQueryExtension X dpy;
     if 0 = ext then do { print_line ''render_ext = 0''; XCloseDisplay dpy; State_Monad.return 1 } else do {
     print_line ''render_ext = 1'';
     (ok, major, minor) \<leftarrow> XRenderQueryVersion X dpy;
     (if 0 \<noteq> ok then print_line (''render_ver = '' @ show32 major @ ''.'' @ show32 minor)
      else print_line ''XRenderQueryVersion failed'');
     XCloseDisplay dpy;
     State_Monad.return 0 }}}"

record xft_font =
  font_height :: i32
  font_ascent :: i32
  font_descent :: i32
  font_max_advance :: i32

text \<open>A font that is opened from a pattern takes the pattern over.\<close>

record 'p xft =
  XftVersion :: i32
  has_render :: i32
  xft_substitute :: "'p \<Rightarrow> 'p"
  open_pattern :: "'p \<Rightarrow> xft_font option"
  open_name :: "string \<Rightarrow> xft_font option"

definition XFTM_FONT_NAME :: string where "XFTM_FONT_NAME = ''DejaVu Sans:pixelsize=22''"

definition XftFontOpenPattern :: "'p xft \<Rightarrow> nat \<Rightarrow> nat \<times> 'p \<Rightarrow> xft_font option prog" where
  "XftFontOpenPattern F dpy match = do {
     touch dpy; touch (fst match);
     case open_pattern F (snd match) of None \<Rightarrow> State_Monad.return None
     | Some f \<Rightarrow> do { release (fst match); h \<leftarrow> acquire O_font; State_Monad.return (Some f) } }"

definition XftFontOpenName :: "'p xft \<Rightarrow> nat \<Rightarrow> string \<Rightarrow> xft_font option prog" where
  "XftFontOpenName F dpy name = do {
     touch dpy;
     case open_name F name of None \<Rightarrow> State_Monad.return None
     | Some f \<Rightarrow> do { h \<leftarrow> acquire O_font; State_Monad.return (Some f) } }"

definition font_lines :: "string \<Rightarrow> xft_font \<Rightarrow> string list" where
  "font_lines prefix f =
     [prefix @ ''_height  = '' @ show32 (font_height f), prefix @ ''_ascent  = '' @ show32 (font_ascent f),
      prefix @ ''_descent = '' @ show32 (font_descent f), prefix @ ''_maxadv  = '' @ show32 (font_max_advance f)]"

text \<open>The part from the match on.\<close>

definition xft_fonts :: "'p fontconfig \<Rightarrow> 'p xft \<Rightarrow> nat \<Rightarrow> nat \<times> 'p \<Rightarrow> int prog" where
  "xft_fonts E F dpy match = do {
     FcPatternPrint E match;
     font \<leftarrow> XftFontOpenPattern F dpy match;
     (case font of None \<Rightarrow> print_line ''XftFontOpenPattern failed'' | Some f \<Rightarrow> print_lines (font_lines ''pattern'' f));
     font \<leftarrow> XftFontOpenName F dpy XFTM_FONT_NAME;
     case font of None \<Rightarrow> failed_plain ''XftFontOpenName'' | Some f \<Rightarrow> do {
     print_lines (font_lines ''name'' f);
     XCloseDisplay dpy;
     State_Monad.return 0 }}"

definition xftmetrics :: "xlib \<Rightarrow> 'p fontconfig \<Rightarrow> 'p xft \<Rightarrow> int prog" where
  "xftmetrics X E F = do {
     r \<leftarrow> XOpenDisplay X;
     case r of None \<Rightarrow> failed_plain ''XOpenDisplay'' | Some dpy \<Rightarrow> do {
     touch dpy;
     ext \<leftarrow> XRenderQueryExtension X dpy;
     print_line (''render_ext  = '' @ show32 ext);
     (ok, major, minor) \<leftarrow> XRenderQueryVersion X dpy;
     (if 0 \<noteq> ok then print_line (''render_ver  = '' @ show32 major @ ''.'' @ show32 minor) else State_Monad.return ());
     print_line (''xft_version = '' @ show32 (XftVersion F));
     print_line (''fc_version  = '' @ show32 (fc_version E));
     touch dpy;
     print_line (''has_render  = '' @ show32 (has_render F));
     r \<leftarrow> new_pattern O_pattern (name_parse E XFTM_FONT_NAME);
     case r of None \<Rightarrow> failed_plain ''FcNameParse'' | Some pat \<Rightarrow> do {
     touch dpy; touch (fst pat);
     (let pat = (fst pat, default_substitute E (xft_substitute F (snd pat))) in do {
     (m, res) \<leftarrow> FcFontMatch E pat;
     case m of None \<Rightarrow> failed ''FcFontMatch'' res | Some match \<Rightarrow> xft_fonts E F dpy match })}}}"

subsection \<open>curses\<close>

text \<open>\<open>get_wch\<close> stores a character only if it succeeds; \<open>wkey_start\<close> is what the variable holds before.\<close>

record curses =
  getenv :: "string \<Rightarrow> string option"
  initscr :: bool
  screen_size :: "i32 \<times> i32"
  getch :: i32
  get_wch :: "i32 \<times> u32 option"
  wkey_start :: u32

definition mvprintw :: "nat \<Rightarrow> nat \<Rightarrow> nat \<Rightarrow> string \<Rightarrow> unit prog" where
  "mvprintw win y x s = do { touch win; State (\<lambda>w. ((), w\<lparr>screen := screen w @ [(y, x, s)]\<rparr>)) }"

definition unset :: "string option \<Rightarrow> string" where
  "unset v = (case v of None \<Rightarrow> ''(unset)'' | Some s \<Rightarrow> s)"

definition ncursescheck :: "curses \<Rightarrow> int prog" where
  "ncursescheck C =
     (let term_name = getenv C ''TERM''; env_lines = getenv C ''LINES''; env_cols = getenv C ''COLUMNS'' in
      if \<not> initscr C then failed_plain ''initscr'' else do {
      win \<leftarrow> acquire O_screen;
      (let (rows, cols) = screen_size C in do {
      touch win;
      mvprintw win 0 0 (''ncurses is alive: '' @ show32 cols @ ''x'' @ show32 rows);
      mvprintw win 1 0 ''press a key to continue'';
      touch win;
      (let key = getch C; (wret, stored) = get_wch C; wkey = (case stored of None \<Rightarrow> wkey_start C | Some c \<Rightarrow> c) in do {
      release win;
      print_lines
        [''TERM      = '' @ unset term_name, ''env LINES = '' @ unset env_lines, ''env COLS  = '' @ unset env_cols,
         ''LINES     = '' @ show32 rows, ''COLS      = '' @ show32 cols, ''getch     = '' @ show32 key,
         ''get_wch   = '' @ show32 wkey @ '' (ret '' @ show32 wret @ '')''];
      State_Monad.return 0 }) })})"

subsection \<open>What they print and hold\<close>

lemmas font_defs = new_pattern_def FcPatternGetDouble_def FcPatternDestroy_def FcFontMatch_def FcPatternPrint_def
  show_double_def show_pattern_def get_line_def
lemmas x_defs = XOpenDisplay_def XRenderQueryExtension_def XRenderQueryVersion_def XCloseDisplay_def
  XftFontOpenPattern_def XftFontOpenName_def

text \<open>The line of a value: what the pattern has, or - 1.\<close>

definition got :: "'p fontconfig \<Rightarrow> 'p \<Rightarrow> string \<Rightarrow> rat" where
  "got E p object = (case snd (get_double E p object) of None \<Rightarrow> - 1 | Some x \<Rightarrow> x)"

definition four_lines :: "'p fontconfig \<Rightarrow> string \<Rightarrow> 'p \<Rightarrow> string list" where
  "four_lines E label p =
     map (\<lambda>(object, title). label @ title @ thousandths (got E p object) @ ''/1000 (res '' @ show32 (fst (get_double E p object)) @ '')'')
       [(FC_PIXEL_SIZE E, '' pixelsize = ''), (FC_SIZE E, '' size      = ''), (FC_SCALE E, '' scale     = ''),
        (FC_DPI E, '' dpi       = '')]"

lemma run_show_pattern:
  "run_state (show_pattern E label pat) w =
     ((), w\<lparr>lines := lines w @ four_lines E label (snd pat), fault := fault w \<or> \<not> is_live (fst pat) w\<rparr>)"
  by (simp add: show_pattern_def show_double_def FcPatternGetDouble_def monad_defs four_lines_def got_def split: prod.splits)

lemma run_get_line:
  "run_state (get_line E fmt title pat object) w =
     ((), w\<lparr>lines := lines w @ [title @ fmt (got E (snd pat) object) @ '' (res '' @ show32 (fst (get_double E (snd pat) object)) @ '')''],
        fault := fault w \<or> \<not> is_live (fst pat) w\<rparr>)"
  by (simp add: get_line_def FcPatternGetDouble_def monad_defs got_def split: prod.splits)

text \<open>The law of fontconfig that \<open>fcdouble\<close> checks: a value that is added to an object is what comes back.\<close>

definition adds_doubles :: "'p fontconfig \<Rightarrow> i32 \<Rightarrow> bool" where
  "adds_doubles E res_match \<longleftrightarrow>
     FC_PIXEL_SIZE E \<noteq> FC_DPI E \<and>
     (\<forall>p. pattern_create E = Some p \<longrightarrow>
       (\<forall>x v. get_double E (add_double E p x v) x = (res_match, Some v) \<and>
         (\<forall>y w. x \<noteq> y \<longrightarrow> get_double E (add_double E (add_double E p x v) y w) x = (res_match, Some v) \<and>
           get_double E (add_double E (add_double E p x v) y w) y = (res_match, Some w))))"

text \<open>The two fontconfig checks against the reference. \<open>fcmatchcheck\<close> prints the four values of the
  pattern as parsed, after the configuration's substitutions, after the default ones, and of the match;
  \<open>fcdouble\<close> prints the values it has added, if the library keeps them. They stop at the first call that
  fails, never use a pattern that has been destroyed, and hold nothing at the end of a run that comes
  through; after a failure \<open>fcmatchcheck\<close> still holds the pattern.\<close>

theorem fontconfig_checks_report:
  assumes "adds_doubles E res_match"
  shows "outcome (fcmatchcheck E) = Some
    (let p = the (name_parse E FCM_FONT_NAME); q = snd (config_substitute E p); r = default_substitute E q
     in report [] []
      [(fails_plain ''FcInit'' (FcTrue E = fc_init E), [], []),
       (fails_plain ''FcNameParse'' (name_parse E FCM_FONT_NAME \<noteq> None), four_lines E ''parsed   '' p, [O_pattern]),
       (fails_plain ''FcConfigSubstitute'' (FcTrue E = fst (config_substitute E p)),
        four_lines E ''substd   '' q @ four_lines E ''defaulted'' r, []),
       (if fst (font_match E r) = None then Some (''FcFontMatch failed: '' @ show32 (snd (font_match E r))) else None,
        four_lines E ''matched  '' (the (fst (font_match E r))), [O_match])]) \<and>
   outcome (fcdouble E fmt) = Some
    (let p = the (name_parse E FCD_FONT_NAME)
     in report [] []
      [(fails_plain ''FcInit'' (FcTrue E = fc_init E), [''fc_version = '' @ show32 (fc_version E)], []),
       (fails_plain ''FcPatternCreate'' (pattern_create E \<noteq> None),
        [''add_pixelsize = '' @ fmt 22 @ '' (res '' @ show32 res_match @ '')'',
         ''add_dpi       = '' @ fmt 96 @ '' (res '' @ show32 res_match @ '')''], []),
       (fails_plain ''FcNameParse'' (name_parse E FCD_FONT_NAME \<noteq> None),
        (''parsed_pixelsize = '' @ fmt (got E p (FC_PIXEL_SIZE E)) @ '' (res '' @
          show32 (fst (get_double E p (FC_PIXEL_SIZE E))) @ '')'') # pattern_text E p, [O_pattern])])"
proof
  show "outcome (fcmatchcheck E) = Some
    (let p = the (name_parse E FCM_FONT_NAME); q = snd (config_substitute E p); r = default_substitute E q
     in report [] []
      [(fails_plain ''FcInit'' (FcTrue E = fc_init E), [], []),
       (fails_plain ''FcNameParse'' (name_parse E FCM_FONT_NAME \<noteq> None), four_lines E ''parsed   '' p, [O_pattern]),
       (fails_plain ''FcConfigSubstitute'' (FcTrue E = fst (config_substitute E p)),
        four_lines E ''substd   '' q @ four_lines E ''defaulted'' r, []),
       (if fst (font_match E r) = None then Some (''FcFontMatch failed: '' @ show32 (snd (font_match E r))) else None,
        four_lines E ''matched  '' (the (fst (font_match E r))), [O_match])])"
    by (auto simp: fcmatchcheck_def new_pattern_def FcFontMatch_def FcPatternDestroy_def run_show_pattern monad_defs Let_def
        split: prod.splits option.splits simp del: set_filter)
  show "outcome (fcdouble E fmt) = Some
    (let p = the (name_parse E FCD_FONT_NAME)
     in report [] []
      [(fails_plain ''FcInit'' (FcTrue E = fc_init E), [''fc_version = '' @ show32 (fc_version E)], []),
       (fails_plain ''FcPatternCreate'' (pattern_create E \<noteq> None),
        [''add_pixelsize = '' @ fmt 22 @ '' (res '' @ show32 res_match @ '')'',
         ''add_dpi       = '' @ fmt 96 @ '' (res '' @ show32 res_match @ '')''], []),
       (fails_plain ''FcNameParse'' (name_parse E FCD_FONT_NAME \<noteq> None),
        (''parsed_pixelsize = '' @ fmt (got E p (FC_PIXEL_SIZE E)) @ '' (res '' @
          show32 (fst (get_double E p (FC_PIXEL_SIZE E))) @ '')'') # pattern_text E p, [O_pattern])])"
    using assms
    by (auto simp: fcdouble_def new_pattern_def FcPatternPrint_def FcPatternDestroy_def run_get_line monad_defs Let_def
        adds_doubles_def got_def split: prod.splits option.splits simp del: set_filter)
qed

lemma run_xft_fonts:
  assumes "live w = [(2, O_match), (1, O_pattern), (0, O_display)]" "serial w = 3" "\<not> fault w"
  shows "(case run_state (xft_fonts E F 0 (2, f)) w of (st, w') \<Rightarrow> (fault w', lines w', st, map snd (live w'))) =
    (let from_pattern = open_pattern F f; kept = (if from_pattern = None then O_match else O_font);
         ls = lines w @ pattern_text E f @
           (case from_pattern of None \<Rightarrow> [''XftFontOpenPattern failed''] | Some f \<Rightarrow> font_lines ''pattern'' f)
     in case open_name F XFTM_FONT_NAME of
          None \<Rightarrow> (False, ls @ [''XftFontOpenName failed''], 1, [kept, O_pattern, O_display])
        | Some n \<Rightarrow> (False, ls @ font_lines ''name'' n, 0, [O_font, kept, O_pattern]))"
  using assms
  by (cases "open_pattern F f"; cases "open_name F XFTM_FONT_NAME")
    (simp_all add: xft_fonts_def x_defs FcPatternPrint_def run_world run_failed is_live_def)

lemma xft_outcome:
  "outcome (xftmetrics X E F) = Some
      (let p = the (name_parse E XFTM_FONT_NAME); q = default_substitute E (xft_substitute F p);
           m = fst (font_match E q); from_pattern = open_pattern F (the m);
           kept = (if from_pattern = None then O_match else O_font)
       in report [O_font, kept, O_pattern] []
        [(fails_plain ''XOpenDisplay'' (open_display X),
          (''render_ext  = '' @ show32 (query_extension X)) #
          (case query_version X of (ok, major, minor) \<Rightarrow>
             if ok = 0 then [] else [''render_ver  = '' @ show32 major @ ''.'' @ show32 minor]) @
          [''xft_version = '' @ show32 (XftVersion F), ''fc_version  = '' @ show32 (fc_version E),
           ''has_render  = '' @ show32 (has_render F)], [O_display]),
         (fails_plain ''FcNameParse'' (name_parse E XFTM_FONT_NAME \<noteq> None), [], [O_pattern]),
         (if m = None then Some (''FcFontMatch failed: '' @ show32 (snd (font_match E q))) else None,
          pattern_text E (the m) @
          (case from_pattern of None \<Rightarrow> [''XftFontOpenPattern failed''] | Some f \<Rightarrow> font_lines ''pattern'' f), [kept]),
         (fails_plain ''XftFontOpenName'' (open_name F XFTM_FONT_NAME \<noteq> None),
          font_lines ''name'' (the (open_name F XFTM_FONT_NAME)), [])])"
proof -
  obtain ok major minor where v: "query_version X = (ok, major, minor)" by (cases "query_version X") auto
  note defs = outcome_def xftmetrics_def XOpenDisplay_def XRenderQueryExtension_def XRenderQueryVersion_def
    new_pattern_def FcFontMatch_def run_world run_failed is_live_def world_start_def fails_plain_def Let_def v
  show ?thesis
  proof (cases "open_display X")
    case False
    then show ?thesis by (simp add: defs)
  next
    case dpy: True
    show ?thesis
    proof (cases "name_parse E XFTM_FONT_NAME")
      case None
      with dpy show ?thesis by (simp add: defs)
    next
      case p: (Some p)
      obtain m res where m: "font_match E (default_substitute E (xft_substitute F p)) = (m, res)" by fastforce
      show ?thesis
      proof (cases m)
        case None
        with dpy p m show ?thesis by (simp add: defs)
      next
        case (Some f)
        let ?w = "\<lparr>lines = (''render_ext  = '' @ show32 (query_extension X)) #
          (if ok = 0 then [] else [''render_ver  = '' @ show32 major @ ''.'' @ show32 minor]) @
          [''xft_version = '' @ show32 (XftVersion F), ''fc_version  = '' @ show32 (fc_version E),
           ''has_render  = '' @ show32 (has_render F)], screen = [],
          live = [(2, O_match), (1, O_pattern), (0, O_display)], serial = 3, fault = False\<rparr>"
        have "run_state (xftmetrics X E F) world_start = run_state (xft_fonts E F 0 (2, f)) ?w"
          using dpy p m Some by (simp add: defs numeral_2_eq_2 numeral_3_eq_3)
        moreover obtain st w' where "run_state (xft_fonts E F 0 (2, f)) ?w = (st, w')" by fastforce
        ultimately show ?thesis using run_xft_fonts[of ?w E F f] dpy p m Some
          by (cases "open_pattern F f"; cases "open_name F XFTM_FONT_NAME")
            (simp_all add: outcome_def Let_def fails_plain_def v)
      qed
    qed
  qed
qed

text \<open>The checks of the X libraries and of curses. \<open>xrendercheck\<close> closes the display on every path
  after it has opened it. \<open>xftmetrics\<close> follows the reference; it goes on without the Render extension and
  without the font of the pattern, and a run that comes through has closed the display but still holds
  the pattern, the fonts and, if no font has taken it, the match. \<open>ncursescheck\<close> leaves the screen before it
  prints; the character it prints is the one \<open>get_wch\<close> stored, and what the variable held before if it
  stored none. None of them uses an object that has been released.\<close>

theorem display_checks_report:
  "outcome (xrendercheck X) = Some
     (if \<not> open_display X then ([''XOpenDisplay failed''], 1, [])
      else if query_extension X = 0 then ([''render_ext = 0''], 1, [])
      else ([''render_ext = 1'',
             case query_version X of (ok, major, minor) \<Rightarrow>
               if ok = 0 then ''XRenderQueryVersion failed'' else ''render_ver = '' @ show32 major @ ''.'' @ show32 minor], 0, [])) \<and>
   outcome (xftmetrics X E F) = Some
     (let p = the (name_parse E XFTM_FONT_NAME); q = default_substitute E (xft_substitute F p);
          m = fst (font_match E q); from_pattern = open_pattern F (the m);
          kept = (if from_pattern = None then O_match else O_font)
      in report [O_font, kept, O_pattern] []
       [(fails_plain ''XOpenDisplay'' (open_display X),
         (''render_ext  = '' @ show32 (query_extension X)) #
         (case query_version X of (ok, major, minor) \<Rightarrow>
            if ok = 0 then [] else [''render_ver  = '' @ show32 major @ ''.'' @ show32 minor]) @
         [''xft_version = '' @ show32 (XftVersion F), ''fc_version  = '' @ show32 (fc_version E),
          ''has_render  = '' @ show32 (has_render F)], [O_display]),
        (fails_plain ''FcNameParse'' (name_parse E XFTM_FONT_NAME \<noteq> None), [], [O_pattern]),
        (if m = None then Some (''FcFontMatch failed: '' @ show32 (snd (font_match E q))) else None,
         pattern_text E (the m) @
         (case from_pattern of None \<Rightarrow> [''XftFontOpenPattern failed''] | Some f \<Rightarrow> font_lines ''pattern'' f), [kept]),
        (fails_plain ''XftFontOpenName'' (open_name F XFTM_FONT_NAME \<noteq> None),
         font_lines ''name'' (the (open_name F XFTM_FONT_NAME)), [])]) \<and>
   outcome (ncursescheck C) = Some
     (if \<not> initscr C then ([''initscr failed''], 1, [])
      else ([''TERM      = '' @ unset (getenv C ''TERM''), ''env LINES = '' @ unset (getenv C ''LINES''),
             ''env COLS  = '' @ unset (getenv C ''COLUMNS''), ''LINES     = '' @ show32 (fst (screen_size C)),
             ''COLS      = '' @ show32 (snd (screen_size C)), ''getch     = '' @ show32 (getch C),
             ''get_wch   = '' @ show32 (case snd (get_wch C) of None \<Rightarrow> wkey_start C | Some c \<Rightarrow> c) @
               '' (ret '' @ show32 (fst (get_wch C)) @ '')''], 0, []))"
proof (intro conjI)
  show "outcome (xrendercheck X) = Some
     (if \<not> open_display X then ([''XOpenDisplay failed''], 1, [])
      else if query_extension X = 0 then ([''render_ext = 0''], 1, [])
      else ([''render_ext = 1'',
             case query_version X of (ok, major, minor) \<Rightarrow>
               if ok = 0 then ''XRenderQueryVersion failed'' else ''render_ver = '' @ show32 major @ ''.'' @ show32 minor], 0, []))"
    by (auto simp: xrendercheck_def x_defs monad_defs split: prod.splits simp del: set_filter)
  show "outcome (ncursescheck C) = Some
     (if \<not> initscr C then ([''initscr failed''], 1, [])
      else ([''TERM      = '' @ unset (getenv C ''TERM''), ''env LINES = '' @ unset (getenv C ''LINES''),
             ''env COLS  = '' @ unset (getenv C ''COLUMNS''), ''LINES     = '' @ show32 (fst (screen_size C)),
             ''COLS      = '' @ show32 (snd (screen_size C)), ''getch     = '' @ show32 (getch C),
             ''get_wch   = '' @ show32 (case snd (get_wch C) of None \<Rightarrow> wkey_start C | Some c \<Rightarrow> c) @
               '' (ret '' @ show32 (fst (get_wch C)) @ '')''], 0, []))"
    by (auto simp: ncursescheck_def mvprintw_def monad_defs Let_def split: prod.splits simp del: set_filter)
qed (rule xft_outcome)

end
