(* ===== verification/Spec2Isabelle.thy ===== *)
theory Spec2Isabelle
  imports Init_Main Init_Terminal Kprofile_Text Sysdeps Utmpx Mntent Pty Thread Entry Stubs Stdlib_Random Stdlib_Multibyte
    Stdlib_Alloc Stdlib_Convert Init_Boot Sockets Abi_Access Abi_Contexts32 Check_Fonts
begin

text \<open>
  A verification library for the C and C++ code of SalernOS: the \<^emph>\<open>init\<close> process, the kernel
  profiler front end, and the port of the mlibc C library with its kernel interface. The kernel
  itself is another repository; here it is a parameter. All paths are under \<open>src/\<close>.

  \<^bold>\<open>The program.\<close> The kernel starts \<open>init/src/main.c\<close>, which reads a configuration file, parses it into
  directives (\<open>parse.c\<close>), and carries them out (\<open>interpreter.c\<close>, with the tables of \<open>table.c\<close>): it sets
  environment variables, enables options and forks one child for every terminal. The children wait in
  a loop for SIGUSR1, which init sends when every directive has succeeded, and then execute their
  programs. \<open>util-salernos/src/kprofile.c\<close> reads profiles from a device, sorts and prints them. Both are
  linked with mlibc, whose port is \<open>mlibc-salernos\<close>: \<open>sysdeps/generic\<close> turns the calls of the library into
  system calls, \<open>stdlib.patched.cpp\<close> is its \<open>stdlib.h\<close>, and \<open>abi\<close> and \<open>sysdeps/include\<close> hold the numbers, flags,
  structures and macros that programs and the kernel share.

  \<^bold>\<open>Prelude\<close>. Machine types, NUL-terminated buffers, \<open>isspace\<close>, \<open>strncmp\<close>.

  \<^bold>\<open>init.\<close> \<open>Init_Table\<close>: \<open>struct table_entry\<close> and \<open>table_lookup\<close>. \<open>C_Heap\<close>: malloc and free with failing allocations, and
  what a double free and a leak are. \<open>Init_Parse\<close>: every function of \<open>parse.c\<close>; a pointer into the buffer is an
  index, the scanning loops are recursion on the distance to the end of the buffer. \<open>Init_Grammar\<close>: the language
  of configurations as a function on texts, and that the parser computes it, stays inside the buffer, frees what
  it allocates, and inverts the printer. \<open>Init_Interp\<close>: \<open>eval\<close>, the three callbacks and \<open>interpret_config\<close> on the
  state of the static variables, with the results of fork as a list. \<open>Init_Semantics\<close>: the meaning of a
  configuration on words, without tables, pointers and error codes. \<open>Init_Correct\<close>: the refinement between the two, the order
  of the signals, what children inherit, and the overflow of \<open>g_children\<close>, where every model of init stops because C promises nothing there. \<open>Init_Start\<close>: the child's side of
  \<open>cb_tty\<close> as a machine of single steps, interleaved with init as an inductive relation; its invariant gives the
  start barrier, its measure that every interleaving ends. \<open>Init_Terminal\<close>: the calls of a child carried out on the descriptor
  table of \<open>Pty\<close>, from the start of the child to its program. \<open>Init_Main\<close>: \<open>main\<close>, from the bytes of the file to the
  exit status. \<open>Init_Boot\<close>: the stages put together, from the text of a valid configuration to the programs that run.

  \<^bold>\<open>Sorting.\<close> \<open>Stdlib_Sort\<close>: \<open>qsort\<close>, \<open>qsort_r\<close> and \<open>bsearch\<close> on the bytes of the array. The locale \<open>three_way\<close> is the contract of a
  comparator; an exchange sort on lists is the specification between the code and sortedness.
  \<open>F32\<close>: floating point arithmetic as rational numbers rounded to a number of bits, 24 for single and 53 for double
  precision. \<open>Kprofile\<close>: the whole of
  \<open>kprofile.c\<close>; its four comparators interpret \<open>three_way\<close>. \<open>Kprofile_Text\<close>: the characters it prints, which a
  reader of words turns back into the rows of the kernel.

  \<^bold>\<open>The kernel interface.\<close> \<open>Abi_Bits\<close>: request codes, device numbers and wait statuses; the locale \<open>codec\<close> is a pair of an encoder
  and a decoder. \<open>Abi_Tables\<close>: the integer macros of the headers as tables; which numbers occur twice and which flags
  overlap is computed. \<open>Abi_Fields\<close>: more tables, and the words that hold fields under masks, which can be read back whatever the rest of
  the word is. \<open>Abi_Rest\<close>: the remaining macros. \<open>Abi_Layout\<close>: sizes, alignments and offsets of the structures.
  \<open>Abi_Contexts\<close>: the saved contexts of the processors, in both views the headers give of them, which show a signal handler the same registers, and the frame of the vector
  registers of AArch64, whose macros tile it without gaps for every valid length. \<open>Abi_Contexts32\<close>: the contexts of i386 and m68k. \<open>Abi_Access\<close>: the macros that
  name fields inside unions, as paths that lead to a place. \<open>Sysdeps\<close>: the wrappers of
  \<open>generic.cpp\<close>, over a kernel \<open>K\<close> that takes the number and the arguments of a call. A wrapper returns an error code
  (left) or its result (right). The loop of \<open>sys_waitpid\<close> is a partial function, \<open>None\<close> for a call that is interrupted
  forever. \<open>Sockets\<close>: the flags of accepted connections, on a kernel that keeps flags of descriptors.

  \<^bold>\<open>The rest of the system layer.\<close> \<open>Stubs\<close>: the calls of \<open>stubs.cpp\<close> that do not reach the kernel. \<open>Fd_Table\<close>: descriptor tables; the
  locale \<open>fd_table\<close> is their contract (a lookup after a store, the lowest free descriptor), and what is true of every
  table follows in it: a descriptor that is allocated was free, and closing it gives the old lookups back. It is interpreted on lists, for
  \<open>Pty\<close>, and on the state of \<open>Posix_Files\<close>. \<open>Posix_Files\<close>, \<open>Utmpx\<close>: files, and \<open>utmpx.c\<close> on them; the locale \<open>record_log\<close> is the contract of a log. \<open>Mntent\<close>: \<open>mntent.cpp\<close>, with the positions
  that \<open>sscanf\<close> stores and the NULs that cut the line, 32-bit numbers and the failures of writing; the reference takes words from a list of lines. \<open>Pty\<close>: \<open>pty.cpp\<close> in
  the state monad, with the success of every call as a parameter. \<open>Thread\<close>: the stack of a new thread, the code of \<open>thread.S\<close>, and the
  trampoline as a function of what it sees and when: its creator, the futex, the scheduler and the thread's function are parameters, and it
  never sleeps for good if the first two do as documented. \<open>Entry\<close>: a few instructions of the
  processor, on which the code of \<open>crt0.S\<close>, \<open>crti.S\<close>, \<open>crtn.S\<close> and \<open>sigrestorer.S\<close> runs; \<open>entry.cpp\<close> between them and \<open>main\<close>; the registers
  of the system call stub.

  \<^bold>\<open>Library functions.\<close> \<open>Stdlib_Random\<close>: \<open>rand_r\<close>, and \<open>rand\<close> on a given generator. \<open>Stdlib_Chars\<close>: \<open>wcrtomb\<close> and a reference decoder, another \<open>codec\<close>. \<open>Stdlib_Multibyte\<close>: \<open>mblen\<close>, \<open>mbtowc\<close> and
  \<open>mbstowcs\<close> over a character set that is a parameter. \<open>Stdlib_Alloc\<close>: \<open>calloc\<close>, \<open>posix_memalign\<close>, \<open>aligned_alloc\<close>, and \<open>malloc\<close>, \<open>free\<close> and \<open>realloc\<close>
  with their log, over the allocator of frigg. \<open>Stdlib_Convert\<close>: the entry points of the conversions of numbers, which pass their arguments on to
  templates of mlibc, and the functions for the end of the process that are not implemented or drop their results. \<open>Stdlib_Process\<close>: \<open>system\<close>, \<open>abort\<close> and \<open>sigsetjmp\<close> on
  the wrappers of \<open>Sysdeps\<close>; a predicate states what the kernel documents of signal actions and masks, and the theorems are about what
  is left of them afterwards. \<open>div\<close> and \<open>abs\<close> at both widths, undefined where C leaves them so.

  \<^bold>\<open>The programs of \<open>sysroot/root\<close>.\<close> Each calls a library that is not in the repository and prints what it gets: the
  functions of the library are fields of a record, and the objects it hands out are counted, so that the theorems say what is printed,
  with which status the program ends, and what it still holds then. \<open>Check_Programs\<close>: \<open>ftmetrics.c\<close> and \<open>ftcachemetrics.c\<close>, against a
  reference that stops at the first failure. \<open>Check_Numbers\<close>: \<open>strtodcheck.c\<close> and \<open>ldcheck.c\<close>, in double precision. \<open>Check_Fonts\<close>:
  \<open>fcmatchcheck.c\<close>, \<open>fcdouble.c\<close>, \<open>xrendercheck.c\<close>, \<open>xftmetrics.c\<close> and \<open>ncursescheck.c\<close>.

  \<^bold>\<open>Bounds.\<close> Every recursion terminates by a proof and nothing has fuel, but for \<open>waitpid_again\<close> (see above) and \<open>system_wait\<close>, which
  is a partial function as well: it returns when the kernel stops interrupting it. So is \<open>wait_for_tid\<close>, the loop of a new thread. Indices of \<open>qsort\<close> are natural
  numbers: an array that exists has a size below \<open>2 ^ 64\<close>. Machine words have their width where the code computes
  with them.

  \<^bold>\<open>Not modelled.\<close> Log output; cancellation of threads; the templates and
  classes of mlibc and frigg (conversion of numbers, the allocator, the Mersenne twister), which are not in the repository and are
  parameters of the functions that call them; the structures of \<open>stat.h\<close> and \<open>shm.h\<close> for i386 and m68k, whose members have types of mlibc;
  three macros of \<open>stubs.cpp\<close> and one of \<open>generic.cpp\<close> that nothing uses; the test programs under
  \<open>tests\<close>, which exercise the kernel and have nothing to state without it; build and packaging files.
\<close>

section \<open>Sizes the components assume\<close>

text \<open>The numbers of bytes used by the models of kprofile and of the login records are the sizes of
  their structures, and so is the size in the request code of the profiler.\<close>

lemma record_sizes:
  "sizeof struct_utmpx = 400" "sizeof struct_fn_data = 88" "sizeof struct_fn_res = 128"
  by code_simp+

lemma assumed_sizes:
  "SIZEOF_UTMPX = sizeof struct_utmpx" "SIZEOF_FN_DATA = sizeof struct_fn_data"
  "DEVPROFILE_IOCTL_GET_FUNCTIONS = IOR char_P 2 (of_nat (sizeof struct_fn_res))"
  "DEVPROFILE_SIZEOF_FN_RES n = n * of_nat (sizeof struct_fn_data) + of_nat (sizeof struct_fn_res)"
  by (simp_all add: record_sizes SIZEOF_UTMPX_def SIZEOF_FN_DATA_def DEVPROFILE_IOCTL_GET_FUNCTIONS_def
      DEVPROFILE_SIZEOF_FN_RES_def)

end
